(* ===== verification/Prelude.thy ===== *)
theory Prelude
  imports Main "HOL-Library.Word" "HOL-Library.Sublist"
begin

unbundle bit_operations_syntax

text \<open>
  Shared vocabulary of the development.

  Go values: a \<open>uint8\<close>, \<open>uint32\<close> or \<open>uint64\<close> is a word of that width, a \<open>[]byte\<close> is a
  list of 8-bit words, and a Go string is a HOL \<open>string\<close> (a HOL character is one byte, so
  \<open>length\<close> is Go's \<open>len\<close>).  \<open>bytes_of\<close> and \<open>string_of\<close> are Go's conversions between the two.

  Failure: a call returns an \<open>outcome\<close>.  \<open>Err\<close> is a returned error value, \<open>Panic\<close> a run-time
  panic, which no caller of the modelled code recovers.

  Input: an \<open>io.Reader\<close> is a \<open>reader\<close>: the bytes it will still deliver, the error it reports
  after the last of them, and whether it implements \<open>io.ByteReader\<close>.  Decoders are functions
  from a reader to an outcome and the reader left behind, composed with \<open>rbind\<close>.

  Interface: the locale \<open>codec\<close> states what the framing layer relies on for every encoded
  type: decoding inverts encoding whatever follows in the stream, and a successful decode
  depends only on the bytes it consumed.  Its consequences (prefix freedom, injectivity,
  rejection of truncated input, decoding of a stream of values) are proved once here and
  used through the interpretations in the component theories.
\<close>

named_theorems codec_simps \<open>decoders applied to encoder output\<close>
named_theorems local_intros \<open>locality of decoders\<close>
named_theorems safe_intros \<open>decoders that never panic\<close>

subsection \<open>Go values\<close>

type_synonym u8 = "8 word"
type_synonym u32 = "32 word"
type_synonym u64 = "64 word"
type_synonym bytes = "8 word list"

definition byte_of_char :: "char \<Rightarrow> u8" where
  "byte_of_char c = word_of_nat (of_char c)"

definition char_of_byte :: "u8 \<Rightarrow> char" where
  "char_of_byte b = char_of (unat b)"

definition bytes_of :: "string \<Rightarrow> bytes" where
  "bytes_of s = map byte_of_char s"

definition string_of :: "bytes \<Rightarrow> string" where
  "string_of b = map char_of_byte b"

lemma char_of_byte_of_char [simp]: "char_of_byte (byte_of_char c) = c"
proof -
  have "(of_char c :: nat) mod 256 = of_char c"
    by (rule of_char_mod_256)
  then have "unat (byte_of_char c) = of_char c"
    by (simp add: byte_of_char_def unat_of_nat)
  then show ?thesis
    by (simp add: char_of_byte_def)
qed

lemma byte_of_char_of_byte [simp]: "byte_of_char (char_of_byte b) = b"
proof -
  have "unat b < 2 ^ LENGTH(8)"
    by (rule unsigned_less)
  then show ?thesis
    by (simp add: byte_of_char_def char_of_byte_def)
qed

lemma string_of_bytes_of [simp]: "string_of (bytes_of s) = s"
  by (simp add: string_of_def bytes_of_def comp_def)

lemma bytes_of_string_of [simp]: "bytes_of (string_of b) = b"
  by (simp add: string_of_def bytes_of_def comp_def)

lemma length_bytes_of [simp]: "length (bytes_of s) = length s"
  by (simp add: bytes_of_def)

lemma length_string_of [simp]: "length (string_of b) = length b"
  by (simp add: string_of_def)

lemma bytes_of_Nil [simp]: "bytes_of [] = []" "string_of [] = []"
  by (simp_all add: bytes_of_def string_of_def)

lemma bytes_of_eq_iff [simp]: "bytes_of s = bytes_of t \<longleftrightarrow> s = t"
  by (metis string_of_bytes_of)

text \<open>\<open>if c { b = append(b, 1) } else { b = append(b, 0) }\<close>, as every marshaller writes a flag.\<close>

definition append_bool :: "bytes \<Rightarrow> bool \<Rightarrow> bytes" where
  "append_bool b c = (if c then b @ [1] else b @ [0])"

lemma append_bool_eq: "append_bool b c = b @ [if c then 1 else 0]"
  by (simp add: append_bool_def)

text \<open>Decimal rendering, for the \<open>%d\<close> of an unsigned value.\<close>

fun show_nat :: "nat \<Rightarrow> string" where
  "show_nat n =
     (if n < 10 then [char_of (48 + n)] else show_nat (n div 10) @ [char_of (48 + n mod 10)])"

declare show_nat.simps [simp del]

text \<open>A \<open>uint32\<close> travels as a \<open>uint64\<close> and comes back unchanged.\<close>

lemma unat_ucast_u32 [simp]: "unat (ucast (n :: u32) :: u64) = unat n"
proof -
  have "unat n < 2 ^ LENGTH(32)"
    by (rule unsigned_less)
  then show ?thesis
    by (simp add: unsigned_ucast_eq take_bit_nat_eq_self)
qed

lemma ucast_ucast_u32 [simp]: "ucast (ucast (n :: u32) :: u64) = n"
  by (rule bit_word_eqI) (simp add: bit_simps)

lemma unat_of_nat_u64: "n < 2 ^ 64 \<Longrightarrow> unat (of_nat n :: u64) = n"
  by (simp add: unat_of_nat)

lemma unat_of_nat_u32: "n < 2 ^ 32 \<Longrightarrow> unat (of_nat n :: u32) = n"
  by (simp add: unat_of_nat)

subsection \<open>Errors and outcomes\<close>

datatype go_error =
    EOF
  | ErrUnexpectedEOF
  | ErrVarintOverflow
  | ErrStringTooLong
  | ErrPayloadTooLarge
  | ErrFrameTruncated
  | OtherError string
  | Wrap string go_error

text \<open>\<open>err.Error()\<close>: the texts of the sentinel errors, and of \<open>fmt.Errorf("...: %w", err)\<close>.\<close>

fun error_text :: "go_error \<Rightarrow> string" where
  "error_text EOF = ''EOF''"
| "error_text ErrUnexpectedEOF = ''unexpected EOF''"
| "error_text ErrVarintOverflow = ''mus: varint overflow (>10 bytes)''"
| "error_text ErrStringTooLong = ''mus: string too long''"
| "error_text ErrPayloadTooLarge = ''mus: payload exceeds MaxPayloadBytes''"
| "error_text ErrFrameTruncated = ''mus: frame truncated during payload read''"
| "error_text (OtherError s) = s"
| "error_text (Wrap s e) = s @ error_text e"

datatype 'a outcome = Val 'a | Err go_error | Panic string

fun is_val :: "'a outcome \<Rightarrow> bool" where
  "is_val (Val x) = True"
| "is_val _ = False"

fun panics :: "'a outcome \<Rightarrow> bool" where
  "panics (Panic m) = True"
| "panics _ = False"

lemma panics_iff: "panics x \<longleftrightarrow> (\<exists>m. x = Panic m)"
  by (cases x) auto

lemma is_val_iff: "is_val x \<longleftrightarrow> (\<exists>y. x = Val y)"
  by (cases x) auto

subsection \<open>Readers\<close>

record reader =
  rd_buf :: bytes
  rd_err :: go_error
  rd_byte_reader :: bool

type_synonym 'a reads = "reader \<Rightarrow> 'a outcome \<times> reader"

text \<open>\<open>bytes.NewReader(b)\<close>: the bytes, then \<open>io.EOF\<close>; it implements \<open>io.ByteReader\<close>.\<close>

definition bytes_NewReader :: "bytes \<Rightarrow> reader" where
  "bytes_NewReader b = \<lparr>rd_buf = b, rd_err = EOF, rd_byte_reader = True\<rparr>"

definition rreturn :: "'a \<Rightarrow> 'a reads" where
  "rreturn x r = (Val x, r)"

definition rfail :: "go_error \<Rightarrow> 'a reads" where
  "rfail e r = (Err e, r)"

definition rpanic :: "string \<Rightarrow> 'a reads" where
  "rpanic m r = (Panic m, r)"

definition rbind :: "'a reads \<Rightarrow> ('a \<Rightarrow> 'b reads) \<Rightarrow> 'b reads" where
  "rbind m f r =
     (case m r of
        (Val x, r') \<Rightarrow> f x r'
      | (Err e, r') \<Rightarrow> (Err e, r')
      | (Panic p, r') \<Rightarrow> (Panic p, r'))"

text \<open>Rewriting the error of a call, as \<open>fmt.Errorf\<close> or an \<open>if err == io.EOF\<close> does.\<close>

definition rmap_err :: "(go_error \<Rightarrow> go_error) \<Rightarrow> 'a reads \<Rightarrow> 'a reads" where
  "rmap_err g m r =
     (case m r of
        (Val x, r') \<Rightarrow> (Val x, r')
      | (Err e, r') \<Rightarrow> (Err (g e), r')
      | (Panic p, r') \<Rightarrow> (Panic p, r'))"

lemma rreturn_simp [simp]: "rreturn x r = (Val x, r)"
  by (simp add: rreturn_def)

lemma rfail_simp [simp]: "rfail e r = (Err e, r)"
  by (simp add: rfail_def)

lemma rpanic_simp [simp]: "rpanic m r = (Panic m, r)"
  by (simp add: rpanic_def)

lemma rbind_Val: "m r = (Val x, r') \<Longrightarrow> rbind m f r = f x r'"
  by (simp add: rbind_def)

lemma rmap_err_Val: "m r = (Val x, r') \<Longrightarrow> rmap_err g m r = (Val x, r')"
  by (simp add: rmap_err_def)

lemma rbind_eq_Val:
  "rbind m f r = (Val y, r'') \<longleftrightarrow> (\<exists>x r'. m r = (Val x, r') \<and> f x r' = (Val y, r''))"
  by (auto simp: rbind_def split: prod.splits outcome.splits)

lemma rmap_err_eq_Val: "rmap_err g m r = (Val y, r') \<longleftrightarrow> m r = (Val y, r')"
  by (auto simp: rmap_err_def split: prod.splits outcome.splits)

text \<open>
  \<open>io.ReadFull\<close> into a buffer of \<open>n\<close> bytes: all of them, or the reader's error, where an
  \<open>EOF\<close> after a first byte becomes \<open>ErrUnexpectedEOF\<close>.
\<close>

definition read_full :: "nat \<Rightarrow> bytes reads" where
  "read_full n r =
     (if n \<le> length (rd_buf r)
      then (Val (take n (rd_buf r)), r\<lparr>rd_buf := drop n (rd_buf r)\<rparr>)
      else (Err (if rd_err r = EOF \<and> rd_buf r \<noteq> [] then ErrUnexpectedEOF else rd_err r),
            r\<lparr>rd_buf := []\<rparr>))"

text \<open>\<open>io.ByteReader.ReadByte\<close>.\<close>

definition read_byte :: "u8 reads" where
  "read_byte r =
     (case rd_buf r of
        [] \<Rightarrow> (Err (rd_err r), r)
      | b # bs \<Rightarrow> (Val b, r\<lparr>rd_buf := bs\<rparr>))"

lemma read_full_append [codec_simps]:
  "length b = n \<Longrightarrow> read_full n (r\<lparr>rd_buf := b @ rest\<rparr>) = (Val b, r\<lparr>rd_buf := rest\<rparr>)"
  by (auto simp: read_full_def)

lemma read_full_Cons [codec_simps]:
  "read_full (Suc 0) (r\<lparr>rd_buf := b # rest\<rparr>) = (Val [b], r\<lparr>rd_buf := rest\<rparr>)"
  by (simp add: read_full_def)

lemma read_byte_Cons [codec_simps]:
  "read_byte (r\<lparr>rd_buf := b # rest\<rparr>) = (Val b, r\<lparr>rd_buf := rest\<rparr>)"
  by (simp add: read_byte_def)

text \<open>
  \<open>make([]T, n)\<close> with a \<open>uint64\<close> length: Go panics when the slice would exceed the address space
  it can allocate from (2^48 bytes on 64-bit Linux).
\<close>

definition maxAlloc :: nat where
  "maxAlloc = 2 ^ 48"

definition make_slice :: "nat \<Rightarrow> u64 \<Rightarrow> unit reads" where
  "make_slice elem_size n =
     (if maxAlloc < elem_size * unat n then rpanic ''runtime error: makeslice: len out of range''
      else rreturn ())"

lemma make_slice_ok [codec_simps]:
  "elem_size * k \<le> maxAlloc \<Longrightarrow> k < 2 ^ 64 \<Longrightarrow> make_slice elem_size (of_nat k) r = (Val (), r)"
  by (simp add: make_slice_def unat_of_nat_u64)

subsection \<open>Consumption and locality\<close>

text \<open>
  A decoder is \<^emph>\<open>local\<close> when a successful run consumes a prefix of the input and would give
  the same value on that prefix followed by anything else.
\<close>

definition local_reads :: "'a reads \<Rightarrow> bool" where
  "local_reads m \<longleftrightarrow>
     (\<forall>r x r'. m r = (Val x, r') \<longrightarrow>
        (\<exists>p. rd_buf r = p @ rd_buf r' \<and>
             (\<forall>ext e. m (r\<lparr>rd_buf := p @ ext, rd_err := e\<rparr>)
                        = (Val x, r\<lparr>rd_buf := ext, rd_err := e\<rparr>))))"

lemma local_readsE:
  assumes "local_reads m" and "m r = (Val x, r')"
  obtains p where "rd_buf r = p @ rd_buf r'"
    and "\<And>ext e. m (r\<lparr>rd_buf := p @ ext, rd_err := e\<rparr>) = (Val x, r\<lparr>rd_buf := ext, rd_err := e\<rparr>)"
    and "r' = r\<lparr>rd_buf := rd_buf r'\<rparr>"
proof -
  from assms obtain p where p: "rd_buf r = p @ rd_buf r'"
    and ext: "\<And>ext e. m (r\<lparr>rd_buf := p @ ext, rd_err := e\<rparr>)
                          = (Val x, r\<lparr>rd_buf := ext, rd_err := e\<rparr>)"
    unfolding local_reads_def by blast
  have "r\<lparr>rd_buf := p @ rd_buf r', rd_err := rd_err r\<rparr> = r"
    using p by (cases r) simp
  with ext [of "rd_err r" "rd_buf r'"] assms(2) have "r' = r\<lparr>rd_buf := rd_buf r'\<rparr>"
    by simp
  with p ext show thesis by (rule that)
qed

lemma local_rreturn [local_intros]: "local_reads (rreturn x)"
  by (simp add: local_reads_def)

lemma local_rfail [local_intros]: "local_reads (rfail e)"
  by (simp add: local_reads_def)

lemma local_rpanic [local_intros]: "local_reads (rpanic m)"
  by (simp add: local_reads_def)

lemma local_rmap_err [local_intros]: "local_reads m \<Longrightarrow> local_reads (rmap_err g m)"
  by (simp add: local_reads_def rmap_err_eq_Val)

lemma local_rbind [local_intros]:
  assumes m: "local_reads m" and f: "\<And>x. local_reads (f x)"
  shows "local_reads (rbind m f)"
  unfolding local_reads_def
proof (intro allI impI)
  fix r y r''
  assume "rbind m f r = (Val y, r'')"
  then obtain x r' where mr: "m r = (Val x, r')" and fr: "f x r' = (Val y, r'')"
    by (auto simp: rbind_eq_Val)
  from m mr obtain p where p: "rd_buf r = p @ rd_buf r'"
    and pe: "\<And>ext e. m (r\<lparr>rd_buf := p @ ext, rd_err := e\<rparr>) = (Val x, r\<lparr>rd_buf := ext, rd_err := e\<rparr>)"
    and r': "r' = r\<lparr>rd_buf := rd_buf r'\<rparr>"
    by (rule local_readsE) blast
  from f fr obtain q where q: "rd_buf r' = q @ rd_buf r''"
    and qe: "\<And>ext e. f x (r'\<lparr>rd_buf := q @ ext, rd_err := e\<rparr>) = (Val y, r'\<lparr>rd_buf := ext, rd_err := e\<rparr>)"
    by (rule local_readsE) blast
  have upd: "r'\<lparr>rd_buf := b, rd_err := e\<rparr> = r\<lparr>rd_buf := b, rd_err := e\<rparr>" for b e
    by (subst r') simp
  have "rbind m f (r\<lparr>rd_buf := (p @ q) @ ext, rd_err := e\<rparr>) = (Val y, r\<lparr>rd_buf := ext, rd_err := e\<rparr>)"
    for ext e
    using pe [of e "q @ ext"] qe [of e ext] by (simp add: rbind_Val upd)
  with p q show "\<exists>p. rd_buf r = p @ rd_buf r'' \<and>
      (\<forall>ext e. rbind m f (r\<lparr>rd_buf := p @ ext, rd_err := e\<rparr>) = (Val y, r\<lparr>rd_buf := ext, rd_err := e\<rparr>))"
    by (intro exI [of _ "p @ q"]) simp
qed

lemma local_if [local_intros]:
  "local_reads m \<Longrightarrow> local_reads n \<Longrightarrow> local_reads (if c then m else n)"
  by simp

lemma local_make_slice [local_intros]: "local_reads (make_slice m n)"
  by (auto simp: make_slice_def intro!: local_intros)

lemma local_read_full [local_intros]: "local_reads (read_full n)"
  unfolding local_reads_def
proof (intro allI impI)
  fix r b r'
  assume "read_full n r = (Val b, r')"
  then have "n \<le> length (rd_buf r)" and "b = take n (rd_buf r)" and "r' = r\<lparr>rd_buf := drop n (rd_buf r)\<rparr>"
    by (auto simp: read_full_def split: if_splits)
  then show "\<exists>p. rd_buf r = p @ rd_buf r' \<and>
      (\<forall>ext e. read_full n (r\<lparr>rd_buf := p @ ext, rd_err := e\<rparr>) = (Val b, r\<lparr>rd_buf := ext, rd_err := e\<rparr>))"
    by (intro exI [of _ "take n (rd_buf r)"]) (cases r, simp add: read_full_def)
qed

lemma local_read_byte [local_intros]: "local_reads read_byte"
  unfolding local_reads_def
proof (intro allI impI)
  fix r b r'
  assume "read_byte r = (Val b, r')"
  then have "rd_buf r = b # rd_buf r'" and "r' = r\<lparr>rd_buf := rd_buf r'\<rparr>"
    by (auto simp: read_byte_def split: list.splits)
  then show "\<exists>p. rd_buf r = p @ rd_buf r' \<and>
      (\<forall>ext e. read_byte (r\<lparr>rd_buf := p @ ext, rd_err := e\<rparr>) = (Val b, r\<lparr>rd_buf := ext, rd_err := e\<rparr>))"
    by (intro exI [of _ "[b]"]) (cases r, simp add: read_byte_def)
qed

lemma local_reads_shrinks:
  "local_reads m \<Longrightarrow> m r = (Val x, r') \<Longrightarrow> length (rd_buf r') \<le> length (rd_buf r)"
  by (erule (1) local_readsE) simp

subsection \<open>Decoders that never panic\<close>

definition never_panics :: "'a reads \<Rightarrow> bool" where
  "never_panics m \<longleftrightarrow> (\<forall>r. \<not> panics (fst (m r)))"

lemma never_panicsD: "never_panics m \<Longrightarrow> m r = (Panic p, r') \<Longrightarrow> False"
  by (metis fst_conv never_panics_def panics.simps(1))

lemma safe_rreturn [safe_intros]: "never_panics (rreturn x)"
  by (simp add: never_panics_def)

lemma safe_rfail [safe_intros]: "never_panics (rfail e)"
  by (simp add: never_panics_def)

lemma safe_rmap_err [safe_intros]: "never_panics m \<Longrightarrow> never_panics (rmap_err g m)"
  by (auto simp: never_panics_def rmap_err_def panics_iff split: prod.splits outcome.splits) (metis fst_conv)

lemma safe_rbind [safe_intros]:
  "never_panics m \<Longrightarrow> (\<And>x. never_panics (f x)) \<Longrightarrow> never_panics (rbind m f)"
  by (auto simp: never_panics_def rbind_def panics_iff split: prod.splits outcome.splits) (metis fst_conv)

lemma safe_if [safe_intros]: "never_panics m \<Longrightarrow> never_panics n \<Longrightarrow> never_panics (if c then m else n)"
  by simp

lemma safe_read_full [safe_intros]: "never_panics (read_full n)"
  by (simp add: never_panics_def read_full_def)

lemma safe_read_byte [safe_intros]: "never_panics read_byte"
  by (simp add: never_panics_def read_byte_def split: list.splits)

subsection \<open>The codec interface\<close>

locale codec =
  fixes enc :: "'a \<Rightarrow> bytes"
    and dec :: "'a reads"
    and wf :: "'a \<Rightarrow> bool"
  assumes dec_enc: "wf x \<Longrightarrow> dec (r\<lparr>rd_buf := enc x @ rest\<rparr>) = (Val x, r\<lparr>rd_buf := rest\<rparr>)"
    and dec_local: "local_reads dec"
begin

lemma dec_enc_exact: "wf x \<Longrightarrow> rd_buf r = enc x \<Longrightarrow> dec r = (Val x, r\<lparr>rd_buf := []\<rparr>)"
  using dec_enc [of x "[]" r] by (cases r) simp

lemma dec_NewReader: "wf x \<Longrightarrow> dec (bytes_NewReader (enc x)) = (Val x, bytes_NewReader [])"
  using dec_enc [of x "[]" "bytes_NewReader []"] by (simp add: bytes_NewReader_def)

lemma enc_prefix_free:
  assumes "wf x" and "wf y" and "enc x @ s = enc y @ t"
  shows "x = y \<and> s = t"
proof -
  let ?r = "bytes_NewReader []"
  from assms(3) have "dec (?r\<lparr>rd_buf := enc x @ s\<rparr>) = dec (?r\<lparr>rd_buf := enc y @ t\<rparr>)"
    by simp
  then show ?thesis
    using dec_enc [OF assms(1), of s ?r] dec_enc [OF assms(2), of t ?r]
    by (simp add: bytes_NewReader_def)
qed

lemma enc_inj: "wf x \<Longrightarrow> wf y \<Longrightarrow> enc x = enc y \<Longrightarrow> x = y"
  using enc_prefix_free [of x y "[]" "[]"] by simp

lemma dec_truncated:
  assumes "wf x" and "strict_prefix p (enc x)" and "rd_buf r = p"
  shows "\<not> is_val (fst (dec r))"
proof
  assume "is_val (fst (dec r))"
  then obtain y r' where r': "dec r = (Val y, r')"
    by (cases "dec r") (auto simp: is_val_iff)
  with dec_local obtain q where q: "rd_buf r = q @ rd_buf r'"
    and ext: "\<And>ext e. dec (r\<lparr>rd_buf := q @ ext, rd_err := e\<rparr>) = (Val y, r\<lparr>rd_buf := ext, rd_err := e\<rparr>)"
    by (rule local_readsE) blast
  from assms(2) obtain s where s: "enc x = p @ s" "s \<noteq> []"
    by (auto simp: strict_prefix_def prefix_def)
  have "dec (r\<lparr>rd_buf := enc x @ [], rd_err := rd_err r\<rparr>) = (Val x, r\<lparr>rd_buf := [], rd_err := rd_err r\<rparr>)"
    using dec_enc [OF assms(1), of "[]" "r\<lparr>rd_err := rd_err r\<rparr>"] by (cases r) simp
  moreover have "dec (r\<lparr>rd_buf := q @ (rd_buf r' @ s), rd_err := rd_err r\<rparr>)
      = (Val y, r\<lparr>rd_buf := rd_buf r' @ s, rd_err := rd_err r\<rparr>)"
    by (rule ext)
  ultimately have "r\<lparr>rd_buf := rd_buf r' @ s, rd_err := rd_err r\<rparr> = r\<lparr>rd_buf := [], rd_err := rd_err r\<rparr>"
    using q s(1) assms(3) by simp
  then have "rd_buf r' @ s = []"
    by (cases r) simp
  with s(2) show False by simp
qed

lemma dec_extends:
  assumes "wf x" and "rd_buf r = enc x @ rest" and "dec r = (Val y, r')"
  shows "y = x \<and> rd_buf r' = rest"
  using dec_enc [OF assms(1), of rest r] assms(2,3) by (cases r) auto

end

text \<open>Reading a value again and again, as a connection's loop does.\<close>

primrec read_many :: "nat \<Rightarrow> 'a reads \<Rightarrow> 'a list reads" where
  "read_many 0 m = rreturn []"
| "read_many (Suc n) m = rbind m (\<lambda>x. rbind (read_many n m) (\<lambda>xs. rreturn (x # xs)))"

lemma local_read_many [local_intros]: "local_reads m \<Longrightarrow> local_reads (read_many n m)"
  by (induction n) (auto intro!: local_intros)

context codec
begin

lemma read_many_concat:
  "\<forall>x\<in>set xs. wf x \<Longrightarrow>
     read_many (length xs) dec (r\<lparr>rd_buf := concat (map enc xs) @ rest\<rparr>) = (Val xs, r\<lparr>rd_buf := rest\<rparr>)"
proof (induction xs)
  case Nil
  then show ?case by simp
next
  case (Cons x xs)
  then have "dec (r\<lparr>rd_buf := enc x @ (concat (map enc xs) @ rest)\<rparr>)
      = (Val x, r\<lparr>rd_buf := concat (map enc xs) @ rest\<rparr>)"
    by (intro dec_enc) simp
  with Cons show ?case by (simp add: rbind_Val)
qed

lemma concat_enc_inj:
  assumes "\<forall>x\<in>set xs. wf x" and "\<forall>y\<in>set ys. wf y" and "length xs = length ys"
    and "concat (map enc xs) = concat (map enc ys)"
  shows "xs = ys"
  using read_many_concat [OF assms(1), of "[]" "bytes_NewReader []"]
    read_many_concat [OF assms(2), of "[]" "bytes_NewReader []"] assms(3,4)
  by simp

end

subsection \<open>The keyed-store interface\<close>

text \<open>
  The daemons keep their state in maps guarded by a mutex: pipes by agent, ACLs by agent,
  browser instances by agent.  The clients rely on the same laws each time: a lookup sees the
  last insertion or deletion of its key, and entries sit under their own key.
\<close>

datatype ('k, 'v) store_op = Put 'v | Del 'k

locale keyed_store =
  fixes look :: "'s \<Rightarrow> 'k \<Rightarrow> 'v option"
    and key :: "'v \<Rightarrow> 'k"
    and put :: "'v \<Rightarrow> 's \<Rightarrow> 's"
    and del :: "'k \<Rightarrow> 's \<Rightarrow> 's"
  assumes look_put: "look (put v s) = (look s)(key v \<mapsto> v)"
    and look_del: "look (del k s) = (look s)(k := None)"
begin

definition well_keyed :: "'s \<Rightarrow> bool" where
  "well_keyed s \<longleftrightarrow> (\<forall>k v. look s k = Some v \<longrightarrow> key v = k)"

definition apply_op :: "('k, 'v) store_op \<Rightarrow> 's \<Rightarrow> 's" where
  "apply_op op s = (case op of Put v \<Rightarrow> put v s | Del k \<Rightarrow> del k s)"

definition op_key :: "('k, 'v) store_op \<Rightarrow> 'k" where
  "op_key op = (case op of Put v \<Rightarrow> key v | Del k \<Rightarrow> k)"

definition op_value :: "('k, 'v) store_op \<Rightarrow> 'v option" where
  "op_value op = (case op of Put v \<Rightarrow> Some v | Del k \<Rightarrow> None)"

lemma look_apply_op: "look (apply_op op s) = (look s)(op_key op := op_value op)"
  by (cases op) (simp_all add: apply_op_def op_key_def op_value_def look_put look_del)

lemma well_keyed_apply_op: "well_keyed s \<Longrightarrow> well_keyed (apply_op op s)"
  by (cases op) (auto simp: well_keyed_def look_apply_op op_key_def op_value_def)

lemma well_keyed_run: "well_keyed s \<Longrightarrow> well_keyed (fold apply_op ops s)"
  by (induction ops arbitrary: s) (simp_all add: well_keyed_apply_op)

lemma look_run_other: "\<forall>op\<in>set ops. op_key op \<noteq> k \<Longrightarrow> look (fold apply_op ops s) k = look s k"
  by (induction ops arbitrary: s) (auto simp: look_apply_op)

text \<open>Last writer wins, whatever happens to other keys afterwards.\<close>

lemma look_last_op:
  assumes "\<forall>op\<in>set after. op_key op \<noteq> op_key op0"
  shows "look (fold apply_op (before @ op0 # after) s) (op_key op0) = op_value op0"
  using look_run_other [OF assms] by (simp add: look_apply_op)

lemma deleted_stays_absent:
  assumes "\<forall>op\<in>set after. op_key op = k \<longrightarrow> (\<exists>k'. op = Del k')"
  shows "look (fold apply_op after (del k s)) k = None"
proof -
  have "look t k = None \<Longrightarrow> look (fold apply_op after t) k = None" for t
    using assms
  proof (induction after arbitrary: t)
    case Nil
    then show ?case by simp
  next
    case (Cons op ops)
    have "look (apply_op op t) k = None"
      using Cons.prems by (auto simp: look_apply_op op_value_def)
    with Cons show ?case by simp
  qed
  then show ?thesis by (simp add: look_del)
qed

end

end
