(* ===== verification/Mus.thy ===== *)
theory Mus
  imports Prelude
begin

text \<open>
  The MUS primitives of \<open>pkg/mus/mus.go\<close>: unsigned LEB128 integers (\<open>AppendVarint\<close>,
  \<open>VarintLen\<close>, \<open>ReadVarint\<close> with its two read loops) and length-prefixed strings
  (\<open>AppendString\<close>, \<open>ReadString\<close>).

  The encoder is the source's loop on a 64-bit word.  The decoder is its loop of at most ten
  reads; \<open>readVarintByte\<close> serves readers that implement \<open>io.ByteReader\<close> and \<open>readVarintSlow\<close>
  the others.  The lemmas give the round trip of both encodings, the equivalence of the two
  read loops, the exact length of an encoded integer, and the locality of the decoders; the
  two interpretations of \<open>codec\<close> at the end publish them to the message types.
\<close>

definition MaxPayloadBytes :: nat where
  "MaxPayloadBytes = 4 * 1024 * 1024"

subsection \<open>Varint\<close>

function AppendVarint :: "bytes \<Rightarrow> u64 \<Rightarrow> bytes" where
  "AppendVarint b v =
     (if 0x80 \<le> v then AppendVarint (b @ [ucast v OR 0x80]) (drop_bit 7 v)
      else b @ [ucast v])"
  by pat_completeness auto

lemma unat_drop_bit_7: "unat (drop_bit 7 v) = unat v div 128" for v :: u64
  by (simp only: unat_drop_bit_eq) (simp add: drop_bit_eq_div)

termination AppendVarint
proof (relation "measure (\<lambda>(b, v). unat v)")
  fix b :: bytes and v :: u64
  assume "0x80 \<le> v"
  then have "128 \<le> unat v"
    by (simp add: word_le_nat_alt)
  then show "((b @ [ucast v OR 0x80], drop_bit 7 v), b, v) \<in> measure (\<lambda>(b, v). unat v)"
    by (simp add: unat_drop_bit_7)
qed simp

declare AppendVarint.simps [simp del]

text \<open>\<open>bits.Len64\<close>: the number of bits needed to represent the value.\<close>

fun bit_len :: "nat \<Rightarrow> nat" where
  "bit_len n = (if n = 0 then 0 else Suc (bit_len (n div 2)))"

declare bit_len.simps [simp del]

definition VarintLen :: "u64 \<Rightarrow> nat" where
  "VarintLen v = (if v = 0 then 1 else (bit_len (unat v) + 6) div 7)"

text \<open>The two read loops; \<open>n\<close> counts the iterations left of \<open>for i := 0; i < 10; i++\<close>.\<close>

definition eof_unexpected :: "go_error \<Rightarrow> go_error" where
  "eof_unexpected e = (if e = EOF then ErrUnexpectedEOF else e)"

fun readVarintByte :: "nat \<Rightarrow> u64 \<Rightarrow> nat \<Rightarrow> u64 reads" where
  "readVarintByte 0 result shift = rfail ErrVarintOverflow"
| "readVarintByte (Suc n) result shift =
     rbind (rmap_err eof_unexpected read_byte) (\<lambda>b.
       let result' = result OR push_bit shift (ucast (b AND 0x7F)) in
       if b < 0x80 then rreturn result' else readVarintByte n result' (shift + 7))"

fun readVarintSlow :: "nat \<Rightarrow> u64 \<Rightarrow> nat \<Rightarrow> u64 reads" where
  "readVarintSlow 0 result shift = rfail ErrVarintOverflow"
| "readVarintSlow (Suc n) result shift =
     rbind (rmap_err eof_unexpected (read_full 1)) (\<lambda>buf.
       let b = hd buf; result' = result OR push_bit shift (ucast (b AND 0x7F)) in
       if b < 0x80 then rreturn result' else readVarintSlow n result' (shift + 7))"

definition ReadVarint :: "u64 reads" where
  "ReadVarint r =
     (if rd_byte_reader r then readVarintByte 10 0 0 r else readVarintSlow 10 0 0 r)"

subsection \<open>Strings\<close>

definition AppendString :: "bytes \<Rightarrow> string \<Rightarrow> bytes" where
  "AppendString b s = AppendVarint b (of_nat (length s)) @ bytes_of s"

definition ReadString :: "u64 \<Rightarrow> string reads" where
  "ReadString maxLen =
     rbind ReadVarint (\<lambda>n.
       if maxLen < n then rfail ErrStringTooLong
       else if n = 0 then rreturn ''''
       else rbind (rmap_err eof_unexpected (read_full (unat n))) (\<lambda>buf. rreturn (string_of buf)))"

subsection \<open>The encoder without its accumulator\<close>

definition enc_varint :: "u64 \<Rightarrow> bytes" where
  "enc_varint v = AppendVarint [] v"

definition enc_string :: "string \<Rightarrow> bytes" where
  "enc_string s = enc_varint (of_nat (length s)) @ bytes_of s"

lemma AppendVarint_append: "AppendVarint (a @ b) v = a @ AppendVarint b v"
proof (induction b v rule: AppendVarint.induct)
  case (1 b v)
  then show ?case
    by (simp add: AppendVarint.simps [of _ v])
qed

lemma AppendVarint_enc [simp]: "AppendVarint b v = b @ enc_varint v"
  using AppendVarint_append [of b "[]" v] by (simp add: enc_varint_def)

lemma AppendString_enc [simp]: "AppendString b s = b @ enc_string s"
  by (simp add: AppendString_def enc_string_def)

lemma enc_varint_rec:
  "enc_varint v =
     (if 0x80 \<le> v then (ucast v OR 0x80) # enc_varint (drop_bit 7 v) else [ucast v])"
proof -
  have "AppendVarint [] v =
      (if 0x80 \<le> v then AppendVarint [ucast v OR 0x80] (drop_bit 7 v) else [ucast v])"
    by (subst AppendVarint.simps) simp
  then show ?thesis
    by (simp add: enc_varint_def [symmetric])
qed

lemma enc_varint_nonempty [simp]: "enc_varint v \<noteq> []"
  by (subst enc_varint_rec) simp

subsection \<open>Equivalence of the two read loops\<close>

lemma read_full_1: "read_full (Suc 0) r = (case read_byte r of (Val b, r') \<Rightarrow> (Val [b], r')
     | (Err e, r') \<Rightarrow> (Err e, r') | (Panic p, r') \<Rightarrow> (Panic p, r'))"
  by (auto simp: read_full_def read_byte_def split: list.splits)

lemma readVarintSlow_eq: "readVarintSlow n result shift r = readVarintByte n result shift r"
proof (induction n arbitrary: result shift r)
  case 0
  then show ?case by simp
next
  case (Suc n)
  then show ?case
    by (simp add: rbind_def rmap_err_def read_full_1 Let_def split: prod.splits outcome.splits)
qed

lemma ReadVarint_byte: "ReadVarint = readVarintByte 10 0 0"
  by (rule ext) (simp add: ReadVarint_def readVarintSlow_eq)

subsection \<open>Round trip of the encodings\<close>

lemma and_0x7F: "x AND 0x7F = take_bit 7 x" for x :: "'a::len word"
  by (simp add: take_bit_eq_mask mask_eq_exp_minus_1)

lemma septet_split: "take_bit 7 v OR push_bit 7 (drop_bit 7 v) = v" for v :: u64
  by (rule bit_word_eqI) (auto simp: bit_simps, metis not_less le_add_diff_inverse)

lemma septet_join:
  "(result OR push_bit shift (take_bit 7 v)) OR push_bit (shift + 7) (drop_bit 7 v)
     = result OR push_bit shift v"
  for v :: u64
proof -
  have "push_bit shift (take_bit 7 v) OR push_bit shift (push_bit 7 (drop_bit 7 v)) = push_bit shift v"
    by (metis push_bit_or septet_split)
  then show ?thesis
    by (simp add: or.assoc push_bit_push_bit add.commute)
qed

lemma septet_byte:
  fixes v :: u64
  shows "ucast (((ucast v :: u8) OR 0x80) AND 0x7F) = take_bit 7 v"
proof -
  have "take_bit 7 (0x80 :: u8) = 0"
    by simp
  then have "((ucast v :: u8) OR 0x80) AND 0x7F = take_bit 7 (ucast v)"
    by (simp add: and_0x7F)
  moreover have "ucast (take_bit 7 (ucast v :: u8)) = take_bit 7 v"
    by (rule bit_word_eqI) (auto simp: bit_simps)
  ultimately show ?thesis by simp
qed

lemma septet_last:
  fixes v :: u64
  assumes "v < 0x80"
  shows "ucast ((ucast v :: u8) AND 0x7F) = v" and "(ucast v :: u8) < 0x80"
proof -
  have n: "unat v < 128"
    using assms by (simp add: word_less_nat_alt)
  have b: "unat (ucast v :: u8) = unat v"
    using n by (simp add: unsigned_ucast_eq take_bit_eq_mod)
  have "unat (take_bit 7 (ucast v :: u8)) = unat v"
    using n b by (simp only: unsigned_take_bit_eq) (simp add: take_bit_eq_mod)
  then have "unat (ucast (take_bit 7 (ucast v :: u8)) :: u64) = unat v"
    using n by (simp add: unsigned_ucast_eq take_bit_eq_mod)
  then show "ucast ((ucast v :: u8) AND 0x7F) = v"
    by (simp add: and_0x7F word_unat_eq_iff)
  show "(ucast v :: u8) < 0x80"
    using n b by (simp add: word_less_nat_alt)
qed

lemma septet_more: "\<not> ((ucast v :: u8) OR 0x80) < 0x80" for v :: u64
  using le_word_or1 [of "0x80 :: u8" "ucast v"] by (simp add: not_less)

lemma readVarintByte_enc:
  assumes "unat v < 2 ^ (7 * n)" and "0 < n"
  shows "readVarintByte n result shift (r\<lparr>rd_buf := enc_varint v @ rest\<rparr>)
           = (Val (result OR push_bit shift v), r\<lparr>rd_buf := rest\<rparr>)"
  using assms
proof (induction n arbitrary: v result shift)
  case 0
  then show ?case by simp
next
  case (Suc n)
  show ?case
  proof (cases "0x80 \<le> v")
    case True
    let ?b = "(ucast v :: u8) OR 0x80"
    from True have big: "128 \<le> unat v"
      by (simp add: word_le_nat_alt)
    have "0 < n"
    proof (rule ccontr)
      assume "\<not> 0 < n"
      with Suc.prems(1) big show False by simp
    qed
    moreover have "unat (drop_bit 7 v) < 2 ^ (7 * n)"
      using Suc.prems(1) by (simp add: unat_drop_bit_7 power_add less_mult_imp_div_less)
    ultimately have "readVarintByte n (result OR push_bit shift (take_bit 7 v)) (shift + 7)
        (r\<lparr>rd_buf := enc_varint (drop_bit 7 v) @ rest\<rparr>)
        = (Val (result OR push_bit shift v), r\<lparr>rd_buf := rest\<rparr>)"
      using Suc.IH [of "drop_bit 7 v"] by (simp add: septet_join)
    moreover have "enc_varint v @ rest = ?b # enc_varint (drop_bit 7 v) @ rest"
      using True by (subst enc_varint_rec) simp
    ultimately show ?thesis
      by (simp add: rbind_def rmap_err_def read_byte_Cons septet_byte septet_more Let_def)
  next
    case False
    then have "v < 0x80" by simp
    moreover from False have "enc_varint v @ rest = ucast v # rest"
      by (subst enc_varint_rec) simp
    ultimately show ?thesis
      by (simp add: rbind_def rmap_err_def read_byte_Cons septet_last Let_def)
  qed
qed

lemma ReadVarint_enc [codec_simps]:
  "ReadVarint (r\<lparr>rd_buf := enc_varint v @ rest\<rparr>) = (Val v, r\<lparr>rd_buf := rest\<rparr>)"
proof -
  have "unat v < 2 ^ LENGTH(64)"
    by (rule unsigned_less)
  then have "unat v < 2 ^ (7 * 10)"
    by simp
  then show ?thesis
    by (simp add: ReadVarint_byte readVarintByte_enc)
qed

lemma local_readVarintByte [local_intros]: "local_reads (readVarintByte n result shift)"
  by (induction n arbitrary: result shift) (auto simp: Let_def intro!: local_intros)

lemma local_ReadVarint [local_intros]: "local_reads ReadVarint"
  unfolding ReadVarint_byte by (rule local_readVarintByte)

lemma ReadString_enc [codec_simps]:
  assumes "length s \<le> unat maxLen"
  shows "ReadString maxLen (r\<lparr>rd_buf := enc_string s @ rest\<rparr>) = (Val s, r\<lparr>rd_buf := rest\<rparr>)"
proof -
  have "unat maxLen < 2 ^ LENGTH(64)"
    by (rule unsigned_less)
  with assms have len: "unat (of_nat (length s) :: u64) = length s"
    by (simp add: unat_of_nat)
  have le: "\<not> maxLen < of_nat (length s)"
    using assms len by (simp add: word_less_nat_alt)
  show ?thesis
  proof (cases "s = []")
    case True
    with le show ?thesis
      by (simp add: ReadString_def enc_string_def rbind_def ReadVarint_enc)
  next
    case False
    with len have "of_nat (length s) \<noteq> (0 :: u64)"
      by (metis length_0_conv unat_0)
    with le len show ?thesis
      by (simp add: ReadString_def enc_string_def rbind_def rmap_err_def ReadVarint_enc read_full_append)
  qed
qed

lemma local_ReadString [local_intros]: "local_reads (ReadString maxLen)"
  unfolding ReadString_def by (auto intro!: local_intros)

lemma safe_readVarintByte [safe_intros]: "never_panics (readVarintByte n result shift)"
  by (induction n arbitrary: result shift) (auto simp: Let_def intro!: safe_intros)

lemma safe_ReadVarint [safe_intros]: "never_panics ReadVarint"
  unfolding ReadVarint_byte by (rule safe_readVarintByte)

lemma safe_ReadString [safe_intros]: "never_panics (ReadString maxLen)"
  unfolding ReadString_def by (auto intro!: safe_intros)

subsection \<open>Length of an encoded integer\<close>

lemma bit_len_bound: "n < 2 ^ k \<Longrightarrow> bit_len n \<le> k"
proof (induction k arbitrary: n)
  case 0
  then show ?case by (simp add: bit_len.simps)
next
  case (Suc k)
  then have "bit_len (n div 2) \<le> k"
    by (simp add: less_mult_imp_div_less)
  then show ?case
    by (simp add: bit_len.simps [of n])
qed

lemma bit_len_power: "bit_len (2 ^ k) = Suc k"
  by (induction k) (simp_all add: bit_len.simps)

lemma bit_len_pos: "0 < n \<Longrightarrow> 0 < bit_len n"
  by (simp add: bit_len.simps)

lemma bit_len_128: "128 \<le> n \<Longrightarrow> bit_len n = bit_len (n div 128) + 7"
proof -
  assume "128 \<le> n"
  moreover have "bit_len m = Suc (bit_len (m div 2))" if "0 < m" for m
    using that by (simp add: bit_len.simps [of m])
  ultimately show ?thesis
    by (simp add: div_mult2_eq [symmetric])
qed

theorem VarintLen_correct: "length (enc_varint v) = VarintLen v"
proof (induction "unat v" arbitrary: v rule: less_induct)
  case less
  show ?case
  proof (cases "0x80 \<le> v")
    case True
    then have big: "128 \<le> unat v"
      by (simp add: word_le_nat_alt)
    then have "length (enc_varint (drop_bit 7 v)) = VarintLen (drop_bit 7 v)"
      by (intro less) (simp add: unat_drop_bit_7)
    moreover have "drop_bit 7 v \<noteq> 0"
      using big unat_drop_bit_7 [of v] by (metis div_greater_zero_iff unat_0 less_nat_zero_code zero_less_numeral)
    ultimately have "length (enc_varint (drop_bit 7 v)) = (bit_len (unat v div 128) + 6) div 7"
      by (simp add: VarintLen_def unat_drop_bit_7)
    moreover have "v \<noteq> 0" using big by auto
    ultimately show ?thesis
      using True big by (subst enc_varint_rec) (simp add: VarintLen_def bit_len_128)
  next
    case False
    then have len: "length (enc_varint v) = 1"
      by (subst enc_varint_rec) simp
    from False have "unat v < 2 ^ 7"
      by (simp add: word_le_nat_alt)
    then have "bit_len (unat v) \<le> 7"
      by (rule bit_len_bound)
    moreover have "v \<noteq> 0 \<Longrightarrow> 0 < bit_len (unat v)"
      by (intro bit_len_pos) (simp add: unat_gt_0)
    ultimately have "VarintLen v = 1"
      by (auto simp: VarintLen_def)
    with len show ?thesis by simp
  qed
qed

lemma VarintLen_bounds: "1 \<le> VarintLen v \<and> VarintLen v \<le> 10"
proof -
  have "unat v < 2 ^ LENGTH(64)"
    by (rule unsigned_less)
  then have "bit_len (unat v) \<le> 64"
    using bit_len_bound [of "unat v" 64] by simp
  moreover have "v \<noteq> 0 \<Longrightarrow> 0 < bit_len (unat v)"
    by (intro bit_len_pos) (simp add: unat_gt_0)
  ultimately show ?thesis
    by (auto simp: VarintLen_def)
qed

lemma VarintLen_less: "unat v < 2 ^ (7 * k) \<Longrightarrow> 0 < k \<Longrightarrow> VarintLen v \<le> k"
  using bit_len_bound [of "unat v" "7 * k"] by (auto simp: VarintLen_def)

lemma length_enc_string: "length s < 2 ^ 64 \<Longrightarrow> length (enc_string s) = VarintLen (of_nat (length s)) + length s"
  by (simp add: enc_string_def VarintLen_correct)

lemma length_enc_string_le: "length s < 2 ^ 64 \<Longrightarrow> length (enc_string s) \<le> 10 + length s"
  using VarintLen_bounds [of "of_nat (length s)"] by (simp add: length_enc_string)

lemma length_enc_varint_le: "length (enc_varint v) \<le> 10"
  using VarintLen_bounds [of v] by (simp add: VarintLen_correct)

subsection \<open>Codecs\<close>

interpretation varint: codec enc_varint ReadVarint "\<lambda>_. True"
  by unfold_locales (simp_all add: ReadVarint_enc local_ReadVarint)

interpretation mus_string: codec enc_string "ReadString maxLen" "\<lambda>s. length s \<le> unat maxLen" for maxLen
  by unfold_locales (simp_all add: ReadString_enc local_ReadString)

subsection \<open>Properties\<close>

text \<open>
  C29: Every 64-bit value encodes to \<open>VarintLen\<close> bytes, between one and ten, and decodes to itself
  whatever follows, from a reader that delivers single bytes and from one that does not.
\<close>

theorem varint_roundtrip:
  "length (AppendVarint b v) = length b + VarintLen v \<and> 1 \<le> VarintLen v \<and> VarintLen v \<le> 10
     \<and> ReadVarint (r\<lparr>rd_byte_reader := True, rd_buf := AppendVarint [] v @ rest\<rparr>)
         = (Val v, r\<lparr>rd_byte_reader := True, rd_buf := rest\<rparr>)
     \<and> ReadVarint (r\<lparr>rd_byte_reader := False, rd_buf := AppendVarint [] v @ rest\<rparr>)
         = (Val v, r\<lparr>rd_byte_reader := False, rd_buf := rest\<rparr>)"
  using VarintLen_bounds [of v] ReadVarint_enc [of v rest "r\<lparr>rd_byte_reader := True\<rparr>"]
    ReadVarint_enc [of v rest "r\<lparr>rd_byte_reader := False\<rparr>"]
  by (simp add: VarintLen_correct)

lemma readVarintByte_continuations:
  "length bs = n \<Longrightarrow> \<forall>b\<in>set bs. \<not> b < 0x80 \<Longrightarrow>
     readVarintByte n result shift (r\<lparr>rd_buf := bs @ rest\<rparr>) = (Err ErrVarintOverflow, r\<lparr>rd_buf := rest\<rparr>)"
proof (induction n arbitrary: bs result shift)
  case 0
  then show ?case by simp
next
  case (Suc n)
  then show ?case
    by (cases bs) (auto simp: rbind_def rmap_err_def read_byte_Cons Let_def)
qed

lemma readVarint_overflow_any:
  "length bs = 10 \<Longrightarrow> \<forall>b\<in>set bs. \<not> b < 0x80 \<Longrightarrow>
     ReadVarint (r\<lparr>rd_buf := bs @ rest\<rparr>) = (Err ErrVarintOverflow, r\<lparr>rd_buf := rest\<rparr>)"
  by (simp add: ReadVarint_byte readVarintByte_continuations)

text \<open>
  Ten continuation bytes are rejected as an overflow, by either read loop, before an eleventh
  byte is read.
\<close>

theorem varint_overflow_rejected:
  assumes "length bs = 10" and "\<forall>b\<in>set bs. 0x80 \<le> b"
  shows "ReadVarint (r\<lparr>rd_buf := bs @ rest\<rparr>) = (Err ErrVarintOverflow, r\<lparr>rd_buf := rest\<rparr>)"
  by (rule readVarint_overflow_any) (use assms in \<open>auto simp: not_less\<close>)

theorem varint_overflow_rejected_witness:
  "ReadVarint (bytes_NewReader (replicate 10 0xFF @ [1]))
     = (Err ErrVarintOverflow, bytes_NewReader [1])"
  using varint_overflow_rejected [of "replicate 10 0xFF" "[1]" "bytes_NewReader []"]
  by (simp add: bytes_NewReader_def)

end
