(* ===== verification/Codec.thy ===== *)
theory Codec
  imports Mus
begin

text \<open>
  The frame format shared by every connection: \<open>internal/switchboard/codec.go\<close> (header,
  frame, size) and \<open>internal/switchboard/msgtype.go\<close> (the message types).

  \<open>swarm_header\<close> is the Go struct \<open>SwarmHeader\<close>; \<open>MarshalMUS\<close> and \<open>UnmarshalMUS\<close> are its
  encoder and decoder, \<open>ReadFrame\<close> and \<open>WriteFrame\<close> add the payload.  A destination
  (\<open>io.Writer\<close>) is a \<open>writer\<close> that accepts bytes until its room is used up and then fails,
  having written a prefix, as the contract of \<open>io.Writer\<close> allows.

  The lemmas show that header and frame are codecs within the limits the decoder enforces,
  that \<open>HeaderSize\<close> is the encoded length and fits \<open>MaxHeaderBytes\<close>, and what happens at and
  beyond the payload limit.
\<close>

subsection \<open>Message types (msgtype.go)\<close>

type_synonym MsgType = u8

definition MsgType_CtlSubscribe :: MsgType where "MsgType_CtlSubscribe = 0x01"
definition MsgType_CtlStatus :: MsgType where "MsgType_CtlStatus = 0x02"
definition MsgType_CtlAgentCreate :: MsgType where "MsgType_CtlAgentCreate = 0x03"
definition MsgType_CtlAgentDestroy :: MsgType where "MsgType_CtlAgentDestroy = 0x04"
definition MsgType_CtlAgentList :: MsgType where "MsgType_CtlAgentList = 0x05"
definition MsgType_CtlPrompt :: MsgType where "MsgType_CtlPrompt = 0x06"
definition MsgType_CtlApproval :: MsgType where "MsgType_CtlApproval = 0x07"
definition MsgType_CapabilityRequest :: MsgType where "MsgType_CapabilityRequest = 0x10"
definition MsgType_CapabilityResponse :: MsgType where "MsgType_CapabilityResponse = 0x11"
definition MsgType_CompletionEvent :: MsgType where "MsgType_CompletionEvent = 0x20"
definition MsgType_FailureEvent :: MsgType where "MsgType_FailureEvent = 0x21"
definition MsgType_Ping :: MsgType where "MsgType_Ping = 0xFE"
definition MsgType_Pong :: MsgType where "MsgType_Pong = 0xFF"

lemmas MsgType_defs =
  MsgType_CtlSubscribe_def MsgType_CtlStatus_def MsgType_CtlAgentCreate_def
  MsgType_CtlAgentDestroy_def MsgType_CtlAgentList_def MsgType_CtlPrompt_def
  MsgType_CtlApproval_def MsgType_CapabilityRequest_def MsgType_CapabilityResponse_def
  MsgType_CompletionEvent_def MsgType_FailureEvent_def MsgType_Ping_def MsgType_Pong_def

definition MsgType_String :: "MsgType \<Rightarrow> string" where
  "MsgType_String m =
     (if m = MsgType_CtlSubscribe then ''CtlSubscribe''
      else if m = MsgType_CtlStatus then ''CtlStatus''
      else if m = MsgType_CtlAgentCreate then ''CtlAgentCreate''
      else if m = MsgType_CtlAgentDestroy then ''CtlAgentDestroy''
      else if m = MsgType_CtlAgentList then ''CtlAgentList''
      else if m = MsgType_CtlPrompt then ''CtlPrompt''
      else if m = MsgType_CtlApproval then ''CtlApproval''
      else if m = MsgType_CapabilityRequest then ''CapabilityRequest''
      else if m = MsgType_CapabilityResponse then ''CapabilityResponse''
      else if m = MsgType_CompletionEvent then ''CompletionEvent''
      else if m = MsgType_FailureEvent then ''FailureEvent''
      else if m = MsgType_Ping then ''Ping''
      else if m = MsgType_Pong then ''Pong''
      else ''Unknown'')"

subsection \<open>Header\<close>

definition MaxIDLen :: u64 where
  "MaxIDLen = 256"

definition MaxHeaderBytes :: nat where
  "MaxHeaderBytes = 600"

record swarm_header =
  h_Version :: u8
  h_Type :: MsgType
  h_FromID :: string
  h_ToID :: string
  h_SeqNo :: u64
  h_PayloadLen :: u32

definition MarshalMUSInto :: "swarm_header \<Rightarrow> bytes \<Rightarrow> bytes" where
  "MarshalMUSInto h b =
     (let b = b @ [h_Version h, h_Type h];
          b = AppendString b (h_FromID h);
          b = AppendString b (h_ToID h);
          b = AppendVarint b (h_SeqNo h);
          b = AppendVarint b (ucast (h_PayloadLen h))
      in b)"

definition MarshalMUS :: "swarm_header \<Rightarrow> bytes" where
  "MarshalMUS h =
     (let b = [] @ [h_Version h, h_Type h];
          b = AppendString b (h_FromID h);
          b = AppendString b (h_ToID h);
          b = AppendVarint b (h_SeqNo h);
          b = AppendVarint b (ucast (h_PayloadLen h))
      in b)"

definition half_read_is_eof :: "go_error \<Rightarrow> go_error" where
  "half_read_is_eof e = (if e = EOF \<or> e = ErrUnexpectedEOF then EOF else e)"

definition UnmarshalMUS :: "swarm_header reads" where
  "UnmarshalMUS =
     rbind (rmap_err half_read_is_eof (read_full 2)) (\<lambda>fixed.
     rbind (rmap_err (Wrap ''from_id: '') (ReadString MaxIDLen)) (\<lambda>fromID.
     rbind (rmap_err (Wrap ''to_id: '') (ReadString MaxIDLen)) (\<lambda>toID.
     rbind (rmap_err (Wrap ''seq_no: '') ReadVarint) (\<lambda>seqNo.
     rbind (rmap_err (Wrap ''payload_len: '') ReadVarint) (\<lambda>payloadLen.
       if of_nat MaxPayloadBytes < payloadLen then rfail ErrPayloadTooLarge
       else rreturn \<lparr>h_Version = fixed ! 0, h_Type = fixed ! 1, h_FromID = fromID, h_ToID = toID,
                     h_SeqNo = seqNo, h_PayloadLen = ucast payloadLen\<rparr>)))))"

definition HeaderSize :: "swarm_header \<Rightarrow> nat" where
  "HeaderSize h =
     2 +
     VarintLen (of_nat (length (h_FromID h))) + length (h_FromID h) +
     VarintLen (of_nat (length (h_ToID h))) + length (h_ToID h) +
     VarintLen (h_SeqNo h) +
     VarintLen (ucast (h_PayloadLen h))"

subsection \<open>Frames\<close>

text \<open>The rewriting of a short payload read: \<open>EOF\<close> and \<open>ErrUnexpectedEOF\<close> become \<open>ErrFrameTruncated\<close>.\<close>

definition short_read_truncated :: "go_error \<Rightarrow> go_error" where
  "short_read_truncated e = (if e = EOF \<or> e = ErrUnexpectedEOF then ErrFrameTruncated else e)"

definition ReadFrame :: "(swarm_header \<times> bytes) reads" where
  "ReadFrame =
     rbind UnmarshalMUS (\<lambda>hdr.
       if h_PayloadLen hdr = 0 then rreturn (hdr, [])
       else rbind (rmap_err short_read_truncated (read_full (unat (h_PayloadLen hdr))))
              (\<lambda>payload. rreturn (hdr, payload)))"

record writer =
  w_out :: bytes
  w_room :: "nat option"
  w_err :: go_error

definition writer_Write :: "writer \<Rightarrow> bytes \<Rightarrow> (nat \<times> go_error option) \<times> writer" where
  "writer_Write w b =
     (case w_room w of
        None \<Rightarrow> ((length b, None), w\<lparr>w_out := w_out w @ b\<rparr>)
      | Some n \<Rightarrow>
          if length b \<le> n
          then ((length b, None), w\<lparr>w_out := w_out w @ b, w_room := Some (n - length b)\<rparr>)
          else ((n, Some (w_err w)), w\<lparr>w_out := w_out w @ take n b, w_room := Some 0\<rparr>))"

definition WriteTo :: "swarm_header \<Rightarrow> writer \<Rightarrow> (nat \<times> go_error option) \<times> writer" where
  "WriteTo h w = (let buf = MarshalMUSInto h [] in writer_Write w buf)"

text \<open>The bytes of a frame; \<open>WriteFrame\<close> hands them to the writer in one call.\<close>

definition frame_bytes :: "swarm_header \<Rightarrow> bytes \<Rightarrow> bytes" where
  "frame_bytes hdr payload =
     (let hdr = hdr\<lparr>h_PayloadLen := of_nat (length payload)\<rparr>;
          encoded = MarshalMUS hdr
      in encoded @ payload)"

definition WriteFrame :: "writer \<Rightarrow> swarm_header \<Rightarrow> bytes \<Rightarrow> go_error option \<times> writer" where
  "WriteFrame w hdr payload =
     (case writer_Write w (frame_bytes hdr payload) of ((n, err), w') \<Rightarrow> (err, w'))"

subsection \<open>Little-endian helpers\<close>

definition PutU32LE :: "bytes \<Rightarrow> u32 \<Rightarrow> bytes outcome" where
  "PutU32LE b v =
     (if length b < 4 then Panic ''index out of range''
      else Val ([ucast v, ucast (drop_bit 8 v), ucast (drop_bit 16 v), ucast (drop_bit 24 v)] @ drop 4 b))"

definition U32LE :: "bytes \<Rightarrow> u32 outcome" where
  "U32LE b =
     (if length b < 4 then Panic ''index out of range''
      else Val (ucast (b ! 0) OR push_bit 8 (ucast (b ! 1)) OR push_bit 16 (ucast (b ! 2))
                OR push_bit 24 (ucast (b ! 3))))"

subsection \<open>The header as a codec\<close>

lemma MarshalMUS_enc:
  "MarshalMUS h = h_Version h # h_Type h # enc_string (h_FromID h) @ enc_string (h_ToID h)
     @ enc_varint (h_SeqNo h) @ enc_varint (ucast (h_PayloadLen h))"
  by (simp add: MarshalMUS_def)

lemma MarshalMUSInto_append: "MarshalMUSInto h b = b @ MarshalMUS h"
  by (simp add: MarshalMUSInto_def MarshalMUS_def)

definition header_wf :: "swarm_header \<Rightarrow> bool" where
  "header_wf h \<longleftrightarrow> length (h_FromID h) \<le> 256 \<and> length (h_ToID h) \<le> 256
     \<and> unat (h_PayloadLen h) \<le> MaxPayloadBytes"

lemma read_full_2 [codec_simps]:
  "read_full 2 (r\<lparr>rd_buf := a # b # rest\<rparr>) = (Val [a, b], r\<lparr>rd_buf := rest\<rparr>)"
  using read_full_append [of "[a, b]" 2 rest r] by simp

lemma UnmarshalMUS_enc [codec_simps]:
  assumes "length (h_FromID h) \<le> 256" and "length (h_ToID h) \<le> 256"
  shows "UnmarshalMUS (r\<lparr>rd_buf := MarshalMUS h @ rest\<rparr>) =
     (if MaxPayloadBytes < unat (h_PayloadLen h) then Err ErrPayloadTooLarge else Val h,
      r\<lparr>rd_buf := rest\<rparr>)"
proof -
  have big: "of_nat MaxPayloadBytes < (ucast (h_PayloadLen h) :: u64) \<longleftrightarrow> MaxPayloadBytes < unat (h_PayloadLen h)"
    by (simp add: word_less_nat_alt MaxPayloadBytes_def)
  have "unat MaxIDLen = 256"
    by (simp add: MaxIDLen_def)
  with assms big show ?thesis
    by (simp add: UnmarshalMUS_def MarshalMUS_enc rbind_def rmap_err_def codec_simps)
qed

lemma local_UnmarshalMUS [local_intros]: "local_reads UnmarshalMUS"
  unfolding UnmarshalMUS_def by (intro local_intros)

lemma local_ReadFrame [local_intros]: "local_reads ReadFrame"
  unfolding ReadFrame_def by (auto intro!: local_intros)

lemma safe_UnmarshalMUS [safe_intros]: "never_panics UnmarshalMUS"
  unfolding UnmarshalMUS_def by (intro safe_intros)

lemma safe_ReadFrame [safe_intros]: "never_panics ReadFrame"
  unfolding ReadFrame_def by (auto intro!: safe_intros)

interpretation header: codec MarshalMUS UnmarshalMUS header_wf
  by unfold_locales (auto simp: UnmarshalMUS_enc header_wf_def local_UnmarshalMUS)

subsection \<open>Size of a header\<close>

lemma HeaderSize_length:
  assumes "length (h_FromID h) < 2 ^ 64" and "length (h_ToID h) < 2 ^ 64"
  shows "length (MarshalMUS h) = HeaderSize h"
  using assms by (simp add: MarshalMUS_enc HeaderSize_def length_enc_string VarintLen_correct)

lemma HeaderSize_bound:
  assumes "header_wf h"
  shows "HeaderSize h \<le> 532"
proof -
  have id_len: "VarintLen (of_nat n) \<le> 2" if "n \<le> 256" for n
    using that by (intro VarintLen_less) (simp_all add: unat_of_nat_u64)
  have "VarintLen (ucast (h_PayloadLen h)) \<le> 4"
    using assms by (intro VarintLen_less) (simp_all add: header_wf_def MaxPayloadBytes_def)
  moreover have "VarintLen (h_SeqNo h) \<le> 10"
    using VarintLen_bounds by blast
  moreover have "VarintLen (of_nat (length (h_FromID h))) + length (h_FromID h) \<le> 258"
    "VarintLen (of_nat (length (h_ToID h))) + length (h_ToID h) \<le> 258"
    using assms id_len [of "length (h_FromID h)"] id_len [of "length (h_ToID h)"]
    by (auto simp: header_wf_def)
  ultimately show ?thesis
    unfolding HeaderSize_def by linarith
qed

subsection \<open>The frame as a codec\<close>

definition frame_wf :: "swarm_header \<times> bytes \<Rightarrow> bool" where
  "frame_wf f \<longleftrightarrow> length (h_FromID (fst f)) \<le> 256 \<and> length (h_ToID (fst f)) \<le> 256
     \<and> length (snd f) \<le> MaxPayloadBytes \<and> h_PayloadLen (fst f) = of_nat (length (snd f))"

lemma h_PayloadLen_u32:
  "length p \<le> MaxPayloadBytes \<Longrightarrow> unat (of_nat (length p) :: u32) = length p"
  by (rule unat_of_nat_u32) (simp add: MaxPayloadBytes_def)

lemma ReadFrame_frame_bytes [codec_simps]:
  assumes "length (h_FromID hdr) \<le> 256" and "length (h_ToID hdr) \<le> 256"
    and "length payload \<le> MaxPayloadBytes"
  shows "ReadFrame (r\<lparr>rd_buf := frame_bytes hdr payload @ rest\<rparr>)
    = (Val (hdr\<lparr>h_PayloadLen := of_nat (length payload)\<rparr>, payload), r\<lparr>rd_buf := rest\<rparr>)"
proof -
  note len = h_PayloadLen_u32 [OF assms(3)]
  have zero: "(of_nat (length payload) :: u32) = 0 \<longleftrightarrow> payload = []"
    using len by (simp only: unat_eq_zero [symmetric] length_0_conv)
  have "UnmarshalMUS (r\<lparr>rd_buf := frame_bytes hdr payload @ rest\<rparr>)
      = (Val (hdr\<lparr>h_PayloadLen := of_nat (length payload)\<rparr>), r\<lparr>rd_buf := payload @ rest\<rparr>)"
    using assms len UnmarshalMUS_enc [of "hdr\<lparr>h_PayloadLen := of_nat (length payload)\<rparr>" "payload @ rest" r]
    by (simp add: frame_bytes_def)
  then show ?thesis
    using len zero by (simp add: ReadFrame_def rbind_def rmap_err_def read_full_append)
qed

lemma frame_wf_id: "frame_wf f \<Longrightarrow> (fst f)\<lparr>h_PayloadLen := of_nat (length (snd f))\<rparr> = fst f"
  by (cases "fst f") (simp add: frame_wf_def)

interpretation frame: codec "\<lambda>f. frame_bytes (fst f) (snd f)" ReadFrame frame_wf
proof unfold_locales
  fix f :: "swarm_header \<times> bytes" and r :: reader and rest :: bytes
  assume "frame_wf f"
  then show "ReadFrame (r\<lparr>rd_buf := frame_bytes (fst f) (snd f) @ rest\<rparr>) = (Val f, r\<lparr>rd_buf := rest\<rparr>)"
    using frame_wf_id [of f] by (cases f) (simp add: ReadFrame_frame_bytes frame_wf_def)
qed (rule local_ReadFrame)

text \<open>A payload above the limit is refused as soon as the header has been read.\<close>

lemma ReadFrame_oversize:
  assumes "length (h_FromID hdr) \<le> 256" and "length (h_ToID hdr) \<le> 256"
    and "MaxPayloadBytes < length payload" and "length payload < 2 ^ 32"
  shows "ReadFrame (r\<lparr>rd_buf := frame_bytes hdr payload @ rest\<rparr>)
    = (Err ErrPayloadTooLarge, r\<lparr>rd_buf := payload @ rest\<rparr>)"
proof -
  have "UnmarshalMUS (r\<lparr>rd_buf := frame_bytes hdr payload @ rest\<rparr>)
      = (Err ErrPayloadTooLarge, r\<lparr>rd_buf := payload @ rest\<rparr>)"
    using assms UnmarshalMUS_enc [of "hdr\<lparr>h_PayloadLen := of_nat (length payload)\<rparr>" "payload @ rest" r]
    by (simp add: frame_bytes_def unat_of_nat_u32)
  then show ?thesis
    by (simp add: ReadFrame_def rbind_def)
qed

lemma ReadFrame_payload_length:
  "ReadFrame r = (Val (hdr, payload), r') \<Longrightarrow> length payload = unat (h_PayloadLen hdr)"
  by (auto simp: ReadFrame_def rbind_eq_Val rmap_err_eq_Val read_full_def split: if_splits)

lemma UnmarshalMUS_limits:
  assumes "UnmarshalMUS r = (Val hdr, r')"
  shows "header_wf hdr" and "length (rd_buf r') + 2 \<le> length (rd_buf r)"
proof -
  from assms obtain fixed fromID toID seqNo payloadLen r1 r2 r3 r4
    where fx: "read_full 2 r = (Val fixed, r1)"
      and fr: "ReadString MaxIDLen r1 = (Val fromID, r2)"
      and to: "ReadString MaxIDLen r2 = (Val toID, r3)"
      and sq: "ReadVarint r3 = (Val seqNo, r4)"
      and pl: "ReadVarint r4 = (Val payloadLen, r')" "\<not> of_nat MaxPayloadBytes < payloadLen"
      and hdr: "hdr = \<lparr>h_Version = fixed ! 0, h_Type = fixed ! 1, h_FromID = fromID, h_ToID = toID,
                     h_SeqNo = seqNo, h_PayloadLen = ucast payloadLen\<rparr>"
    by (auto simp: UnmarshalMUS_def rbind_eq_Val rmap_err_eq_Val split: if_splits)
  have string_len: "length s \<le> 256" if "ReadString MaxIDLen q = (Val s, q')" for s q q'
    using that
    by (auto simp: ReadString_def rbind_eq_Val rmap_err_eq_Val read_full_def MaxIDLen_def
        word_le_nat_alt not_less split: if_splits)
  have "unat payloadLen \<le> MaxPayloadBytes"
    using pl(2) by (simp add: not_less word_le_nat_alt MaxPayloadBytes_def)
  moreover from this have "unat (ucast payloadLen :: u32) = unat payloadLen"
    by (simp add: unsigned_ucast_eq take_bit_nat_eq_self MaxPayloadBytes_def)
  ultimately show "header_wf hdr"
    using string_len [OF fr] string_len [OF to] by (simp add: header_wf_def hdr)
  from fx have "length (rd_buf r1) + 2 \<le> length (rd_buf r)"
    by (auto simp: read_full_def split: if_splits)
  also note local_reads_shrinks [OF local_ReadString fr] local_reads_shrinks [OF local_ReadString to]
    local_reads_shrinks [OF local_ReadVarint sq] local_reads_shrinks [OF local_ReadVarint pl(1)]
  ultimately show "length (rd_buf r') + 2 \<le> length (rd_buf r)"
    by linarith
qed

lemma ReadFrame_limits:
  assumes "ReadFrame r = (Val (hdr, payload), r')"
  shows "header_wf hdr" and "length (rd_buf r') + 2 \<le> length (rd_buf r)"
proof -
  from assms obtain r1 where h: "UnmarshalMUS r = (Val hdr, r1)"
    and p: "h_PayloadLen hdr = 0 \<and> r' = r1
            \<or> read_full (unat (h_PayloadLen hdr)) r1 = (Val payload, r')"
    by (auto simp: ReadFrame_def rbind_eq_Val rmap_err_eq_Val split: if_splits)
  from h show "header_wf hdr"
    by (rule UnmarshalMUS_limits)
  have "length (rd_buf r') \<le> length (rd_buf r1)"
    using p local_reads_shrinks [OF local_read_full, of "unat (h_PayloadLen hdr)" r1 payload r'] by auto
  with UnmarshalMUS_limits(2) [OF h] show "length (rd_buf r') + 2 \<le> length (rd_buf r)"
    by linarith
qed

subsection \<open>Writers\<close>

lemma WriteFrame_ok:
  "w_room w = None \<Longrightarrow> WriteFrame w hdr payload = (None, w\<lparr>w_out := w_out w @ frame_bytes hdr payload\<rparr>)"
  by (simp add: WriteFrame_def writer_Write_def)

lemma U32LE_PutU32LE:
  assumes "PutU32LE b v = Val b'"
  shows "U32LE b' = Val v"
proof -
  from assms have b': "b' = [ucast v, ucast (drop_bit 8 v), ucast (drop_bit 16 v), ucast (drop_bit 24 v)] @ drop 4 b"
    by (auto simp: PutU32LE_def split: if_splits)
  have idx: "24 + (n - 24) = n" if "\<not> n - 16 < 8" for n :: nat
    using that by simp
  have "ucast (ucast v :: u8) OR push_bit 8 (ucast (ucast (drop_bit 8 v) :: u8))
      OR push_bit 16 (ucast (ucast (drop_bit 16 v) :: u8)) OR push_bit 24 (ucast (ucast (drop_bit 24 v) :: u8)) = v"
    by (rule bit_word_eqI) (auto simp: bit_simps, metis idx)
  then show ?thesis
    by (simp add: b' U32LE_def)
qed

subsection \<open>Properties\<close>

text \<open>
  C28: Reading a stream that starts with the bytes of a list of well-formed frames gives exactly
  those frames back, header and payload, and leaves the reader at the first byte after them.
\<close>

theorem frame_stream_roundtrip:
  assumes "\<forall>f\<in>set fs. frame_wf f"
  shows "read_many (length fs) ReadFrame
      (r\<lparr>rd_buf := concat (map (\<lambda>f. frame_bytes (fst f) (snd f)) fs) @ rest\<rparr>)
    = (Val fs, r\<lparr>rd_buf := rest\<rparr>)"
  by (rule frame.read_many_concat) (use assms in auto)

theorem frame_stream_roundtrip_witness:
  "\<exists>fs. fs \<noteq> [] \<and> read_many (length fs) ReadFrame
      (bytes_NewReader [] \<lparr>rd_buf := concat (map (\<lambda>f. frame_bytes (fst f) (snd f)) fs) @ [255]\<rparr>)
    = (Val fs, bytes_NewReader [] \<lparr>rd_buf := [255]\<rparr>)"
proof -
  let ?h = "\<lparr>h_Version = 1, h_Type = 0x10, h_FromID = ''a'', h_ToID = ''b'', h_SeqNo = 300, h_PayloadLen = 2\<rparr>"
  have "\<forall>f\<in>set [(?h, [1, 2]), (?h\<lparr>h_PayloadLen := 0\<rparr>, [])]. frame_wf f"
    by (simp add: frame_wf_def MaxPayloadBytes_def)
  from frame_stream_roundtrip [OF this, of "[255]" "bytes_NewReader []"] show ?thesis
    by (intro exI [of _ "[(?h, [1, 2]), (?h\<lparr>h_PayloadLen := 0\<rparr>, [])]"]) simp
qed

text \<open>
  A reader that has only part of a frame's bytes never returns a frame: no proper prefix of
  a well-formed frame decodes.
\<close>

theorem frame_truncation_detected:
  assumes "frame_wf (hdr, payload)" and "strict_prefix b (frame_bytes hdr payload)"
  shows "\<not> is_val (fst (ReadFrame (bytes_NewReader b)))"
  using frame.dec_truncated [of "(hdr, payload)" b "bytes_NewReader b"] assms
  by (simp add: bytes_NewReader_def)

theorem frame_truncation_detected_witness:
  "\<not> is_val (fst (ReadFrame (bytes_NewReader [1, 0x10, 1, 97])))"
proof (rule frame_truncation_detected)
  let ?h = "\<lparr>h_Version = 1, h_Type = 0x10, h_FromID = ''a'', h_ToID = '''', h_SeqNo = 0, h_PayloadLen = 0\<rparr>"
  show "frame_wf (?h, [])"
    by (simp add: frame_wf_def)
  show "strict_prefix [1, 0x10, 1, 97] (frame_bytes ?h [])"
    by (simp add: frame_bytes_def MarshalMUS_enc enc_string_def enc_varint_rec [of 0] enc_varint_rec [of 1]
        bytes_of_def byte_of_char_def strict_prefix_def word_le_nat_alt)
qed

text \<open>
  \<open>HeaderSize\<close>, which computes without encoding what the router charges to the rate limiter,
  is the length of the encoded header, and a header the decoder accepts is smaller than the
  fixed buffer of \<open>MaxHeaderBytes\<close>.
\<close>

theorem header_size_exact:
  assumes "header_wf h"
  shows "HeaderSize h = length (MarshalMUS h) \<and> HeaderSize h < MaxHeaderBytes"
  using assms HeaderSize_length [of h] HeaderSize_bound [of h]
  by (simp add: header_wf_def MaxHeaderBytes_def)

theorem header_size_exact_witness:
  "HeaderSize \<lparr>h_Version = 1, h_Type = 0x10, h_FromID = replicate 200 (CHR ''x''), h_ToID = ''b'',
     h_SeqNo = 300, h_PayloadLen = 2\<rparr> < MaxHeaderBytes"
  using header_size_exact [of "\<lparr>h_Version = 1, h_Type = 0x10, h_FromID = replicate 200 (CHR ''x''),
      h_ToID = ''b'', h_SeqNo = 300, h_PayloadLen = 2\<rparr>"]
  by (simp add: header_wf_def MaxPayloadBytes_def)

lemma ReadFrame_one:
  assumes "length (h_FromID hdr) \<le> 256" and "length (h_ToID hdr) \<le> 256" and "length payload \<le> MaxPayloadBytes"
  shows "fst (ReadFrame (bytes_NewReader (frame_bytes hdr payload))) = Val (hdr\<lparr>h_PayloadLen := of_nat (length payload)\<rparr>, payload)"
  using ReadFrame_frame_bytes [OF assms, where r = "bytes_NewReader []" and rest = "[]"]
  by (simp add: bytes_NewReader_def)

end
