(* ===== verification/Router.thy ===== *)
theory Router
  imports Codec
begin

text \<open>
  The MUS router: \<open>internal/switchboard/router.go\<close> and \<open>seq.go\<close>.

  \<open>limiter\<close>, \<open>pipe\<close>, \<open>frame\<close>, \<open>security_event\<close> and \<open>router\<close> are the Go structs.  A pipe's reader,
  limiter and last sequence number are touched by its read loop only, its writer by \<open>Send\<close>
  only, so the loop is modelled on the pipe value and \<open>Send\<close> on the router's map.

  One iteration of \<open>readLoop\<close> is \<open>read_step\<close>; it yields the loop's next move and the calls it
  makes, in order: \<open>Emit\<close> for \<open>r.emit\<close>, \<open>Deliver\<close> for \<open>r.dispatch\<close>.  The clock and the
  cancellation of the context are inputs (\<open>tick\<close>): \<open>t_clock i\<close> is the iteration's \<open>i\<close>-th reading
  of \<open>time.Now\<close>, in program order, in nanoseconds.  Every frame consumes input, so \<open>read_loop\<close>
  is a total function of the bytes in the pipe.  Log output is left out.

  The text of an event quotes identities with \<open>%q\<close>; how Go quotes a string is the argument
  \<open>quote\<close>, which nothing depends on.
\<close>

subsection \<open>Sequence numbers (seq.go)\<close>

record seq_counter =
  sc_n :: u64

definition SeqCounter_Next :: "seq_counter \<Rightarrow> u64 \<times> seq_counter" where
  "SeqCounter_Next s = (sc_n s + 1, s\<lparr>sc_n := sc_n s + 1\<rparr>)"

subsection \<open>Rate limiter\<close>

record limiter =
  l_windowStart :: int
  l_bytesInWindow :: u64
  l_limitPerSec :: u64

definition time_Second :: int where
  "time_Second = 1000000000"

definition NewByteRateLimiter :: "int \<Rightarrow> u64 \<Rightarrow> limiter" where
  "NewByteRateLimiter now bytesPerSec =
     \<lparr>l_windowStart = now, l_bytesInWindow = 0, l_limitPerSec = bytesPerSec\<rparr>"

definition Allow :: "int \<Rightarrow> u64 \<Rightarrow> limiter \<Rightarrow> bool \<times> limiter" where
  "Allow now n l =
     (let l = (if time_Second \<le> now - l_windowStart l
               then l\<lparr>l_windowStart := now, l_bytesInWindow := 0\<rparr> else l);
          l = l\<lparr>l_bytesInWindow := l_bytesInWindow l + n\<rparr>
      in (l_bytesInWindow l \<le> l_limitPerSec l, l))"

subsection \<open>Pipes, frames and events\<close>

record pipe =
  p_AgentID :: string
  p_Reader :: reader
  p_Writer :: writer
  p_Limiter :: "limiter option"
  p_lastSeqNo :: u64

record frame =
  f_Header :: swarm_header
  f_Payload :: bytes

record security_event =
  se_Time :: int
  se_AgentID :: string
  se_Kind :: string
  se_Detail :: string

datatype router_action = Emit security_event | Deliver frame

datatype loop_move = Exit | NextFrame

record tick =
  t_done :: bool
  t_clock :: "nat \<Rightarrow> int"

definition Allow_opt :: "int \<Rightarrow> u64 \<Rightarrow> limiter option \<Rightarrow> bool \<times> limiter option" where
  "Allow_opt now n lo =
     (case lo of
        None \<Rightarrow> (True, None)
      | Some l \<Rightarrow> (case Allow now n l of (ok, l') \<Rightarrow> (ok, Some l')))"

text \<open>The part of an iteration that follows a decoded frame: identity, sequence number, rate.\<close>

definition accept_frame ::
  "(string \<Rightarrow> string) \<Rightarrow> tick \<Rightarrow> pipe \<Rightarrow> swarm_header \<Rightarrow> bytes \<Rightarrow> pipe \<times> router_action list"
where
  "accept_frame quote t p hdr payload =
     (let stamped =
            (if h_FromID hdr \<noteq> p_AgentID p
             then [Emit \<lparr>se_Time = t_clock t 2, se_AgentID = p_AgentID p, se_Kind = ''identity_overwrite'',
                         se_Detail = ''claimed '' @ quote (h_FromID hdr) @ '', overwritten to ''
                                     @ quote (p_AgentID p)\<rparr>]
             else []);
          hdr = hdr\<lparr>h_FromID := p_AgentID p\<rparr>;
          prev = p_lastSeqNo p
      in if h_SeqNo hdr \<le> prev \<and> 0 < prev
         then (p, stamped @
                 [Emit \<lparr>se_Time = t_clock t 3, se_AgentID = p_AgentID p, se_Kind = ''seq_no_rewind'',
                        se_Detail = ''seq '' @ show_nat (unat (h_SeqNo hdr)) @ '' <= prev ''
                                    @ show_nat (unat prev) @ ''; frame dropped''\<rparr>])
         else
           let p = p\<lparr>p_lastSeqNo := h_SeqNo hdr\<rparr>;
               frameBytes = of_nat (HeaderSize hdr) + ucast (h_PayloadLen hdr)
           in case Allow_opt (t_clock t 4) frameBytes (p_Limiter p) of (ok, lim) \<Rightarrow>
                let p = p\<lparr>p_Limiter := lim\<rparr>
                in if \<not> ok
                   then (p, stamped @
                           [Emit \<lparr>se_Time = t_clock t 5, se_AgentID = p_AgentID p, se_Kind = ''pipe_flood'',
                                  se_Detail = ''frame '' @ show_nat (unat frameBytes)
                                              @ '' bytes exceeds window budget''\<rparr>])
                   else (p, stamped @ [Deliver \<lparr>f_Header = hdr, f_Payload = payload\<rparr>]))"

definition read_step ::
  "(string \<Rightarrow> string) \<Rightarrow> tick \<Rightarrow> pipe \<Rightarrow> loop_move \<times> pipe \<times> router_action list"
where
  "read_step quote t p =
     (if t_done t then (Exit, p, [])
      else if length (rd_buf (p_Reader p)) < 2 then (Exit, p, [])
      else case Allow_opt (t_clock t 0) 2 (p_Limiter p) of (ok, lim) \<Rightarrow>
        let p = p\<lparr>p_Limiter := lim\<rparr>
        in if \<not> ok
           then (Exit, p\<lparr>p_Reader := (p_Reader p)\<lparr>rd_buf := []\<rparr>\<rparr>,
                 [Emit \<lparr>se_Time = t_clock t 1, se_AgentID = p_AgentID p, se_Kind = ''pipe_flood'',
                        se_Detail = ''byte-rate limit exceeded; draining connection''\<rparr>])
           else case ReadFrame (p_Reader p) of
               (Val (hdr, payload), rd) \<Rightarrow>
                 (case accept_frame quote t (p\<lparr>p_Reader := rd\<rparr>) hdr payload of
                    (p', acts) \<Rightarrow> (NextFrame, p', acts))
             | (Err e, rd) \<Rightarrow> (Exit, p\<lparr>p_Reader := rd\<rparr>, [])
             | (Panic m, rd) \<Rightarrow> (Exit, p\<lparr>p_Reader := rd\<rparr>, []))"

lemma accept_frame_reader: "p_Reader (fst (accept_frame quote t p hdr payload)) = p_Reader p"
  by (simp add: accept_frame_def Let_def split: prod.splits)

lemma read_step_consumes:
  assumes "read_step quote t p = (NextFrame, p', acts)"
  shows "length (rd_buf (p_Reader p')) < length (rd_buf (p_Reader p))"
proof -
  from assms obtain lim hdr payload rd where
    rf: "ReadFrame (p_Reader p) = (Val (hdr, payload), rd)" and
    af: "accept_frame quote t (p\<lparr>p_Limiter := lim, p_Reader := rd\<rparr>) hdr payload = (p', acts)"
    by (auto simp: read_step_def Let_def split: if_splits prod.splits outcome.splits)
  have "p_Reader p' = rd"
    using accept_frame_reader [of quote t "p\<lparr>p_Limiter := lim, p_Reader := rd\<rparr>" hdr payload] af by simp
  with ReadFrame_limits(2) [OF rf] show ?thesis by simp
qed

function read_loop ::
  "(string \<Rightarrow> string) \<Rightarrow> (nat \<Rightarrow> tick) \<Rightarrow> nat \<Rightarrow> pipe \<Rightarrow> pipe \<times> router_action list"
where
  "read_loop quote ticks k p =
     (case read_step quote (ticks k) p of
        (Exit, p', acts) \<Rightarrow> (p', acts)
      | (NextFrame, p', acts) \<Rightarrow>
          (case read_loop quote ticks (Suc k) p' of (p'', acts') \<Rightarrow> (p'', acts @ acts')))"
  by pat_completeness auto

termination read_loop
  by (relation "measure (\<lambda>(quote, ticks, k, p). length (rd_buf (p_Reader p)))")
     (auto intro: read_step_consumes [OF sym])

declare read_loop.simps [simp del]

subsection \<open>The router's pipes\<close>

record router =
  r_pipes :: "string \<rightharpoonup> pipe"

definition NewRouter :: router where
  "NewRouter = \<lparr>r_pipes = Map.empty\<rparr>"

definition AddPipe :: "pipe \<Rightarrow> router \<Rightarrow> router" where
  "AddPipe p r = r\<lparr>r_pipes := (r_pipes r)(p_AgentID p \<mapsto> p)\<rparr>"

definition RemovePipe :: "string \<Rightarrow> router \<Rightarrow> router" where
  "RemovePipe agentID r = r\<lparr>r_pipes := (r_pipes r)(agentID := None)\<rparr>"

definition Send ::
  "(string \<Rightarrow> string) \<Rightarrow> string \<Rightarrow> swarm_header \<Rightarrow> bytes \<Rightarrow> router \<Rightarrow> go_error option \<times> router"
where
  "Send quote toID hdr payload r =
     (case r_pipes r toID of
        None \<Rightarrow> (Some (OtherError (''router: no pipe registered for '' @ quote toID)), r)
      | Some p \<Rightarrow>
          (case WriteFrame (p_Writer p) hdr payload of
             (err, w) \<Rightarrow> (err, r\<lparr>r_pipes := (r_pipes r)(toID \<mapsto> p\<lparr>p_Writer := w\<rparr>)\<rparr>)))"

text \<open>\<open>dispatch\<close>: every registered handler is called, in registration order.\<close>

definition dispatch :: "(frame \<Rightarrow> 's \<Rightarrow> 's) list \<Rightarrow> frame \<Rightarrow> 's \<Rightarrow> 's" where
  "dispatch handlers f s = fold (\<lambda>h s. h f s) handlers s"

definition RegisterHandler :: "(frame \<Rightarrow> 's \<Rightarrow> 's) \<Rightarrow> (frame \<Rightarrow> 's \<Rightarrow> 's) list \<Rightarrow> (frame \<Rightarrow> 's \<Rightarrow> 's) list" where
  "RegisterHandler h handlers = handlers @ [h]"

text \<open>\<open>emit\<close>: the security sink, when there is one.\<close>

definition emit :: "(security_event \<Rightarrow> 's \<Rightarrow> 's) option \<Rightarrow> security_event \<Rightarrow> 's \<Rightarrow> 's" where
  "emit securitySink ev s = (case securitySink of None \<Rightarrow> s | Some sink \<Rightarrow> sink ev s)"

text \<open>The calls of a read loop, made in order on the handlers' state.\<close>

fun run_actions ::
  "(frame \<Rightarrow> 's \<Rightarrow> 's) list \<Rightarrow> (security_event \<Rightarrow> 's \<Rightarrow> 's) option \<Rightarrow> router_action list \<Rightarrow> 's \<Rightarrow> 's"
where
  "run_actions handlers sink [] s = s"
| "run_actions handlers sink (Emit ev # as) s = run_actions handlers sink as (emit sink ev s)"
| "run_actions handlers sink (Deliver f # as) s = run_actions handlers sink as (dispatch handlers f s)"

subsection \<open>What an iteration does\<close>

fun delivered :: "router_action list \<Rightarrow> frame list" where
  "delivered [] = []"
| "delivered (Deliver f # as) = f # delivered as"
| "delivered (Emit e # as) = delivered as"

fun emitted :: "router_action list \<Rightarrow> security_event list" where
  "emitted [] = []"
| "emitted (Deliver f # as) = emitted as"
| "emitted (Emit e # as) = e # emitted as"

lemma delivered_append [simp]: "delivered (as @ bs) = delivered as @ delivered bs"
  by (induction as rule: delivered.induct) simp_all

lemma emitted_append [simp]: "emitted (as @ bs) = emitted as @ emitted bs"
  by (induction as rule: emitted.induct) simp_all

definition stamp :: "string \<Rightarrow> swarm_header \<Rightarrow> swarm_header" where
  "stamp agentID hdr = hdr\<lparr>h_FromID := agentID\<rparr>"

definition charge :: "swarm_header \<Rightarrow> u64" where
  "charge hdr = of_nat (HeaderSize hdr) + ucast (h_PayloadLen hdr)"

text \<open>The three fates of a decoded frame.\<close>

lemma accept_frame_cases:
  assumes "accept_frame quote t p hdr payload = (p', acts)"
  obtains
    (rewind) "h_SeqNo hdr \<le> p_lastSeqNo p" "0 < p_lastSeqNo p" "p' = p" "delivered acts = []"
  | (flood) lim where "\<not> (h_SeqNo hdr \<le> p_lastSeqNo p \<and> 0 < p_lastSeqNo p)"
      "Allow_opt (t_clock t 4) (charge (stamp (p_AgentID p) hdr)) (p_Limiter p) = (False, lim)"
      "p' = p\<lparr>p_lastSeqNo := h_SeqNo hdr, p_Limiter := lim\<rparr>" "delivered acts = []"
  | (deliver) lim where "\<not> (h_SeqNo hdr \<le> p_lastSeqNo p \<and> 0 < p_lastSeqNo p)"
      "Allow_opt (t_clock t 4) (charge (stamp (p_AgentID p) hdr)) (p_Limiter p) = (True, lim)"
      "p' = p\<lparr>p_lastSeqNo := h_SeqNo hdr, p_Limiter := lim\<rparr>"
      "delivered acts = [\<lparr>f_Header = stamp (p_AgentID p) hdr, f_Payload = payload\<rparr>]"
  using assms
  by (auto simp: accept_frame_def Let_def charge_def stamp_def split: if_splits prod.splits)

lemma read_step_Exit_delivers_nothing:
  "read_step quote t p = (Exit, p', acts) \<Longrightarrow> delivered acts = []"
  by (auto simp: read_step_def Let_def split: if_splits prod.splits outcome.splits)

lemma read_step_NextFrame:
  assumes "read_step quote t p = (NextFrame, p', acts)"
  obtains lim hdr payload rd where
    "Allow_opt (t_clock t 0) 2 (p_Limiter p) = (True, lim)"
    "ReadFrame (p_Reader p) = (Val (hdr, payload), rd)"
    "accept_frame quote t (p\<lparr>p_Limiter := lim, p_Reader := rd\<rparr>) hdr payload = (p', acts)"
  using assms by (auto simp: read_step_def Let_def split: if_splits prod.splits outcome.splits)

text \<open>
  Properties of a whole run are proved by this rule: a fact that every run ending at once has,
  and that one more iteration in front preserves.
\<close>

lemma read_loop_induct [case_names exit step]:
  assumes "\<And>k p p' acts. read_step quote (ticks k) p = (Exit, p', acts) \<Longrightarrow> P k p (p', acts)"
    and "\<And>k p p' acts. read_step quote (ticks k) p = (NextFrame, p', acts) \<Longrightarrow>
           P (Suc k) p' (read_loop quote ticks (Suc k) p') \<Longrightarrow>
           P k p (fst (read_loop quote ticks (Suc k) p'), acts @ snd (read_loop quote ticks (Suc k) p'))"
  shows "P k p (read_loop quote ticks k p)"
proof (induction "length (rd_buf (p_Reader p))" arbitrary: k p rule: less_induct)
  case less
  obtain m p' acts where st: "read_step quote (ticks k) p = (m, p', acts)"
    by (cases "read_step quote (ticks k) p")
  show ?case
  proof (cases m)
    case Exit
    with st assms(1) show ?thesis
      by (simp add: read_loop.simps [of quote ticks k p])
  next
    case NextFrame
    with st have "P (Suc k) p' (read_loop quote ticks (Suc k) p')"
      by (intro less) (auto intro: read_step_consumes)
    with st NextFrame have "P k p (fst (read_loop quote ticks (Suc k) p'), acts @ snd (read_loop quote ticks (Suc k) p'))"
      by (intro assms(2)) simp_all
    with st NextFrame show ?thesis
      by (simp add: read_loop.simps [of quote ticks k p] case_prod_unfold)
  qed
qed

subsection \<open>Identity and sequence numbers\<close>

lemma accept_frame_pipe:
  "accept_frame quote t p hdr payload = (p', acts) \<Longrightarrow> p_AgentID p' = p_AgentID p"
  by (erule accept_frame_cases) simp_all

lemma read_step_AgentID: "read_step quote t p = (m, p', acts) \<Longrightarrow> p_AgentID p' = p_AgentID p"
  by (auto simp: read_step_def Let_def dest: accept_frame_pipe split: if_splits prod.splits outcome.splits)

lemma read_loop_identity:
  "\<forall>f\<in>set (delivered (snd (read_loop quote ticks k p))). h_FromID (f_Header f) = p_AgentID p"
proof (induction rule: read_loop_induct [where P = "\<lambda>k p res. \<forall>f\<in>set (delivered (snd res)).
      h_FromID (f_Header f) = p_AgentID p" and quote = quote and ticks = ticks])
  case (exit k p p' acts)
  then show ?case by (simp add: read_step_Exit_delivers_nothing)
next
  case (step k p p' acts)
  have "\<forall>f\<in>set (delivered acts). h_FromID (f_Header f) = p_AgentID p"
    using step(1) by (elim read_step_NextFrame accept_frame_cases) (auto simp: stamp_def)
  with step read_step_AgentID [OF step(1)] show ?case by auto
qed

text \<open>
  The order in which sequence numbers may appear: each greater than the one before, except
  that zeros may repeat at the front.
\<close>

definition seq_order :: "u64 \<Rightarrow> u64 \<Rightarrow> bool" where
  "seq_order a b \<longleftrightarrow> a < b \<or> a = 0 \<and> b = 0"

definition seqs :: "frame list \<Rightarrow> u64 list" where
  "seqs fs = map (h_SeqNo \<circ> f_Header) fs"

lemma seqs_simps [simp]: "seqs [] = []" "seqs (f # fs) = h_SeqNo (f_Header f) # seqs fs"
  "seqs (fs @ gs) = seqs fs @ seqs gs"
  by (simp_all add: seqs_def)

lemma seq_order_iff: "seq_order a b \<longleftrightarrow> \<not> (b \<le> a \<and> 0 < a)"
  by (auto simp: seq_order_def word_gt_0)

lemma seq_order_trans: "seq_order a b \<Longrightarrow> seq_order b c \<Longrightarrow> seq_order a c"
  by (auto simp: seq_order_def)

lemma read_step_seq:
  assumes "read_step quote t p = (NextFrame, p', acts)"
  obtains "p_lastSeqNo p' = p_lastSeqNo p" "delivered acts = []"
  | "seq_order (p_lastSeqNo p) (p_lastSeqNo p')" "delivered acts = []"
  | f where "seq_order (p_lastSeqNo p) (p_lastSeqNo p')" "delivered acts = [f]"
      "h_SeqNo (f_Header f) = p_lastSeqNo p'"
  using assms
  by (elim read_step_NextFrame accept_frame_cases) (auto simp: seq_order_iff stamp_def)

lemma read_loop_seq:
  "sorted_wrt seq_order (p_lastSeqNo p # seqs (delivered (snd (read_loop quote ticks k p))))"
proof (induction rule: read_loop_induct [where P = "\<lambda>k p res. sorted_wrt seq_order
      (p_lastSeqNo p # seqs (delivered (snd res)))" and quote = quote and ticks = ticks])
  case (exit k p p' acts)
  then show ?case by (simp add: read_step_Exit_delivers_nothing)
next
  case (step k p p' acts)
  from step(1) show ?case
    by (cases rule: read_step_seq) (use step(2) in \<open>auto intro: seq_order_trans\<close>)
qed

subsection \<open>Byte budget\<close>

definition wire_size :: "frame \<Rightarrow> nat" where
  "wire_size f = HeaderSize (f_Header f) + length (f_Payload f)"

lemma Allow_within:
  assumes "now - l_windowStart l < time_Second"
  shows "Allow now n l = (l_bytesInWindow l + n \<le> l_limitPerSec l, l\<lparr>l_bytesInWindow := l_bytesInWindow l + n\<rparr>)"
  using assms by (simp add: Allow_def Let_def)

lemma unat_plus_nowrap: "unat a + unat b < 2 ^ 64 \<Longrightarrow> unat (a + b) = unat a + unat b" for a b :: u64
  by (simp add: unat_word_ariths)

lemma charge_stamp:
  assumes "header_wf hdr" and "length agentID \<le> 256" and "length payload = unat (h_PayloadLen hdr)"
  shows "unat (charge (stamp agentID hdr)) = wire_size \<lparr>f_Header = stamp agentID hdr, f_Payload = payload\<rparr>"
    and "wire_size \<lparr>f_Header = stamp agentID hdr, f_Payload = payload\<rparr> \<le> 4195000"
proof -
  have "header_wf (stamp agentID hdr)"
    using assms by (simp add: header_wf_def stamp_def)
  then have hs: "HeaderSize (stamp agentID hdr) \<le> 532"
    by (rule HeaderSize_bound)
  have pl: "unat (h_PayloadLen hdr) \<le> 4194304"
    using assms by (simp add: header_wf_def MaxPayloadBytes_def)
  show "wire_size \<lparr>f_Header = stamp agentID hdr, f_Payload = payload\<rparr> \<le> 4195000"
    using hs pl assms(3) by (simp add: wire_size_def)
  have hn: "unat (of_nat (HeaderSize (stamp agentID hdr)) :: u64) = HeaderSize (stamp agentID hdr)"
    using hs by (intro unat_of_nat_u64) simp
  with hs pl have "unat (charge (stamp agentID hdr)) = HeaderSize (stamp agentID hdr) + unat (h_PayloadLen hdr)"
    by (simp add: charge_def unat_plus_nowrap stamp_def)
  with assms(3) show "unat (charge (stamp agentID hdr)) = wire_size \<lparr>f_Header = stamp agentID hdr, f_Payload = payload\<rparr>"
    by (simp add: wire_size_def stamp_def)
qed

text \<open>
  A run whose clock readings all fall in the limiter's current window: together with what the
  window has already been charged, the frames delivered stay within the limit.  The bounds on
  the limit and the starting count exclude wrap-around of the 64-bit counter.
\<close>


definition in_window :: "limiter \<Rightarrow> (nat \<Rightarrow> tick) \<Rightarrow> bool" where
  "in_window l ticks \<longleftrightarrow> (\<forall>k i. t_clock (ticks k) i - l_windowStart l < time_Second)"

definition no_wrap :: "limiter \<Rightarrow> bool" where
  "no_wrap l \<longleftrightarrow> unat (l_limitPerSec l) \<le> 2 ^ 62"

lemma Allow_ok:
  assumes "Allow_opt now n (Some l) = (True, lo)" and "now - l_windowStart l < time_Second"
    and "no_wrap l" and "unat (l_bytesInWindow l) \<le> 2 ^ 63" and "unat n \<le> 2 ^ 62"
  shows "lo = Some (l\<lparr>l_bytesInWindow := l_bytesInWindow l + n\<rparr>)"
    and "unat (l_bytesInWindow l + n) = unat (l_bytesInWindow l) + unat n"
    and "unat (l_bytesInWindow l) + unat n \<le> unat (l_limitPerSec l)"
proof -
  show "lo = Some (l\<lparr>l_bytesInWindow := l_bytesInWindow l + n\<rparr>)"
    using assms(1,2) by (simp add: Allow_opt_def Allow_within)
  show u: "unat (l_bytesInWindow l + n) = unat (l_bytesInWindow l) + unat n"
    using assms by (intro unat_plus_nowrap) simp
  have "l_bytesInWindow l + n \<le> l_limitPerSec l"
    using assms(1,2) by (simp add: Allow_opt_def Allow_within)
  with u show "unat (l_bytesInWindow l) + unat n \<le> unat (l_limitPerSec l)"
    by (simp add: word_le_nat_alt)
qed

definition budget_kept :: "nat \<Rightarrow> pipe \<Rightarrow> (nat \<Rightarrow> tick) \<Rightarrow> frame list \<Rightarrow> bool" where
  "budget_kept k p ticks fs \<longleftrightarrow> (\<forall>l. p_Limiter p = Some l \<longrightarrow> in_window l ticks \<longrightarrow> no_wrap l \<longrightarrow>
     length (p_AgentID p) \<le> 256 \<longrightarrow> unat (l_bytesInWindow l) \<le> 2 ^ 63 \<longrightarrow> fs \<noteq> [] \<longrightarrow>
     unat (l_bytesInWindow l) + (\<Sum>f\<leftarrow>fs. wire_size f) \<le> unat (l_limitPerSec l))"

lemma budget_step:
  assumes st: "read_step quote (ticks k) p = (NextFrame, p', acts)"
    and IH: "budget_kept (Suc k) p' ticks fs"
  shows "budget_kept k p ticks (delivered acts @ fs)"
  unfolding budget_kept_def
proof (intro allI impI)
  fix l
  assume l: "p_Limiter p = Some l" "in_window l ticks" "no_wrap l" "length (p_AgentID p) \<le> 256"
    "unat (l_bytesInWindow l) \<le> 2 ^ 63" and ne: "delivered acts @ fs \<noteq> []"
  obtain lim hdr payload rd where
    a: "Allow_opt (t_clock (ticks k) 0) 2 (p_Limiter p) = (True, lim)" and
    rf: "ReadFrame (p_Reader p) = (Val (hdr, payload), rd)" and
    af: "accept_frame quote (ticks k) (p\<lparr>p_Limiter := lim, p_Reader := rd\<rparr>) hdr payload = (p', acts)"
    using st by (rule read_step_NextFrame)
  let ?l = "l\<lparr>l_bytesInWindow := l_bytesInWindow l + 2\<rparr>"
  have w: "t_clock (ticks j) i - l_windowStart l < time_Second" for j i
    using l(2) by (simp add: in_window_def)
  note a2 = Allow_ok [OF a [unfolded l(1)] w l(3,5), simplified]
  have l2: "in_window ?l ticks" "no_wrap ?l" "unat (l_bytesInWindow ?l) \<le> 2 ^ 62"
    using l(2,3) a2(2,3) by (simp_all add: in_window_def no_wrap_def)
  let ?c = "charge (stamp (p_AgentID p) hdr)"
  let ?f = "\<lparr>f_Header = stamp (p_AgentID p) hdr, f_Payload = payload\<rparr>"
  note cs = charge_stamp [OF ReadFrame_limits(1) [OF rf] l(4) ReadFrame_payload_length [OF rf]]
  show "unat (l_bytesInWindow l) + (\<Sum>f\<leftarrow>delivered acts @ fs. wire_size f) \<le> unat (l_limitPerSec l)"
    using af
  proof (cases rule: accept_frame_cases)
    case rewind
    then show ?thesis
      using IH l2 l(4) ne a2 by (fastforce simp: budget_kept_def)
  next
    case (flood lim2)
    have "lim2 = Some (?l\<lparr>l_bytesInWindow := l_bytesInWindow ?l + ?c\<rparr>)"
      using flood(2) w a2(1) by (auto simp: Allow_opt_def Allow_within)
    moreover have "unat (l_bytesInWindow ?l + ?c) = unat (l_bytesInWindow ?l) + unat ?c"
      using l2(3) cs by (intro unat_plus_nowrap) simp
    ultimately show ?thesis
      using IH [unfolded budget_kept_def, rule_format, of "?l\<lparr>l_bytesInWindow := l_bytesInWindow ?l + ?c\<rparr>"]
        flood(3,4) l2 l(4) ne a2(2) cs
      by (simp add: in_window_def no_wrap_def)
  next
    case (deliver lim2)
    have ok: "Allow_opt (t_clock (ticks k) 4) ?c (Some ?l) = (True, lim2)"
      using deliver(2) a2(1) by simp
    have pre: "t_clock (ticks k) 4 - l_windowStart ?l < time_Second" "unat (l_bytesInWindow ?l) \<le> 2 ^ 63" "unat ?c \<le> 2 ^ 62"
      using w l2(3) cs by simp_all
    note a4 = Allow_ok [OF ok pre(1) l2(2) pre(2,3)]
    show ?thesis
    proof (cases "fs = []")
      case True
      then show ?thesis
        using deliver(4) a4(3) a2(2) cs(1) by simp
    next
      case False
      then show ?thesis
        using IH [unfolded budget_kept_def, rule_format, of "?l\<lparr>l_bytesInWindow := l_bytesInWindow ?l + ?c\<rparr>"]
          deliver(3,4) a4 l2 l(4) a2(2) cs
        by (simp add: in_window_def no_wrap_def)
    qed
  qed
qed

lemma read_loop_budget: "budget_kept k p ticks (delivered (snd (read_loop quote ticks k p)))"
proof (induction rule: read_loop_induct [where P = "\<lambda>k p res. budget_kept k p ticks (delivered (snd res))"
    and quote = quote and ticks = ticks])
  case (exit k p p' acts)
  then show ?case by (simp add: read_step_Exit_delivers_nothing budget_kept_def)
next
  case (step k p p' acts)
  then show ?case by (simp add: budget_step)
qed

text \<open>
  The limit holds within one window only.  A window starts at the first call made at least a
  second after the previous one started, so calls on both sides of that moment are each charged
  to a fresh budget: up to twice the limit passes in an arbitrarily short time.
\<close>

lemma Allow_new_window:
  assumes "time_Second \<le> now - l_windowStart l" and "n \<le> l_limitPerSec l"
  shows "Allow now n l = (True, l\<lparr>l_windowStart := now, l_bytesInWindow := n\<rparr>)"
  using assms by (simp add: Allow_def Let_def)

lemma limiter_boundary_burst:
  assumes "l = NewByteRateLimiter t0 lim"
  shows "\<exists>l1 l2. Allow (t0 + time_Second - 1) lim l = (True, l1)
    \<and> Allow (t0 + time_Second) lim l1 = (True, l2)"
  using assms by (simp add: NewByteRateLimiter_def Allow_within Allow_new_window time_Second_def)

lemma limiter_window_bound:
  assumes "Allow now n l = (True, l')"
  shows "l_bytesInWindow l' \<le> l_limitPerSec l \<and> l_limitPerSec l' = l_limitPerSec l"
  using assms by (auto simp: Allow_def Let_def split: if_splits)

subsection \<open>An honest sender\<close>

text \<open>
  The other direction: a sender that uses its own identity and increasing sequence numbers and
  stays within its budget is neither dropped nor reported.
\<close>

definition frame_cost :: "swarm_header \<times> bytes \<Rightarrow> nat" where
  "frame_cost f = 2 + HeaderSize (fst f) + length (snd f)"

definition roomy :: "limiter option \<Rightarrow> (nat \<Rightarrow> tick) \<Rightarrow> (swarm_header \<times> bytes) list \<Rightarrow> bool" where
  "roomy lo ticks fs = (case lo of
     None \<Rightarrow> True
   | Some l \<Rightarrow> in_window l ticks \<and> no_wrap l
       \<and> unat (l_bytesInWindow l) + (\<Sum>f\<leftarrow>fs. frame_cost f) \<le> unat (l_limitPerSec l))"

definition honest :: "pipe \<Rightarrow> (swarm_header \<times> bytes) list \<Rightarrow> bool" where
  "honest p fs \<longleftrightarrow> (\<forall>f\<in>set fs. frame_wf f \<and> h_FromID (fst f) = p_AgentID p)
     \<and> sorted_wrt (<) (p_lastSeqNo p # map (h_SeqNo \<circ> fst) fs)"

lemma Allow_opt_roomy:
  assumes "\<And>l. lo = Some l \<Longrightarrow> now - l_windowStart l < time_Second \<and> no_wrap l
      \<and> unat (l_bytesInWindow l) + m + rest \<le> unat (l_limitPerSec l)"
    and "unat n = m"
  obtains lo' where "Allow_opt now n lo = (True, lo')"
    and "\<And>l'. lo' = Some l' \<Longrightarrow> \<exists>l. lo = Some l \<and> l_windowStart l' = l_windowStart l
      \<and> l_limitPerSec l' = l_limitPerSec l \<and> unat (l_bytesInWindow l') = unat (l_bytesInWindow l) + m"
proof (cases lo)
  case None
  then show ?thesis by (intro that [of None]) (simp_all add: Allow_opt_def)
next
  case (Some l)
  with assms have l: "now - l_windowStart l < time_Second" "no_wrap l"
    "unat (l_bytesInWindow l) + unat n + rest \<le> unat (l_limitPerSec l)"
    by auto
  from l(2,3) have u: "unat (l_bytesInWindow l + n) = unat (l_bytesInWindow l) + unat n"
    by (intro unat_plus_nowrap) (simp add: no_wrap_def)
  with l show ?thesis
    using Some assms(2)
    by (intro that [of "Some (l\<lparr>l_bytesInWindow := l_bytesInWindow l + n\<rparr>)"])
      (auto simp: Allow_opt_def Allow_within word_le_nat_alt)
qed

lemma frame_bytes_length2: "2 \<le> length (frame_bytes hdr payload)"
  by (simp add: frame_bytes_def MarshalMUS_enc)

lemma charge_wf:
  assumes "frame_wf f"
  shows "unat (charge (fst f)) = HeaderSize (fst f) + length (snd f)"
proof -
  have pl: "unat (h_PayloadLen (fst f)) = length (snd f)"
    using assms h_PayloadLen_u32 [of "snd f"] by (simp add: frame_wf_def)
  have h: "header_wf (fst f)"
    using assms pl by (simp add: header_wf_def frame_wf_def)
  have st: "stamp (h_FromID (fst f)) (fst f) = fst f"
    by (cases "fst f") (simp add: stamp_def)
  have "length (h_FromID (fst f)) \<le> 256"
    using assms by (simp add: frame_wf_def)
  from charge_stamp(1) [OF h this pl [symmetric]] st show ?thesis
    by (simp add: wire_size_def)
qed

lemma accept_frame_deliver:
  assumes "h_FromID hdr = p_AgentID p" and "p_lastSeqNo p < h_SeqNo hdr"
    and "Allow_opt (t_clock t 4) (charge hdr) (p_Limiter p) = (True, lim)"
  shows "accept_frame quote t p hdr payload
    = (p\<lparr>p_lastSeqNo := h_SeqNo hdr, p_Limiter := lim\<rparr>, [Deliver \<lparr>f_Header = hdr, f_Payload = payload\<rparr>])"
proof -
  have st: "hdr\<lparr>h_FromID := p_AgentID p\<rparr> = hdr"
    using assms(1) by (cases hdr) simp
  have "\<not> h_SeqNo hdr \<le> p_lastSeqNo p"
    using assms(2) by simp
  with assms(3) show ?thesis
    unfolding accept_frame_def st Let_def charge_def by (simp add: assms(1))
qed

lemma read_step_honest:
  assumes nd: "\<not> t_done (ticks k)"
    and hn: "honest p (f # fs)" and rm: "roomy (p_Limiter p) ticks (f # fs)"
    and buf: "rd_buf (p_Reader p) = frame_bytes (fst f) (snd f) @ rest"
  obtains p' where
    "read_step quote (ticks k) p = (NextFrame, p', [Deliver \<lparr>f_Header = fst f, f_Payload = snd f\<rparr>])"
    "honest p' fs" "roomy (p_Limiter p') ticks fs" "rd_buf (p_Reader p') = rest"
proof -
  from hn have wf: "frame_wf f" and id: "h_FromID (fst f) = p_AgentID p"
    and sq: "p_lastSeqNo p < h_SeqNo (fst f)"
    by (auto simp: honest_def)
  have len: "\<not> length (rd_buf (p_Reader p)) < 2"
    using frame_bytes_length2 [of "fst f" "snd f"] buf by simp
  have rm': "now = t_clock (ticks j) i \<Longrightarrow> p_Limiter p = Some l \<Longrightarrow> now - l_windowStart l < time_Second \<and> no_wrap l
      \<and> unat (l_bytesInWindow l) + 2 + (HeaderSize (fst f) + length (snd f) + (\<Sum>f\<leftarrow>fs. frame_cost f))
          \<le> unat (l_limitPerSec l)" for l now i j
    using rm frame_cost_def [of f] by (auto simp: roomy_def in_window_def)
  obtain l1 where l1: "Allow_opt (t_clock (ticks k) 0) 2 (p_Limiter p) = (True, l1)"
    and l1': "\<And>l'. l1 = Some l' \<Longrightarrow> \<exists>l. p_Limiter p = Some l \<and> l_windowStart l' = l_windowStart l
      \<and> l_limitPerSec l' = l_limitPerSec l \<and> unat (l_bytesInWindow l') = unat (l_bytesInWindow l) + 2"
    proof (rule Allow_opt_roomy [of "p_Limiter p" "t_clock (ticks k) 0" 2
        "HeaderSize (fst f) + length (snd f) + (\<Sum>f\<leftarrow>fs. frame_cost f)" 2])
    show "\<And>l. p_Limiter p = Some l \<Longrightarrow> t_clock (ticks k) 0 - l_windowStart l < time_Second \<and> no_wrap l
      \<and> unat (l_bytesInWindow l) + 2 + (HeaderSize (fst f) + length (snd f) + (\<Sum>f\<leftarrow>fs. frame_cost f))
          \<le> unat (l_limitPerSec l)"
      using rm' by blast
  qed simp_all
  have "\<And>l. l1 = Some l \<Longrightarrow> t_clock (ticks k) 4 - l_windowStart l < time_Second \<and> no_wrap l
      \<and> unat (l_bytesInWindow l) + (HeaderSize (fst f) + length (snd f)) + (\<Sum>f\<leftarrow>fs. frame_cost f)
          \<le> unat (l_limitPerSec l)"
    using l1' rm' by (fastforce simp: no_wrap_def)
  then obtain l2 where l2: "Allow_opt (t_clock (ticks k) 4) (charge (fst f)) l1 = (True, l2)"
    and l2': "\<And>l'. l2 = Some l' \<Longrightarrow> \<exists>l. l1 = Some l \<and> l_windowStart l' = l_windowStart l
      \<and> l_limitPerSec l' = l_limitPerSec l
      \<and> unat (l_bytesInWindow l') = unat (l_bytesInWindow l) + (HeaderSize (fst f) + length (snd f))"
    by (rule Allow_opt_roomy) (use charge_wf [OF wf] in auto)
  have rf: "ReadFrame (p_Reader p) = (Val (fst f, snd f), (p_Reader p)\<lparr>rd_buf := rest\<rparr>)"
    using frame.dec_enc [OF wf, of rest "p_Reader p"] buf by (cases "p_Reader p") simp
  let ?p = "p\<lparr>p_Reader := (p_Reader p)\<lparr>rd_buf := rest\<rparr>, p_lastSeqNo := h_SeqNo (fst f), p_Limiter := l2\<rparr>"
  show ?thesis
  proof (rule that [of ?p])
    have "read_step quote (ticks k) p
      = (case accept_frame quote (ticks k) (p\<lparr>p_Limiter := l1, p_Reader := (p_Reader p)\<lparr>rd_buf := rest\<rparr>\<rparr>) (fst f) (snd f)
         of (p', acts) \<Rightarrow> (NextFrame, p', acts))"
      using nd len l1 rf by (cases f) (simp add: read_step_def Let_def)
    also have "\<dots> = (NextFrame, ?p, [Deliver \<lparr>f_Header = fst f, f_Payload = snd f\<rparr>])"
      using sq id l2 by (subst accept_frame_deliver [where lim = l2]) simp_all
    finally show "read_step quote (ticks k) p = (NextFrame, ?p, [Deliver \<lparr>f_Header = fst f, f_Payload = snd f\<rparr>])" .
    show "honest ?p fs"
      using hn by (auto simp: honest_def)
    show "roomy (p_Limiter ?p) ticks fs"
    proof (cases l2)
      case None
      then show ?thesis by (simp add: roomy_def)
    next
      case (Some l')
      then obtain l where l: "p_Limiter p = Some l" "l_windowStart l' = l_windowStart l"
        "l_limitPerSec l' = l_limitPerSec l"
        "unat (l_bytesInWindow l') = unat (l_bytesInWindow l) + 2 + (HeaderSize (fst f) + length (snd f))"
        using l2' l1' by fastforce
      with rm Some show ?thesis
        using frame_cost_def [of f] by (simp add: roomy_def in_window_def no_wrap_def)
    qed
    show "rd_buf (p_Reader ?p) = rest" by simp
  qed
qed

lemma read_loop_honest:
  assumes "\<forall>k. \<not> t_done (ticks k)" and "honest p fs" and "roomy (p_Limiter p) ticks fs"
    and "rd_buf (p_Reader p) = concat (map (\<lambda>f. frame_bytes (fst f) (snd f)) fs)"
  shows "snd (read_loop quote ticks k p) = map (\<lambda>f. Deliver \<lparr>f_Header = fst f, f_Payload = snd f\<rparr>) fs"
  using assms(2-)
proof (induction fs arbitrary: k p)
  case Nil
  then show ?case
    by (simp add: read_loop.simps [of quote ticks k p] read_step_def)
next
  case (Cons f fs)
  obtain p' where p': "read_step quote (ticks k) p = (NextFrame, p', [Deliver \<lparr>f_Header = fst f, f_Payload = snd f\<rparr>])"
    "honest p' fs" "roomy (p_Limiter p') ticks fs"
    "rd_buf (p_Reader p') = concat (map (\<lambda>f. frame_bytes (fst f) (snd f)) fs)"
    by (rule read_step_honest [OF _ Cons.prems(1,2), of k]) (use assms(1) Cons.prems(3) in auto)
  with Cons.IH [of p' "Suc k"] show ?case
    by (simp add: read_loop.simps [of quote ticks k p] case_prod_unfold)
qed

text \<open>A frame that is dropped for its rate has already moved the sequence number.\<close>

lemma flood_advances_seq:
  assumes "accept_frame quote t p hdr payload = (p', acts)" and "delivered acts = []"
    and "p_lastSeqNo p < h_SeqNo hdr"
  shows "p_lastSeqNo p' = h_SeqNo hdr"
  using assms by (elim accept_frame_cases) auto

text \<open>While the last sequence number is zero, frames numbered zero are never a replay.\<close>

lemma zero_seq_accepted:
  assumes "p_lastSeqNo p = 0" and "h_SeqNo hdr = 0" and "p_Limiter p = None"
    and "accept_frame quote t p hdr payload = (p', acts)"
  shows "delivered acts = [\<lparr>f_Header = stamp (p_AgentID p) hdr, f_Payload = payload\<rparr>] \<and> p' = p"
  using assms by (cases p) (auto simp: accept_frame_def Let_def Allow_opt_def stamp_def)

subsection \<open>Sending\<close>

interpretation pipes: keyed_store r_pipes p_AgentID AddPipe RemovePipe
  by unfold_locales (simp_all add: AddPipe_def RemovePipe_def)

lemma Send_unknown:
  "r_pipes r toID = None \<Longrightarrow>
     Send quote toID hdr payload r = (Some (OtherError (''router: no pipe registered for '' @ quote toID)), r)"
  by (simp add: Send_def)

lemma Send_other: "toID \<noteq> a \<Longrightarrow> r_pipes (snd (Send quote toID hdr payload r)) a = r_pipes r a"
  by (auto simp: Send_def split: option.splits prod.splits)

lemma Send_well_keyed: "pipes.well_keyed r \<Longrightarrow> pipes.well_keyed (snd (Send quote toID hdr payload r))"
  by (auto simp: pipes.well_keyed_def Send_def split: option.splits prod.splits if_splits)

lemma Send_registered:
  assumes "r_pipes r toID = Some p" and "w_room (p_Writer p) = None"
  shows "Send quote toID hdr payload r
    = (None, r\<lparr>r_pipes := (r_pipes r)(toID \<mapsto> p\<lparr>p_Writer := (p_Writer p)\<lparr>w_out := w_out (p_Writer p) @ frame_bytes hdr payload\<rparr>\<rparr>)\<rparr>)"
  using assms by (simp add: Send_def WriteFrame_ok)

lemma dispatch_append: "dispatch (hs @ hs') f s = dispatch hs' f (dispatch hs f s)"
  by (simp add: dispatch_def)

subsection \<open>Properties\<close>

text \<open>
  C2: Whatever bytes a Ward writes to its pipe, every frame the router hands to its handlers
  carries the pipe's own identity as \<open>FromID\<close>, and the sequence numbers delivered increase
  strictly from the pipe's last one on (zeros may repeat while the last number is still zero).
\<close>

theorem router_stamps_and_orders:
  "(let ds = delivered (snd (read_loop quote ticks k p))
    in map (h_FromID \<circ> f_Header) ds = replicate (length ds) (p_AgentID p)
       \<and> sorted_wrt seq_order (p_lastSeqNo p # seqs ds))"
proof -
  let ?ds = "delivered (snd (read_loop quote ticks k p))"
  have "map (h_FromID \<circ> f_Header) ?ds = map (\<lambda>_. p_AgentID p) ?ds"
    using read_loop_identity [of quote ticks k p] by simp
  then show ?thesis
    using read_loop_seq [of p quote ticks k] by (simp add: map_replicate_const)
qed

text \<open>
  C8: While the clock stays within the limiter's current window, the frames a pipe delivers,
  counted by header and payload size and together with what the window was charged before, do
  not exceed the pipe's byte limit (no wrap-around of the counter below a limit of 2^62).
\<close>

theorem router_byte_budget:
  assumes "p_Limiter p = Some l" and "in_window l ticks" and "unat (l_limitPerSec l) \<le> 2 ^ 62"
    and "unat (l_bytesInWindow l) \<le> 2 ^ 63" and "length (p_AgentID p) \<le> 256"
    and "ds = delivered (snd (read_loop quote ticks k p))" and "ds \<noteq> []"
  shows "unat (l_bytesInWindow l) + (\<Sum>f\<leftarrow>ds. wire_size f) \<le> unat (l_limitPerSec l)"
  using read_loop_budget [of k p ticks quote] assms unfolding budget_kept_def no_wrap_def by blast

text \<open>
  C9: The frames of a Ward that writes whole well-formed frames under its own identity with
  increasing sequence numbers, within its byte budget, are all delivered, in order, with header
  and payload unchanged, and nothing is reported about it.
\<close>

theorem router_delivers_honest:
  assumes "\<forall>k. \<not> t_done (ticks k)" and "honest p fs" and "roomy (p_Limiter p) ticks fs"
    and "rd_buf (p_Reader p) = concat (map (\<lambda>f. frame_bytes (fst f) (snd f)) fs)"
  shows "snd (read_loop quote ticks 0 p) = map (\<lambda>f. Deliver \<lparr>f_Header = fst f, f_Payload = snd f\<rparr>) fs"
  using assms by (rule read_loop_honest)

text \<open>A Ward's two frames on a pipe with a limit of 100 bytes, at time zero.\<close>

definition example_frames :: "(swarm_header \<times> bytes) list" where
  "example_frames =
     [(\<lparr>h_Version = 1, h_Type = 0x20, h_FromID = ''a'', h_ToID = ''ctl'', h_SeqNo = 1, h_PayloadLen = 1\<rparr>, [7]),
      (\<lparr>h_Version = 1, h_Type = 0x21, h_FromID = ''a'', h_ToID = ''ctl'', h_SeqNo = 2, h_PayloadLen = 2\<rparr>, [8, 9])]"

definition example_ticks :: "nat \<Rightarrow> tick" where
  "example_ticks = (\<lambda>_. \<lparr>t_done = False, t_clock = \<lambda>_. 0\<rparr>)"

definition example_pipe :: pipe where
  "example_pipe = \<lparr>p_AgentID = ''a'',
     p_Reader = bytes_NewReader (concat (map (\<lambda>f. frame_bytes (fst f) (snd f)) example_frames)),
     p_Writer = \<lparr>w_out = [], w_room = None, w_err = EOF\<rparr>,
     p_Limiter = Some (NewByteRateLimiter 0 100), p_lastSeqNo = 0\<rparr>"

lemma example_honest:
  "honest example_pipe example_frames"
  "roomy (p_Limiter example_pipe) example_ticks example_frames"
  by (simp_all add: honest_def example_pipe_def example_frames_def example_ticks_def frame_wf_def
      MaxPayloadBytes_def roomy_def in_window_def no_wrap_def NewByteRateLimiter_def time_Second_def
      frame_cost_def HeaderSize_def VarintLen_def bit_len.simps)

theorem router_delivers_honest_witness:
  "snd (read_loop id example_ticks 0 example_pipe)
     = map (\<lambda>f. Deliver \<lparr>f_Header = fst f, f_Payload = snd f\<rparr>) example_frames"
  by (rule router_delivers_honest)
    (use example_honest in \<open>auto simp: example_ticks_def example_pipe_def bytes_NewReader_def\<close>)

lemma example_run:
  "delivered (snd (read_loop id example_ticks 0 example_pipe))
     = map (\<lambda>f. \<lparr>f_Header = fst f, f_Payload = snd f\<rparr>) example_frames"
proof -
  have "snd (read_loop id example_ticks 0 example_pipe)
      = map (\<lambda>f. Deliver \<lparr>f_Header = fst f, f_Payload = snd f\<rparr>) example_frames"
    by (rule read_loop_honest)
      (use example_honest in \<open>auto simp: example_ticks_def example_pipe_def bytes_NewReader_def\<close>)
  then show ?thesis by (simp add: example_frames_def)
qed

theorem router_byte_budget_witness:
  "(\<Sum>f\<leftarrow>map (\<lambda>f. \<lparr>f_Header = fst f, f_Payload = snd f\<rparr>) example_frames. wire_size f) \<le> 100"
  using router_byte_budget [of example_pipe "NewByteRateLimiter 0 100" example_ticks _ id 0]
    example_run example_honest(2)
  by (simp add: example_pipe_def NewByteRateLimiter_def roomy_def example_frames_def)

text \<open>
  The limit is per window, not over any second: a fresh limiter admits its whole limit in
  the last nanosecond of its window and the whole limit again one nanosecond later.
\<close>

theorem limiter_admits_twice:
  "\<exists>l1 l2. Allow (t0 + time_Second - 1) lim (NewByteRateLimiter t0 lim) = (True, l1)
     \<and> Allow (t0 + time_Second) lim l1 = (True, l2)"
  by (rule limiter_boundary_burst) simp

end
