(* ===== verification/Ctl.thy ===== *)
theory Ctl
  imports Codec
begin

text \<open>
  The control protocol between \<open>viv\<close> and keeperd: the payloads of
  \<open>internal/ctl/protocol.go\<close>, each with its marshaller and unmarshaller.

  A payload struct is a record whose fields carry the Go names behind a prefix.  An unmarshaller
  is modelled as the value it fills in; its receiver is a fresh zero value at every call site,
  and is discarded when it returns an error.  \<open>float64\<close> is a type parameter: \<open>sprintf_f\<close> is
  \<open>fmt.Sprintf("%f", x)\<close> and \<open>sscanf_f s\<close> the value \<open>fmt.Sscanf(s, "%f", &x)\<close> leaves in a zeroed
  \<open>x\<close>.

  Every payload is an interpretation of \<open>codec\<close>; the well-formedness argument of each lists the
  length limits its unmarshaller enforces, which the marshaller does not.
\<close>

definition CtlIdentity :: string where
  "CtlIdentity = ''ctl''"

lemmas marshal_simps = rbind_def rmap_err_def codec_simps append_bool_eq Let_def

subsection \<open>Requests\<close>

definition SubscribePayload_MarshalMUS :: "unit \<Rightarrow> bytes" where
  "SubscribePayload_MarshalMUS p = []"

definition SubscribePayload_UnmarshalMUS :: "unit reads" where
  "SubscribePayload_UnmarshalMUS = rreturn ()"

record AgentCreatePayload =
  acp_ID :: string
  acp_Provider :: string
  acp_Template :: string
  acp_CPUShares :: u32
  acp_MemoryMaxBytes :: u64

definition AgentCreatePayload_MarshalMUS :: "AgentCreatePayload \<Rightarrow> bytes" where
  "AgentCreatePayload_MarshalMUS p =
     (let b = [];
          b = AppendString b (acp_ID p);
          b = AppendString b (acp_Provider p);
          b = AppendString b (acp_Template p);
          b = AppendVarint b (ucast (acp_CPUShares p));
          b = AppendVarint b (acp_MemoryMaxBytes p)
      in b)"

definition AgentCreatePayload_UnmarshalMUS :: "AgentCreatePayload reads" where
  "AgentCreatePayload_UnmarshalMUS =
     rbind (ReadString 64) (\<lambda>ID.
     rbind (ReadString 64) (\<lambda>Provider.
     rbind (ReadString 1024) (\<lambda>Template.
     rbind ReadVarint (\<lambda>v.
     rbind ReadVarint (\<lambda>MemoryMaxBytes.
     rreturn \<lparr>acp_ID = ID, acp_Provider = Provider, acp_Template = Template,
              acp_CPUShares = ucast v, acp_MemoryMaxBytes = MemoryMaxBytes\<rparr>)))))"

record AgentDestroyPayload =
  adp_ID :: string

definition AgentDestroyPayload_MarshalMUS :: "AgentDestroyPayload \<Rightarrow> bytes" where
  "AgentDestroyPayload_MarshalMUS p = AppendString [] (adp_ID p)"

definition AgentDestroyPayload_UnmarshalMUS :: "AgentDestroyPayload reads" where
  "AgentDestroyPayload_UnmarshalMUS =
     rbind (ReadString 64) (\<lambda>ID. rreturn \<lparr>adp_ID = ID\<rparr>)"

record PromptPayload =
  pp_AgentID :: string
  pp_Seq :: u64
  pp_Text :: string

definition PromptPayload_MarshalMUS :: "PromptPayload \<Rightarrow> bytes" where
  "PromptPayload_MarshalMUS p =
     (let b = [];
          b = AppendString b (pp_AgentID p);
          b = AppendVarint b (pp_Seq p);
          b = AppendString b (pp_Text p)
      in b)"

definition PromptPayload_UnmarshalMUS :: "PromptPayload reads" where
  "PromptPayload_UnmarshalMUS =
     rbind (ReadString 64) (\<lambda>AgentID.
     rbind ReadVarint (\<lambda>Seq.
     rbind (ReadString (of_nat MaxPayloadBytes)) (\<lambda>Text.
     rreturn \<lparr>pp_AgentID = AgentID, pp_Seq = Seq, pp_Text = Text\<rparr>)))"

record ApprovalPayload =
  app_RequestID :: u64
  app_Granted :: bool
  app_Reason :: string

definition ApprovalPayload_MarshalMUS :: "ApprovalPayload \<Rightarrow> bytes" where
  "ApprovalPayload_MarshalMUS p =
     (let b = [];
          b = AppendVarint b (app_RequestID p);
          b = append_bool b (app_Granted p);
          b = AppendString b (app_Reason p)
      in b)"

definition ApprovalPayload_UnmarshalMUS :: "ApprovalPayload reads" where
  "ApprovalPayload_UnmarshalMUS =
     rbind ReadVarint (\<lambda>RequestID.
     rbind (read_full 1) (\<lambda>fixed.
     rbind (ReadString 1024) (\<lambda>Reason.
     rreturn \<lparr>app_RequestID = RequestID, app_Granted = (fixed ! 0 \<noteq> 0), app_Reason = Reason\<rparr>)))"

subsection \<open>Responses and pushes\<close>

record AgentStatus =
  as_ID :: string
  as_State :: string
  as_LastPromptSeq :: u64
  as_LastEventAt :: string
  as_LastOutcome :: string
  as_LastFailureDetail :: string
  as_Model :: string
  as_InputTokens :: u32
  as_OutputTokens :: u32
  as_CostUSD :: string
  as_ToolCalls :: u32

definition AgentStatus_marshalMUS :: "AgentStatus \<Rightarrow> bytes" where
  "AgentStatus_marshalMUS a =
     (let b = [];
          b = AppendString b (as_ID a);
          b = AppendString b (as_State a);
          b = AppendVarint b (as_LastPromptSeq a);
          b = AppendString b (as_LastEventAt a);
          b = AppendString b (as_LastOutcome a);
          b = AppendString b (as_LastFailureDetail a);
          b = AppendString b (as_Model a);
          b = AppendVarint b (ucast (as_InputTokens a));
          b = AppendVarint b (ucast (as_OutputTokens a));
          b = AppendString b (as_CostUSD a);
          b = AppendVarint b (ucast (as_ToolCalls a))
      in b)"

definition AgentStatus_unmarshalMUS :: "AgentStatus reads" where
  "AgentStatus_unmarshalMUS =
     rbind (ReadString 64) (\<lambda>ID.
     rbind (ReadString 32) (\<lambda>State.
     rbind ReadVarint (\<lambda>LastPromptSeq.
     rbind (ReadString 64) (\<lambda>LastEventAt.
     rbind (ReadString 64) (\<lambda>LastOutcome.
     rbind (ReadString 4096) (\<lambda>LastFailureDetail.
     rbind (ReadString 64) (\<lambda>Model.
     rbind ReadVarint (\<lambda>v1.
     rbind ReadVarint (\<lambda>v2.
     rbind (ReadString 32) (\<lambda>CostUSD.
     rbind ReadVarint (\<lambda>v3.
     rreturn \<lparr>as_ID = ID, as_State = State, as_LastPromptSeq = LastPromptSeq,
              as_LastEventAt = LastEventAt, as_LastOutcome = LastOutcome,
              as_LastFailureDetail = LastFailureDetail, as_Model = Model,
              as_InputTokens = ucast v1, as_OutputTokens = ucast v2,
              as_CostUSD = CostUSD, as_ToolCalls = ucast v3\<rparr>)))))))))))"

text \<open>The size of the Go struct: seven strings, one \<open>uint64\<close>, three \<open>uint32\<close>, padding.\<close>

definition sizeof_AgentStatus :: nat where
  "sizeof_AgentStatus = 136"

record StatusPayload =
  sp_DaemonVersion :: string
  sp_UptimeSeconds :: u64
  sp_Agents :: "AgentStatus list"

definition StatusPayload_MarshalMUS :: "StatusPayload \<Rightarrow> bytes" where
  "StatusPayload_MarshalMUS p =
     (let b = [];
          b = AppendString b (sp_DaemonVersion p);
          b = AppendVarint b (sp_UptimeSeconds p);
          b = AppendVarint b (of_nat (length (sp_Agents p)));
          b = foldl (\<lambda>b a. b @ AgentStatus_marshalMUS a) b (sp_Agents p)
      in b)"

definition StatusPayload_UnmarshalMUS :: "StatusPayload reads" where
  "StatusPayload_UnmarshalMUS =
     rbind (ReadString 64) (\<lambda>DaemonVersion.
     rbind ReadVarint (\<lambda>upt.
     rbind ReadVarint (\<lambda>n.
     rbind (make_slice sizeof_AgentStatus n) (\<lambda>_.
     rbind (read_many (unat n) AgentStatus_unmarshalMUS) (\<lambda>Agents.
     rreturn \<lparr>sp_DaemonVersion = DaemonVersion, sp_UptimeSeconds = upt, sp_Agents = Agents\<rparr>)))))"

record AgentListPayload =
  alp_Agents :: "AgentStatus list"

definition AgentListPayload_MarshalMUS :: "AgentListPayload \<Rightarrow> bytes" where
  "AgentListPayload_MarshalMUS p =
     (let b = [];
          b = AppendVarint b (of_nat (length (alp_Agents p)));
          b = foldl (\<lambda>b a. b @ AgentStatus_marshalMUS a) b (alp_Agents p)
      in b)"

definition AgentListPayload_UnmarshalMUS :: "AgentListPayload reads" where
  "AgentListPayload_UnmarshalMUS =
     rbind ReadVarint (\<lambda>n.
     rbind (make_slice sizeof_AgentStatus n) (\<lambda>_.
     rbind (read_many (unat n) AgentStatus_unmarshalMUS) (\<lambda>Agents.
     rreturn \<lparr>alp_Agents = Agents\<rparr>)))"

subsection \<open>Telemetry\<close>

record 'f CompletionEventPayload =
  cep_AgentID :: string
  cep_PromptSeq :: u64
  cep_Model :: string
  cep_InputTokens :: u32
  cep_OutputTokens :: u32
  cep_CostUSD :: 'f
  cep_Outcome :: string
  cep_ToolCalls :: u32

definition CompletionEventPayload_MarshalMUS :: "('f \<Rightarrow> string) \<Rightarrow> 'f CompletionEventPayload \<Rightarrow> bytes" where
  "CompletionEventPayload_MarshalMUS sprintf_f p =
     (let b = [];
          b = AppendString b (cep_AgentID p);
          b = AppendVarint b (cep_PromptSeq p);
          b = AppendString b (cep_Model p);
          b = AppendVarint b (ucast (cep_InputTokens p));
          b = AppendVarint b (ucast (cep_OutputTokens p));
          b = AppendString b (sprintf_f (cep_CostUSD p));
          b = AppendString b (cep_Outcome p);
          b = AppendVarint b (ucast (cep_ToolCalls p))
      in b)"

definition CompletionEventPayload_UnmarshalMUS :: "(string \<Rightarrow> 'f) \<Rightarrow> 'f CompletionEventPayload reads" where
  "CompletionEventPayload_UnmarshalMUS sscanf_f =
     rbind (ReadString 64) (\<lambda>AgentID.
     rbind ReadVarint (\<lambda>PromptSeq.
     rbind (ReadString 64) (\<lambda>Model.
     rbind ReadVarint (\<lambda>v1.
     rbind ReadVarint (\<lambda>v2.
     rbind (ReadString 64) (\<lambda>costStr.
     rbind (ReadString 32) (\<lambda>Outcome.
     rbind ReadVarint (\<lambda>v3.
     rreturn \<lparr>cep_AgentID = AgentID, cep_PromptSeq = PromptSeq, cep_Model = Model,
              cep_InputTokens = ucast v1, cep_OutputTokens = ucast v2,
              cep_CostUSD = sscanf_f costStr, cep_Outcome = Outcome, cep_ToolCalls = ucast v3\<rparr>))))))))"

record FailureEventPayload =
  fep_AgentID :: string
  fep_PromptSeq :: u64
  fep_Kind :: string
  fep_Detail :: string

definition FailureEventPayload_MarshalMUS :: "FailureEventPayload \<Rightarrow> bytes" where
  "FailureEventPayload_MarshalMUS p =
     (let b = [];
          b = AppendString b (fep_AgentID p);
          b = AppendVarint b (fep_PromptSeq p);
          b = AppendString b (fep_Kind p);
          b = AppendString b (fep_Detail p)
      in b)"

definition FailureEventPayload_UnmarshalMUS :: "FailureEventPayload reads" where
  "FailureEventPayload_UnmarshalMUS =
     rbind (ReadString 64) (\<lambda>AgentID.
     rbind ReadVarint (\<lambda>PromptSeq.
     rbind (ReadString 32) (\<lambda>Kind.
     rbind (ReadString 4096) (\<lambda>Detail.
     rreturn \<lparr>fep_AgentID = AgentID, fep_PromptSeq = PromptSeq, fep_Kind = Kind, fep_Detail = Detail\<rparr>))))"

subsection \<open>Codecs\<close>

definition acp_wf :: "AgentCreatePayload \<Rightarrow> bool" where
  "acp_wf p \<longleftrightarrow> length (acp_ID p) \<le> 64 \<and> length (acp_Provider p) \<le> 64 \<and> length (acp_Template p) \<le> 1024"

definition pp_wf :: "PromptPayload \<Rightarrow> bool" where
  "pp_wf p \<longleftrightarrow> length (pp_AgentID p) \<le> 64 \<and> length (pp_Text p) \<le> MaxPayloadBytes"

definition as_wf :: "AgentStatus \<Rightarrow> bool" where
  "as_wf a \<longleftrightarrow> length (as_ID a) \<le> 64 \<and> length (as_State a) \<le> 32 \<and> length (as_LastEventAt a) \<le> 64
     \<and> length (as_LastOutcome a) \<le> 64 \<and> length (as_LastFailureDetail a) \<le> 4096
     \<and> length (as_Model a) \<le> 64 \<and> length (as_CostUSD a) \<le> 32"

definition agents_wf :: "AgentStatus list \<Rightarrow> bool" where
  "agents_wf as \<longleftrightarrow> (\<forall>a\<in>set as. as_wf a) \<and> sizeof_AgentStatus * length as \<le> maxAlloc"

definition cep_wf :: "('f \<Rightarrow> string) \<Rightarrow> 'f CompletionEventPayload \<Rightarrow> bool" where
  "cep_wf sprintf_f p \<longleftrightarrow> length (cep_AgentID p) \<le> 64 \<and> length (cep_Model p) \<le> 64
     \<and> length (sprintf_f (cep_CostUSD p)) \<le> 64 \<and> length (cep_Outcome p) \<le> 32"

definition fep_wf :: "FailureEventPayload \<Rightarrow> bool" where
  "fep_wf p \<longleftrightarrow> length (fep_AgentID p) \<le> 64 \<and> length (fep_Kind p) \<le> 32 \<and> length (fep_Detail p) \<le> 4096"

lemma unat_MaxPayloadBytes [simp]: "unat (of_nat MaxPayloadBytes :: u64) = MaxPayloadBytes"
  by (rule unat_of_nat_u64) (simp add: MaxPayloadBytes_def)

lemma foldl_append_concat: "foldl (\<lambda>b x. b @ f x) b xs = b @ concat (map f xs)"
  by (induction xs arbitrary: b) simp_all

interpretation agent_create: codec AgentCreatePayload_MarshalMUS AgentCreatePayload_UnmarshalMUS acp_wf
proof unfold_locales
  show "local_reads AgentCreatePayload_UnmarshalMUS"
    unfolding AgentCreatePayload_UnmarshalMUS_def by (intro local_intros)
qed (simp add: AgentCreatePayload_MarshalMUS_def AgentCreatePayload_UnmarshalMUS_def acp_wf_def marshal_simps)

interpretation agent_destroy: codec AgentDestroyPayload_MarshalMUS AgentDestroyPayload_UnmarshalMUS
  "\<lambda>p. length (adp_ID p) \<le> 64"
proof unfold_locales
  show "local_reads AgentDestroyPayload_UnmarshalMUS"
    unfolding AgentDestroyPayload_UnmarshalMUS_def by (intro local_intros)
qed (simp add: AgentDestroyPayload_MarshalMUS_def AgentDestroyPayload_UnmarshalMUS_def marshal_simps)

interpretation prompt: codec PromptPayload_MarshalMUS PromptPayload_UnmarshalMUS pp_wf
proof unfold_locales
  show "local_reads PromptPayload_UnmarshalMUS"
    unfolding PromptPayload_UnmarshalMUS_def by (intro local_intros)
qed (simp add: PromptPayload_MarshalMUS_def PromptPayload_UnmarshalMUS_def pp_wf_def marshal_simps)

interpretation approval: codec ApprovalPayload_MarshalMUS ApprovalPayload_UnmarshalMUS
  "\<lambda>p. length (app_Reason p) \<le> 1024"
proof unfold_locales
  show "local_reads ApprovalPayload_UnmarshalMUS"
    unfolding ApprovalPayload_UnmarshalMUS_def by (intro local_intros)
qed (simp add: ApprovalPayload_MarshalMUS_def ApprovalPayload_UnmarshalMUS_def marshal_simps)

interpretation agent_status: codec AgentStatus_marshalMUS AgentStatus_unmarshalMUS as_wf
proof unfold_locales
  show "local_reads AgentStatus_unmarshalMUS"
    unfolding AgentStatus_unmarshalMUS_def by (intro local_intros)
qed (simp add: AgentStatus_marshalMUS_def AgentStatus_unmarshalMUS_def as_wf_def marshal_simps)

lemma agents_count:
  assumes "agents_wf as"
  shows "make_slice sizeof_AgentStatus (of_nat (length as)) r = (Val (), r)"
    and "unat (of_nat (length as) :: u64) = length as"
  using assms by (auto simp: agents_wf_def sizeof_AgentStatus_def maxAlloc_def
      intro!: make_slice_ok unat_of_nat_u64)

lemma read_agents:
  assumes "agents_wf as"
  shows "read_many (length as) AgentStatus_unmarshalMUS
      (r\<lparr>rd_buf := concat (map AgentStatus_marshalMUS as) @ rest\<rparr>) = (Val as, r\<lparr>rd_buf := rest\<rparr>)"
  using assms by (intro agent_status.read_many_concat) (simp add: agents_wf_def)

interpretation status: codec StatusPayload_MarshalMUS StatusPayload_UnmarshalMUS
  "\<lambda>p. length (sp_DaemonVersion p) \<le> 64 \<and> agents_wf (sp_Agents p)"
proof unfold_locales
  show "local_reads StatusPayload_UnmarshalMUS"
    unfolding StatusPayload_UnmarshalMUS_def AgentStatus_unmarshalMUS_def by (intro local_intros)
qed (simp add: StatusPayload_MarshalMUS_def StatusPayload_UnmarshalMUS_def marshal_simps
    foldl_append_concat agents_count read_agents)

interpretation agent_list: codec AgentListPayload_MarshalMUS AgentListPayload_UnmarshalMUS
  "\<lambda>p. agents_wf (alp_Agents p)"
proof unfold_locales
  show "local_reads AgentListPayload_UnmarshalMUS"
    unfolding AgentListPayload_UnmarshalMUS_def AgentStatus_unmarshalMUS_def by (intro local_intros)
qed (simp add: AgentListPayload_MarshalMUS_def AgentListPayload_UnmarshalMUS_def marshal_simps
    foldl_append_concat agents_count read_agents)

interpretation failure_event: codec FailureEventPayload_MarshalMUS FailureEventPayload_UnmarshalMUS fep_wf
proof unfold_locales
  show "local_reads FailureEventPayload_UnmarshalMUS"
    unfolding FailureEventPayload_UnmarshalMUS_def by (intro local_intros)
qed (simp add: FailureEventPayload_MarshalMUS_def FailureEventPayload_UnmarshalMUS_def fep_wf_def marshal_simps)

text \<open>
  A completion event loses what its decimal text loses: the cost that arrives is the one the
  text of the cost reads back as.
\<close>

lemma CompletionEvent_enc:
  assumes "cep_wf sprintf_f p"
  shows "CompletionEventPayload_UnmarshalMUS sscanf_f
      (r\<lparr>rd_buf := CompletionEventPayload_MarshalMUS sprintf_f p @ rest\<rparr>)
    = (Val (p\<lparr>cep_CostUSD := sscanf_f (sprintf_f (cep_CostUSD p))\<rparr>), r\<lparr>rd_buf := rest\<rparr>)"
  using assms
  by (simp add: CompletionEventPayload_MarshalMUS_def CompletionEventPayload_UnmarshalMUS_def cep_wf_def marshal_simps)

lemma local_CompletionEvent [local_intros]: "local_reads (CompletionEventPayload_UnmarshalMUS sscanf_f)"
  unfolding CompletionEventPayload_UnmarshalMUS_def by (intro local_intros)

subsection \<open>What a decoder accepts, and what it does on hostile input\<close>

lemma ReadString_length: "ReadString n r = (Val s, r') \<Longrightarrow> length s \<le> unat n"
  by (auto simp: ReadString_def rbind_eq_Val rmap_err_eq_Val read_full_def word_le_nat_alt not_less
      split: if_splits)

lemma AgentCreate_decoded_wf:
  "AgentCreatePayload_UnmarshalMUS r = (Val p, r') \<Longrightarrow> acp_wf p"
  by (auto simp: AgentCreatePayload_UnmarshalMUS_def rbind_eq_Val acp_wf_def dest!: ReadString_length)

lemma FailureEvent_decoded_wf:
  "FailureEventPayload_UnmarshalMUS r = (Val p, r') \<Longrightarrow> fep_wf p"
  by (auto simp: FailureEventPayload_UnmarshalMUS_def rbind_eq_Val fep_wf_def dest!: ReadString_length)

lemma safe_requests:
  "never_panics AgentCreatePayload_UnmarshalMUS" "never_panics AgentDestroyPayload_UnmarshalMUS"
  "never_panics PromptPayload_UnmarshalMUS" "never_panics ApprovalPayload_UnmarshalMUS"
  unfolding AgentCreatePayload_UnmarshalMUS_def AgentDestroyPayload_UnmarshalMUS_def
    PromptPayload_UnmarshalMUS_def ApprovalPayload_UnmarshalMUS_def
  by (intro safe_intros)+

text \<open>
  The counted lists are different: the count is trusted before any element is read, and a
  payload of a few bytes makes the reader panic.
\<close>

lemma AgentList_panic:
  assumes "maxAlloc < sizeof_AgentStatus * unat n"
  shows "panics (fst (AgentListPayload_UnmarshalMUS (r\<lparr>rd_buf := enc_varint n @ rest\<rparr>)))"
  using assms by (simp add: AgentListPayload_UnmarshalMUS_def marshal_simps make_slice_def)

subsection \<open>Properties\<close>

text \<open>
  A status report within the decoder's limits (a version of 64 bytes, agents whose strings
  fit) comes back field by field, every agent in order, and nothing after it is consumed.
\<close>

theorem status_roundtrip:
  assumes "length (sp_DaemonVersion p) \<le> 64" and "agents_wf (sp_Agents p)"
  shows "StatusPayload_UnmarshalMUS (r\<lparr>rd_buf := StatusPayload_MarshalMUS p @ rest\<rparr>)
    = (Val p, r\<lparr>rd_buf := rest\<rparr>)"
  using assms by (intro status.dec_enc) simp

theorem status_roundtrip_witness:
  "\<exists>p. length (sp_Agents p) = 2 \<and>
     StatusPayload_UnmarshalMUS (bytes_NewReader [] \<lparr>rd_buf := StatusPayload_MarshalMUS p @ [9]\<rparr>)
       = (Val p, bytes_NewReader [] \<lparr>rd_buf := [9]\<rparr>)"
proof -
  let ?a = "\<lparr>as_ID = ''a'', as_State = ''running'', as_LastPromptSeq = 3, as_LastEventAt = '''',
    as_LastOutcome = ''success'', as_LastFailureDetail = '''', as_Model = '''', as_InputTokens = 5,
    as_OutputTokens = 6, as_CostUSD = '''', as_ToolCalls = 1\<rparr>"
  let ?p = "\<lparr>sp_DaemonVersion = ''dev'', sp_UptimeSeconds = 12, sp_Agents = [?a, ?a\<lparr>as_ID := ''b''\<rparr>]\<rparr>"
  have "length (sp_DaemonVersion ?p) \<le> 64" "agents_wf (sp_Agents ?p)"
    by (simp_all add: agents_wf_def as_wf_def sizeof_AgentStatus_def maxAlloc_def)
  from status_roundtrip [OF this, of "[9]" "bytes_NewReader []"] show ?thesis
    by (intro exI [of _ ?p]) simp
qed

text \<open>
  A list payload whose element count is too large for Go to allocate makes the decoder
  panic, however few bytes follow: the count is believed before any element has been read.
\<close>

theorem agent_list_count_panics:
  assumes "2 ^ 48 < 136 * unat n"
  shows "panics (fst (AgentListPayload_UnmarshalMUS (bytes_NewReader (AppendVarint [] n))))"
  using AgentList_panic [of n "[]" "bytes_NewReader []"] assms
  by (simp add: maxAlloc_def sizeof_AgentStatus_def bytes_NewReader_def)

theorem agent_list_count_panics_witness:
  "panics (fst (AgentListPayload_UnmarshalMUS (bytes_NewReader (AppendVarint [] (2 ^ 42)))))"
  by (rule agent_list_count_panics) simp

text \<open>
  A completion event is received with every field as it was sent except the cost, which is
  what its decimal text reads back as.
\<close>

theorem completion_event_roundtrip:
  assumes "length (cep_AgentID p) \<le> 64" and "length (cep_Model p) \<le> 64"
    and "length (sprintf_f (cep_CostUSD p)) \<le> 64" and "length (cep_Outcome p) \<le> 32"
  shows "CompletionEventPayload_UnmarshalMUS sscanf_f
      (bytes_NewReader (CompletionEventPayload_MarshalMUS sprintf_f p))
    = (Val (p\<lparr>cep_CostUSD := sscanf_f (sprintf_f (cep_CostUSD p))\<rparr>), bytes_NewReader [])"
  using CompletionEvent_enc [of sprintf_f p sscanf_f "[]" "bytes_NewReader []"] assms
  by (simp add: cep_wf_def bytes_NewReader_def)

theorem completion_event_roundtrip_witness:
  "CompletionEventPayload_UnmarshalMUS length (bytes_NewReader (CompletionEventPayload_MarshalMUS show_nat
       \<lparr>cep_AgentID = ''a'', cep_PromptSeq = 1, cep_Model = ''m'', cep_InputTokens = 2,
        cep_OutputTokens = 3, cep_CostUSD = 7, cep_Outcome = ''success'', cep_ToolCalls = 4\<rparr>))
     = (Val \<lparr>cep_AgentID = ''a'', cep_PromptSeq = 1, cep_Model = ''m'', cep_InputTokens = 2,
        cep_OutputTokens = 3, cep_CostUSD = 1, cep_Outcome = ''success'', cep_ToolCalls = 4\<rparr>, bytes_NewReader [])"
  by (subst completion_event_roundtrip) (simp_all add: show_nat.simps)

end
