(* ===== verification/AuditLog.thy ===== *)
theory AuditLog
  imports Ctl
begin

text \<open>
  The audit log (\<open>internal/audit/audit.go\<close>).

  SQLite is outside the repository; what the code relies on is the meaning of the statements it
  issues, so a table is the list of its rows in the order of their ids, \<open>INSERT\<close> appends a row
  with the next id, and a query filters, orders and limits rows.  A statement may fail: \<open>db_fail\<close>
  is the error the next statements report.  \<open>database/sql\<close> itself refuses a \<open>uint64\<close> argument with
  the high bit set.

  An instant is its number of nanoseconds since 1970 in UTC; \<open>format_nano\<close> is its
  \<open>time.RFC3339Nano\<close> text (for years 0 to 9999), which is what the table stores and what SQLite
  compares, byte by byte.  \<open>parse_time\<close> is \<open>time.Parse\<close>.
\<close>

subsection \<open>Timestamps\<close>

type_synonym instant = int

definition zero_time :: instant where
  "zero_time = - 62135596800 * 1000000000"

fun pad_left :: "nat \<Rightarrow> string \<Rightarrow> string" where
  "pad_left n s = replicate (n - length s) (CHR ''0'') @ s"

definition civil :: "int \<Rightarrow> int \<times> int \<times> int" where
  "civil days =
     (let z = days + 719468;
          era = z div 146097;
          doe = z - era * 146097;
          yoe = (doe - doe div 1460 + doe div 36524 - doe div 146096) div 365;
          doy = doe - (365 * yoe + yoe div 4 - yoe div 100);
          mp = (5 * doy + 2) div 153;
          d = doy - (153 * mp + 2) div 5 + 1;
          m = (if mp < 10 then mp + 3 else mp - 9);
          y = yoe + era * 400 + (if m \<le> 2 then 1 else 0)
      in (y, m, d))"

definition show2 :: "nat \<Rightarrow> int \<Rightarrow> string" where
  "show2 n i = pad_left n (show_nat (nat i))"

definition format_seconds :: "int \<Rightarrow> string" where
  "format_seconds secs =
     (let days = secs div 86400; sod = secs mod 86400 in
      case civil days of (y, m, d) \<Rightarrow>
        show2 4 y @ ''-'' @ show2 2 m @ ''-'' @ show2 2 d @ ''T''
        @ show2 2 (sod div 3600) @ '':'' @ show2 2 (sod div 60 mod 60) @ '':'' @ show2 2 (sod mod 60))"

definition strip_zeros :: "string \<Rightarrow> string" where
  "strip_zeros s = rev (dropWhile (\<lambda>c. c = CHR ''0'') (rev s))"

definition format_nano :: "instant \<Rightarrow> string" where
  "format_nano t =
     format_seconds (t div 1000000000)
     @ (if t mod 1000000000 = 0 then '''' else ''.'' @ strip_zeros (show2 9 (t mod 1000000000)))
     @ ''Z''"

text \<open>SQLite's comparison of \<open>TEXT\<close> values: bytes from the left.\<close>

fun text_le :: "string \<Rightarrow> string \<Rightarrow> bool" where
  "text_le [] t = True"
| "text_le (a # s) [] = False"
| "text_le (a # s) (b # t) =
     (if (of_char a :: nat) < of_char b then True
      else if a = b then text_le s t else False)"

subsection \<open>Tables and statements\<close>

record frame_row =
  fr_id :: nat
  fr_ts :: string
  fr_msg_type :: string
  fr_from_id :: string
  fr_to_id :: string
  fr_seq_no :: u64
  fr_payload :: "bytes option"

record security_row =
  sr_id :: nat
  sr_ts :: string
  sr_agent :: string
  sr_kind :: string
  sr_detail :: string

record audit_db =
  db_frames :: "frame_row list"
  db_security :: "security_row list"
  db_fail :: "go_error option"

definition Open_db :: audit_db where
  "Open_db = \<lparr>db_frames = [], db_security = [], db_fail = None\<rparr>"

definition sql_uint64 :: "u64 \<Rightarrow> go_error option" where
  "sql_uint64 n =
     (if 2 ^ 63 \<le> unat n then Some (OtherError ''uint64 values with high bit set are not supported'') else None)"

definition WriteFrame_db ::
  "instant \<Rightarrow> string \<Rightarrow> string \<Rightarrow> string \<Rightarrow> u64 \<Rightarrow> bytes option \<Rightarrow> audit_db \<Rightarrow> go_error option \<times> audit_db"
where
  "WriteFrame_db ts msgType fromID toID seqNo payload db =
     (case sql_uint64 seqNo of
        Some e \<Rightarrow> (Some e, db)
      | None \<Rightarrow>
          (case db_fail db of
             Some e \<Rightarrow> (Some e, db)
           | None \<Rightarrow>
               (None, db\<lparr>db_frames := db_frames db @
                  [\<lparr>fr_id = Suc (length (db_frames db)), fr_ts = format_nano ts, fr_msg_type = msgType,
                    fr_from_id = fromID, fr_to_id = toID, fr_seq_no = seqNo, fr_payload = payload\<rparr>]\<rparr>)))"

definition WriteSecurityEvent ::
  "instant \<Rightarrow> string \<Rightarrow> string \<Rightarrow> string \<Rightarrow> audit_db \<Rightarrow> go_error option \<times> audit_db"
where
  "WriteSecurityEvent ts agent kind detail db =
     (case db_fail db of
        Some e \<Rightarrow> (Some e, db)
      | None \<Rightarrow>
          (None, db\<lparr>db_security := db_security db @
             [\<lparr>sr_id = Suc (length (db_security db)), sr_ts = format_nano ts, sr_agent = agent,
               sr_kind = kind, sr_detail = detail\<rparr>]\<rparr>))"

subsection \<open>Queries\<close>

record FrameRecord =
  FrameRecord_ID :: nat
  FrameRecord_Ts :: instant
  FrameRecord_MsgType :: string
  FrameRecord_FromID :: string
  FrameRecord_ToID :: string
  FrameRecord_SeqNo :: u64
  FrameRecord_Payload :: "bytes option"

record FrameFilter =
  ff_AgentID :: string
  ff_MsgType :: string
  ff_Since :: instant
  ff_Until :: instant
  ff_SeqNo :: u64
  ff_Limit :: int

record SecurityEventRecord =
  ser_ID :: nat
  ser_Ts :: instant
  ser_Agent :: string
  ser_Kind :: string
  ser_Detail :: string

record SecurityEventFilter =
  sef_Agent :: string
  sef_Kind :: string
  sef_Limit :: int

definition parse_error :: "(string \<Rightarrow> string) \<Rightarrow> string \<Rightarrow> go_error \<Rightarrow> go_error" where
  "parse_error quote tsStr err = Wrap (''audit: parse timestamp '' @ quote tsStr @ '': '') err"

fun scanFrames ::
  "(string \<Rightarrow> string) \<Rightarrow> (string \<Rightarrow> go_error + instant) \<Rightarrow> frame_row list \<Rightarrow> go_error + FrameRecord list"
where
  "scanFrames quote parse_time [] = Inr []"
| "scanFrames quote parse_time (row # rows) =
     (case parse_time (fr_ts row) of
        Inl err \<Rightarrow> Inl (parse_error quote (fr_ts row) err)
      | Inr t \<Rightarrow>
          (case scanFrames quote parse_time rows of
             Inl err \<Rightarrow> Inl err
           | Inr records \<Rightarrow>
               Inr (\<lparr>FrameRecord_ID = fr_id row, FrameRecord_Ts = t, FrameRecord_MsgType = fr_msg_type row,
                     FrameRecord_FromID = fr_from_id row, FrameRecord_ToID = fr_to_id row,
                     FrameRecord_SeqNo = fr_seq_no row, FrameRecord_Payload = fr_payload row\<rparr> # records)))"

fun scan_security ::
  "(string \<Rightarrow> string) \<Rightarrow> (string \<Rightarrow> go_error + instant) \<Rightarrow> security_row list \<Rightarrow> go_error + SecurityEventRecord list"
where
  "scan_security quote parse_time [] = Inr []"
| "scan_security quote parse_time (row # rows) =
     (case parse_time (sr_ts row) of
        Inl err \<Rightarrow> Inl (parse_error quote (sr_ts row) err)
      | Inr t \<Rightarrow>
          (case scan_security quote parse_time rows of
             Inl err \<Rightarrow> Inl err
           | Inr records \<Rightarrow>
               Inr (\<lparr>ser_ID = sr_id row, ser_Ts = t, ser_Agent = sr_agent row, ser_Kind = sr_kind row,
                     ser_Detail = sr_detail row\<rparr> # records)))"

text \<open>\<open>LIMIT n\<close>: SQLite takes a negative limit for none; the code adds no clause for zero.\<close>

definition sql_limit :: "int \<Rightarrow> 'a list \<Rightarrow> 'a list" where
  "sql_limit n rows = (if n < 0 then rows else take (nat n) rows)"

definition go_limit :: "int \<Rightarrow> 'a list \<Rightarrow> 'a list" where
  "go_limit n rows = (if 0 < n then sql_limit n rows else rows)"

definition frame_matches :: "FrameFilter \<Rightarrow> frame_row \<Rightarrow> bool" where
  "frame_matches f row \<longleftrightarrow>
     (ff_AgentID f \<noteq> '''' \<longrightarrow> fr_from_id row = ff_AgentID f)
     \<and> (ff_MsgType f \<noteq> '''' \<longrightarrow> fr_msg_type row = ff_MsgType f)
     \<and> (ff_Since f \<noteq> zero_time \<longrightarrow> text_le (format_nano (ff_Since f)) (fr_ts row))
     \<and> (ff_Until f \<noteq> zero_time \<longrightarrow> text_le (fr_ts row) (format_nano (ff_Until f)))
     \<and> (ff_SeqNo f \<noteq> 0 \<longrightarrow> fr_seq_no row = ff_SeqNo f)"

definition QueryFrames ::
  "(string \<Rightarrow> string) \<Rightarrow> (string \<Rightarrow> go_error + instant) \<Rightarrow> FrameFilter \<Rightarrow> audit_db \<Rightarrow> go_error + FrameRecord list"
where
  "QueryFrames quote parse_time f db =
     (case (if ff_SeqNo f \<noteq> 0 then sql_uint64 (ff_SeqNo f) else None) of
        Some e \<Rightarrow> Inl e
      | None \<Rightarrow>
          (case db_fail db of
             Some e \<Rightarrow> Inl e
           | None \<Rightarrow> scanFrames quote parse_time (go_limit (ff_Limit f) (filter (frame_matches f) (db_frames db)))))"

definition Tail ::
  "(string \<Rightarrow> string) \<Rightarrow> (string \<Rightarrow> go_error + instant) \<Rightarrow> int \<Rightarrow> audit_db \<Rightarrow> go_error + FrameRecord list"
where
  "Tail quote parse_time n db =
     (case db_fail db of
        Some e \<Rightarrow> Inl e
      | None \<Rightarrow> scanFrames quote parse_time (sql_limit n (rev (db_frames db))))"

definition security_matches :: "SecurityEventFilter \<Rightarrow> security_row \<Rightarrow> bool" where
  "security_matches f row \<longleftrightarrow>
     (sef_Agent f \<noteq> '''' \<longrightarrow> sr_agent row = sef_Agent f) \<and> (sef_Kind f \<noteq> '''' \<longrightarrow> sr_kind row = sef_Kind f)"

definition QuerySecurityEvents ::
  "(string \<Rightarrow> string) \<Rightarrow> (string \<Rightarrow> go_error + instant) \<Rightarrow> SecurityEventFilter \<Rightarrow> audit_db
     \<Rightarrow> go_error + SecurityEventRecord list"
where
  "QuerySecurityEvents quote parse_time f db =
     (case db_fail db of
        Some e \<Rightarrow> Inl e
      | None \<Rightarrow> scan_security quote parse_time
                  (go_limit (sef_Limit f) (filter (security_matches f) (db_security db))))"

subsection \<open>Event payloads\<close>

definition UnmarshalCompletion :: "(string \<Rightarrow> 'f) \<Rightarrow> bytes \<Rightarrow> 'f CompletionEventPayload outcome" where
  "UnmarshalCompletion sscanf_f b = fst (CompletionEventPayload_UnmarshalMUS sscanf_f (bytes_NewReader b))"

definition UnmarshalFailure :: "bytes \<Rightarrow> FailureEventPayload outcome" where
  "UnmarshalFailure b = fst (FailureEventPayload_UnmarshalMUS (bytes_NewReader b))"

subsection \<open>The log is append-only\<close>

definition ids_ok :: "audit_db \<Rightarrow> bool" where
  "ids_ok db \<longleftrightarrow> map fr_id (db_frames db) = [1..<Suc (length (db_frames db))]
     \<and> map sr_id (db_security db) = [1..<Suc (length (db_security db))]"

lemma WriteFrame_db_cases:
  obtains "sql_uint64 seqNo \<noteq> None \<or> db_fail db \<noteq> None"
      "snd (WriteFrame_db ts mt from_id to_id seqNo payload db) = db"
      "fst (WriteFrame_db ts mt from_id to_id seqNo payload db) \<noteq> None"
  | "sql_uint64 seqNo = None" "db_fail db = None"
      "WriteFrame_db ts mt from_id to_id seqNo payload db =
        (None, db\<lparr>db_frames := db_frames db @
           [\<lparr>fr_id = Suc (length (db_frames db)), fr_ts = format_nano ts, fr_msg_type = mt, fr_from_id = from_id,
             fr_to_id = to_id, fr_seq_no = seqNo, fr_payload = payload\<rparr>]\<rparr>)"
  by (cases "sql_uint64 seqNo"; cases "db_fail db") (auto simp: WriteFrame_db_def)

lemma WriteFrame_db_prefix: "prefix (db_frames db) (db_frames (snd (WriteFrame_db ts mt fi ti s p db)))"
  by (rule WriteFrame_db_cases [of s db ts mt fi ti p]) simp_all

lemma WriteFrame_db_security [simp]: "db_security (snd (WriteFrame_db ts mt fi ti s p db)) = db_security db"
  by (rule WriteFrame_db_cases [of s db ts mt fi ti p]) simp_all

lemma WriteFrame_db_fail [simp]: "db_fail (snd (WriteFrame_db ts mt fi ti s p db)) = db_fail db"
  by (rule WriteFrame_db_cases [of s db ts mt fi ti p]) simp_all

lemma WriteSecurityEvent_frames [simp]:
  "db_frames (snd (WriteSecurityEvent ts a k d db)) = db_frames db"
  "db_fail (snd (WriteSecurityEvent ts a k d db)) = db_fail db"
  by (simp_all add: WriteSecurityEvent_def split: option.splits)

lemma WriteSecurityEvent_prefix: "prefix (db_security db) (db_security (snd (WriteSecurityEvent ts a k d db)))"
  by (simp add: WriteSecurityEvent_def split: option.splits)

lemma ids_ok_write:
  "ids_ok db \<Longrightarrow> ids_ok (snd (WriteFrame_db ts mt fi ti s p db))"
  "ids_ok db \<Longrightarrow> ids_ok (snd (WriteSecurityEvent ts a k d db))"
  by (auto simp: ids_ok_def WriteFrame_db_def WriteSecurityEvent_def split: option.splits)

lemma high_seq_not_stored: "2 ^ 63 \<le> unat s \<Longrightarrow> snd (WriteFrame_db ts mt fi ti s p db) = db"
  by (simp add: WriteFrame_db_def sql_uint64_def)

subsection \<open>What a query returns\<close>

definition record_of :: "frame_row \<Rightarrow> instant \<Rightarrow> FrameRecord" where
  "record_of row t = \<lparr>FrameRecord_ID = fr_id row, FrameRecord_Ts = t, FrameRecord_MsgType = fr_msg_type row,
     FrameRecord_FromID = fr_from_id row, FrameRecord_ToID = fr_to_id row,
     FrameRecord_SeqNo = fr_seq_no row, FrameRecord_Payload = fr_payload row\<rparr>"

lemma scanFrames_ok:
  "list_all2 (\<lambda>row t. parse_time (fr_ts row) = Inr t) rows ts \<Longrightarrow>
     scanFrames quote parse_time rows = Inr (map2 record_of rows ts)"
  by (induction rows ts rule: list_all2_induct) (simp_all add: record_of_def)

lemma text_le_prefix: "text_le (p @ s) (p @ t) = text_le s t"
  by (induction p) auto

lemma text_le_refl [simp]: "text_le s s"
  by (induction s) auto

text \<open>
  A full stop sorts before the letter Z, so the text of an instant inside a second sorts before
  the text of the second's start.
\<close>

lemma format_nano_split:
  assumes "0 \<le> n" and "n < 1000000000"
  shows "format_nano (s * 1000000000 + n) =
     format_seconds s @ (if n = 0 then '''' else ''.'' @ strip_zeros (show2 9 n)) @ ''Z''"
  using assms by (simp add: format_nano_def)

lemma fraction_sorts_before:
  assumes "0 < n" and "n < 1000000000"
  shows "\<not> text_le (format_nano (s * 1000000000)) (format_nano (s * 1000000000 + n))"
  using assms format_nano_split [of 0 s] format_nano_split [of n s]
  by (simp add: text_le_prefix)

subsection \<open>Properties\<close>

text \<open>
  Asking for the frames since a whole second leaves out every frame recorded later within
  that same second: the stored text of such an instant compares below the text of the second.
\<close>

theorem since_drops_fractions:
  assumes "ff_Since f = s * 1000000000" and "ff_Since f \<noteq> zero_time"
    and "fr_ts row = format_nano (s * 1000000000 + n)" and "0 < n" and "n < 1000000000"
  shows "\<not> frame_matches f row"
  using fraction_sorts_before [OF assms(4,5), of s] assms(1-3) by (simp add: frame_matches_def)

theorem since_drops_fractions_witness:
  "\<not> frame_matches \<lparr>ff_AgentID = '''', ff_MsgType = '''', ff_Since = 1767225600 * 1000000000,
        ff_Until = zero_time, ff_SeqNo = 0, ff_Limit = 0\<rparr>
      \<lparr>fr_id = 1, fr_ts = format_nano (1767225600 * 1000000000 + 500000000), fr_msg_type = ''Ping'',
       fr_from_id = ''a'', fr_to_id = ''b'', fr_seq_no = 1, fr_payload = None\<rparr>"
  by (rule since_drops_fractions [of _ 1767225600 _ 500000000]) (simp_all add: zero_time_def)



end
