(* ===== verification/Capability.thy ===== *)
theory Capability
  imports Ctl
begin

text \<open>
  The capability layer of \<open>internal/capabilities\<close>: \<open>capability.go\<close> (request and response
  payloads, the registry, access control lists, the dispatcher) and \<open>toolproto.go\<close>.

  \<open>Capability\<close> is a Go interface; a value of it is the record of its methods.  What \<open>Execute\<close>
  does to the world outside (files, browsers) is a state \<open>'w\<close> that it transforms; its context
  carries nothing but the scope constraints the dispatcher put there, so these are its first
  argument.  The registry is the list of its entries, keyed by name; Go iterates over a map in
  an order of its own, which is the argument \<open>order\<close> of \<open>Names\<close>.
\<close>

subsection \<open>Requests, responses and their payloads\<close>

record request =
  rq_Name :: string
  rq_AgentID :: string
  rq_SeqNo :: u64
  rq_Args :: bytes

record response =
  rs_OK :: bool
  rs_Data :: bytes
  rs_ErrorCode :: string
  rs_ErrorDetail :: string

definition DeniedResponse :: "string \<Rightarrow> response" where
  "DeniedResponse detail =
     \<lparr>rs_OK = False, rs_Data = [], rs_ErrorCode = ''capability_denied'', rs_ErrorDetail = detail\<rparr>"

record CapabilityRequestPayload =
  crq_Capability :: string
  crq_Args :: bytes

definition CapabilityRequestPayload_MarshalMUS :: "CapabilityRequestPayload \<Rightarrow> bytes" where
  "CapabilityRequestPayload_MarshalMUS p =
     (let b = [];
          b = AppendString b (crq_Capability p);
          b = AppendVarint b (of_nat (length (crq_Args p)));
          b = b @ crq_Args p
      in b)"

definition CapabilityRequestPayload_UnmarshalMUS :: "CapabilityRequestPayload reads" where
  "CapabilityRequestPayload_UnmarshalMUS =
     rbind (ReadString MaxIDLen) (\<lambda>Capability.
     rbind ReadVarint (\<lambda>l.
     rbind (make_slice 1 l) (\<lambda>_.
     rbind (read_full (unat l)) (\<lambda>Args.
     rreturn \<lparr>crq_Capability = Capability, crq_Args = Args\<rparr>))))"

record CapabilityResponsePayload =
  crs_OK :: bool
  crs_Data :: bytes
  crs_ErrorCode :: string
  crs_ErrorDetail :: string

definition CapabilityResponsePayload_MarshalMUS :: "CapabilityResponsePayload \<Rightarrow> bytes" where
  "CapabilityResponsePayload_MarshalMUS p =
     (let b = [];
          b = append_bool b (crs_OK p);
          b = AppendVarint b (of_nat (length (crs_Data p)));
          b = b @ crs_Data p;
          b = AppendString b (crs_ErrorCode p);
          b = AppendString b (crs_ErrorDetail p)
      in b)"

definition CapabilityResponsePayload_UnmarshalMUS :: "CapabilityResponsePayload reads" where
  "CapabilityResponsePayload_UnmarshalMUS =
     rbind (read_full 1) (\<lambda>fixed.
     rbind ReadVarint (\<lambda>l.
     rbind (make_slice 1 l) (\<lambda>_.
     rbind (read_full (unat l)) (\<lambda>Data.
     rbind (ReadString MaxIDLen) (\<lambda>ErrorCode.
     rbind (ReadString 1024) (\<lambda>ErrorDetail.
     rreturn \<lparr>crs_OK = (fixed ! 0 \<noteq> 0), crs_Data = Data, crs_ErrorCode = ErrorCode,
              crs_ErrorDetail = ErrorDetail\<rparr>))))))"

subsection \<open>The Ward's tool protocol (toolproto.go)\<close>

type_synonym ToolRequestMode = u8

definition ToolRequestInvoke :: ToolRequestMode where
  "ToolRequestInvoke = 0"

definition ToolRequestSchema :: ToolRequestMode where
  "ToolRequestSchema = 1"

record ToolRequestPayload =
  trp_Capability :: string
  trp_Mode :: ToolRequestMode
  trp_Args :: bytes

definition ToolRequestPayload_MarshalMUS :: "ToolRequestPayload \<Rightarrow> bytes" where
  "ToolRequestPayload_MarshalMUS p =
     (let b = [];
          b = AppendString b (trp_Capability p);
          b = b @ [trp_Mode p];
          b = AppendVarint b (of_nat (length (trp_Args p)));
          b = b @ trp_Args p
      in b)"

definition ToolRequestPayload_UnmarshalMUS :: "ToolRequestPayload reads" where
  "ToolRequestPayload_UnmarshalMUS =
     rbind (ReadString MaxIDLen) (\<lambda>Capability.
     rbind (read_full 1) (\<lambda>fixed.
     rbind ReadVarint (\<lambda>l.
     rbind (make_slice 1 l) (\<lambda>_.
     rbind (read_full (unat l)) (\<lambda>Args.
     rreturn \<lparr>trp_Capability = Capability, trp_Mode = fixed ! 0, trp_Args = Args\<rparr>)))))"

subsection \<open>Scope constraints and access control lists\<close>

type_synonym constraint_set = "string \<rightharpoonup> string list"

record scope_constraint =
  sc_Entity :: string
  sc_Constraints :: constraint_set

record acl_entry =
  ae_CapabilityName :: string
  ae_Constraints :: "scope_constraint list"

record acl =
  acl_AgentID :: string
  acl_Entries :: "acl_entry list"

fun allowed_in :: "acl_entry list \<Rightarrow> string \<Rightarrow> bool \<times> scope_constraint list" where
  "allowed_in [] name = (False, [])"
| "allowed_in (e # es) name =
     (if ae_CapabilityName e = name then (True, ae_Constraints e) else allowed_in es name)"

definition Allowed :: "acl \<Rightarrow> string \<Rightarrow> bool \<times> scope_constraint list" where
  "Allowed a name = allowed_in (acl_Entries a) name"

subsection \<open>Registry\<close>

record 'w capability =
  c_Name :: string
  c_Explain :: string
  c_AuditPayload :: bool
  c_Execute :: "scope_constraint list \<Rightarrow> request \<Rightarrow> 'w \<Rightarrow> (response \<times> go_error option) \<times> 'w"

record 'w registry =
  reg_caps :: "(string \<times> 'w capability) list"

definition NewRegistry :: "'w registry" where
  "NewRegistry = \<lparr>reg_caps = []\<rparr>"

definition Registry_Lookup :: "'w registry \<Rightarrow> string \<Rightarrow> 'w capability option" where
  "Registry_Lookup reg name = map_of (reg_caps reg) name"

definition Registry_Register :: "'w capability \<Rightarrow> 'w registry \<Rightarrow> 'w registry outcome" where
  "Registry_Register c reg =
     (if Registry_Lookup reg (c_Name c) \<noteq> None
      then Panic (''capabilities: duplicate registration: '' @ c_Name c)
      else Val (reg\<lparr>reg_caps := (c_Name c, c) # reg_caps reg\<rparr>))"

definition Registry_Names :: "(string list \<Rightarrow> string list) \<Rightarrow> 'w registry \<Rightarrow> string list" where
  "Registry_Names order reg = order (map fst (reg_caps reg))"

subsection \<open>Dispatcher\<close>

record 'w dispatcher =
  d_reg :: "'w registry"
  d_acls :: "string \<rightharpoonup> acl"

definition NewDispatcher :: "'w registry \<Rightarrow> 'w dispatcher" where
  "NewDispatcher reg = \<lparr>d_reg = reg, d_acls = Map.empty\<rparr>"

definition Dispatcher_Lookup :: "'w dispatcher \<Rightarrow> string \<Rightarrow> 'w capability option" where
  "Dispatcher_Lookup d name = Registry_Lookup (d_reg d) name"

definition Dispatcher_Register :: "'w capability \<Rightarrow> 'w dispatcher \<Rightarrow> 'w dispatcher outcome" where
  "Dispatcher_Register c d =
     (case Registry_Register c (d_reg d) of
        Val reg \<Rightarrow> Val (d\<lparr>d_reg := reg\<rparr>)
      | Err e \<Rightarrow> Err e
      | Panic m \<Rightarrow> Panic m)"

definition Dispatcher_Names :: "(string list \<Rightarrow> string list) \<Rightarrow> 'w dispatcher \<Rightarrow> string list" where
  "Dispatcher_Names order d = Registry_Names order (d_reg d)"

definition SetACL :: "acl \<Rightarrow> 'w dispatcher \<Rightarrow> 'w dispatcher" where
  "SetACL a d = d\<lparr>d_acls := (d_acls d)(acl_AgentID a \<mapsto> a)\<rparr>"

definition RemoveACL :: "string \<Rightarrow> 'w dispatcher \<Rightarrow> 'w dispatcher" where
  "RemoveACL agentID d = d\<lparr>d_acls := (d_acls d)(agentID := None)\<rparr>"

definition Dispatch ::
  "(string \<Rightarrow> string) \<Rightarrow> 'w dispatcher \<Rightarrow> request \<Rightarrow> 'w \<Rightarrow> (response \<times> go_error option) \<times> 'w"
where
  "Dispatch quote d req w =
     (case d_acls d (rq_AgentID req) of
        None \<Rightarrow> ((DeniedResponse (''no ACL registered for agent '' @ quote (rq_AgentID req)), None), w)
      | Some a \<Rightarrow>
          (case Allowed a (rq_Name req) of (allowed, constraints) \<Rightarrow>
             if \<not> allowed
             then ((DeniedResponse (''capability '' @ quote (rq_Name req) @ '' not in agent ACL''), None), w)
             else (case Registry_Lookup (d_reg d) (rq_Name req) of
                 None \<Rightarrow> ((DeniedResponse (''capability '' @ quote (rq_Name req) @ '' not registered''), None), w)
               | Some cap \<Rightarrow> c_Execute cap constraints req w)))"

subsection \<open>Codecs\<close>

definition crs_wf :: "CapabilityResponsePayload \<Rightarrow> bool" where
  "crs_wf p \<longleftrightarrow> length (crs_Data p) \<le> maxAlloc \<and> length (crs_ErrorCode p) \<le> 256
     \<and> length (crs_ErrorDetail p) \<le> 1024"

lemma unat_MaxIDLen [simp]: "unat MaxIDLen = 256"
  by (simp add: MaxIDLen_def)

lemma blob_count [codec_simps]:
  assumes "length b \<le> maxAlloc"
  shows "make_slice (Suc 0) (of_nat (length b)) r = (Val (), r)"
    and "unat (of_nat (length b) :: u64) = length b"
  using assms by (auto simp: maxAlloc_def intro!: make_slice_ok unat_of_nat_u64)

interpretation capability_request: codec CapabilityRequestPayload_MarshalMUS CapabilityRequestPayload_UnmarshalMUS
  "\<lambda>p. length (crq_Capability p) \<le> 256 \<and> length (crq_Args p) \<le> maxAlloc"
proof unfold_locales
  show "local_reads CapabilityRequestPayload_UnmarshalMUS"
    unfolding CapabilityRequestPayload_UnmarshalMUS_def by (intro local_intros)
qed (simp add: CapabilityRequestPayload_MarshalMUS_def CapabilityRequestPayload_UnmarshalMUS_def marshal_simps codec_simps)

interpretation capability_response: codec CapabilityResponsePayload_MarshalMUS CapabilityResponsePayload_UnmarshalMUS crs_wf
proof unfold_locales
  show "local_reads CapabilityResponsePayload_UnmarshalMUS"
    unfolding CapabilityResponsePayload_UnmarshalMUS_def by (intro local_intros)
qed (simp add: CapabilityResponsePayload_MarshalMUS_def CapabilityResponsePayload_UnmarshalMUS_def crs_wf_def marshal_simps codec_simps)

interpretation tool_request: codec ToolRequestPayload_MarshalMUS ToolRequestPayload_UnmarshalMUS
  "\<lambda>p. length (trp_Capability p) \<le> 256 \<and> length (trp_Args p) \<le> maxAlloc"
proof unfold_locales
  show "local_reads ToolRequestPayload_UnmarshalMUS"
    unfolding ToolRequestPayload_UnmarshalMUS_def by (intro local_intros)
qed (simp add: ToolRequestPayload_MarshalMUS_def ToolRequestPayload_UnmarshalMUS_def marshal_simps codec_simps)

text \<open>The length of a blob is trusted before its bytes have arrived.\<close>

lemma CapabilityRequest_panic:
  assumes "length name \<le> 256" and "maxAlloc < unat l"
  shows "panics (fst (CapabilityRequestPayload_UnmarshalMUS (r\<lparr>rd_buf := enc_string name @ enc_varint l @ rest\<rparr>)))"
  using assms by (simp add: CapabilityRequestPayload_UnmarshalMUS_def marshal_simps make_slice_def)

text \<open>An error detail over 1024 bytes is encoded, but its receiver cannot read it.\<close>

lemma ReadString_long:
  assumes "unat maxLen < length s" and "length s < 2 ^ 64"
  shows "ReadString maxLen (r\<lparr>rd_buf := enc_string s @ rest\<rparr>) = (Err ErrStringTooLong, r\<lparr>rd_buf := bytes_of s @ rest\<rparr>)"
  using assms
  by (simp add: ReadString_def enc_string_def marshal_simps word_less_nat_alt unat_of_nat_u64)

lemma CapabilityResponse_long_detail:
  assumes "length (crs_Data p) \<le> maxAlloc" and "length (crs_ErrorCode p) \<le> 256"
    and "1024 < length (crs_ErrorDetail p)" and "length (crs_ErrorDetail p) < 2 ^ 64"
  shows "fst (CapabilityResponsePayload_UnmarshalMUS
      (r\<lparr>rd_buf := CapabilityResponsePayload_MarshalMUS p @ rest\<rparr>)) = Err ErrStringTooLong"
  using assms
  by (simp add: CapabilityResponsePayload_UnmarshalMUS_def CapabilityResponsePayload_MarshalMUS_def
      marshal_simps codec_simps ReadString_long)

subsection \<open>Registry and access control\<close>

definition registry_ok :: "'w registry \<Rightarrow> bool" where
  "registry_ok reg \<longleftrightarrow> distinct (map fst (reg_caps reg)) \<and> (\<forall>(n, c)\<in>set (reg_caps reg). n = c_Name c)"

lemma registry_ok_new: "registry_ok NewRegistry"
  by (simp add: registry_ok_def NewRegistry_def)

lemma Registry_Register_ok:
  assumes "Registry_Register c reg = Val reg'"
  shows "Registry_Lookup reg' = (Registry_Lookup reg)(c_Name c \<mapsto> c)"
    and "registry_ok reg \<Longrightarrow> registry_ok reg'"
    and "Registry_Lookup reg (c_Name c) = None"
  using assms
  by (auto simp: Registry_Register_def Registry_Lookup_def registry_ok_def map_of_eq_None_iff split: if_splits)

lemma Registry_Register_panics:
  "panics (Registry_Register c reg) \<longleftrightarrow> Registry_Lookup reg (c_Name c) \<noteq> None"
  by (simp add: Registry_Register_def)

text \<open>A registration is never undone or replaced.\<close>

lemma Registry_Register_keeps:
  assumes "Registry_Register c reg = Val reg'" and "Registry_Lookup reg n = Some c0"
  shows "Registry_Lookup reg' n = Some c0"
  using assms Registry_Register_ok(1,3) [OF assms(1)] by auto

lemma Registry_Lookup_name: "registry_ok reg \<Longrightarrow> Registry_Lookup reg n = Some c \<Longrightarrow> c_Name c = n"
  by (auto simp: registry_ok_def Registry_Lookup_def dest: map_of_SomeD)

lemma Registry_Names_set:
  assumes "\<And>xs. set (order xs) = set xs"
  shows "n \<in> set (Registry_Names order reg) \<longleftrightarrow> Registry_Lookup reg n \<noteq> None"
  using assms by (simp add: Registry_Names_def Registry_Lookup_def map_of_eq_None_iff)

lemma Allowed_iff:
  "fst (Allowed a name) \<longleftrightarrow> (\<exists>e\<in>set (acl_Entries a). ae_CapabilityName e = name)"
proof -
  have "fst (allowed_in es name) \<longleftrightarrow> (\<exists>e\<in>set es. ae_CapabilityName e = name)" for es
    by (induction es) auto
  then show ?thesis by (simp add: Allowed_def)
qed

text \<open>The constraints are those of the first entry for the capability.\<close>

lemma Allowed_first:
  assumes "acl_Entries a = before @ e # after" and "\<forall>e\<in>set before. ae_CapabilityName e \<noteq> name"
    and "ae_CapabilityName e = name"
  shows "Allowed a name = (True, ae_Constraints e)"
proof -
  have "allowed_in (before @ e # after) name = (True, ae_Constraints e)"
    using assms(2,3) by (induction before) auto
  with assms(1) show ?thesis by (simp add: Allowed_def)
qed

interpretation acls: keyed_store d_acls acl_AgentID SetACL RemoveACL
  by unfold_locales (simp_all add: SetACL_def RemoveACL_def)

subsection \<open>Dispatch\<close>

definition granted :: "'w dispatcher \<Rightarrow> request \<Rightarrow> (scope_constraint list \<times> 'w capability) option" where
  "granted d req =
     (case d_acls d (rq_AgentID req) of
        None \<Rightarrow> None
      | Some a \<Rightarrow> (case Allowed a (rq_Name req) of
            (True, cs) \<Rightarrow> map_option (Pair cs) (Dispatcher_Lookup d (rq_Name req))
          | (False, _) \<Rightarrow> None))"

lemma Dispatch_granted:
  "granted d req = Some (cs, cap) \<Longrightarrow> Dispatch quote d req w = c_Execute cap cs req w"
  by (auto simp: granted_def Dispatch_def Dispatcher_Lookup_def split: option.splits prod.splits bool.splits)

lemma Dispatch_refused:
  assumes "granted d req = None"
  shows "\<exists>detail. Dispatch quote d req w = ((DeniedResponse detail, None), w)"
  using assms
  by (auto simp: granted_def Dispatch_def Dispatcher_Lookup_def split: option.splits prod.splits bool.splits)

lemma granted_iff:
  "granted d req = Some (cs, cap) \<longleftrightarrow>
     (\<exists>a. d_acls d (rq_AgentID req) = Some a \<and> Allowed a (rq_Name req) = (True, cs)
        \<and> Dispatcher_Lookup d (rq_Name req) = Some cap)"
  by (auto simp: granted_def split: option.splits prod.splits bool.splits)

lemma SetACL_reg [simp]: "d_reg (SetACL a d) = d_reg d" "d_reg (RemoveACL i d) = d_reg d"
  by (simp_all add: SetACL_def RemoveACL_def)

lemma acls_run_reg: "d_reg (fold acls.apply_op ops d) = d_reg d"
proof (induction ops arbitrary: d)
  case Nil
  then show ?case by simp
next
  case (Cons op ops)
  have "d_reg (acls.apply_op op d) = d_reg d"
    by (cases op) (simp_all add: acls.apply_op_def)
  with Cons show ?case by simp
qed

text \<open>
  Once an agent's ACL has been removed its requests are refused, whatever is done to other
  agents' ACLs meanwhile.
\<close>

lemma Dispatch_after_remove:
  assumes "\<forall>op\<in>set ops. acls.op_key op = rq_AgentID req \<longrightarrow> (\<exists>k. op = Del k)"
  shows "\<exists>detail. Dispatch quote (fold acls.apply_op ops (RemoveACL (rq_AgentID req) d)) req w
    = ((DeniedResponse detail, None), w)"
  using acls.deleted_stays_absent [OF assms, of d]
  by (intro Dispatch_refused) (simp add: granted_def)

text \<open>What one agent may do does not depend on the ACLs of the others.\<close>

lemma granted_other_agents:
  assumes "\<forall>op\<in>set ops. acls.op_key op \<noteq> rq_AgentID req"
  shows "granted (fold acls.apply_op ops d) req = granted d req"
proof -
  have "Dispatcher_Lookup (fold acls.apply_op ops d) = Dispatcher_Lookup d"
    by (rule ext) (simp add: Dispatcher_Lookup_def acls_run_reg)
  with acls.look_run_other [OF assms, of d] show ?thesis
    by (simp add: granted_def split: option.split prod.split bool.split)
qed

subsection \<open>Properties\<close>


text \<open>
  Once an agent's ACL has been removed, every request of that agent is denied without effect,
  whatever sequence of ACL changes for other agents, and further removals, follows.
\<close>

theorem removed_agent_is_denied:
  assumes "\<forall>op\<in>set ops. acls.op_key op = rq_AgentID req \<longrightarrow> (\<exists>k. op = Del k)"
  shows "\<exists>detail. Dispatch quote (fold acls.apply_op ops (RemoveACL (rq_AgentID req) d)) req w
    = ((DeniedResponse detail, None), w)"
  using assms by (rule Dispatch_after_remove)

theorem removed_agent_is_denied_witness:
  "\<exists>detail. Dispatch id (fold acls.apply_op [Put \<lparr>acl_AgentID = ''b'', acl_Entries = []\<rparr>, Del ''a'']
      (RemoveACL ''a'' (SetACL \<lparr>acl_AgentID = ''a'', acl_Entries = []\<rparr> (NewDispatcher NewRegistry))))
      \<lparr>rq_Name = ''X'', rq_AgentID = ''a'', rq_SeqNo = 1, rq_Args = []\<rparr> (0 :: nat)
    = ((DeniedResponse detail, None), 0)"
  using removed_agent_is_denied [of "[Put \<lparr>acl_AgentID = ''b'', acl_Entries = []\<rparr>, Del ''a'']"
      "\<lparr>rq_Name = ''X'', rq_AgentID = ''a'', rq_SeqNo = 1, rq_Args = []\<rparr>" id
      "SetACL \<lparr>acl_AgentID = ''a'', acl_Entries = []\<rparr> (NewDispatcher NewRegistry)" "0 :: nat"]
  by (simp add: acls.op_key_def)

text \<open>
  A capability response whose error detail is longer than 1024 bytes is encoded without
  complaint and rejected by its receiver.
\<close>

theorem long_error_detail_undecodable:
  assumes "length (crs_Data p) \<le> 2 ^ 48" and "length (crs_ErrorCode p) \<le> 256"
    and "1024 < length (crs_ErrorDetail p)" and "length (crs_ErrorDetail p) < 2 ^ 64"
  shows "fst (CapabilityResponsePayload_UnmarshalMUS
      (bytes_NewReader (CapabilityResponsePayload_MarshalMUS p))) = Err ErrStringTooLong"
  using CapabilityResponse_long_detail [of p "[]" "bytes_NewReader []"] assms
  by (simp add: maxAlloc_def bytes_NewReader_def)

theorem long_error_detail_undecodable_witness:
  "fst (CapabilityResponsePayload_UnmarshalMUS (bytes_NewReader (CapabilityResponsePayload_MarshalMUS
     \<lparr>crs_OK = False, crs_Data = [], crs_ErrorCode = ''fs_error'',
      crs_ErrorDetail = replicate 1025 (CHR ''x'')\<rparr>))) = Err ErrStringTooLong"
  by (rule long_error_detail_undecodable) simp_all

end
