(* ===== verification/Path.thy ===== *)
theory Path
  imports Prelude
begin

text \<open>
  The lexical path functions of Go's \<open>path/filepath\<close> on Unix, as the repository uses them:
  \<open>Clean\<close>, \<open>Join\<close>, \<open>IsAbs\<close>, \<open>Dir\<close>, \<open>Rel\<close>, and \<open>strings.Split\<close>, \<open>strings.Join\<close> and \<open>strings.HasPrefix\<close>.
  A path is a string; its components are what \<open>strings.Split\<close> at the separator gives.

  The lemmas relate the string form to the components: a cleaned path is determined by its
  components, and appending a relative path without \<open>..\<close> appends its components.
\<close>

subsection \<open>Splitting and joining\<close>

fun split_on :: "char \<Rightarrow> string \<Rightarrow> string list" where
  "split_on c [] = [[]]"
| "split_on c (x # xs) =
     (if x = c then [] # split_on c xs
      else (case split_on c xs of [] \<Rightarrow> [[x]] | h # t \<Rightarrow> (x # h) # t))"

fun join_with :: "char \<Rightarrow> string list \<Rightarrow> string" where
  "join_with c [] = []"
| "join_with c [x] = x"
| "join_with c (x # y # ys) = x @ c # join_with c (y # ys)"

fun strings_Join :: "string list \<Rightarrow> string \<Rightarrow> string" where
  "strings_Join [] sep = ''''"
| "strings_Join [x] sep = x"
| "strings_Join (x # y # xs) sep = x @ sep @ strings_Join (y # xs) sep"

definition HasPrefix :: "string \<Rightarrow> string \<Rightarrow> bool" where
  "HasPrefix s p \<longleftrightarrow> take (length p) s = p"

definition HasSuffix :: "string \<Rightarrow> string \<Rightarrow> bool" where
  "HasSuffix s p \<longleftrightarrow> length p \<le> length s \<and> drop (length s - length p) s = p"

lemma HasPrefix_iff: "HasPrefix s p \<longleftrightarrow> (\<exists>t. s = p @ t)"
  by (metis HasPrefix_def append_eq_conv_conj append_take_drop_id)

lemma HasSuffix_iff: "HasSuffix s p \<longleftrightarrow> (\<exists>t. s = t @ p)"
  by (metis HasSuffix_def append_take_drop_id append_eq_conv_conj diff_add_inverse2 le_add2 length_append)

abbreviation slash :: char where
  "slash \<equiv> CHR ''/''"

definition is_rooted :: "string \<Rightarrow> bool" where
  "is_rooted s \<longleftrightarrow> (case s of [] \<Rightarrow> False | c # _ \<Rightarrow> c = slash)"

definition IsAbs :: "string \<Rightarrow> bool" where
  "IsAbs s = is_rooted s"

subsection \<open>Clean, Join, Dir, Rel\<close>

text \<open>\<open>out\<close> is the output so far, last component first.\<close>

fun clean_comps :: "bool \<Rightarrow> string list \<Rightarrow> string list \<Rightarrow> string list" where
  "clean_comps rooted out [] = rev out"
| "clean_comps rooted out (c # cs) =
     (if c = '''' \<or> c = ''.'' then clean_comps rooted out cs
      else if c = ''..'' then
        (if out \<noteq> [] \<and> hd out \<noteq> ''..'' then clean_comps rooted (tl out) cs
         else if rooted then clean_comps rooted out cs
         else clean_comps rooted (''..'' # out) cs)
      else clean_comps rooted (c # out) cs)"

definition comps :: "string \<Rightarrow> string list" where
  "comps s = clean_comps (is_rooted s) [] (split_on slash s)"

definition render_path :: "bool \<Rightarrow> string list \<Rightarrow> string" where
  "render_path rooted cs =
     (if rooted then slash # join_with slash cs
      else if cs = [] then ''.'' else join_with slash cs)"

definition Clean :: "string \<Rightarrow> string" where
  "Clean s = (if s = '''' then ''.'' else render_path (is_rooted s) (comps s))"

definition Join2 :: "string \<Rightarrow> string \<Rightarrow> string" where
  "Join2 a b =
     (if a \<noteq> '''' then Clean (a @ slash # b)
      else if b \<noteq> '''' then Clean b
      else '''')"

definition Dir :: "string \<Rightarrow> string" where
  "Dir s = Clean (rev (dropWhile (\<lambda>c. c \<noteq> slash) (rev s)))"

fun rel_comps :: "string list \<Rightarrow> string list \<Rightarrow> string list option" where
  "rel_comps (b # bs) (t # ts) =
     (if b = t then rel_comps bs ts
      else if b = ''..'' then None
      else Some (replicate (length (b # bs)) ''..'' @ t # ts))"
| "rel_comps [] ts = Some ts"
| "rel_comps (b # bs) [] =
     (if b = ''..'' then None else Some (replicate (length (b # bs)) ''..''))"

definition Rel :: "string \<Rightarrow> string \<Rightarrow> go_error + string" where
  "Rel basepath targpath =
     (let err = Inl (OtherError (''Rel: can't make '' @ targpath @ '' relative to '' @ basepath)) in
      if Clean basepath = Clean targpath then Inr ''.''
      else if is_rooted (Clean basepath) \<noteq> is_rooted (Clean targpath) then err
      else (case rel_comps (comps basepath) (comps targpath) of
          None \<Rightarrow> err
        | Some cs \<Rightarrow> Inr (join_with slash cs)))"

subsection \<open>Components\<close>

definition plain :: "string \<Rightarrow> bool" where
  "plain c \<longleftrightarrow> c \<noteq> '''' \<and> slash \<notin> set c"

lemma split_on_nonempty [simp]: "split_on c s \<noteq> []"
  by (induction s) (auto split: list.splits)

lemma split_on_no_sep: "x \<in> set (split_on c s) \<Longrightarrow> c \<notin> set x"
proof (induction s arbitrary: x)
  case Nil
  then show ?case by simp
next
  case (Cons a s)
  then show ?case
    by (cases "split_on c s") (auto split: if_splits)
qed

lemma split_on_append_sep: "split_on c (a @ c # b) = split_on c a @ split_on c b"
proof (induction a)
  case Nil
  then show ?case by simp
next
  case (Cons x a)
  then show ?case
    by (cases "split_on c a") auto
qed

lemma split_on_plain: "c \<notin> set s \<Longrightarrow> split_on c s = [s]"
  by (induction s) auto

lemma split_on_join: "xs \<noteq> [] \<Longrightarrow> \<forall>x\<in>set xs. c \<notin> set x \<Longrightarrow> split_on c (join_with c xs) = xs"
  by (induction c xs rule: join_with.induct) (auto simp: split_on_plain split_on_append_sep)

lemma join_split [simp]: "join_with c (split_on c s) = s"
proof (induction s)
  case Nil
  then show ?case by simp
next
  case (Cons x s)
  then show ?case
    by (cases "split_on c s"; cases "tl (split_on c s)") auto
qed

lemma clean_comps_subset:
  "set (clean_comps rooted out cs) \<subseteq> insert ''..'' (set out \<union> {c \<in> set cs. c \<noteq> ''''})"
proof (induction cs arbitrary: out)
  case Nil
  then show ?case by auto
next
  case (Cons c cs)
  have "set (tl out) \<subseteq> set out"
    by (cases out) auto
  then show ?case
    using Cons [of out] Cons [of "tl out"] Cons [of "''..'' # out"] Cons [of "c # out"]
    by (auto split: if_splits)
qed

lemma comps_plain: "c \<in> set (comps s) \<Longrightarrow> plain c"
  using clean_comps_subset [of "is_rooted s" "[]" "split_on slash s"] split_on_no_sep [of _ slash s]
  by (auto simp: comps_def plain_def)

text \<open>A component list that \<open>Clean\<close> leaves alone.\<close>

definition normal :: "bool \<Rightarrow> string list \<Rightarrow> bool" where
  "normal rooted cs \<longleftrightarrow> (\<forall>c\<in>set cs. plain c \<and> c \<noteq> ''.'')
     \<and> (\<exists>n ds. cs = replicate n ''..'' @ ds \<and> ''..'' \<notin> set ds \<and> (rooted \<longrightarrow> n = 0))"

lemma clean_comps_append:
  "clean_comps rooted out (as @ bs) = clean_comps rooted (rev (clean_comps rooted out as)) bs"
  by (induction rooted out as rule: clean_comps.induct) auto

lemma clean_comps_no_dotdot:
  "''..'' \<notin> set cs \<Longrightarrow> clean_comps rooted out cs = rev out @ filter (\<lambda>c. c \<noteq> '''' \<and> c \<noteq> ''.'') cs"
  by (induction rooted out cs rule: clean_comps.induct) auto

lemma clean_comps_dotdots: "clean_comps False (replicate m ''..'') (replicate n ''..'') = replicate (m + n) ''..''"
proof (induction n arbitrary: m)
  case 0
  then show ?case by simp
next
  case (Suc n)
  have "clean_comps False (replicate m ''..'') (replicate (Suc n) ''..'')
      = clean_comps False (replicate (Suc m) ''..'') (replicate n ''..'')"
    by (cases m) auto
  with Suc [of "Suc m"] show ?case by simp
qed

lemma clean_comps_normal: "normal rooted cs \<Longrightarrow> clean_comps rooted [] cs = cs"
proof -
  assume n: "normal rooted cs"
  then obtain n ds where cs: "cs = replicate n ''..'' @ ds" "''..'' \<notin> set ds" "rooted \<longrightarrow> n = 0"
    by (auto simp: normal_def)
  have f: "filter (\<lambda>c. c \<noteq> '''' \<and> c \<noteq> ''.'') ds = ds"
    using n cs(1) by (intro filter_True) (auto simp: normal_def plain_def)
  have "clean_comps rooted [] (replicate n ''..'') = replicate n ''..''"
    using clean_comps_dotdots [of 0 n] cs(3) by (cases rooted) auto
  with cs f show ?thesis
    by (simp add: clean_comps_append clean_comps_no_dotdot)
qed

lemma normal_snoc:
  "normal rooted (rev out) \<Longrightarrow> plain c \<Longrightarrow> c \<noteq> ''.'' \<Longrightarrow> c \<noteq> ''..'' \<Longrightarrow> normal rooted (rev (c # out))"
  by (fastforce simp: normal_def)

lemma normal_dotdot:
  assumes "normal False (rev out)" and "out = [] \<or> hd out = ''..''"
  shows "normal False (rev (''..'' # out))"
proof -
  from assms(1) obtain n ds where cs: "rev out = replicate n ''..'' @ ds" "''..'' \<notin> set ds"
    by (auto simp: normal_def)
  have "ds = []"
  proof (rule ccontr)
    assume "ds \<noteq> []"
    then have "out \<noteq> []" and "hd out = last ds"
      using cs(1) by (metis Nil_is_rev_conv append_is_Nil_conv, metis hd_rev last_appendR rev_rev_ident)
    with assms(2) cs(2) \<open>ds \<noteq> []\<close> show False
      by (metis last_in_set)
  qed
  with cs(1) have "rev (''..'' # out) = replicate (Suc n) ''..''"
    by (simp add: replicate_append_same)
  then show ?thesis
    by (auto simp: normal_def plain_def intro!: exI [of _ "Suc n"] exI [of _ "[]"])
qed

lemma normal_tl:
  assumes "normal rooted (rev out)" and "out \<noteq> []" and "hd out \<noteq> ''..''"
  shows "normal rooted (rev (tl out))"
proof -
  from assms(2) obtain c os where out: "out = c # os"
    by (cases out) auto
  from assms(1) obtain n ds where cs: "rev out = replicate n ''..'' @ ds" "''..'' \<notin> set ds" "rooted \<longrightarrow> n = 0"
    by (auto simp: normal_def)
  have "ds \<noteq> []"
  proof
    assume "ds = []"
    with cs(1) out have "c \<in> set (replicate n ''..'')"
      by (metis append_Nil2 last_in_set rev_is_Nil_conv rev.simps(2) snoc_eq_iff_butlast)
    with assms(3) out show False by simp
  qed
  then have "rev os = replicate n ''..'' @ butlast ds"
    using cs(1) out by (metis butlast_append butlast_snoc rev.simps(2))
  with assms(1) cs(2,3) out show ?thesis
    by (auto simp: normal_def dest: in_set_butlastD)
qed

lemma clean_comps_is_normal:
  "\<forall>c\<in>set cs. slash \<notin> set c \<Longrightarrow> normal rooted (rev out) \<Longrightarrow> normal rooted (clean_comps rooted out cs)"
proof (induction rooted out cs rule: clean_comps.induct)
  case (1 rooted out)
  then show ?case by simp
next
  case (2 rooted out c cs)
  consider "c = '''' \<or> c = ''.''" | "c = ''..''" "out \<noteq> [] \<and> hd out \<noteq> ''..''"
    | "c = ''..''" "\<not> (out \<noteq> [] \<and> hd out \<noteq> ''..'')" rooted
    | "c = ''..''" "\<not> (out \<noteq> [] \<and> hd out \<noteq> ''..'')" "\<not> rooted"
    | "c \<noteq> ''''" "c \<noteq> ''.''" "c \<noteq> ''..''" by blast
  then show ?case
  proof cases
    case 1
    with 2 show ?thesis by auto
  next
    case 2
    with 2(2) "2.prems" normal_tl [of rooted out] show ?thesis
      using "2.IH"(2) by simp
  next
    case 3
    with "2.prems" "2.IH"(3) show ?thesis by auto
  next
    case 4
    with "2.prems" "2.IH"(4) normal_dotdot [of out] show ?thesis by auto
  next
    case 5
    with "2.prems" "2.IH"(5) normal_snoc [of rooted out c] show ?thesis
      by (auto simp: plain_def)
  qed
qed

lemma comps_normal: "normal (is_rooted s) (comps s)"
  unfolding comps_def
  by (rule clean_comps_is_normal) (auto simp: normal_def dest: split_on_no_sep)

lemma is_rooted_Cons [simp]: "is_rooted (c # s) \<longleftrightarrow> c = slash" "\<not> is_rooted []"
  by (simp_all add: is_rooted_def)

lemma is_rooted_join:
  "cs \<noteq> [] \<Longrightarrow> \<forall>c\<in>set cs. plain c \<Longrightarrow> \<not> is_rooted (join_with slash cs)"
  by (cases cs; cases "tl cs"; cases "hd cs") (auto simp: plain_def)

lemma render_path_rooted [simp]:
  "normal rooted cs \<Longrightarrow> is_rooted (render_path rooted cs) = rooted"
  using is_rooted_join [of cs] by (auto simp: render_path_def normal_def)

lemma comps_render: "normal rooted cs \<Longrightarrow> comps (render_path rooted cs) = cs"
proof -
  assume n: "normal rooted cs"
  then have p: "\<forall>c\<in>set cs. slash \<notin> set c"
    by (auto simp: normal_def plain_def)
  note cc = clean_comps_normal [OF n]
  show ?thesis
  proof (cases "cs = []")
    case True
    then show ?thesis
      by (auto simp: comps_def render_path_def)
  next
    case False
    show ?thesis
    proof (cases rooted)
      case True
      then show ?thesis
        using False p cc by (simp add: comps_def render_path_def split_on_join)
    next
      case nr: False
      then have "\<not> is_rooted (join_with slash cs)"
        using n False by (intro is_rooted_join) (auto simp: normal_def)
      with nr show ?thesis
        using False p cc by (simp add: comps_def render_path_def split_on_join)
    qed
  qed
qed

lemma is_rooted_Clean [simp]: "is_rooted (Clean s) = is_rooted s"
  by (simp add: Clean_def comps_normal)

lemma comps_empty [simp]: "comps '''' = []" "comps ''.'' = []" "comps ''/'' = []"
  by (simp_all add: comps_def)

lemma comps_Clean [simp]: "comps (Clean s) = comps s"
  by (simp add: Clean_def comps_render comps_normal)

lemma Clean_nonempty [simp]: "Clean s \<noteq> ''''"
proof -
  have "join_with slash cs \<noteq> ''''" if "cs \<noteq> []" "\<forall>c\<in>set cs. plain c" for cs
    using that by (cases cs; cases "tl cs") (auto simp: plain_def)
  then show ?thesis
    using comps_plain [of _ s] by (auto simp: Clean_def render_path_def)
qed

lemma Clean_eq_iff:
  "Clean s = Clean t \<longleftrightarrow> is_rooted s = is_rooted t \<and> comps s = comps t"
proof
  assume "Clean s = Clean t"
  then show "is_rooted s = is_rooted t \<and> comps s = comps t"
    by (metis comps_Clean is_rooted_Clean)
next
  assume "is_rooted s = is_rooted t \<and> comps s = comps t"
  then show "Clean s = Clean t"
    by (auto simp: Clean_def render_path_def)
qed

lemma Clean_idem [simp]: "Clean (Clean s) = Clean s"
  by (simp add: Clean_eq_iff)

subsection \<open>Joining a relative path\<close>

definition rel_parts :: "string \<Rightarrow> string list" where
  "rel_parts p = filter (\<lambda>c. c \<noteq> '''' \<and> c \<noteq> ''.'') (split_on slash p)"

lemma Join2_under:
  assumes "a \<noteq> ''''" and "''..'' \<notin> set (split_on slash p)"
  shows "is_rooted (Join2 a p) = is_rooted a" and "comps (Join2 a p) = comps a @ rel_parts p"
proof -
  have r: "is_rooted (a @ slash # p) = is_rooted a"
    using assms(1) by (cases a) auto
  then show "is_rooted (Join2 a p) = is_rooted a"
    using assms(1) by (simp add: Join2_def)
  show "comps (Join2 a p) = comps a @ rel_parts p"
    using assms r
    by (simp add: Join2_def) (simp add: comps_def split_on_append_sep clean_comps_append
        clean_comps_no_dotdot rel_parts_def)
qed

lemma Clean_Join2 [simp]: "a \<noteq> '''' \<Longrightarrow> Clean (Join2 a b) = Join2 a b"
  by (simp add: Join2_def)

text \<open>
  The source's containment test: the cleaned path starts with the cleaned scope and a
  separator, or is the scope itself.
\<close>

definition under_scope :: "string \<Rightarrow> string \<Rightarrow> bool" where
  "under_scope scope p \<longleftrightarrow> HasPrefix p (Clean scope @ [slash]) \<or> p = Clean scope"

lemma join_with_append:
  "xs \<noteq> [] \<Longrightarrow> ys \<noteq> [] \<Longrightarrow> join_with c (xs @ ys) = join_with c xs @ c # join_with c ys"
proof (induction c xs rule: join_with.induct)
  case (2 c x)
  then show ?case by (cases ys) auto
qed auto

text \<open>It tests the components, unless the scope is the root or the current directory.\<close>

lemma under_scope_iff:
  assumes "comps scope \<noteq> []" and "Clean p = p"
  shows "under_scope scope p \<longleftrightarrow> is_rooted p = is_rooted scope \<and> prefix (comps scope) (comps p)"
proof
  assume "under_scope scope p"
  then consider t where "p = Clean scope @ slash # t" | "p = Clean scope"
    by (auto simp: under_scope_def HasPrefix_iff)
  then show "is_rooted p = is_rooted scope \<and> prefix (comps scope) (comps p)"
  proof cases
    case 1
    have r: "is_rooted p = is_rooted scope"
      using 1 is_rooted_Clean [of scope] Clean_nonempty [of scope] by (cases "Clean scope") auto
    have s1: "p = slash # join_with slash (comps p) \<or> p = join_with slash (comps p) \<or> comps p = []"
      using assms(2) by (metis Clean_def render_path_def comps_empty(1))
    let ?rs = "comps scope"
    have pp: "\<forall>c\<in>set (comps p). slash \<notin> set c" "\<forall>c\<in>set ?rs. slash \<notin> set c"
      using comps_plain [of _ p] comps_plain [of _ scope] by (auto simp: plain_def)
    have rp: "p = render_path (is_rooted p) (comps p)"
      using assms(2) 1 by (metis Clean_def append_is_Nil_conv list.distinct(1))
    have rs: "Clean scope = render_path (is_rooted scope) ?rs"
      using assms(1) by (auto simp: Clean_def)
    have ne: "comps p \<noteq> []"
    proof
      assume "comps p = []"
      with rp have "length p \<le> 1"
        by (simp add: render_path_def split: if_splits)
      with 1 Clean_nonempty [of scope] show False by simp
    qed
    have "join_with slash (comps p) = join_with slash ?rs @ slash # t"
      using rp rs r 1 ne assms(1) by (cases "is_rooted scope") (auto simp: render_path_def)
    then have "split_on slash (join_with slash (comps p)) = split_on slash (join_with slash ?rs @ slash # t)"
      by simp
    then have "comps p = ?rs @ split_on slash t"
      using ne assms(1) pp by (simp add: split_on_join split_on_append_sep)
    with r show ?thesis by simp
  next
    case 2
    then show ?thesis by simp
  qed
next
  assume a: "is_rooted p = is_rooted scope \<and> prefix (comps scope) (comps p)"
  then obtain ys where ys: "comps p = comps scope @ ys"
    by (auto simp: prefix_def)
  show "under_scope scope p"
  proof (cases "ys = []")
    case True
    with a ys assms(2) show ?thesis
      by (metis Clean_eq_iff append_Nil2 under_scope_def)
  next
    case False
    have "p \<noteq> ''''" using ys assms(1) by auto
    then have "p = render_path (is_rooted p) (comps p)"
      using assms(2) by (simp add: Clean_def)
    also have "\<dots> = Clean scope @ slash # join_with slash ys"
      using a ys False assms(1) by (auto simp: render_path_def Clean_def join_with_append)
    finally show ?thesis
      by (auto simp: under_scope_def HasPrefix_iff)
  qed
qed

subsection \<open>Other string functions\<close>

text \<open>
  \<open>strings.TrimSpace\<close> and \<open>strings.ToLower\<close> on ASCII text, which is what identities, host names and
  settings are made of; other bytes are left alone.
\<close>

definition is_space :: "char \<Rightarrow> bool" where
  "is_space c \<longleftrightarrow> c = CHR '' '' \<or> 9 \<le> (of_char c :: nat) \<and> (of_char c :: nat) \<le> 13"

definition TrimSpace :: "string \<Rightarrow> string" where
  "TrimSpace s = rev (dropWhile is_space (rev (dropWhile is_space s)))"

definition to_lower :: "char \<Rightarrow> char" where
  "to_lower c = (if 65 \<le> (of_char c :: nat) \<and> (of_char c :: nat) \<le> 90 then char_of (of_char c + 32 :: nat) else c)"

definition ToLower :: "string \<Rightarrow> string" where
  "ToLower s = map to_lower s"

definition TrimPrefix :: "string \<Rightarrow> string \<Rightarrow> string" where
  "TrimPrefix s p = (if HasPrefix s p then drop (length p) s else s)"

lemma to_lower_idem [simp]: "to_lower (to_lower c) = to_lower c"
  by (auto simp: to_lower_def)

lemma ToLower_idem [simp]: "ToLower (ToLower s) = ToLower s"
  by (simp add: ToLower_def)

lemma TrimSpace_id: "s \<noteq> [] \<Longrightarrow> \<not> is_space (hd s) \<Longrightarrow> \<not> is_space (last s) \<Longrightarrow> TrimSpace s = s"
  by (metis TrimSpace_def dropWhile_eq_self_iff hd_rev rev_rev_ident)

lemma TrimSpace_Nil [simp]: "TrimSpace [] = []"
  by (simp add: TrimSpace_def)

text \<open>What the code reads of a parsed \<open>url.URL\<close>.\<close>

record url =
  u_Scheme :: string
  u_Host :: string
  u_Path :: string

end
