(* ===== verification/Chromproxy.thy ===== *)
theory Chromproxy
  imports Capability Path
begin

text \<open>
  The browser proxy (\<open>internal/chromproxy/proxy.go\<close>): the URL whitelist, the page reader on top of
  the Chrome DevTools protocol, the table of pending calls, and the WebSocket frames.

  \<open>url_Parse\<close> is \<open>net/url\<close>'s parser; the policy is a function of what it returns, and no lemma
  depends on how it works.  The browser at the other end is the record \<open>cdp\<close> of the exchanges the
  reader has with it, over a state \<open>'h\<close>; JSON is decoded at that boundary.  \<open>PageSession\<close> makes these
  exchanges of calls over the connection.
\<close>

subsection \<open>Whitelist\<close>

record WhitelistPolicy =
  wp_Prefixes :: "string list"
  wp_Domains :: "string list"
  wp_DomainSuffixes :: "string list"
  wp_PathPrefixes :: "string list"

definition url_delim :: "char \<Rightarrow> bool" where
  "url_delim c \<longleftrightarrow> c = slash \<or> c = CHR ''?'' \<or> c = CHR ''#''"

definition prefix_allows :: "string \<Rightarrow> string \<Rightarrow> bool" where
  "prefix_allows needle pre =
     (let candidate = TrimSpace (ToLower pre) in
      if candidate = '''' \<or> \<not> HasPrefix needle candidate then False
      else let rest = drop (length candidate) needle in
        rest = '''' \<or> url_delim (hd rest) \<or> url_delim (last candidate))"

definition allowsByPrefix :: "WhitelistPolicy \<Rightarrow> string \<Rightarrow> bool" where
  "allowsByPrefix p rawURL = list_ex (prefix_allows (ToLower rawURL)) (wp_Prefixes p)"

definition path_allowed :: "string list \<Rightarrow> string \<Rightarrow> bool" where
  "path_allowed pres urlPath =
     (if pres = [] then True
      else let path = (if urlPath = '''' then ''/'' else urlPath) in
        list_ex (\<lambda>pre. HasPrefix path pre) pres)"

definition Allows :: "(string \<Rightarrow> go_error + url) \<Rightarrow> WhitelistPolicy \<Rightarrow> string \<Rightarrow> bool" where
  "Allows url_Parse p rawURL =
     (case url_Parse rawURL of
        Inl err \<Rightarrow> False
      | Inr u \<Rightarrow>
          if u_Scheme u = '''' \<or> u_Host u = '''' then False
          else if allowsByPrefix p rawURL then True
          else let domain = ToLower (u_Host u);
                   domainAllowed =
                     (list_ex (\<lambda>d. domain = ToLower (TrimSpace d)) (wp_Domains p)
                      \<or> list_ex (\<lambda>s. let suffix = ToLower (TrimSpace s) in
                            suffix \<noteq> '''' \<and> (domain = suffix \<or> HasSuffix domain (''.'' @ suffix)))
                          (wp_DomainSuffixes p))
               in if \<not> domainAllowed then False else path_allowed (wp_PathPrefixes p) (u_Path u))"

subsection \<open>Reading a page\<close>

record ax_node =
  ax_Role :: string
  ax_Name :: string

record 'h cdp =
  cdp_openTarget :: "string \<Rightarrow> 'h \<Rightarrow> go_error option \<times> 'h"
  cdp_navigate :: "string \<Rightarrow> 'h \<Rightarrow> go_error option \<times> 'h"
  cdp_waitNetworkIdle :: "'h \<Rightarrow> go_error option \<times> 'h"
  cdp_getFullAXTree :: "'h \<Rightarrow> (go_error + ax_node list option) \<times> 'h"
  cdp_innerText :: "'h \<Rightarrow> (go_error + string option) \<times> 'h"

definition ax_roles :: "string list" where
  "ax_roles = [''heading'', ''link'', ''button'', ''staticText'', ''paragraph'',
     ''listItem'', ''cell'', ''columnHeader'', ''caption'']"

definition ax_text :: "ax_node list \<Rightarrow> string" where
  "ax_text nodes =
     TrimSpace (concat (map (\<lambda>n. if ax_Name n = '''' then ''''
                              else if ax_Role n \<in> set ax_roles then ax_Name n @ [CHR 0x0A] else '''') nodes))"

text \<open>A result that is not the JSON expected is \<open>None\<close>; for \<open>innerText\<close> it is an error.\<close>

definition extractInnerText :: "'h cdp \<Rightarrow> go_error \<Rightarrow> 'h \<Rightarrow> (go_error + string) \<times> 'h" where
  "extractInnerText c json_error h =
     (case cdp_innerText c h of
        (Inl err, h) \<Rightarrow> (Inl err, h)
      | (Inr None, h) \<Rightarrow> (Inl json_error, h)
      | (Inr (Some s), h) \<Rightarrow> (Inr s, h))"

definition extractAccessibleText :: "'h cdp \<Rightarrow> go_error \<Rightarrow> 'h \<Rightarrow> (go_error + string) \<times> 'h" where
  "extractAccessibleText c json_error h =
     (case cdp_getFullAXTree c h of
        (Inl err, h) \<Rightarrow> extractInnerText c json_error h
      | (Inr None, h) \<Rightarrow> extractInnerText c json_error h
      | (Inr (Some nodes), h) \<Rightarrow>
          let text = ax_text nodes in
          if text = '''' then extractInnerText c json_error h else (Inr text, h))"

definition Proxy_ReadPage ::
  "(string \<Rightarrow> string) \<Rightarrow> (string \<Rightarrow> go_error + url) \<Rightarrow> 'h cdp \<Rightarrow> go_error \<Rightarrow> string \<Rightarrow> string
     \<Rightarrow> WhitelistPolicy \<Rightarrow> string \<Rightarrow> nat \<Rightarrow> 'h \<Rightarrow> (go_error + string) \<times> 'h"
where
  "Proxy_ReadPage quote url_Parse c json_error agentID rawURL policy waitFor maxChars h =
     (if \<not> Allows url_Parse policy rawURL
      then (Inl (OtherError (''URL '' @ quote rawURL @ '' not permitted for agent '' @ quote agentID)), h)
      else case cdp_openTarget c agentID h of
          (Some err, h) \<Rightarrow> (Inl (Wrap ''open target: '' err), h)
        | (None, h) \<Rightarrow>
            (case cdp_navigate c rawURL h of
               (Some err, h) \<Rightarrow> (Inl (Wrap ''navigate: '' err), h)
             | (None, h) \<Rightarrow>
                 let h = (if waitFor = ''networkidle'' \<or> waitFor = '''' then snd (cdp_waitNetworkIdle c h) else h) in
                 (case extractAccessibleText c json_error h of
                    (Inl err, h) \<Rightarrow> (Inl (Wrap ''extract text: '' err), h)
                  | (Inr text, h) \<Rightarrow>
                      (Inr (if 0 < maxChars \<and> maxChars < length text then take maxChars text else text), h))))"

subsection \<open>Pending calls\<close>

text \<open>
  A call takes the next id, registers its channel under it and sends; the read loop hands each
  response to the channel registered under its id and forgets it.  A channel is the number of
  its caller.
\<close>

record cdp_envelope =
  ev_ID :: int
  ev_Result :: bytes
  ev_Error :: "string option"

record cdp_target =
  tg_msgID :: int
  tg_pending :: "int \<rightharpoonup> nat"

definition call_register :: "nat \<Rightarrow> cdp_target \<Rightarrow> int \<times> cdp_target" where
  "call_register ch t =
     (let i = tg_msgID t + 1 in (i, t\<lparr>tg_msgID := i, tg_pending := (tg_pending t)(i \<mapsto> ch)\<rparr>))"

text \<open>A call that fails to send, or whose context ends, takes its channel back.\<close>

definition call_abandon :: "int \<Rightarrow> cdp_target \<Rightarrow> cdp_target" where
  "call_abandon i t = t\<lparr>tg_pending := (tg_pending t)(i := None)\<rparr>"

definition call_result :: "cdp_envelope \<Rightarrow> go_error + bytes" where
  "call_result env = (case ev_Error env of
     Some msg \<Rightarrow> Inl (OtherError (''CDP error: '' @ msg)) | None \<Rightarrow> Inr (ev_Result env))"

text \<open>A message that is no JSON, or has no id, is an event and skipped.\<close>

definition cdp_message ::
  "cdp_envelope option \<Rightarrow> cdp_target \<Rightarrow> (nat \<times> (go_error + bytes)) option \<times> cdp_target"
where
  "cdp_message msg t =
     (case msg of
        None \<Rightarrow> (None, t)
      | Some env \<Rightarrow>
          if ev_ID env = 0 then (None, t)
          else let ch = tg_pending t (ev_ID env);
                   t = t\<lparr>tg_pending := (tg_pending t)(ev_ID env := None)\<rparr>
               in (case ch of None \<Rightarrow> (None, t) | Some c \<Rightarrow> (Some (c, call_result env), t)))"

text \<open>
  When the connection fails, every waiting channel gets the error and the table is emptied: the
  answers, and the table after it.
\<close>

definition cdp_drain :: "go_error \<Rightarrow> cdp_target \<Rightarrow> (int \<rightharpoonup> nat \<times> (go_error + bytes)) \<times> cdp_target" where
  "cdp_drain err t = (\<lambda>i. map_option (\<lambda>ch. (ch, Inl err)) (tg_pending t i), t\<lparr>tg_pending := Map.empty\<rparr>)"

text \<open>
  The wait for a quiet page.  Each tick brings its time and the answer to the question for
  \<open>document.readyState\<close>; the ticks end where the context does.  Times are nanoseconds.
\<close>

fun waitNetworkIdle :: "int \<Rightarrow> int \<Rightarrow> int option \<Rightarrow> (int \<times> (go_error + string)) list \<Rightarrow> go_error option" where
  "waitNetworkIdle quietDur deadline lastActivity [] = Some (OtherError ''context canceled'')"
| "waitNetworkIdle quietDur deadline lastActivity ((now, res) # ticks) =
     (case res of
        Inl err \<Rightarrow> Some err
      | Inr state \<Rightarrow>
          let lastActivity' =
                (if state = ''complete'' then (case lastActivity of None \<Rightarrow> Some now | Some t \<Rightarrow> Some t) else None) in
          if state = ''complete'' \<and> (case lastActivity' of None \<Rightarrow> False | Some t \<Rightarrow> quietDur \<le> now - t) then None
          else if deadline < now then None
          else waitNetworkIdle quietDur deadline lastActivity' ticks)"

subsection \<open>WebSocket\<close>

definition str_index :: "char \<Rightarrow> string \<Rightarrow> nat option" where
  "str_index c s = (let p = takeWhile (\<lambda>x. x \<noteq> c) s in if p = s then None else Some (length p))"

definition parseWSURL :: "string \<Rightarrow> string \<times> string" where
  "parseWSURL wsURL =
     (let s = TrimPrefix wsURL ''ws://'' in
      case str_index slash s of
        None \<Rightarrow> (s, ''/'')
      | Some i \<Rightarrow> (take i s, drop i s))"

text \<open>
  The connection of an agent.  A decoded JSON object is a map from its keys to strings;
  a connection is a number.
\<close>

record proxy =
  px_debugAddr :: string
  px_unixSocketPath :: string
  px_targets :: "string \<rightharpoonup> nat"

record 'h devtools =
  dt_getJSON :: "string \<Rightarrow> 'h \<Rightarrow> (go_error + (string \<rightharpoonup> string) list) \<times> 'h"
  dt_putJSON :: "string \<Rightarrow> 'h \<Rightarrow> (go_error + (go_error + (string \<rightharpoonup> string))) \<times> 'h"
  dt_dial :: "string \<Rightarrow> string \<Rightarrow> 'h \<Rightarrow> (go_error + nat) \<times> 'h"
  dt_NewRequest :: "string \<Rightarrow> go_error option"
  dt_sendUpgrade :: "nat \<Rightarrow> string \<Rightarrow> 'h \<Rightarrow> go_error option \<times> 'h"
  dt_readStatus :: "nat \<Rightarrow> 'h \<Rightarrow> (go_error + nat) \<times> 'h"
  dt_close :: "nat \<Rightarrow> 'h \<Rightarrow> 'h"

definition newProxy :: "string \<Rightarrow> proxy" where
  "newProxy debugAddr =
     (if HasPrefix debugAddr ''unix:''
      then \<lparr>px_debugAddr = ''unix'', px_unixSocketPath = TrimPrefix debugAddr ''unix:'', px_targets = Map.empty\<rparr>
      else \<lparr>px_debugAddr = debugAddr, px_unixSocketPath = '''', px_targets = Map.empty\<rparr>)"

definition httpURL :: "proxy \<Rightarrow> string \<Rightarrow> string" where
  "httpURL p path = (if px_unixSocketPath p \<noteq> '''' then ''http://127.0.0.1'' @ path
                     else ''http://'' @ px_debugAddr p @ path)"

definition map_get :: "(string \<rightharpoonup> string) \<Rightarrow> string \<Rightarrow> string" where
  "map_get m k = (case m k of None \<Rightarrow> '''' | Some v \<Rightarrow> v)"

definition page_target :: "(string \<rightharpoonup> string) list \<Rightarrow> string" where
  "page_target targets =
     (case find (\<lambda>t. map_get t ''type'' = ''page'') targets of
        None \<Rightarrow> '''' | Some t \<Rightarrow> map_get t ''webSocketDebuggerUrl'')"

definition newTarget :: "'h devtools \<Rightarrow> proxy \<Rightarrow> 'h \<Rightarrow> (go_error + string) \<times> 'h" where
  "newTarget d p h =
     (case dt_putJSON d (httpURL p ''/json/new?about:blank'') h of
        (Inl err, h) \<Rightarrow> (Inl err, h)
      | (Inr (Inl err), h) \<Rightarrow> (Inl (Wrap ''parse new target: '' err), h)
      | (Inr (Inr tgt), h) \<Rightarrow> (Inr (map_get tgt ''webSocketDebuggerUrl''), h))"

definition dialCDP :: "'h devtools \<Rightarrow> string \<Rightarrow> string \<Rightarrow> 'h \<Rightarrow> (go_error + nat) \<times> 'h" where
  "dialCDP d wsURL unixSocketPath h =
     (let (addr, path) = parseWSURL wsURL;
          (network, dialAddr) = (if unixSocketPath \<noteq> '''' then (''unix'', unixSocketPath) else (''tcp'', addr)) in
      case dt_dial d network dialAddr h of
        (Inl err, h) \<Rightarrow> (Inl (Wrap (''dial '' @ dialAddr @ '': '') err), h)
      | (Inr conn, h) \<Rightarrow>
          (case dt_NewRequest d (''http://'' @ addr @ path) of
             Some err \<Rightarrow> (Inl err, dt_close d conn h)
           | None \<Rightarrow>
               (case dt_sendUpgrade d conn (''http://'' @ addr @ path) h of
                  (Some err, h) \<Rightarrow> (Inl (Wrap ''send upgrade request: '' err), dt_close d conn h)
                | (None, h) \<Rightarrow>
                    (case dt_readStatus d conn h of
                       (Inl err, h) \<Rightarrow> (Inl (Wrap ''read upgrade response: '' err), dt_close d conn h)
                     | (Inr status, h) \<Rightarrow>
                         if status \<noteq> 101
                         then (Inl (OtherError (''unexpected upgrade status: '' @ show_nat status)), dt_close d conn h)
                         else (Inr conn, h)))))"

definition openTarget ::
  "'h devtools \<Rightarrow> string \<Rightarrow> proxy \<times> 'h \<Rightarrow> (go_error + nat) \<times> proxy \<times> 'h"
where
  "openTarget d agentID = (\<lambda>(p, h).
     case px_targets p agentID of
       Some t \<Rightarrow> (Inr t, p, h)
     | None \<Rightarrow>
         (case dt_getJSON d (httpURL p ''/json/list'') h of
            (Inl err, h) \<Rightarrow> (Inl err, p, h)
          | (Inr targets, h) \<Rightarrow>
              let found = page_target targets in
              (case (if found = '''' then newTarget d p h else (Inr found, h)) of
                 (Inl err, h) \<Rightarrow> (Inl (Wrap ''create page target: '' err), p, h)
               | (Inr wsURL, h) \<Rightarrow>
                   (case dialCDP d wsURL (px_unixSocketPath p) h of
                      (Inl err, h) \<Rightarrow> (Inl (Wrap ''dial CDP: '' err), p, h)
                    | (Inr conn, h) \<Rightarrow>
                        (Inr conn, p\<lparr>px_targets := (px_targets p)(agentID \<mapsto> conn)\<rparr>, h)))))"

definition ws_byte :: "nat \<Rightarrow> nat \<Rightarrow> u8" where
  "ws_byte n shift = of_nat (n div 2 ^ shift)"

definition wsEncodeFrame :: "bytes \<Rightarrow> bytes" where
  "wsEncodeFrame msg =
     (let n = length msg;
          header = [0x81];
          maskBit = 0x80;
          header =
            (if n < 126 then header @ [maskBit OR ws_byte n 0]
             else if n < 65536 then header @ [maskBit OR 126, ws_byte n 8, ws_byte n 0]
             else header @ [maskBit OR 127, 0, 0, 0, 0, ws_byte n 24, ws_byte n 16, ws_byte n 8, ws_byte n 0]);
          header = header @ [0, 0, 0, 0]
      in header @ msg)"

definition ws_be :: "bytes \<Rightarrow> u64" where
  "ws_be ext = foldl (\<lambda>acc b. push_bit 8 acc OR ucast b) 0 ext"

definition ws_unmask :: "bytes \<Rightarrow> bytes \<Rightarrow> bytes" where
  "ws_unmask maskKey payload = map (\<lambda>i. payload ! i XOR maskKey ! (i mod 4)) [0..<length payload]"

definition wsRecv :: "bytes reads" where
  "wsRecv =
     rbind (read_full 2) (\<lambda>header.
     let masked = (header ! 1 AND 0x80 \<noteq> 0);
         len7 = header ! 1 AND 0x7F in
     rbind (if len7 = 126 then rbind (read_full 2) (\<lambda>ext. rreturn (ws_be ext))
            else if len7 = 127 then rbind (read_full 8) (\<lambda>ext. rreturn (ws_be ext))
            else rreturn (ucast len7)) (\<lambda>payloadLen.
     rbind (if masked then read_full 4 else rreturn [0, 0, 0, 0]) (\<lambda>maskKey.
     rbind (make_slice 1 payloadLen) (\<lambda>_.
     rbind (read_full (unat payloadLen)) (\<lambda>payload.
     rreturn (if masked then ws_unmask maskKey payload else payload))))))"

subsection \<open>What the whitelist lets through\<close>

lemma Allows_host:
  assumes "Allows url_Parse p rawURL" and "wp_Prefixes p = []"
  obtains u where "url_Parse rawURL = Inr u" and "u_Host u \<noteq> ''''"
    and "(\<exists>d\<in>set (wp_Domains p). ToLower (u_Host u) = ToLower (TrimSpace d))
      \<or> (\<exists>s\<in>set (wp_DomainSuffixes p). ToLower (u_Host u) = ToLower (TrimSpace s)
           \<or> (\<exists>l. ToLower (u_Host u) = l @ ''.'' @ ToLower (TrimSpace s)))"
    and "path_allowed (wp_PathPrefixes p) (u_Path u)"
  using assms
  by (auto simp: Allows_def allowsByPrefix_def Let_def list_ex_iff HasSuffix_iff split: sum.splits if_splits)

lemma ReadPage_refused:
  "\<not> Allows url_Parse policy rawURL \<Longrightarrow>
     Proxy_ReadPage quote url_Parse c je agentID rawURL policy waitFor maxChars h
       = (Inl (OtherError (''URL '' @ quote rawURL @ '' not permitted for agent '' @ quote agentID)), h)"
  by (simp add: Proxy_ReadPage_def)

lemma ReadPage_length:
  assumes "Proxy_ReadPage quote url_Parse c je agentID rawURL policy waitFor maxChars h = (Inr text, h')"
    and "0 < maxChars"
  shows "length text \<le> maxChars"
  using assms by (auto simp: Proxy_ReadPage_def Let_def split: if_splits prod.splits option.splits sum.splits)

subsection \<open>Pending calls are answered once\<close>

definition pending_ok :: "cdp_target \<Rightarrow> bool" where
  "pending_ok t \<longleftrightarrow> (\<forall>i ch. tg_pending t i = Some ch \<longrightarrow> 0 < i \<and> i \<le> tg_msgID t) \<and> 0 \<le> tg_msgID t"

lemma call_register_ok:
  assumes "pending_ok t" and "call_register ch t = (i, t')"
  shows "pending_ok t'" and "tg_pending t i = None" and "tg_pending t' i = Some ch" and "0 < i"
proof -
  have i: "i = tg_msgID t + 1" and t': "t' = t\<lparr>tg_msgID := i, tg_pending := (tg_pending t)(i \<mapsto> ch)\<rparr>"
    using assms(2) by (auto simp: call_register_def Let_def)
  show "pending_ok t'"
    unfolding pending_ok_def
  proof (intro conjI allI impI)
    fix j c
    assume "tg_pending t' j = Some c"
    then have "j = i \<or> tg_pending t j = Some c"
      using t' by (auto split: if_splits)
    then show "0 < j" and "j \<le> tg_msgID t'"
      using assms(1) i t' by (fastforce simp: pending_ok_def)+
  next
    show "0 \<le> tg_msgID t'"
      using assms(1) i t' by (simp add: pending_ok_def)
  qed
  show "tg_pending t i = None"
  proof (cases "tg_pending t i")
    case (Some c)
    with assms(1) have "i \<le> tg_msgID t"
      by (simp add: pending_ok_def)
    with i show ?thesis by simp
  qed
  show "tg_pending t' i = Some ch"
    using t' by simp
  show "0 < i"
    using assms(1) i by (simp add: pending_ok_def)
qed

lemma cdp_message_delivers:
  assumes "cdp_message msg t = (Some (ch, r), t')"
  obtains env where "msg = Some env" "tg_pending t (ev_ID env) = Some ch" "r = call_result env"
    "tg_pending t' = (tg_pending t)(ev_ID env := None)"
  using assms by (auto simp: cdp_message_def Let_def split: option.splits if_splits)

lemma cdp_message_other:
  "msg = Some env \<Longrightarrow> i \<noteq> ev_ID env \<Longrightarrow> tg_pending (snd (cdp_message msg t)) i = tg_pending t i"
  by (auto simp: cdp_message_def Let_def split: option.splits)

lemma cdp_drain_all:
  "tg_pending t i = Some ch \<Longrightarrow> fst (cdp_drain err t) i = Some (ch, Inl err)"
  "pending_ok t \<Longrightarrow> pending_ok (snd (cdp_drain err t))"
  by (simp_all add: cdp_drain_def pending_ok_def)

subsection \<open>Waiting and connecting\<close>

definition is_complete :: "int \<times> (go_error + string) \<Rightarrow> bool" where
  "is_complete tick \<longleftrightarrow> snd tick = Inr ''complete''"

definition quiet_window :: "int \<Rightarrow> (int \<times> (go_error + string)) list \<Rightarrow> nat \<Rightarrow> bool" where
  "quiet_window quietDur ticks j \<longleftrightarrow>
     (\<exists>i\<le>j. (\<forall>k. i \<le> k \<and> k \<le> j \<longrightarrow> is_complete (ticks ! k)) \<and> quietDur \<le> fst (ticks ! j) - fst (ticks ! i))"

lemma quiet_window_Cons: "quiet_window q ticks j \<Longrightarrow> quiet_window q (t # ticks) (Suc j)"
proof -
  assume "quiet_window q ticks j"
  then obtain i where i: "i \<le> j" "\<And>k. i \<le> k \<Longrightarrow> k \<le> j \<Longrightarrow> is_complete (ticks ! k)"
    "q \<le> fst (ticks ! j) - fst (ticks ! i)"
    by (auto simp: quiet_window_def)
  have "is_complete ((t # ticks) ! k)" if "Suc i \<le> k" "k \<le> Suc j" for k
    using that i(2) [of "k - 1"] by (cases k) auto
  with i(1,3) show ?thesis
    unfolding quiet_window_def by (intro exI [of _ "Suc i"]) (simp only: nth_Cons_Suc, blast)
qed

lemma quiet_window_start:
  "is_complete t \<Longrightarrow> \<forall>k\<le>j. is_complete (ticks ! k) \<Longrightarrow> q \<le> fst (ticks ! j) - fst t \<Longrightarrow> quiet_window q (t # ticks) (Suc j)"
  unfolding quiet_window_def by (intro exI [of _ 0]) (auto simp: nth_Cons split: nat.splits)

lemma idle_from:
  assumes "waitNetworkIdle q d la ticks = None"
  shows "\<exists>j<length ticks. d < fst (ticks ! j) \<or> quiet_window q ticks j
    \<or> (\<exists>t0. la = Some t0 \<and> (\<forall>k\<le>j. is_complete (ticks ! k)) \<and> q \<le> fst (ticks ! j) - t0)"
  using assms
proof (induction ticks arbitrary: la)
  case Nil
  then show ?case by simp
next
  case (Cons tick ticks)
  obtain now state where tick: "tick = (now, Inr state)"
    using Cons.prems by (cases tick) (auto split: sum.splits)
  define la' where "la' = (if state = ''complete'' then (case la of None \<Rightarrow> Some now | Some t \<Rightarrow> Some t) else None)"
  show ?case
  proof (cases "state = ''complete'' \<and> (case la' of None \<Rightarrow> False | Some t \<Rightarrow> q \<le> now - t)")
    case True
    then show ?thesis
      using tick by (intro exI [of _ 0])
        (auto simp: la'_def quiet_window_def is_complete_def split: option.splits)
  next
    case False
    show ?thesis
    proof (cases "d < now")
      case True
      then show ?thesis using tick by (intro exI [of _ 0]) simp
    next
      case nd: False
      then have "waitNetworkIdle q d la' ticks = None"
        using Cons.prems False unfolding tick waitNetworkIdle.simps sum.case Let_def la'_def
        by (simp only: if_False)
      from Cons.IH [OF this] obtain j where j: "j < length ticks"
        and "d < fst (ticks ! j) \<or> quiet_window q ticks j
          \<or> (\<exists>t0. la' = Some t0 \<and> (\<forall>k\<le>j. is_complete (ticks ! k)) \<and> q \<le> fst (ticks ! j) - t0)" by blast
      then consider "d < fst (ticks ! j)" | "quiet_window q ticks j"
        | t0 where "la' = Some t0" "\<forall>k\<le>j. is_complete (ticks ! k)" "q \<le> fst (ticks ! j) - t0"
        by blast
      then show ?thesis
      proof cases
        case 1
        with j show ?thesis by (intro exI [of _ "Suc j"]) simp
      next
        case 2
        with j show ?thesis by (intro exI [of _ "Suc j"]) (simp add: quiet_window_Cons)
      next
        case 3
        then have c: "is_complete tick"
          using tick by (auto simp: la'_def is_complete_def split: if_splits)
        show ?thesis
        proof (cases la)
          case None
          with 3 tick c have "t0 = fst tick"
            by (auto simp: la'_def is_complete_def)
          with 3 c j show ?thesis by (intro exI [of _ "Suc j"]) (simp add: quiet_window_start)
        next
          case (Some t1)
          with 3 tick c have "t0 = t1"
            by (auto simp: la'_def is_complete_def)
          moreover have "\<forall>k\<le>Suc j. is_complete ((tick # ticks) ! k)"
            using 3(2) c by (auto simp: nth_Cons split: nat.splits)
          ultimately show ?thesis
            using 3(3) Some j by (intro exI [of _ "Suc j"]) simp
        qed
      qed
    qed
  qed
qed

text \<open>An agent keeps its connection, and opening one touches no other agent's.\<close>

lemma openTarget_keeps:
  "openTarget d agentID (p, h) = (Inr t, p', h') \<Longrightarrow>
     px_targets p' agentID = Some t \<and> (\<forall>a. a \<noteq> agentID \<longrightarrow> px_targets p' a = px_targets p a)
     \<and> openTarget d agentID (p', h'') = (Inr t, p', h'')"
  by (auto simp: openTarget_def Let_def split: option.splits prod.splits sum.splits)

lemma openTarget_fails:
  "openTarget d agentID (p, h) = (Inl err, p', h') \<Longrightarrow> p' = p"
  by (auto simp: openTarget_def Let_def split: option.splits prod.splits sum.splits)

subsection \<open>Frames round trip\<close>

lemma ws_be_step:
  assumes "unat acc < 2 ^ 56"
  shows "unat (push_bit 8 acc OR ucast (b :: u8) :: u64) = 256 * unat acc + unat b"
proof -
  have b: "unat b < 2 ^ LENGTH(8)"
    by (rule unsigned_less)
  have nb: "\<not> bit b n" if "8 \<le> n" for n
    using that by (simp add: impossible_bit)
  have "push_bit 8 acc OR ucast b = push_bit 8 acc + (ucast b :: u64)"
    by (rule disjunctive_add [symmetric]) (use nb in \<open>auto simp: bit_simps\<close>)
  moreover have "unat (push_bit 8 acc) = 256 * unat acc"
    using assms by (simp only: unsigned_push_bit_eq) (simp add: push_bit_eq_mult take_bit_nat_eq_self)
  moreover have "unat (ucast b :: u64) = unat b"
    using b by (simp add: unsigned_ucast_eq take_bit_nat_eq_self)
  moreover have "256 * unat acc + unat b < 2 ^ 64"
    using assms b by simp
  ultimately show ?thesis
    by (simp add: unat_word_ariths)
qed

lemma ws_be_unat:
  "length ext \<le> 8 \<Longrightarrow> unat (ws_be ext) = foldl (\<lambda>n b. 256 * n + unat b) 0 ext
     \<and> unat (ws_be ext) < 2 ^ (8 * length ext)"
proof (induction ext rule: rev_induct)
  case Nil
  then show ?case by (simp add: ws_be_def)
next
  case (snoc b ext)
  then have IH: "unat (ws_be ext) = foldl (\<lambda>n b. 256 * n + unat b) 0 ext" "unat (ws_be ext) < 2 ^ (8 * length ext)"
    by simp_all
  have "(2 :: nat) ^ (8 * length ext) \<le> 2 ^ 56"
    using snoc.prems by (intro power_increasing) auto
  with IH(2) have small: "unat (ws_be ext) < 2 ^ 56" by linarith
  have eq: "unat (ws_be (ext @ [b])) = 256 * unat (ws_be ext) + unat b"
    using ws_be_step [OF small, of b] by (simp add: ws_be_def)
  have "unat b < 2 ^ LENGTH(8)"
    by (rule unsigned_less)
  then have "256 * unat (ws_be ext) + unat b < 256 * 2 ^ (8 * length ext)"
    using IH(2) by simp
  with eq IH(1) show ?case
    by (simp add: power_add)
qed

lemma ws_byte_unat: "unat (ws_byte n shift) = n div 2 ^ shift mod 256"
  by (simp add: ws_byte_def unat_of_nat)

lemma ws_unmask_zero: "ws_unmask [0, 0, 0, 0] payload = payload"
proof -
  have "[0, 0, 0, 0 :: u8] ! (i mod 4) = 0" for i
    by (cases "i mod 4 = 0"; cases "i mod 4 = 1"; cases "i mod 4 = 2"; cases "i mod 4 = 3") auto
  then show ?thesis
    by (simp add: ws_unmask_def map_nth)
qed

lemma ws_len_16: "65536 > n \<Longrightarrow> unat (ws_be [ws_byte n 8, ws_byte n 0]) = n"
  by (subst conjunct1 [OF ws_be_unat]) (simp_all add: ws_byte_unat)

lemma split4: "n < 4294967296 \<Longrightarrow>
  256 * (256 * (256 * (n div 16777216 mod 256) + n div 65536 mod 256) + n div 256 mod 256) + n mod 256 = n" for n :: nat
proof -
  assume n: "n < 4294967296"
  let ?a = "n div 256"
  let ?b = "?a div 256"
  let ?c = "?b div 256"
  have e: "n div 65536 = ?b" "n div 16777216 = ?c"
    by (simp_all add: div_mult2_eq [symmetric])
  have c: "?c mod 256 = ?c"
    using n by (intro mod_less) (simp add: div_mult2_eq [symmetric] less_mult_imp_div_less)
  have "256 * ?c + ?b mod 256 = ?b" "256 * ?b + ?a mod 256 = ?a" "256 * ?a + n mod 256 = n"
    by simp_all
  then show ?thesis
    unfolding e c by presburger
qed

lemma ws_len_32:
  "n < 4294967296 \<Longrightarrow> unat (ws_be [0, 0, 0, 0, ws_byte n 24, ws_byte n 16, ws_byte n 8, ws_byte n 0]) = n"
  using split4 [of n] by (subst conjunct1 [OF ws_be_unat]) (simp_all add: ws_byte_unat)

lemma ws_header_byte:
  assumes "n < 128"
  shows "(0x80 OR (of_nat n :: u8)) AND 0x80 \<noteq> 0" and "(0x80 OR (of_nat n :: u8)) AND 0x7F = of_nat n"
proof -
  have "bit ((0x80 OR (of_nat n :: u8)) AND 0x80) 7"
    by (simp add: bit_simps)
  then show "(0x80 OR (of_nat n :: u8)) AND 0x80 \<noteq> 0"
    by auto
  have u: "unat (of_nat n :: u8) = n"
    using assms by (simp add: unat_of_nat)
  have "take_bit 7 (of_nat n :: u8) = of_nat n"
    using assms u by (simp add: word_unat_eq_iff unsigned_take_bit_eq take_bit_nat_eq_self)
  then show "(0x80 OR (of_nat n :: u8)) AND 0x7F = of_nat n"
    by (simp add: and_0x7F)
qed

lemma wsRecv_wsEncodeFrame:
  assumes "length msg < 2 ^ 32"
  shows "wsRecv (r\<lparr>rd_buf := wsEncodeFrame msg @ rest\<rparr>) = (Val msg, r\<lparr>rd_buf := rest\<rparr>)"
proof -
  let ?n = "length msg"
  have tail: "make_slice (Suc 0) len s = (Val (), s)" if "unat len = ?n" for len s
    using that assms by (simp add: make_slice_def maxAlloc_def)
  have h126: "(0x80 OR 126 :: u8) AND 0x80 \<noteq> 0" "(0x80 OR 126 :: u8) AND 0x7F = 126"
    "(0x80 OR 127 :: u8) AND 0x80 \<noteq> 0" "(0x80 OR 127 :: u8) AND 0x7F = 127"
    by simp_all
  consider "?n < 126" | "126 \<le> ?n" "?n < 65536" | "65536 \<le> ?n" by linarith
  then show ?thesis
  proof cases
    case 1
    have u: "unat (ucast (of_nat ?n :: u8) :: u64) = ?n" "unat (of_nat ?n :: u8) = ?n"
      using 1 by (simp_all add: unsigned_ucast_eq unat_of_nat take_bit_nat_eq_self)
    have ne: "(of_nat ?n :: u8) \<noteq> 126" "(of_nat ?n :: u8) \<noteq> 127"
      using 1 u(2) by (auto simp: word_unat_eq_iff)
    have b: "ws_byte ?n 0 = of_nat ?n"
      by (simp add: ws_byte_def)
    show ?thesis
      using 1 ws_header_byte [of ?n] ne u tail [OF u(1)] ws_unmask_zero
        read_full_append [of "[0, 0, 0, 0]" 4 "msg @ rest" r] read_full_append [of msg ?n rest r]
      by (simp add: wsRecv_def wsEncodeFrame_def b rbind_def read_full_2 Let_def)
  next
    case 2
    have u: "unat (ws_be [ws_byte ?n 8, ws_byte ?n 0]) = ?n"
      using 2 by (intro ws_len_16)
    show ?thesis
      using 2 h126 u tail [OF u] ws_unmask_zero
        read_full_append [of "[ws_byte ?n 8, ws_byte ?n 0]" 2 "[0, 0, 0, 0] @ msg @ rest" r]
        read_full_append [of "[0, 0, 0, 0]" 4 "msg @ rest" r] read_full_append [of msg ?n rest r]
      by (simp add: wsRecv_def wsEncodeFrame_def rbind_def read_full_2 Let_def)
  next
    case 3
    let ?e = "[0, 0, 0, 0, ws_byte ?n 24, ws_byte ?n 16, ws_byte ?n 8, ws_byte ?n 0]"
    have u: "unat (ws_be ?e) = ?n"
      using assms by (intro ws_len_32) simp
    show ?thesis
      using 3 h126 u tail [OF u] ws_unmask_zero
        read_full_append [of ?e 8 "[0, 0, 0, 0] @ msg @ rest" r]
        read_full_append [of "[0, 0, 0, 0]" 4 "msg @ rest" r] read_full_append [of msg ?n rest r]
      by (simp add: wsRecv_def wsEncodeFrame_def rbind_def read_full_2 Let_def)
  qed
qed

subsection \<open>Properties\<close>

text \<open>
  C35: A text message of less than 4 GiB sent to the browser as a WebSocket frame is read back by
  the receiver, through each of the three length encodings, with nothing after it consumed.
\<close>

theorem websocket_roundtrip:
  assumes "length msg < 2 ^ 32"
  shows "wsRecv (r\<lparr>rd_buf := wsEncodeFrame msg @ rest\<rparr>) = (Val msg, r\<lparr>rd_buf := rest\<rparr>)"
  using assms by (rule wsRecv_wsEncodeFrame)

theorem websocket_roundtrip_witness:
  "wsRecv (bytes_NewReader [] \<lparr>rd_buf := wsEncodeFrame (replicate 300 7) @ [1]\<rparr>)
     = (Val (replicate 300 7), bytes_NewReader [] \<lparr>rd_buf := [1]\<rparr>)"
  by (rule websocket_roundtrip) simp

text \<open>
  The wait for a quiet page returns without error only at a tick after its deadline, or at one
  that ends a run of consecutive answers \<open>complete\<close> spanning at least the quiet duration.
\<close>

theorem idle_needs_quiet_window:
  assumes "waitNetworkIdle quietDur deadline None ticks = None"
  shows "\<exists>j<length ticks. deadline < fst (ticks ! j) \<or> quiet_window quietDur ticks j"
  using idle_from [OF assms] by simp

definition demo_idle_ticks :: "(int \<times> (go_error + string)) list" where
  "demo_idle_ticks = [(2, Inr ''complete''), (4, Inr ''loading''), (6, Inr ''complete''), (9, Inr ''complete'')]"

theorem idle_needs_quiet_window_witness:
  "\<exists>j<length demo_idle_ticks. 100 < fst (demo_idle_ticks ! j) \<or> quiet_window 3 demo_idle_ticks j"
  by (rule idle_needs_quiet_window) (simp add: demo_idle_ticks_def)

end
