(* ===== verification/Browser.thy ===== *)
theory Browser
  imports Chromproxy
begin

text \<open>
  \<open>Browser_Page_Read\<close> (\<open>internal/capabilities/browser.go\<close>): the scope a constraint list stands
  for, its test of a URL, the policy handed to the proxy, and the capability.

  The capability's proxy function is the argument \<open>ChromeProxy\<close>; the context's deadline is its
  \<open>timeout\<close> argument, a Go duration as its 64-bit pattern.

  The capability tests the URL with the scope and the proxy tests it again with the policy; the
  two tests differ on surrounding white space and on an empty suffix, and agree otherwise.
\<close>

subsection \<open>Arguments (generated.go)\<close>

record Browser_Page_Read =
  bpr_URL :: string
  bpr_Timeout :: u64
  bpr_WaitFor :: string

definition Browser_Page_Read_MarshalMUS :: "Browser_Page_Read \<Rightarrow> bytes" where
  "Browser_Page_Read_MarshalMUS a =
     (let b = [];
          b = AppendString b (bpr_URL a);
          b = AppendVarint b (bpr_Timeout a);
          b = AppendString b (bpr_WaitFor a)
      in b)"

definition Browser_Page_Read_UnmarshalMUS :: "Browser_Page_Read reads" where
  "Browser_Page_Read_UnmarshalMUS =
     rbind (rmap_err (Wrap ''url: '') (ReadString (of_nat MaxPayloadBytes))) (\<lambda>URL.
     rbind (rmap_err (Wrap ''timeout: '') ReadVarint) (\<lambda>v.
     rbind (rmap_err (Wrap ''wait_for: '') (ReadString (of_nat MaxPayloadBytes))) (\<lambda>WaitFor.
     rreturn \<lparr>bpr_URL = URL, bpr_Timeout = v, bpr_WaitFor = WaitFor\<rparr>)))"

interpretation page_read: codec Browser_Page_Read_MarshalMUS Browser_Page_Read_UnmarshalMUS
  "\<lambda>a. length (bpr_URL a) \<le> MaxPayloadBytes \<and> length (bpr_WaitFor a) \<le> MaxPayloadBytes"
proof unfold_locales
  show "local_reads Browser_Page_Read_UnmarshalMUS"
    unfolding Browser_Page_Read_UnmarshalMUS_def by (intro local_intros)
qed (simp add: Browser_Page_Read_MarshalMUS_def Browser_Page_Read_UnmarshalMUS_def marshal_simps codec_simps)

subsection \<open>Scope\<close>

record browserScope =
  bs_domains :: "string list"
  bs_domainSuffixes :: "string list"
  bs_pathPrefixes :: "string list"

text \<open>Indexing a map with an absent key gives the empty list.\<close>

definition constraint :: "scope_constraint \<Rightarrow> string \<Rightarrow> string list" where
  "constraint sc key = (case sc_Constraints sc key of None \<Rightarrow> [] | Some vs \<Rightarrow> vs)"

definition scope_step :: "browserScope \<Rightarrow> scope_constraint \<Rightarrow> browserScope" where
  "scope_step scope sc =
     (if sc_Entity sc \<noteq> ''Link'' then scope
      else \<lparr>bs_domains = bs_domains scope @ constraint sc ''domain'',
            bs_domainSuffixes = bs_domainSuffixes scope @ constraint sc ''domain-suffix'',
            bs_pathPrefixes = bs_pathPrefixes scope @ constraint sc ''path-prefix''\<rparr>)"

definition normalizeBrowserScope :: "scope_constraint list \<Rightarrow> browserScope" where
  "normalizeBrowserScope constraints =
     foldl scope_step \<lparr>bs_domains = [], bs_domainSuffixes = [], bs_pathPrefixes = []\<rparr> constraints"

definition whitelistPolicy :: "browserScope \<Rightarrow> WhitelistPolicy" where
  "whitelistPolicy s =
     \<lparr>wp_Prefixes = [], wp_Domains = bs_domains s, wp_DomainSuffixes = bs_domainSuffixes s,
      wp_PathPrefixes = bs_pathPrefixes s\<rparr>"

definition buildBrowserWhitelistPolicy :: "scope_constraint list \<Rightarrow> WhitelistPolicy" where
  "buildBrowserWhitelistPolicy constraints = whitelistPolicy (normalizeBrowserScope constraints)"

definition allowsURL :: "(string \<Rightarrow> go_error + url) \<Rightarrow> browserScope \<Rightarrow> string \<Rightarrow> bool" where
  "allowsURL url_Parse s rawURL =
     (if bs_domains s = [] \<and> bs_domainSuffixes s = [] \<and> bs_pathPrefixes s = [] then False
      else case url_Parse rawURL of
          Inl err \<Rightarrow> False
        | Inr u \<Rightarrow>
            if u_Scheme u = '''' \<or> u_Host u = '''' then False
            else let domain = ToLower (u_Host u);
                     domainAllowed =
                       (list_ex (\<lambda>d. domain = ToLower d) (bs_domains s)
                        \<or> list_ex (\<lambda>suffixValue. let suffix = ToLower suffixValue in
                              domain = suffix \<or> HasSuffix domain (''.'' @ suffix)) (bs_domainSuffixes s))
                 in if \<not> domainAllowed then False else path_allowed (bs_pathPrefixes s) (u_Path u))"

definition urlMatchesConstraints :: "(string \<Rightarrow> go_error + url) \<Rightarrow> string \<Rightarrow> scope_constraint list \<Rightarrow> bool" where
  "urlMatchesConstraints url_Parse rawURL constraints = allowsURL url_Parse (normalizeBrowserScope constraints) rawURL"

subsection \<open>Execute\<close>

type_synonym 'w chrome_proxy =
  "string \<Rightarrow> string \<Rightarrow> WhitelistPolicy \<Rightarrow> string \<Rightarrow> nat \<Rightarrow> u64 \<Rightarrow> 'w \<Rightarrow> (go_error + string) \<times> 'w"

definition BrowserPageRead_Execute ::
  "(string \<Rightarrow> string) \<Rightarrow> (string \<Rightarrow> go_error + url) \<Rightarrow> 'w chrome_proxy option
     \<Rightarrow> scope_constraint list \<Rightarrow> request \<Rightarrow> 'w \<Rightarrow> (response \<times> go_error option) \<times> 'w"
where
  "BrowserPageRead_Execute quote url_Parse ChromeProxy constraints req w =
     (case fst (Browser_Page_Read_UnmarshalMUS (bytes_NewReader (rq_Args req))) of
        Err err \<Rightarrow> ((DeniedResponse (''args schema mismatch: '' @ error_text err), None), w)
      | Panic m \<Rightarrow> ((DeniedResponse m, None), w)
      | Val args \<Rightarrow>
          if bpr_URL args = '''' then ((DeniedResponse ''url is required'', None), w)
          else
            let waitFor = (if bpr_WaitFor args = '''' then ''networkidle'' else bpr_WaitFor args);
                timeout = (if bpr_Timeout args = 0 then 30 else bpr_Timeout args);
                scope = normalizeBrowserScope constraints
            in if \<not> allowsURL url_Parse scope (bpr_URL args)
               then ((DeniedResponse (''URL '' @ quote (bpr_URL args) @ '' not in browser whitelist''), None), w)
               else (case ChromeProxy of
                   None \<Rightarrow> ((\<lparr>rs_OK = False, rs_Data = [], rs_ErrorCode = ''unavailable'',
                              rs_ErrorDetail = ''chrome proxy not initialised''\<rparr>, None), w)
                 | Some proxy \<Rightarrow>
                     let policy = whitelistPolicy scope in
                     (case proxy (rq_AgentID req) (bpr_URL args) policy waitFor 32768 (timeout * 1000000000) w of
                        (Inl err, w) \<Rightarrow>
                          ((\<lparr>rs_OK = False, rs_Data = [], rs_ErrorCode = ''chrome_error'', rs_ErrorDetail = error_text err\<rparr>, None), w)
                      | (Inr text, w) \<Rightarrow>
                          ((\<lparr>rs_OK = True, rs_Data = AppendString [] text, rs_ErrorCode = '''', rs_ErrorDetail = ''''\<rparr>, None), w))))"

definition BrowserPageRead ::
  "(string \<Rightarrow> string) \<Rightarrow> (string \<Rightarrow> go_error + url) \<Rightarrow> 'w chrome_proxy option \<Rightarrow> string \<Rightarrow> 'w capability"
where
  "BrowserPageRead quote url_Parse ChromeProxy schema =
     \<lparr>c_Name = ''Browser_Page_Read'', c_Explain = schema, c_AuditPayload = True,
      c_Execute = BrowserPageRead_Execute quote url_Parse ChromeProxy\<rparr>"

subsection \<open>The scope of a constraint list\<close>

definition link_values :: "string \<Rightarrow> scope_constraint list \<Rightarrow> string list" where
  "link_values key cs = concat (map (\<lambda>sc. if sc_Entity sc = ''Link'' then constraint sc key else []) cs)"

lemma normalizeBrowserScope_eq:
  "normalizeBrowserScope cs = \<lparr>bs_domains = link_values ''domain'' cs,
     bs_domainSuffixes = link_values ''domain-suffix'' cs, bs_pathPrefixes = link_values ''path-prefix'' cs\<rparr>"
proof -
  have "foldl scope_step s cs = \<lparr>bs_domains = bs_domains s @ link_values ''domain'' cs,
      bs_domainSuffixes = bs_domainSuffixes s @ link_values ''domain-suffix'' cs,
      bs_pathPrefixes = bs_pathPrefixes s @ link_values ''path-prefix'' cs\<rparr>" for s
    by (induction cs arbitrary: s) (simp_all add: link_values_def scope_step_def)
  then show ?thesis by (simp add: normalizeBrowserScope_def)
qed

subsection \<open>The two tests\<close>

definition trimmed :: "browserScope \<Rightarrow> bool" where
  "trimmed s \<longleftrightarrow> (\<forall>d\<in>set (bs_domains s) \<union> set (bs_domainSuffixes s). TrimSpace d = d)
     \<and> '''' \<notin> set (bs_domainSuffixes s)"

lemma ToLower_eq_Nil [simp]: "ToLower s = [] \<longleftrightarrow> s = []"
  by (simp add: ToLower_def)

lemma allowsURL_eq_Allows:
  assumes "trimmed s"
  shows "allowsURL url_Parse s rawURL = Allows url_Parse (whitelistPolicy s) rawURL"
proof -
  have d: "list_ex (\<lambda>d. x = ToLower (TrimSpace d)) (bs_domains s) = list_ex (\<lambda>d. x = ToLower d) (bs_domains s)" for x
    using assms by (auto simp: list_ex_iff trimmed_def)
  have sf: "list_ex (\<lambda>d. ToLower (TrimSpace d) \<noteq> [] \<and> P (ToLower (TrimSpace d))) (bs_domainSuffixes s)
      = list_ex (\<lambda>d. P (ToLower d)) (bs_domainSuffixes s)" for P
  proof -
    have "(ToLower (TrimSpace d) \<noteq> [] \<and> P (ToLower (TrimSpace d))) = P (ToLower d)"
      if "d \<in> set (bs_domainSuffixes s)" for d
      using assms that by (cases "d = []") (auto simp: trimmed_def)
    then show ?thesis by (auto simp: list_ex_iff)
  qed
  have sf': "list_ex (\<lambda>d. TrimSpace d \<noteq> [] \<and> (h = ToLower (TrimSpace d) \<or> HasSuffix h (CHR ''.'' # ToLower (TrimSpace d))))
      (bs_domainSuffixes s) = list_ex (\<lambda>d. h = ToLower d \<or> HasSuffix h (CHR ''.'' # ToLower d)) (bs_domainSuffixes s)" for h
    using sf [of "\<lambda>x. h = x \<or> HasSuffix h (CHR ''.'' # x)"] by simp
  show ?thesis
    using d sf'
    by (auto simp: allowsURL_def Allows_def whitelistPolicy_def allowsByPrefix_def Let_def split: sum.splits)
qed

text \<open>A host the scope admits is a listed domain, a listed suffix or a subdomain of one.\<close>

lemma allowsURL_host:
  assumes "allowsURL url_Parse s rawURL"
  obtains u where "url_Parse rawURL = Inr u" and "u_Host u \<noteq> ''''"
    and "(\<exists>d\<in>set (bs_domains s). ToLower (u_Host u) = ToLower d)
      \<or> (\<exists>d\<in>set (bs_domainSuffixes s). ToLower (u_Host u) = ToLower d \<or> (\<exists>l. ToLower (u_Host u) = l @ ''.'' @ ToLower d))"
    and "path_allowed (bs_pathPrefixes s) (u_Path u)"
  using assms
  by (auto simp: allowsURL_def Let_def list_ex_iff HasSuffix_iff split: sum.splits if_splits)

lemma no_link_constraints:
  "\<forall>sc\<in>set cs. sc_Entity sc \<noteq> ''Link'' \<Longrightarrow> \<not> allowsURL url_Parse (normalizeBrowserScope cs) rawURL"
proof -
  assume "\<forall>sc\<in>set cs. sc_Entity sc \<noteq> ''Link''"
  then have "link_values key cs = []" for key
    by (simp add: link_values_def)
  then show ?thesis
    by (simp add: allowsURL_def normalizeBrowserScope_eq)
qed

text \<open>The proxy is called for an admitted URL only, and with the policy of the same constraints.\<close>

lemma Execute_proxy_call:
  assumes "BrowserPageRead_Execute quote url_Parse proxy cs req w = ((resp, err), w')"
    and "w' \<noteq> w \<or> rs_OK resp"
  obtains args p waitFor timeout where
    "fst (Browser_Page_Read_UnmarshalMUS (bytes_NewReader (rq_Args req))) = Val args"
    "allowsURL url_Parse (normalizeBrowserScope cs) (bpr_URL args)" "proxy = Some p"
    "p (rq_AgentID req) (bpr_URL args) (buildBrowserWhitelistPolicy cs) waitFor 32768 timeout w
       = (fst (p (rq_AgentID req) (bpr_URL args) (buildBrowserWhitelistPolicy cs) waitFor 32768 timeout w), w')"
proof -
  obtain args where d: "fst (Browser_Page_Read_UnmarshalMUS (bytes_NewReader (rq_Args req))) = Val args"
    using assms by (auto simp: BrowserPageRead_Execute_def DeniedResponse_def split: outcome.splits)
  then have a: "allowsURL url_Parse (normalizeBrowserScope cs) (bpr_URL args)"
    using assms by (auto simp: BrowserPageRead_Execute_def DeniedResponse_def Let_def split: if_splits)
  with d assms obtain p where p: "proxy = Some p"
    by (auto simp: BrowserPageRead_Execute_def DeniedResponse_def Let_def split: if_splits option.splits)
  define waitFor where "waitFor = (if bpr_WaitFor args = '''' then ''networkidle'' else bpr_WaitFor args)"
  define timeout where "timeout = (if bpr_Timeout args = 0 then 30 else bpr_Timeout args) * 1000000000"
  have url: "bpr_URL args \<noteq> ''''"
    using assms d by (auto simp: BrowserPageRead_Execute_def DeniedResponse_def)
  obtain r w1 where call: "p (rq_AgentID req) (bpr_URL args) (buildBrowserWhitelistPolicy cs) waitFor 32768 timeout w = (r, w1)"
    by (cases "p (rq_AgentID req) (bpr_URL args) (buildBrowserWhitelistPolicy cs) waitFor 32768 timeout w")
  have "w1 = w'"
    using assms(1) call unfolding BrowserPageRead_Execute_def d p
    by (cases r) (auto simp: url a Let_def buildBrowserWhitelistPolicy_def waitFor_def timeout_def)
  with call show ?thesis
    by (intro that [OF d a p, of waitFor timeout]) simp
qed

subsection \<open>Properties\<close>


definition demo_link :: "scope_constraint list" where
  "demo_link = [\<lparr>sc_Entity = ''Link'', sc_Constraints = [''domain-suffix'' \<mapsto> [''example.com'']]\<rparr>]"

definition demo_url :: "string \<Rightarrow> go_error + url" where
  "demo_url s = (if s = ''https://docs.example.com/x'' then Inr \<lparr>u_Scheme = ''https'', u_Host = ''docs.example.com'', u_Path = ''/x''\<rparr>
                 else Inl (OtherError ''invalid URL''))"

definition demo_read :: Browser_Page_Read where
  "demo_read = \<lparr>bpr_URL = ''https://docs.example.com/x'', bpr_Timeout = 0, bpr_WaitFor = ''''\<rparr>"

definition demo_read_request :: request where
  "demo_read_request = \<lparr>rq_Name = ''Browser_Page_Read'', rq_AgentID = ''a'', rq_SeqNo = 1,
     rq_Args = Browser_Page_Read_MarshalMUS demo_read\<rparr>"

lemma demo_read_decode: "fst (Browser_Page_Read_UnmarshalMUS (bytes_NewReader (rq_Args demo_read_request))) = Val demo_read"
  by (simp add: demo_read_request_def page_read.dec_NewReader demo_read_def MaxPayloadBytes_def)

lemma demo_read_allowed: "allowsURL demo_url (normalizeBrowserScope demo_link) (bpr_URL demo_read)"
  by (simp add: allowsURL_def normalizeBrowserScope_eq link_values_def demo_link_def constraint_def demo_url_def
      demo_read_def ToLower_def to_lower_def HasSuffix_def path_allowed_def)


text \<open>
  C33: For constraints without surrounding white space and without empty suffixes, the test the
  capability makes and the test the proxy repeats with the policy it is given agree on every URL.
\<close>

theorem scope_and_policy_agree:
  assumes "trimmed (normalizeBrowserScope cs)"
  shows "urlMatchesConstraints url_Parse rawURL cs = Allows url_Parse (buildBrowserWhitelistPolicy cs) rawURL"
  using allowsURL_eq_Allows [OF assms]
  by (simp add: urlMatchesConstraints_def buildBrowserWhitelistPolicy_def)

theorem scope_and_policy_agree_witness:
  "urlMatchesConstraints demo_url ''https://docs.example.com/x'' demo_link
     = Allows demo_url (buildBrowserWhitelistPolicy demo_link) ''https://docs.example.com/x''"
  by (rule scope_and_policy_agree)
    (simp add: trimmed_def normalizeBrowserScope_eq link_values_def demo_link_def constraint_def TrimSpace_def is_space_def)

end
