(* ===== verification/Chromed.thy ===== *)
theory Chromed
  imports Capability Path
begin

text \<open>
  The browser host service: its protocol and client (\<open>internal/chromed/protocol.go\<close>) and the
  instance manager and connection handler (\<open>chromed/service.go\<close>).

  The manager's state is the map of instances; the machine around it (directories, sockets,
  processes) is the record \<open>chromed_os\<close> of the calls the code makes, over a state \<open>'h\<close>; listeners
  and processes are numbers.  \<open>Acquire\<close> takes the manager's lock twice; its three phases are
  definitions of their own, so that calls for the same agent can be interleaved.

  A client's exchange with the service is the argument \<open>serve\<close>: the bytes sent, and what comes
  back on the connection.  With the service's own handler for \<open>serve\<close>, a call through the client
  is the manager's call.
\<close>

subsection \<open>Messages\<close>

definition Chromed_Identity :: string where
  "Chromed_Identity = ''chromed''"

definition MsgTypeAcquire :: MsgType where "MsgTypeAcquire = 0x30"
definition MsgTypeRelease :: MsgType where "MsgTypeRelease = 0x31"
definition MsgTypeStatus :: MsgType where "MsgTypeStatus = 0x32"

record AcquireRequest =
  aq_AgentID :: string
  aq_ProxyServer :: string
  aq_TimeoutSec :: u32
  aq_Headless :: bool

definition AcquireRequest_MarshalMUS :: "AcquireRequest \<Rightarrow> bytes" where
  "AcquireRequest_MarshalMUS p =
     (let b = [];
          b = AppendString b (aq_AgentID p);
          b = AppendString b (aq_ProxyServer p);
          b = AppendVarint b (ucast (aq_TimeoutSec p));
          b = append_bool b (aq_Headless p)
      in b)"

definition AcquireRequest_UnmarshalMUS :: "AcquireRequest reads" where
  "AcquireRequest_UnmarshalMUS =
     rbind (ReadString 128) (\<lambda>AgentID.
     rbind (ReadString 1024) (\<lambda>ProxyServer.
     rbind ReadVarint (\<lambda>v.
     rbind (read_full 1) (\<lambda>fixed.
     rreturn \<lparr>aq_AgentID = AgentID, aq_ProxyServer = ProxyServer, aq_TimeoutSec = ucast v,
              aq_Headless = (fixed ! 0 \<noteq> 0)\<rparr>))))"

record AcquireResponse =
  ar_OK :: bool
  ar_DebugAddr :: string
  ar_ProfileDir :: string
  ar_Error :: string

definition AcquireResponse_MarshalMUS :: "AcquireResponse \<Rightarrow> bytes" where
  "AcquireResponse_MarshalMUS p =
     (let b = [];
          b = append_bool b (ar_OK p);
          b = AppendString b (ar_DebugAddr p);
          b = AppendString b (ar_ProfileDir p);
          b = AppendString b (ar_Error p)
      in b)"

definition AcquireResponse_UnmarshalMUS :: "AcquireResponse reads" where
  "AcquireResponse_UnmarshalMUS =
     rbind (read_full 1) (\<lambda>fixed.
     rbind (ReadString 256) (\<lambda>DebugAddr.
     rbind (ReadString 4096) (\<lambda>ProfileDir.
     rbind (ReadString 4096) (\<lambda>Error.
     rreturn \<lparr>ar_OK = (fixed ! 0 \<noteq> 0), ar_DebugAddr = DebugAddr, ar_ProfileDir = ProfileDir, ar_Error = Error\<rparr>))))"

record ReleaseRequest =
  rr_AgentID :: string

definition ReleaseRequest_MarshalMUS :: "ReleaseRequest \<Rightarrow> bytes" where
  "ReleaseRequest_MarshalMUS p = AppendString [] (rr_AgentID p)"

definition ReleaseRequest_UnmarshalMUS :: "ReleaseRequest reads" where
  "ReleaseRequest_UnmarshalMUS = rbind (ReadString 128) (\<lambda>AgentID. rreturn \<lparr>rr_AgentID = AgentID\<rparr>)"

record ReleaseResponse =
  rl_OK :: bool
  rl_Error :: string

definition ReleaseResponse_MarshalMUS :: "ReleaseResponse \<Rightarrow> bytes" where
  "ReleaseResponse_MarshalMUS p =
     (let b = [];
          b = append_bool b (rl_OK p);
          b = AppendString b (rl_Error p)
      in b)"

definition ReleaseResponse_UnmarshalMUS :: "ReleaseResponse reads" where
  "ReleaseResponse_UnmarshalMUS =
     rbind (read_full 1) (\<lambda>fixed.
     rbind (ReadString 4096) (\<lambda>Error.
     rreturn \<lparr>rl_OK = (fixed ! 0 \<noteq> 0), rl_Error = Error\<rparr>))"

record StatusRequest =
  sq_AgentID :: string

definition StatusRequest_MarshalMUS :: "StatusRequest \<Rightarrow> bytes" where
  "StatusRequest_MarshalMUS p = AppendString [] (sq_AgentID p)"

definition StatusRequest_UnmarshalMUS :: "StatusRequest reads" where
  "StatusRequest_UnmarshalMUS = rbind (ReadString 128) (\<lambda>AgentID. rreturn \<lparr>sq_AgentID = AgentID\<rparr>)"

record StatusResponse =
  st_Found :: bool
  st_Running :: bool
  st_DebugAddr :: string
  st_ProfileDir :: string
  st_Error :: string

definition StatusResponse_MarshalMUS :: "StatusResponse \<Rightarrow> bytes" where
  "StatusResponse_MarshalMUS p =
     (let b = [];
          b = append_bool b (st_Found p);
          b = append_bool b (st_Running p);
          b = AppendString b (st_DebugAddr p);
          b = AppendString b (st_ProfileDir p);
          b = AppendString b (st_Error p)
      in b)"

definition StatusResponse_UnmarshalMUS :: "StatusResponse reads" where
  "StatusResponse_UnmarshalMUS =
     rbind (read_full 2) (\<lambda>fixed.
     rbind (ReadString 256) (\<lambda>DebugAddr.
     rbind (ReadString 4096) (\<lambda>ProfileDir.
     rbind (ReadString 4096) (\<lambda>Error.
     rreturn \<lparr>st_Found = (fixed ! 0 \<noteq> 0), st_Running = (fixed ! 1 \<noteq> 0), st_DebugAddr = DebugAddr,
              st_ProfileDir = ProfileDir, st_Error = Error\<rparr>))))"

definition ResponseTypeFor :: "MsgType \<Rightarrow> go_error + MsgType" where
  "ResponseTypeFor msgType =
     (if msgType = MsgTypeAcquire \<or> msgType = MsgTypeRelease \<or> msgType = MsgTypeStatus then Inr msgType
      else Inl (OtherError (''unsupported chromed msg type '' @ MsgType_String msgType)))"

subsection \<open>Client\<close>

definition conn_reader :: "bytes \<Rightarrow> reader" where
  "conn_reader b = \<lparr>rd_buf = b, rd_err = EOF, rd_byte_reader = False\<rparr>"

definition chromed_header :: "MsgType \<Rightarrow> swarm_header" where
  "chromed_header msgType = \<lparr>h_Version = 0, h_Type = msgType, h_FromID = ''keeper'', h_ToID = Chromed_Identity,
     h_SeqNo = 1, h_PayloadLen = 0\<rparr>"

definition roundTrip ::
  "(bytes \<Rightarrow> 'h \<Rightarrow> (go_error + bytes) \<times> 'h) \<Rightarrow> MsgType \<Rightarrow> bytes \<Rightarrow> 'a reads \<Rightarrow> 'h \<Rightarrow> 'a outcome \<times> 'h"
where
  "roundTrip serve msgType payload unmarshal h =
     (case serve (frame_bytes (chromed_header msgType) payload) h of
        (Inl err, h) \<Rightarrow> (Err err, h)
      | (Inr reply, h) \<Rightarrow>
          (case fst (ReadFrame (conn_reader reply)) of
             Err err \<Rightarrow> (Err err, h)
           | Panic m \<Rightarrow> (Panic m, h)
           | Val (respHdr, respPayload) \<Rightarrow>
               if h_Type respHdr \<noteq> msgType
               then (Err (OtherError (''unexpected response type '' @ MsgType_String (h_Type respHdr))), h)
               else (fst (unmarshal (bytes_NewReader respPayload)), h)))"

definition Client_Acquire ::
  "(bytes \<Rightarrow> 'h \<Rightarrow> (go_error + bytes) \<times> 'h) \<Rightarrow> AcquireRequest \<Rightarrow> 'h \<Rightarrow> AcquireResponse outcome \<times> 'h"
where
  "Client_Acquire serve req h =
     (case roundTrip serve MsgTypeAcquire (AcquireRequest_MarshalMUS req) AcquireResponse_UnmarshalMUS h of
        (Val resp, h) \<Rightarrow> (if \<not> ar_OK resp then (Err (OtherError (ar_Error resp)), h) else (Val resp, h))
      | (Err e, h) \<Rightarrow> (Err e, h)
      | (Panic m, h) \<Rightarrow> (Panic m, h))"

definition Client_Release ::
  "(bytes \<Rightarrow> 'h \<Rightarrow> (go_error + bytes) \<times> 'h) \<Rightarrow> string \<Rightarrow> 'h \<Rightarrow> ReleaseResponse outcome \<times> 'h"
where
  "Client_Release serve agentID h =
     (case roundTrip serve MsgTypeRelease (ReleaseRequest_MarshalMUS \<lparr>rr_AgentID = agentID\<rparr>) ReleaseResponse_UnmarshalMUS h of
        (Val resp, h) \<Rightarrow>
          (if \<not> rl_OK resp \<and> rl_Error resp \<noteq> '''' then (Err (OtherError (rl_Error resp)), h) else (Val resp, h))
      | (Err e, h) \<Rightarrow> (Err e, h)
      | (Panic m, h) \<Rightarrow> (Panic m, h))"

definition Client_Status ::
  "(bytes \<Rightarrow> 'h \<Rightarrow> (go_error + bytes) \<times> 'h) \<Rightarrow> string \<Rightarrow> 'h \<Rightarrow> StatusResponse outcome \<times> 'h"
where
  "Client_Status serve agentID h =
     (case roundTrip serve MsgTypeStatus (StatusRequest_MarshalMUS \<lparr>sq_AgentID = agentID\<rparr>) StatusResponse_UnmarshalMUS h of
        (Val resp, h) \<Rightarrow>
          (if st_Error resp \<noteq> '''' then (Err (OtherError (st_Error resp)), h) else (Val resp, h))
      | (Err e, h) \<Rightarrow> (Err e, h)
      | (Panic m, h) \<Rightarrow> (Panic m, h))"

subsection \<open>The machine\<close>

datatype remove_result = Removed | RemoveNotExist | RemoveErr go_error

record launchSpec =
  ls_AgentID :: string
  ls_DebugAddr :: string
  ls_ProfileDir :: string
  ls_ProxyServer :: string
  ls_ChromeBinaryPath :: string
  ls_Headless :: bool

record 'h chromed_os =
  co_MkdirAll :: "string \<Rightarrow> 'h \<Rightarrow> go_error option \<times> 'h"
  co_allocDebug :: "string \<Rightarrow> 'h \<Rightarrow> (go_error + string) \<times> 'h"
  co_startDebugForwarder :: "string \<Rightarrow> string \<Rightarrow> 'h \<Rightarrow> (go_error + nat \<times> string) \<times> 'h"
  co_Remove :: "string \<Rightarrow> 'h \<Rightarrow> remove_result \<times> 'h"
  co_startUnixDebugForwarder :: "string \<Rightarrow> string \<Rightarrow> 'h \<Rightarrow> (go_error + nat) \<times> 'h"
  co_Close :: "nat \<Rightarrow> 'h \<Rightarrow> 'h"
  co_start :: "launchSpec \<Rightarrow> 'h \<Rightarrow> (go_error + nat) \<times> 'h"
  co_waitReady :: "nat \<Rightarrow> string \<Rightarrow> 'h \<Rightarrow> go_error option \<times> 'h"
  co_Kill :: "nat \<Rightarrow> 'h \<Rightarrow> go_error option \<times> 'h"
  co_Wait :: "nat \<Rightarrow> 'h \<Rightarrow> 'h"

text \<open>The command line of a browser process; host and port are those of its debug address.\<close>

definition chrome_args :: "launchSpec \<Rightarrow> string \<Rightarrow> string \<Rightarrow> string list" where
  "chrome_args spec host port =
     (let args = [''--disable-gpu'', ''--no-sandbox'', ''--disable-dev-shm-usage'', ''--disable-extensions'',
            ''--disable-background-networking'', ''--safebrowsing-disable-auto-update'', ''--no-first-run'',
            ''--no-default-browser-check'', ''--remote-debugging-address='' @ host,
            ''--remote-debugging-port='' @ port, ''--user-data-dir='' @ ls_ProfileDir spec,
            ''--proxy-server='' @ ls_ProxyServer spec, ''about:blank'']
      in if ls_Headless spec then [''--headless=new''] @ args
         else butlast args @ [''--new-window''] @ [last args])"

subsection \<open>The instance manager\<close>

record chrome_instance =
  in_agentID :: string
  in_debugAddr :: string
  in_forwardLn :: "nat option"
  in_forwardPath :: string
  in_profileDir :: string
  in_proxyServer :: string
  in_headless :: bool
  in_proc :: nat
  in_running :: bool

record chrome_manager =
  m_instances :: "string \<rightharpoonup> chrome_instance"
  m_profileRoot :: string
  m_forwardRoot :: string
  m_chromeBinary :: string

definition newManager :: "string \<Rightarrow> string \<Rightarrow> string \<Rightarrow> chrome_manager" where
  "newManager profileRoot chromeBinary forwardRoot =
     \<lparr>m_instances = Map.empty, m_profileRoot = profileRoot, m_forwardRoot = forwardRoot, m_chromeBinary = chromeBinary\<rparr>"

definition close_opt :: "'h chromed_os \<Rightarrow> nat option \<Rightarrow> 'h \<Rightarrow> 'h" where
  "close_opt os ln h = (case ln of None \<Rightarrow> h | Some l \<Rightarrow> co_Close os l h)"

text \<open>First lock: an instance that exists is handed out.\<close>

definition Acquire_lookup :: "chrome_manager \<Rightarrow> AcquireRequest \<Rightarrow> AcquireResponse option" where
  "Acquire_lookup m req =
     (case m_instances m (aq_AgentID req) of
        Some inst \<Rightarrow> Some \<lparr>ar_OK = True, ar_DebugAddr = in_debugAddr inst, ar_ProfileDir = in_profileDir inst, ar_Error = ''''\<rparr>
      | None \<Rightarrow> None)"

text \<open>Without the lock: the forwarding socket, then the process.\<close>

definition Acquire_forward ::
  "'h chromed_os \<Rightarrow> chrome_manager \<Rightarrow> AcquireRequest \<Rightarrow> string \<Rightarrow> 'h \<Rightarrow> (go_error + nat option \<times> string \<times> string) \<times> 'h"
where
  "Acquire_forward os m req debugAddr h =
     (case co_startDebugForwarder os (aq_ProxyServer req) debugAddr h of (r, h) \<Rightarrow>
        let (forwardLn, publicDebugAddr) =
              (case r of Inr (ln, addr) \<Rightarrow> (Some ln, addr) | Inl err \<Rightarrow> (None, debugAddr)) in
        if m_forwardRoot m = '''' then (Inr (forwardLn, publicDebugAddr, ''''), h)
        else
          let forwardPath = Join2 (m_forwardRoot m) (aq_AgentID req @ ''.cdp.sock'') in
          (case co_Remove os forwardPath h of
             (RemoveErr err, h) \<Rightarrow> (Inl (Wrap ''remove stale debug socket: '' err), h)
           | (_, h) \<Rightarrow>
               (case co_startUnixDebugForwarder os forwardPath debugAddr h of
                  (Inl err, h) \<Rightarrow> (Inl (Wrap ''start unix debug forwarder: '' err), close_opt os forwardLn h)
                | (Inr unixLn, h) \<Rightarrow>
                    (Inr (Some unixLn, ''unix:/run/vivary/chromed-host/'' @ aq_AgentID req @ ''.cdp.sock'', forwardPath),
                     close_opt os forwardLn h))))"

definition Acquire_launch ::
  "'h chromed_os \<Rightarrow> chrome_manager \<Rightarrow> AcquireRequest \<Rightarrow> 'h \<Rightarrow> (go_error + chrome_instance) \<times> 'h"
where
  "Acquire_launch os m req h =
     (let profileDir = Join2 (m_profileRoot m) (aq_AgentID req) in
      case co_MkdirAll os profileDir h of
        (Some err, h) \<Rightarrow> (Inl (Wrap ''mkdir profile dir: '' err), h)
      | (None, h) \<Rightarrow>
          (case co_allocDebug os (aq_ProxyServer req) h of
             (Inl err, h) \<Rightarrow> (Inl (Wrap ''allocate debug addr: '' err), h)
           | (Inr debugAddr, h) \<Rightarrow>
               (case Acquire_forward os m req debugAddr h of
                  (Inl err, h) \<Rightarrow> (Inl err, h)
                | (Inr (forwardLn, publicDebugAddr, forwardPath), h) \<Rightarrow>
                    let spec = \<lparr>ls_AgentID = aq_AgentID req, ls_DebugAddr = debugAddr, ls_ProfileDir = profileDir,
                          ls_ProxyServer = aq_ProxyServer req, ls_ChromeBinaryPath = m_chromeBinary m,
                          ls_Headless = aq_Headless req\<rparr> in
                    (case co_start os spec h of
                       (Inl err, h) \<Rightarrow> (Inl err, h)
                     | (Inr proc, h) \<Rightarrow>
                         let timeout = (if aq_TimeoutSec req = 0 then 10 else unat (aq_TimeoutSec req)) in
                         (case co_waitReady os timeout debugAddr h of
                            (Some err, h) \<Rightarrow>
                              (Inl (Wrap ''wait for chrome ready: '' err),
                               co_Wait os proc (snd (co_Kill os proc (close_opt os forwardLn h))))
                          | (None, h) \<Rightarrow>
                              (Inr \<lparr>in_agentID = aq_AgentID req, in_debugAddr = publicDebugAddr, in_forwardLn = forwardLn,
                                    in_forwardPath = forwardPath, in_profileDir = profileDir,
                                    in_proxyServer = aq_ProxyServer req, in_headless = aq_Headless req,
                                    in_proc = proc, in_running = True\<rparr>, h))))))"

text \<open>Second lock: the instance is entered, whatever is there.\<close>

definition Acquire_publish :: "chrome_instance \<Rightarrow> chrome_manager \<Rightarrow> chrome_manager" where
  "Acquire_publish inst m = m\<lparr>m_instances := (m_instances m)(in_agentID inst \<mapsto> inst)\<rparr>"

definition Acquire_ok :: "chrome_instance \<Rightarrow> AcquireResponse" where
  "Acquire_ok inst = \<lparr>ar_OK = True, ar_DebugAddr = in_debugAddr inst, ar_ProfileDir = in_profileDir inst, ar_Error = ''''\<rparr>"

definition Acquire ::
  "'h chromed_os \<Rightarrow> AcquireRequest \<Rightarrow> chrome_manager \<times> 'h \<Rightarrow> (go_error + AcquireResponse) \<times> chrome_manager \<times> 'h"
where
  "Acquire os req = (\<lambda>(m, h).
     if TrimSpace (aq_AgentID req) = '''' then (Inl (OtherError ''agent_id is required''), m, h)
     else case Acquire_lookup m req of
         Some resp \<Rightarrow> (Inr resp, m, h)
       | None \<Rightarrow>
           (case Acquire_launch os m req h of
              (Inl err, h) \<Rightarrow> (Inl err, m, h)
            | (Inr inst, h) \<Rightarrow> (Inr (Acquire_ok inst), Acquire_publish inst m, h)))"

text \<open>What the reaper does once the process has exited.\<close>

definition chrome_reap :: "string \<Rightarrow> nat \<Rightarrow> chrome_manager \<Rightarrow> chrome_manager" where
  "chrome_reap agentID proc m =
     (case m_instances m agentID of
        Some inst \<Rightarrow> if in_proc inst = proc then m\<lparr>m_instances := (m_instances m)(agentID := None)\<rparr> else m
      | None \<Rightarrow> m)"

definition remove_instance :: "string \<Rightarrow> chrome_manager \<Rightarrow> chrome_manager" where
  "remove_instance agentID m = m\<lparr>m_instances := (m_instances m)(agentID := None)\<rparr>"

definition Release ::
  "'h chromed_os \<Rightarrow> string \<Rightarrow> chrome_manager \<times> 'h \<Rightarrow> (go_error + ReleaseResponse) \<times> chrome_manager \<times> 'h"
where
  "Release os agentID = (\<lambda>(m, h).
     if TrimSpace agentID = '''' then (Inl (OtherError ''agent_id is required''), m, h)
     else case m_instances m agentID of
         None \<Rightarrow> (Inr \<lparr>rl_OK = True, rl_Error = ''''\<rparr>, m, h)
       | Some inst \<Rightarrow>
           let m = remove_instance agentID m in
           (case co_Kill os (in_proc inst) h of
              (Some err, h) \<Rightarrow> (Inl (Wrap ''kill chrome: '' err), m, h)
            | (None, h) \<Rightarrow>
                let h = close_opt os (in_forwardLn inst) h;
                    h = (if in_forwardPath inst \<noteq> '''' then snd (co_Remove os (in_forwardPath inst) h) else h)
                in (Inr \<lparr>rl_OK = True, rl_Error = ''''\<rparr>, m, h)))"

definition Status :: "string \<Rightarrow> chrome_manager \<Rightarrow> go_error + StatusResponse" where
  "Status agentID m =
     (if TrimSpace agentID = '''' then Inl (OtherError ''agent_id is required'')
      else case m_instances m agentID of
          None \<Rightarrow> Inr \<lparr>st_Found = False, st_Running = False, st_DebugAddr = '''', st_ProfileDir = '''', st_Error = ''''\<rparr>
        | Some inst \<Rightarrow> Inr \<lparr>st_Found = True, st_Running = in_running inst, st_DebugAddr = in_debugAddr inst,
                             st_ProfileDir = in_profileDir inst, st_Error = ''''\<rparr>)"

text \<open>\<open>agentIDs\<close> are the keys, in the order Go visits them.\<close>

definition ReleaseAll :: "'h chromed_os \<Rightarrow> string list \<Rightarrow> chrome_manager \<times> 'h \<Rightarrow> chrome_manager \<times> 'h" where
  "ReleaseAll os agentIDs s = fold (\<lambda>a s. snd (Release os a s)) agentIDs s"

subsection \<open>The connection handler\<close>

definition acquire_error :: "go_error \<Rightarrow> AcquireResponse" where
  "acquire_error err = \<lparr>ar_OK = False, ar_DebugAddr = '''', ar_ProfileDir = '''', ar_Error = error_text err\<rparr>"

definition release_error :: "go_error \<Rightarrow> ReleaseResponse" where
  "release_error err = \<lparr>rl_OK = False, rl_Error = error_text err\<rparr>"

definition status_error :: "go_error \<Rightarrow> StatusResponse" where
  "status_error err = \<lparr>st_Found = False, st_Running = False, st_DebugAddr = '''', st_ProfileDir = '''',
     st_Error = error_text err\<rparr>"

definition resp_header :: "swarm_header \<Rightarrow> MsgType \<Rightarrow> swarm_header" where
  "resp_header hdr respType = \<lparr>h_Version = 0, h_Type = respType, h_FromID = Chromed_Identity,
     h_ToID = h_FromID hdr, h_SeqNo = h_SeqNo hdr, h_PayloadLen = 0\<rparr>"

text \<open>
  The bytes the handler writes before it closes the connection; a request it cannot read, or of
  another type, gets none.
\<close>

definition handleConn ::
  "'h chromed_os \<Rightarrow> bytes \<Rightarrow> chrome_manager \<times> 'h \<Rightarrow> bytes \<times> chrome_manager \<times> 'h"
where
  "handleConn os input s =
     (case fst (ReadFrame (conn_reader input)) of
        Err e \<Rightarrow> ([], s)
      | Panic m \<Rightarrow> ([], s)
      | Val (hdr, payload) \<Rightarrow>
          (case ResponseTypeFor (h_Type hdr) of
             Inl err \<Rightarrow> ([], s)
           | Inr respType \<Rightarrow>
               let respHdr = resp_header hdr respType in
               if h_Type hdr = MsgTypeAcquire then
                 (case fst (AcquireRequest_UnmarshalMUS (bytes_NewReader payload)) of
                    Err err \<Rightarrow> (frame_bytes respHdr (AcquireResponse_MarshalMUS (acquire_error err)), s)
                  | Panic m \<Rightarrow> ([], s)
                  | Val req \<Rightarrow>
                      (case Acquire os req s of
                         (Inl err, s) \<Rightarrow> (frame_bytes respHdr (AcquireResponse_MarshalMUS (acquire_error err)), s)
                       | (Inr resp, s) \<Rightarrow> (frame_bytes respHdr (AcquireResponse_MarshalMUS resp), s)))
               else if h_Type hdr = MsgTypeRelease then
                 (case fst (ReleaseRequest_UnmarshalMUS (bytes_NewReader payload)) of
                    Err err \<Rightarrow> (frame_bytes respHdr (ReleaseResponse_MarshalMUS (release_error err)), s)
                  | Panic m \<Rightarrow> ([], s)
                  | Val req \<Rightarrow>
                      (case Release os (rr_AgentID req) s of
                         (Inl err, s) \<Rightarrow> (frame_bytes respHdr (ReleaseResponse_MarshalMUS (release_error err)), s)
                       | (Inr resp, s) \<Rightarrow> (frame_bytes respHdr (ReleaseResponse_MarshalMUS resp), s)))
               else
                 (case fst (StatusRequest_UnmarshalMUS (bytes_NewReader payload)) of
                    Err err \<Rightarrow> (frame_bytes respHdr (StatusResponse_MarshalMUS (status_error err)), s)
                  | Panic m \<Rightarrow> ([], s)
                  | Val req \<Rightarrow>
                      (case Status (sq_AgentID req) (fst s) of
                         Inl err \<Rightarrow> (frame_bytes respHdr (StatusResponse_MarshalMUS (status_error err)), s)
                       | Inr resp \<Rightarrow> (frame_bytes respHdr (StatusResponse_MarshalMUS resp), s)))))"

subsection \<open>Codecs\<close>

definition aq_wf :: "AcquireRequest \<Rightarrow> bool" where
  "aq_wf p \<longleftrightarrow> length (aq_AgentID p) \<le> 128 \<and> length (aq_ProxyServer p) \<le> 1024"

definition ar_wf :: "AcquireResponse \<Rightarrow> bool" where
  "ar_wf p \<longleftrightarrow> length (ar_DebugAddr p) \<le> 256 \<and> length (ar_ProfileDir p) \<le> 4096 \<and> length (ar_Error p) \<le> 4096"

definition st_wf :: "StatusResponse \<Rightarrow> bool" where
  "st_wf p \<longleftrightarrow> length (st_DebugAddr p) \<le> 256 \<and> length (st_ProfileDir p) \<le> 4096 \<and> length (st_Error p) \<le> 4096"

interpretation acquire_request: codec AcquireRequest_MarshalMUS AcquireRequest_UnmarshalMUS aq_wf
proof unfold_locales
  show "local_reads AcquireRequest_UnmarshalMUS"
    unfolding AcquireRequest_UnmarshalMUS_def by (intro local_intros)
qed (simp add: AcquireRequest_MarshalMUS_def AcquireRequest_UnmarshalMUS_def aq_wf_def marshal_simps codec_simps)

interpretation acquire_response: codec AcquireResponse_MarshalMUS AcquireResponse_UnmarshalMUS ar_wf
proof unfold_locales
  show "local_reads AcquireResponse_UnmarshalMUS"
    unfolding AcquireResponse_UnmarshalMUS_def by (intro local_intros)
qed (simp add: AcquireResponse_MarshalMUS_def AcquireResponse_UnmarshalMUS_def ar_wf_def marshal_simps codec_simps)

interpretation release_request: codec ReleaseRequest_MarshalMUS ReleaseRequest_UnmarshalMUS
  "\<lambda>p. length (rr_AgentID p) \<le> 128"
proof unfold_locales
  show "local_reads ReleaseRequest_UnmarshalMUS"
    unfolding ReleaseRequest_UnmarshalMUS_def by (intro local_intros)
qed (simp add: ReleaseRequest_MarshalMUS_def ReleaseRequest_UnmarshalMUS_def marshal_simps codec_simps)

interpretation release_response: codec ReleaseResponse_MarshalMUS ReleaseResponse_UnmarshalMUS
  "\<lambda>p. length (rl_Error p) \<le> 4096"
proof unfold_locales
  show "local_reads ReleaseResponse_UnmarshalMUS"
    unfolding ReleaseResponse_UnmarshalMUS_def by (intro local_intros)
qed (simp add: ReleaseResponse_MarshalMUS_def ReleaseResponse_UnmarshalMUS_def marshal_simps codec_simps)

interpretation status_request: codec StatusRequest_MarshalMUS StatusRequest_UnmarshalMUS
  "\<lambda>p. length (sq_AgentID p) \<le> 128"
proof unfold_locales
  show "local_reads StatusRequest_UnmarshalMUS"
    unfolding StatusRequest_UnmarshalMUS_def by (intro local_intros)
qed (simp add: StatusRequest_MarshalMUS_def StatusRequest_UnmarshalMUS_def marshal_simps codec_simps)

interpretation status_response: codec StatusResponse_MarshalMUS StatusResponse_UnmarshalMUS st_wf
proof unfold_locales
  show "local_reads StatusResponse_UnmarshalMUS"
    unfolding StatusResponse_UnmarshalMUS_def by (intro local_intros)
qed (simp add: StatusResponse_MarshalMUS_def StatusResponse_UnmarshalMUS_def st_wf_def marshal_simps codec_simps)

subsection \<open>The client speaks to the manager\<close>

lemma chromed_payload_sizes:
  "aq_wf q \<Longrightarrow> length (AcquireRequest_MarshalMUS q) \<le> MaxPayloadBytes"
  "ar_wf p \<Longrightarrow> length (AcquireResponse_MarshalMUS p) \<le> MaxPayloadBytes"
proof -
  show "length (AcquireRequest_MarshalMUS q) \<le> MaxPayloadBytes" if "aq_wf q"
    using that length_enc_string_le [of "aq_AgentID q"] length_enc_string_le [of "aq_ProxyServer q"]
      length_enc_varint_le [of "ucast (aq_TimeoutSec q)"]
    by (simp add: AcquireRequest_MarshalMUS_def append_bool_eq aq_wf_def MaxPayloadBytes_def Let_def)
  show "length (AcquireResponse_MarshalMUS p) \<le> MaxPayloadBytes" if "ar_wf p"
    using that length_enc_string_le [of "ar_DebugAddr p"] length_enc_string_le [of "ar_ProfileDir p"]
      length_enc_string_le [of "ar_Error p"]
    by (simp add: AcquireResponse_MarshalMUS_def append_bool_eq ar_wf_def MaxPayloadBytes_def Let_def)
qed

lemma ReadFrame_conn:
  assumes "length (h_FromID hdr) \<le> 256" and "length (h_ToID hdr) \<le> 256" and "length payload \<le> MaxPayloadBytes"
  shows "fst (ReadFrame (conn_reader (frame_bytes hdr payload)))
    = Val (hdr\<lparr>h_PayloadLen := of_nat (length payload)\<rparr>, payload)"
  using ReadFrame_frame_bytes [OF assms, of "[]" "conn_reader []"] by (simp add: conn_reader_def)

lemma Acquire_OK: "Acquire os req s = (Inr resp, s') \<Longrightarrow> ar_OK resp"
  by (auto simp: Acquire_def Acquire_lookup_def Acquire_ok_def split: prod.splits if_splits option.splits sum.splits)

definition serve_with :: "'h chromed_os \<Rightarrow> bytes \<Rightarrow> chrome_manager \<times> 'h \<Rightarrow> (go_error + bytes) \<times> chrome_manager \<times> 'h" where
  "serve_with os input s = (case handleConn os input s of (out, s') \<Rightarrow> (Inr out, s'))"

definition acquire_reply :: "go_error + AcquireResponse \<Rightarrow> AcquireResponse" where
  "acquire_reply r = (case r of Inl err \<Rightarrow> acquire_error err | Inr resp \<Rightarrow> resp)"

lemma handleConn_acquire:
  assumes "aq_wf req"
  shows "handleConn os (frame_bytes (chromed_header MsgTypeAcquire) (AcquireRequest_MarshalMUS req)) s
    = (case Acquire os req s of (r, s') \<Rightarrow>
         (frame_bytes (resp_header (chromed_header MsgTypeAcquire) MsgTypeAcquire) (AcquireResponse_MarshalMUS (acquire_reply r)), s'))"
proof -
  have hdr: "length (h_FromID (chromed_header t)) \<le> 256" "length (h_ToID (chromed_header t)) \<le> 256" for t
    by (simp_all add: chromed_header_def Chromed_Identity_def)
  show ?thesis
    using ReadFrame_conn [OF hdr chromed_payload_sizes(1) [OF assms]] acquire_request.dec_NewReader [OF assms]
    by (auto simp: handleConn_def ResponseTypeFor_def chromed_header_def resp_header_def acquire_reply_def
        split: prod.splits sum.splits)
qed

lemma Client_Acquire_serve:
  assumes "aq_wf req" and "Acquire os req s = (r, s')" and "ar_wf (acquire_reply r)"
  shows "Client_Acquire (serve_with os) req s =
    (case r of Inr resp \<Rightarrow> Val resp | Inl err \<Rightarrow> Err (OtherError (error_text err)), s')"
proof -
  let ?rh = "resp_header (chromed_header MsgTypeAcquire) MsgTypeAcquire"
  have hdr: "length (h_FromID ?rh) \<le> 256" "length (h_ToID ?rh) \<le> 256" "h_Type ?rh = MsgTypeAcquire"
    by (simp_all add: resp_header_def chromed_header_def Chromed_Identity_def)
  have "roundTrip (serve_with os) MsgTypeAcquire (AcquireRequest_MarshalMUS req) AcquireResponse_UnmarshalMUS s
      = (Val (acquire_reply r), s')"
    using assms(2) hdr(3) ReadFrame_conn [OF hdr(1,2) chromed_payload_sizes(2) [OF assms(3)]]
      acquire_response.dec_NewReader [OF assms(3)]
    by (simp add: roundTrip_def serve_with_def handleConn_acquire [OF assms(1)])
  then show ?thesis
    using Acquire_OK [of os req s _ s'] assms(2)
    by (cases r) (auto simp: Client_Acquire_def acquire_reply_def acquire_error_def)
qed

subsection \<open>Instances\<close>

interpretation instances: keyed_store m_instances in_agentID Acquire_publish remove_instance
  by unfold_locales (simp_all add: Acquire_publish_def remove_instance_def)

lemma launch_agent: "Acquire_launch os m req h = (Inr inst, h') \<Longrightarrow> in_agentID inst = aq_AgentID req"
  by (auto simp: Acquire_launch_def Let_def split: prod.splits option.splits sum.splits)

lemma Acquire_cases:
  assumes "Acquire os req (m, h) = (r, m', h')"
  obtains (noid) "TrimSpace (aq_AgentID req) = ''''" "m' = m" "h' = h"
  | (found) inst where "m_instances m (aq_AgentID req) = Some inst" "r = Inr (Acquire_ok inst)" "m' = m" "h' = h"
  | (failed) err where "m_instances m (aq_AgentID req) = None" "Acquire_launch os m req h = (Inl err, h')"
      "r = Inl err" "m' = m"
  | (launched) inst where "m_instances m (aq_AgentID req) = None" "Acquire_launch os m req h = (Inr inst, h')"
      "r = Inr (Acquire_ok inst)" "m' = Acquire_publish inst m"
proof (cases "TrimSpace (aq_AgentID req) = ''''")
  case True
  with assms show ?thesis by (intro noid) (simp_all add: Acquire_def)
next
  case ne: False
  show ?thesis
  proof (cases "m_instances m (aq_AgentID req)")
    case (Some inst)
    with ne assms show ?thesis
      by (intro found [of inst]) (simp_all add: Acquire_def Acquire_lookup_def Acquire_ok_def)
  next
    case None
    obtain res h1 where la: "Acquire_launch os m req h = (res, h1)"
      by (cases "Acquire_launch os m req h")
    show ?thesis
    proof (cases res)
      case (Inl err)
      with la None ne assms show ?thesis
        by (intro failed [of err]) (simp_all add: Acquire_def Acquire_lookup_def)
    next
      case (Inr inst)
      with la None ne assms show ?thesis
        by (intro launched [of inst]) (simp_all add: Acquire_def Acquire_lookup_def)
    qed
  qed
qed

text \<open>At most one instance per agent, entered under its own agent, and the first one is kept.\<close>

lemma Acquire_well_keyed:
  assumes "instances.well_keyed m"
  shows "instances.well_keyed (fst (snd (Acquire os req (m, h))))"
proof -
  obtain r m' h' where a: "Acquire os req (m, h) = (r, m', h')"
    by (cases "Acquire os req (m, h)") auto
  have pub: "instances.well_keyed (Acquire_publish inst m)" for inst
    using instances.well_keyed_apply_op [OF assms, of "Put inst"] by (simp add: instances.apply_op_def)
  have "m' = m \<or> (\<exists>inst. m' = Acquire_publish inst m)"
    by (rule Acquire_cases [OF a]) blast+
  then have "instances.well_keyed m'"
    using pub assms by blast
  with a show ?thesis by simp
qed

lemma Acquire_again:
  assumes "m_instances m (aq_AgentID req) = Some inst" and "TrimSpace (aq_AgentID req) \<noteq> ''''"
  shows "Acquire os req (m, h) = (Inr (Acquire_ok inst), m, h)"
  using assms by (simp add: Acquire_def Acquire_lookup_def Acquire_ok_def)

lemma Release_removes:
  assumes "TrimSpace a \<noteq> ''''"
  shows "m_instances (fst (snd (Release os a (m, h)))) = (m_instances m)(a := None)"
  using assms by (auto simp: Release_def remove_instance_def Let_def split: option.splits prod.splits)

lemma ReleaseAll_removes:
  assumes "\<forall>a\<in>set as. TrimSpace a \<noteq> ''''"
  shows "m_instances (fst (ReleaseAll os as (m, h))) a = (if a \<in> set as then None else m_instances m a)"
  using assms
proof (induction as arbitrary: m h)
  case Nil
  then show ?case by (simp add: ReleaseAll_def)
next
  case (Cons b bs)
  obtain m' h' where r: "snd (Release os b (m, h)) = (m', h')"
    by (cases "snd (Release os b (m, h))")
  then have "m_instances m' = (m_instances m)(b := None)"
    using Release_removes [of b os m h] Cons.prems by simp
  with Cons.IH [of m' h'] Cons.prems r show ?case
    by (simp add: ReleaseAll_def)
qed

text \<open>
  Two calls for the same agent that both find no instance: both launch a browser, and the second
  entry replaces the first.
\<close>

lemma double_acquire:
  assumes "Acquire_lookup m req = None"
    and "Acquire_launch os m req h = (Inr i1, h1)" and "Acquire_launch os m req h1 = (Inr i2, h2)"
  shows "m_instances (Acquire_publish i2 (Acquire_publish i1 m)) = (m_instances m)(aq_AgentID req \<mapsto> i2)"
  using launch_agent [OF assms(2)] launch_agent [OF assms(3)] by (simp add: Acquire_publish_def)

subsection \<open>Properties\<close>

text \<open>A machine on which everything succeeds; its state is the number of processes started.\<close>

definition demo_chromed :: "nat chromed_os" where
  "demo_chromed = \<lparr>co_MkdirAll = (\<lambda>p h. (None, h)), co_allocDebug = (\<lambda>p h. (Inr ''127.0.0.1:9222'', h)),
     co_startDebugForwarder = (\<lambda>p t h. (Inl EOF, h)), co_Remove = (\<lambda>p h. (RemoveNotExist, h)),
     co_startUnixDebugForwarder = (\<lambda>p t h. (Inr 7, h)), co_Close = (\<lambda>l h. h),
     co_start = (\<lambda>s h. (Inr h, Suc h)), co_waitReady = (\<lambda>n a h. (None, h)),
     co_Kill = (\<lambda>p h. (None, h)), co_Wait = (\<lambda>p h. h)\<rparr>"

definition demo_acquire :: AcquireRequest where
  "demo_acquire = \<lparr>aq_AgentID = ''a'', aq_ProxyServer = ''http://10.0.0.1:8700'', aq_TimeoutSec = 10, aq_Headless = True\<rparr>"

definition demo_instance :: "nat \<Rightarrow> chrome_instance" where
  "demo_instance n = \<lparr>in_agentID = ''a'', in_debugAddr = ''127.0.0.1:9222'', in_forwardLn = None, in_forwardPath = '''',
     in_profileDir = ''/p/a'', in_proxyServer = ''http://10.0.0.1:8700'', in_headless = True, in_proc = n, in_running = True\<rparr>"

lemma demo_launch:
  "Acquire_launch demo_chromed (newManager ''/p'' ''chrome'' '''') demo_acquire n = (Inr (demo_instance n), Suc n)"
  by (simp add: Acquire_launch_def Acquire_forward_def demo_chromed_def demo_acquire_def demo_instance_def
      newManager_def Join2_def Clean_def comps_def render_path_def)

text \<open>
  C34: A request made through the client over the service's connection handler has the effect of
  the manager's \<open>Acquire\<close> and returns its response, or its error's text as an error, provided the
  strings fit the limits of the two decoders.
\<close>

theorem client_acquire_is_manager_acquire:
  assumes "length (aq_AgentID req) \<le> 128" and "length (aq_ProxyServer req) \<le> 1024"
    and "Acquire os req s = (r, s')" and "ar_wf (acquire_reply r)"
  shows "Client_Acquire (serve_with os) req s =
    (case r of Inr resp \<Rightarrow> Val resp | Inl err \<Rightarrow> Err (OtherError (error_text err)), s')"
  using assms by (intro Client_Acquire_serve) (simp_all add: aq_wf_def)

theorem client_acquire_is_manager_acquire_witness:
  "fst (Client_Acquire (serve_with demo_chromed) demo_acquire (newManager ''/p'' ''chrome'' '''', 0))
     = Val (Acquire_ok (demo_instance 0))"
proof -
  let ?m = "newManager ''/p'' ''chrome'' ''''"
  have a: "Acquire demo_chromed demo_acquire (?m, 0) = (Inr (Acquire_ok (demo_instance 0)), Acquire_publish (demo_instance 0) ?m, 1)"
    using demo_launch [of 0]
    by (simp add: Acquire_def Acquire_lookup_def) (simp add: demo_acquire_def newManager_def TrimSpace_def is_space_def)
  show ?thesis
    by (subst client_acquire_is_manager_acquire [OF _ _ a])
      (simp_all add: demo_acquire_def acquire_reply_def ar_wf_def Acquire_ok_def demo_instance_def)
qed

text \<open>
  Two concurrent \<open>Acquire\<close> calls for one agent can both launch a browser; when both have
  entered their instance, no entry of the manager refers to the first browser's process any
  more, so neither \<open>Release\<close> nor \<open>ReleaseAll\<close> can stop it.
\<close>

theorem double_acquire_orphans_process:
  assumes "Acquire_lookup m req = None"
    and "Acquire_launch os m req h = (Inr i1, h1)" and "Acquire_launch os m req h1 = (Inr i2, h2)"
    and "in_proc i1 \<noteq> in_proc i2" and "in_proc i1 \<notin> in_proc ` ran (m_instances m)"
  shows "in_proc i1 \<notin> in_proc ` ran (m_instances (Acquire_publish i2 (Acquire_publish i1 m)))"
  using assms(4,5) double_acquire [OF assms(1-3)]
  by (auto simp: ran_def image_def split: if_splits)

theorem double_acquire_orphans_process_witness:
  "0 \<notin> in_proc ` ran (m_instances (Acquire_publish (demo_instance 1) (Acquire_publish (demo_instance 0)
      (newManager ''/p'' ''chrome'' ''''))))"
  using double_acquire_orphans_process [OF _ demo_launch [of 0] demo_launch [of "Suc 0"]]
  by (simp add: Acquire_lookup_def newManager_def demo_instance_def)

end
