(* ===== verification/BrowserManager.thy ===== *)
theory BrowserManager
  imports Browser Chromed
begin

text \<open>
  The daemon's side of the browser sessions: the allocator of one HTTP proxy per agent
  (\<open>cmd/keeperd/browser_proxy.go\<close>) and the manager that ties an agent's proxy, its Chrome instance
  and its page reader together (\<open>cmd/keeperd/chromed.go\<close>).

  Listening on a port and shutting a server down are the operations of a record over a state
  \<open>'h\<close>; a listener is its port.  The client of the browser service and the page readers are
  parameters too: their models are in \<open>Chromed\<close> and \<open>Chromproxy\<close>.  A page reader is the address it
  was made for.  What a proxy does with a request is in \<open>AgentProxy\<close>.
\<close>

subsection \<open>The proxy allocator\<close>

definition proxyPortStart :: nat where "proxyPortStart = 8700"
definition proxyPortEnd :: nat where "proxyPortEnd = 8800"

record proxyInstance =
  pi_url :: string
  pi_listener :: nat

record proxyAllocator =
  al_host :: string
  al_instances :: "string \<rightharpoonup> proxyInstance"
  al_nextPortHint :: nat

record 'h net_ops =
  no_listen :: "nat \<Rightarrow> 'h \<Rightarrow> go_error option \<times> 'h"
  no_shutdown :: "nat \<Rightarrow> 'h \<Rightarrow> go_error option \<times> 'h"

definition newProxyAllocator :: "string \<Rightarrow> proxyAllocator" where
  "newProxyAllocator host = \<lparr>al_host = host, al_instances = Map.empty, al_nextPortHint = proxyPortStart\<rparr>"

definition try_port :: "nat \<Rightarrow> nat \<Rightarrow> nat" where
  "try_port hint attempt =
     proxyPortStart + ((hint - proxyPortStart + attempt) mod (proxyPortEnd - proxyPortStart + 1))"

definition next_hint :: "nat \<Rightarrow> nat" where
  "next_hint port = (if port + 1 > proxyPortEnd then proxyPortStart else port + 1)"

fun listen_attempts :: "'h net_ops \<Rightarrow> nat \<Rightarrow> nat list \<Rightarrow> 'h \<Rightarrow> (go_error + nat) \<times> 'h" where
  "listen_attempts net hint [] h =
     (Inl (OtherError (''no free proxy ports in range '' @ show_nat proxyPortStart @ ''-'' @ show_nat proxyPortEnd)), h)"
| "listen_attempts net hint (attempt # rest) h =
     (case no_listen net (try_port hint attempt) h of
        (None, h) \<Rightarrow> (Inr (try_port hint attempt), h)
      | (Some err, h) \<Rightarrow> listen_attempts net hint rest h)"

definition listenNextLocked :: "'h net_ops \<Rightarrow> proxyAllocator \<times> 'h \<Rightarrow> (go_error + nat) \<times> proxyAllocator \<times> 'h" where
  "listenNextLocked net = (\<lambda>(p, h).
     case listen_attempts net (al_nextPortHint p) [0..<proxyPortEnd - proxyPortStart + 1] h of
       (Inr port, h) \<Rightarrow> (Inr port, p\<lparr>al_nextPortHint := next_hint port\<rparr>, h)
     | (Inl err, h) \<Rightarrow> (Inl err, p, h))"

definition proxy_url :: "string \<Rightarrow> nat \<Rightarrow> string" where
  "proxy_url host port = ''http://'' @ host @ '':'' @ show_nat port"

definition Proxy_Acquire ::
  "'h net_ops \<Rightarrow> string \<Rightarrow> proxyAllocator \<times> 'h \<Rightarrow> (go_error + proxyInstance) \<times> proxyAllocator \<times> 'h"
where
  "Proxy_Acquire net agentID = (\<lambda>(p, h).
     case al_instances p agentID of
       Some inst \<Rightarrow> (Inr inst, p, h)
     | None \<Rightarrow>
         (case listenNextLocked net (p, h) of
            (Inl err, p, h) \<Rightarrow> (Inl err, p, h)
          | (Inr port, p, h) \<Rightarrow>
              let inst = \<lparr>pi_url = proxy_url (al_host p) port, pi_listener = port\<rparr>
              in (Inr inst, p\<lparr>al_instances := (al_instances p)(agentID \<mapsto> inst)\<rparr>, h)))"

definition Proxy_Release ::
  "'h net_ops \<Rightarrow> string \<Rightarrow> proxyAllocator \<times> 'h \<Rightarrow> go_error option \<times> proxyAllocator \<times> 'h"
where
  "Proxy_Release net agentID = (\<lambda>(p, h).
     case al_instances p agentID of
       None \<Rightarrow> (None, p, h)
     | Some inst \<Rightarrow>
         (case no_shutdown net (pi_listener inst) h of
            (r, h) \<Rightarrow> (r, p\<lparr>al_instances := (al_instances p)(agentID := None)\<rparr>, h)))"

text \<open>\<open>ids\<close> are the keys, in the order Go visits them.\<close>

definition Proxy_ReleaseAll :: "'h net_ops \<Rightarrow> string list \<Rightarrow> proxyAllocator \<times> 'h \<Rightarrow> proxyAllocator \<times> 'h" where
  "Proxy_ReleaseAll net ids s = fold (\<lambda>i s. snd (Proxy_Release net i s)) ids s"

text \<open>
  The address the daemon advertises: the first IPv4 address that is no loopback, of an interface
  that is up and no loopback.  An interface whose addresses cannot be read has \<open>None\<close>; an address
  that is not IPv4 is \<open>None\<close>.
\<close>

record net_iface =
  if_Up :: bool
  if_Loopback :: bool
  if_Addrs :: "(string \<times> bool) option list option"

definition iface_address :: "net_iface \<Rightarrow> string option" where
  "iface_address i =
     (if \<not> if_Up i \<or> if_Loopback i then None
      else case if_Addrs i of
        None \<Rightarrow> None
      | Some addrs \<Rightarrow>
          (case find (\<lambda>a. case a of None \<Rightarrow> False | Some (ip, loopback) \<Rightarrow> \<not> loopback) addrs of
             Some (Some (ip, loopback)) \<Rightarrow> Some ip | _ \<Rightarrow> None))"

definition detectAdvertiseHost :: "go_error + net_iface list \<Rightarrow> go_error + string" where
  "detectAdvertiseHost ifaces =
     (case ifaces of
        Inl err \<Rightarrow> Inl err
      | Inr is \<Rightarrow>
          (case List.map_filter iface_address is of
             [] \<Rightarrow> Inl (OtherError ''no non-loopback IPv4 address found'')
           | ip # _ \<Rightarrow> Inr ip))"

subsection \<open>The browser manager\<close>

record 'h chromed_client =
  cl_Acquire :: "AcquireRequest \<Rightarrow> 'h \<Rightarrow> (go_error + AcquireResponse) \<times> 'h"
  cl_Release :: "string \<Rightarrow> 'h \<Rightarrow> (go_error + ReleaseResponse) \<times> 'h"

type_synonym 'h page_reader =
  "string \<Rightarrow> string \<Rightarrow> string \<Rightarrow> WhitelistPolicy \<Rightarrow> string \<Rightarrow> nat \<Rightarrow> 'h \<Rightarrow> (go_error + string) \<times> 'h"

record 'h browserManager =
  bm_client :: "'h chromed_client option"
  bm_headless :: "string \<rightharpoonup> bool"
  bm_proxyByID :: "string \<rightharpoonup> string"
  bm_proxies :: "proxyAllocator option"

definition newBrowserManager :: "'h chromed_client option \<Rightarrow> proxyAllocator option \<Rightarrow> 'h browserManager" where
  "newBrowserManager client proxies =
     \<lparr>bm_client = client, bm_headless = Map.empty, bm_proxyByID = Map.empty, bm_proxies = proxies\<rparr>"

definition SetHeadless :: "string \<Rightarrow> bool \<Rightarrow> 'h browserManager \<Rightarrow> 'h browserManager" where
  "SetHeadless agentID headless m = m\<lparr>bm_headless := (bm_headless m)(agentID \<mapsto> headless)\<rparr>"

definition headless_of :: "'h browserManager \<Rightarrow> string \<Rightarrow> bool" where
  "headless_of m agentID = (bm_headless m agentID = Some True)"

text \<open>The session of an agent that has none: its proxy, its Chrome instance, its page reader.\<close>

definition open_session ::
  "'h net_ops \<Rightarrow> string \<Rightarrow> 'h chromed_client \<Rightarrow> proxyAllocator \<Rightarrow> 'h browserManager \<times> 'h
     \<Rightarrow> (go_error + string) \<times> 'h browserManager \<times> 'h"
where
  "open_session net agentID client proxies = (\<lambda>(m, h).
     case Proxy_Acquire net agentID (proxies, h) of
       (Inl err, proxies, h) \<Rightarrow>
         (Inl (Wrap ''acquire browser proxy: '' err), m\<lparr>bm_proxies := Some proxies\<rparr>, h)
     | (Inr proxyInst, proxies, h) \<Rightarrow>
         (case cl_Acquire client \<lparr>aq_AgentID = agentID, aq_ProxyServer = pi_url proxyInst, aq_TimeoutSec = 10,
                                  aq_Headless = headless_of m agentID\<rparr> h of
            (Inl err, h) \<Rightarrow>
              (case Proxy_Release net agentID (proxies, h) of
                 (_, proxies, h) \<Rightarrow>
                   (Inl (Wrap ''acquire browser session: '' err), m\<lparr>bm_proxies := Some proxies\<rparr>, h))
          | (Inr resp, h) \<Rightarrow>
              (Inr (ar_DebugAddr resp),
               m\<lparr>bm_proxies := Some proxies, bm_proxyByID := (bm_proxyByID m)(agentID \<mapsto> ar_DebugAddr resp)\<rparr>, h)))"

definition Manager_ReadPage ::
  "'h net_ops \<Rightarrow> 'h page_reader \<Rightarrow> string \<Rightarrow> string \<Rightarrow> WhitelistPolicy \<Rightarrow> string \<Rightarrow> nat
     \<Rightarrow> 'h browserManager \<times> 'h \<Rightarrow> (go_error + string) \<times> 'h browserManager \<times> 'h"
where
  "Manager_ReadPage net reader agentID targetURL policy waitFor maxChars = (\<lambda>(m, h).
     case bm_client m of
       None \<Rightarrow> (Inl (OtherError ''chromed client not configured''), m, h)
     | Some client \<Rightarrow>
         (case bm_proxies m of
            None \<Rightarrow> (Inl (OtherError ''browser proxy allocator not configured''), m, h)
          | Some proxies \<Rightarrow>
              (case (case bm_proxyByID m agentID of
                       Some proxy \<Rightarrow> (Inr proxy, m, h)
                     | None \<Rightarrow> open_session net agentID client proxies (m, h)) of
                 (Inl err, m, h) \<Rightarrow> (Inl err, m, h)
               | (Inr proxy, m, h) \<Rightarrow>
                   (case reader proxy agentID targetURL policy waitFor maxChars h of
                      (r, h) \<Rightarrow> (r, m, h)))))"

definition Manager_Release ::
  "'h net_ops \<Rightarrow> string \<Rightarrow> 'h browserManager \<times> 'h \<Rightarrow> go_error option \<times> 'h browserManager \<times> 'h"
where
  "Manager_Release net agentID = (\<lambda>(m, h).
     case bm_client m of
       None \<Rightarrow> (None, m, h)
     | Some client \<Rightarrow>
         if agentID = '''' then (None, m, h)
         else
           let m = m\<lparr>bm_proxyByID := (bm_proxyByID m)(agentID := None),
                     bm_headless := (bm_headless m)(agentID := None)\<rparr>;
               (m, h) =
                 (case bm_proxies m of
                    None \<Rightarrow> (m, h)
                  | Some proxies \<Rightarrow>
                      (case Proxy_Release net agentID (proxies, h) of
                         (_, proxies, h) \<Rightarrow> (m\<lparr>bm_proxies := Some proxies\<rparr>, h)))
           in (case cl_Release client agentID h of
                 (Inl err, h) \<Rightarrow> (Some err, m, h)
               | (Inr resp, h) \<Rightarrow> (None, m, h)))"

subsection \<open>Every port is tried\<close>

definition in_range :: "nat \<Rightarrow> bool" where
  "in_range port \<longleftrightarrow> proxyPortStart \<le> port \<and> port \<le> proxyPortEnd"

lemma in_range_try [simp]: "in_range (try_port hint attempt)"
proof -
  have "(hint - 8700 + attempt) mod 101 < 101" by simp
  then show ?thesis
    unfolding in_range_def try_port_def proxyPortStart_def proxyPortEnd_def by simp
qed

lemma in_range_next [simp]: "in_range port \<Longrightarrow> in_range (next_hint port)"
  by (auto simp: in_range_def next_hint_def proxyPortStart_def proxyPortEnd_def)

lemma try_port_covers:
  assumes "in_range hint" and "in_range port"
  shows "\<exists>attempt < 101. try_port hint attempt = port"
proof -
  define k where "k = (if hint \<le> port then port - hint else port + 101 - hint)"
  have r: "8700 \<le> hint" "hint \<le> 8800" "8700 \<le> port" "port \<le> 8800"
    using assms by (simp_all add: in_range_def proxyPortStart_def proxyPortEnd_def)
  then have k: "k < 101"
    unfolding k_def by presburger
  have "(hint - 8700 + k) mod 101 = port - 8700"
  proof (cases "hint \<le> port")
    case True
    then show ?thesis using r by (simp add: k_def)
  next
    case False
    then have "hint - 8700 + k = port - 8700 + 101"
      using r by (simp add: k_def)
    then have "(hint - 8700 + k) mod 101 = (port - 8700) mod 101"
      by (simp only: mod_add_self2)
    then show ?thesis using r by simp
  qed
  then have "try_port hint k = port"
    using r by (simp add: try_port_def proxyPortStart_def proxyPortEnd_def)
  with k show ?thesis by blast
qed

text \<open>A port nobody holds is one that \<open>listen\<close> gets at any time.\<close>

lemma listen_attempts_succeeds:
  assumes "a \<in> set attempts" and "\<And>h. fst (no_listen net (try_port hint a) h) = None"
  shows "\<exists>port h'. listen_attempts net hint attempts h = (Inr port, h')"
  using assms(1)
proof (induction attempts arbitrary: h)
  case Nil
  then show ?case by simp
next
  case (Cons b rest)
  show ?case
  proof (cases "no_listen net (try_port hint b) h")
    case (Pair r h1)
    show ?thesis
    proof (cases r)
      case None
      with Pair show ?thesis by simp
    next
      case (Some err)
      with Pair assms(2) [of h] have "a \<noteq> b" by auto
      with Cons Pair Some show ?thesis by simp
    qed
  qed
qed

lemma listen_attempts_result:
  "listen_attempts net hint attempts h = (Inr port, h') \<Longrightarrow>
     \<exists>h1. no_listen net port h1 = (None, h') \<and> in_range port"
  by (induction net hint attempts h rule: listen_attempts.induct) (auto split: prod.splits option.splits)

subsection \<open>One port per agent\<close>

text \<open>
  What the operating system promises of listening: a port is given out only while nobody holds it,
  and is held until the server is shut down.  \<open>bound\<close> are the ports held in a state.
\<close>

definition port_discipline :: "'h net_ops \<Rightarrow> ('h \<Rightarrow> nat set) \<Rightarrow> bool" where
  "port_discipline net bound \<longleftrightarrow>
     (\<forall>p h h'. no_listen net p h = (None, h') \<longrightarrow> p \<notin> bound h \<and> bound h' = insert p (bound h))
     \<and> (\<forall>p h h' e. no_listen net p h = (Some e, h') \<longrightarrow> bound h' = bound h)
     \<and> (\<forall>p h h' r. no_shutdown net p h = (r, h') \<longrightarrow> bound h' = bound h - {p})"

definition alloc_ok :: "('h \<Rightarrow> nat set) \<Rightarrow> proxyAllocator \<times> 'h \<Rightarrow> bool" where
  "alloc_ok bound s \<longleftrightarrow>
     in_range (al_nextPortHint (fst s))
     \<and> (\<forall>a i. al_instances (fst s) a = Some i \<longrightarrow>
          in_range (pi_listener i) \<and> pi_listener i \<in> bound (snd s)
          \<and> pi_url i = proxy_url (al_host (fst s)) (pi_listener i))
     \<and> (\<forall>a b i j. al_instances (fst s) a = Some i \<longrightarrow> al_instances (fst s) b = Some j \<longrightarrow>
          pi_listener i = pi_listener j \<longrightarrow> a = b)"

lemma port_disciplineD:
  assumes "port_discipline net bound"
  shows "no_listen net p h = (None, h') \<Longrightarrow> p \<notin> bound h"
    and "no_listen net p h = (None, h') \<Longrightarrow> bound h' = insert p (bound h)"
    and "no_listen net p h = (Some e, h') \<Longrightarrow> bound h' = bound h"
    and "no_shutdown net p h = (r, h') \<Longrightarrow> bound h' = bound h - {p}"
  using assms unfolding port_discipline_def by blast+

lemma listen_attempts_bound:
  assumes "port_discipline net bound"
  shows "listen_attempts net hint attempts h = (r, h') \<Longrightarrow>
    (case r of Inr port \<Rightarrow> port \<notin> bound h \<and> bound h' = insert port (bound h) \<and> in_range port
             | Inl e \<Rightarrow> bound h' = bound h)"
proof (induction attempts arbitrary: h)
  case Nil
  then show ?case by auto
next
  case (Cons a rest)
  obtain q h1 where l: "no_listen net (try_port hint a) h = (q, h1)"
    by (cases "no_listen net (try_port hint a) h")
  show ?case
  proof (cases q)
    case None
    with l have n: "no_listen net (try_port hint a) h = (None, h1)" by simp
    with Cons.prems have "r = Inr (try_port hint a)" "h' = h1" by simp_all
    with port_disciplineD(1,2) [OF assms n] show ?thesis by simp
  next
    case (Some e)
    with Cons.prems l have "listen_attempts net hint rest h1 = (r, h')" by simp
    moreover have "bound h1 = bound h"
      using port_disciplineD(3) [OF assms] l Some by blast
    ultimately show ?thesis
      using Cons.IH [of h1] by (cases r) simp_all
  qed
qed

lemma Proxy_Acquire_ok:
  assumes d: "port_discipline net bound" and ok: "alloc_ok bound (p, h)"
  shows "alloc_ok bound (snd (Proxy_Acquire net agentID (p, h)))"
proof (cases "al_instances p agentID")
  case (Some i)
  with ok show ?thesis by (simp add: Proxy_Acquire_def)
next
  case None
  obtain r h1 where l: "listen_attempts net (al_nextPortHint p) [0..<proxyPortEnd - proxyPortStart + 1] h = (r, h1)"
    by (cases "listen_attempts net (al_nextPortHint p) [0..<proxyPortEnd - proxyPortStart + 1] h")
  note b = listen_attempts_bound [OF d l]
  show ?thesis
  proof (cases r)
    case (Inl e)
    with None l b ok show ?thesis
      by (simp add: Proxy_Acquire_def listenNextLocked_def alloc_ok_def)
  next
    case (Inr port)
    with b have port: "port \<notin> bound h" "bound h1 = insert port (bound h)" "in_range port"
      by simp_all
    have "pi_listener i \<noteq> port" if "al_instances p a = Some i" for a i
      using that ok port(1) by (auto simp: alloc_ok_def)
    with None l Inr port ok show ?thesis
      by (auto simp: Proxy_Acquire_def listenNextLocked_def alloc_ok_def Let_def)
  qed
qed

lemma Proxy_Release_ok:
  assumes d: "port_discipline net bound" and ok: "alloc_ok bound (p, h)"
  shows "alloc_ok bound (snd (Proxy_Release net agentID (p, h)))"
proof (cases "al_instances p agentID")
  case None
  with ok show ?thesis by (simp add: Proxy_Release_def)
next
  case (Some i)
  obtain r h1 where l: "no_shutdown net (pi_listener i) h = (r, h1)"
    by (cases "no_shutdown net (pi_listener i) h")
  have "bound h1 = bound h - {pi_listener i}"
    using port_disciplineD(4) [OF d l] .
  moreover have "pi_listener j \<noteq> pi_listener i" if "al_instances p a = Some j" "a \<noteq> agentID" for a j
    using that ok Some by (auto simp: alloc_ok_def)
  ultimately show ?thesis
    using Some l ok by (auto simp: Proxy_Release_def alloc_ok_def)
qed

datatype alloc_op = AAcquire string | ARelease string

fun alloc_run :: "'h net_ops \<Rightarrow> alloc_op list \<Rightarrow> proxyAllocator \<times> 'h \<Rightarrow> proxyAllocator \<times> 'h" where
  "alloc_run net [] s = s"
| "alloc_run net (AAcquire a # ops) s = alloc_run net ops (snd (Proxy_Acquire net a s))"
| "alloc_run net (ARelease a # ops) s = alloc_run net ops (snd (Proxy_Release net a s))"

lemma alloc_run_ok:
  assumes "port_discipline net bound"
  shows "alloc_ok bound s \<Longrightarrow> alloc_ok bound (alloc_run net ops s)"
proof (induction ops arbitrary: s)
  case (Cons a ops)
  then show ?case
    using Proxy_Acquire_ok [OF assms, of "fst s" "snd s"] Proxy_Release_ok [OF assms, of "fst s" "snd s"]
    by (cases a) simp_all
qed simp

lemma newProxyAllocator_ok: "alloc_ok bound (newProxyAllocator host, h)"
  by (simp add: alloc_ok_def newProxyAllocator_def in_range_def proxyPortStart_def proxyPortEnd_def)

subsection \<open>Sessions and proxies\<close>

definition sessions_ok :: "'h browserManager \<Rightarrow> bool" where
  "sessions_ok m \<longleftrightarrow>
     (case bm_proxies m of None \<Rightarrow> bm_proxyByID m = Map.empty
      | Some ps \<Rightarrow> dom (bm_proxyByID m) = dom (al_instances ps))"

lemma listenNext_instances:
  "listenNextLocked net (p, h) = (r, p', h') \<Longrightarrow> al_instances p' = al_instances p"
  by (auto simp: listenNextLocked_def split: prod.splits sum.splits)

lemma Proxy_Acquire_dom:
  "Proxy_Acquire net a (p, h) = (Inr i, p', h') \<Longrightarrow> dom (al_instances p') = insert a (dom (al_instances p))"
  by (auto simp: Proxy_Acquire_def Let_def dest!: listenNext_instances split: option.splits prod.splits sum.splits)

lemma Proxy_Acquire_err:
  "Proxy_Acquire net a (p, h) = (Inl e, p', h') \<Longrightarrow> al_instances p' = al_instances p \<and> al_instances p a = None"
  by (auto simp: Proxy_Acquire_def Let_def dest!: listenNext_instances split: option.splits prod.splits sum.splits)

lemma Proxy_Release_dom:
  "Proxy_Release net a (p, h) = (r, p', h') \<Longrightarrow> al_instances p' = (al_instances p)(a := None)"
  by (auto simp: Proxy_Release_def fun_upd_idem split: option.splits prod.splits)

lemma open_session_ok:
  assumes "open_session net a client ps (m, h) = (r, m', h')"
    and "sessions_ok m" and "bm_proxies m = Some ps" and "bm_proxyByID m a = None"
  shows "sessions_ok m'"
proof -
  obtain q ps1 h1 where acq: "Proxy_Acquire net a (ps, h) = (q, ps1, h1)"
    by (cases "Proxy_Acquire net a (ps, h)") auto
  have dom: "dom (bm_proxyByID m) = dom (al_instances ps)"
    using assms(2,3) by (simp add: sessions_ok_def)
  show ?thesis
  proof (cases q)
    case (Inl e)
    have "m' = m\<lparr>bm_proxies := Some ps1\<rparr>"
      using assms(1) by (simp add: open_session_def acq Inl)
    moreover have "al_instances ps1 = al_instances ps"
      using Proxy_Acquire_err [OF acq [unfolded Inl]] by blast
    ultimately show ?thesis
      using dom by (simp add: sessions_ok_def)
  next
    case (Inr i)
    have d1: "dom (al_instances ps1) = insert a (dom (al_instances ps))"
      using Proxy_Acquire_dom [OF acq [unfolded Inr]] .
    have none: "a \<notin> dom (al_instances ps)"
      unfolding dom [symmetric] using assms(4) by (simp add: domIff)
    let ?req = "\<lparr>aq_AgentID = a, aq_ProxyServer = pi_url i, aq_TimeoutSec = 10, aq_Headless = headless_of m a\<rparr>"
    obtain c h2 where call: "cl_Acquire client ?req h1 = (c, h2)"
      by (cases "cl_Acquire client ?req h1")
    show ?thesis
    proof (cases c)
      case (Inl e)
      obtain rr ps2 h3 where rel: "Proxy_Release net a (ps1, h2) = (rr, ps2, h3)"
        by (cases "Proxy_Release net a (ps1, h2)") auto
      have "dom (al_instances ps2) = dom (al_instances ps)"
        using Proxy_Release_dom [OF rel] d1 none by simp
      moreover have "m' = m\<lparr>bm_proxies := Some ps2\<rparr>"
        using assms(1) by (simp add: open_session_def acq \<open>q = Inr i\<close> call Inl rel)
      ultimately show ?thesis
        using dom by (simp add: sessions_ok_def)
    next
      case (Inr resp)
      then have "m' = m\<lparr>bm_proxies := Some ps1, bm_proxyByID := (bm_proxyByID m)(a \<mapsto> ar_DebugAddr resp)\<rparr>"
        using assms(1) by (simp add: open_session_def acq \<open>q = Inr i\<close> call)
      then show ?thesis
        using dom d1 by (simp add: sessions_ok_def)
    qed
  qed
qed

lemma ReadPage_ok:
  assumes "sessions_ok m"
  shows "sessions_ok (fst (snd (Manager_ReadPage net reader a u policy wt n (m, h))))"
proof (cases "bm_client m")
  case None
  with assms show ?thesis by (simp add: Manager_ReadPage_def)
next
  case (Some client)
  show ?thesis
  proof (cases "bm_proxies m")
    case None
    with assms Some show ?thesis by (simp add: Manager_ReadPage_def)
  next
    case ps: (Some ps)
    show ?thesis
    proof (cases "bm_proxyByID m a")
      case None
      obtain r m' h' where o: "open_session net a client ps (m, h) = (r, m', h')"
        by (cases "open_session net a client ps (m, h)") auto
      from open_session_ok [OF o assms ps None] show ?thesis
        using Some ps None o by (auto simp: Manager_ReadPage_def split: sum.splits prod.splits)
    next
      case (Some proxy)
      with assms \<open>bm_client m = Some client\<close> ps show ?thesis
        by (auto simp: Manager_ReadPage_def split: prod.splits)
    qed
  qed
qed

lemma Release_ok:
  assumes "sessions_ok m"
  shows "sessions_ok (fst (snd (Manager_Release net a (m, h))))"
  using assms
  by (auto simp: Manager_Release_def sessions_ok_def Let_def dest!: Proxy_Release_dom
      split: option.splits prod.splits sum.splits if_splits)

datatype manager_op =
    OpSetHeadless string bool
  | OpReadPage string string WhitelistPolicy string nat
  | OpRelease string

fun manager_run :: "'h net_ops \<Rightarrow> 'h page_reader \<Rightarrow> manager_op list \<Rightarrow> 'h browserManager \<times> 'h \<Rightarrow> 'h browserManager \<times> 'h" where
  "manager_run net reader [] s = s"
| "manager_run net reader (OpSetHeadless a b # ops) s = manager_run net reader ops (SetHeadless a b (fst s), snd s)"
| "manager_run net reader (OpReadPage a u policy wt n # ops) s =
     manager_run net reader ops (snd (Manager_ReadPage net reader a u policy wt n s))"
| "manager_run net reader (OpRelease a # ops) s = manager_run net reader ops (snd (Manager_Release net a s))"

lemma manager_run_ok: "sessions_ok (fst s) \<Longrightarrow> sessions_ok (fst (manager_run net reader ops s))"
proof (induction ops arbitrary: s)
  case (Cons a ops)
  obtain m h where s: "s = (m, h)" by (cases s)
  show ?case
  proof (cases a)
    case (OpSetHeadless x1 x2)
    have "sessions_ok (SetHeadless x1 x2 m)"
      using Cons.prems s by (simp add: SetHeadless_def sessions_ok_def cong: option.case_cong)
    with OpSetHeadless s Cons.IH show ?thesis by simp
  next
    case (OpReadPage a' u policy wt n)
    with s show ?thesis
      using Cons.IH [OF ReadPage_ok [of m net reader a' u policy wt n h]] Cons.prems by simp
  next
    case (OpRelease a')
    with s show ?thesis
      using Cons.IH [OF Release_ok [of m net a' h]] Cons.prems by simp
  qed
qed simp

subsection \<open>Properties\<close>

definition demo_net :: "nat set net_ops" where
  "demo_net = \<lparr>no_listen = (\<lambda>p s. if p \<in> s then (Some (OtherError ''address already in use''), s) else (None, insert p s)),
     no_shutdown = (\<lambda>p s. (None, s - {p}))\<rparr>"

lemma demo_net_discipline: "port_discipline demo_net id"
  by (auto simp: port_discipline_def demo_net_def split: if_splits)

text \<open>
  However proxies are acquired and released, from an empty allocator, no two agents are ever
  given the same port, and every port given out lies in the range 8700 to 8800.  This rests on the
  operating system's promise that a port in use cannot be listened on again.
\<close>

theorem one_port_per_agent:
  assumes "port_discipline net bound"
    and "alloc_run net ops (newProxyAllocator host, h) = (p, h')"
    and "al_instances p a = Some i" and "al_instances p b = Some j"
  shows "in_range (pi_listener i) \<and> (pi_listener i = pi_listener j \<longrightarrow> a = b)"
  using alloc_run_ok [OF assms(1) newProxyAllocator_ok, of ops host h] assms(2-4)
  by (auto simp: alloc_ok_def)

definition demo_alloc :: "proxyAllocator \<times> nat set" where
  "demo_alloc = alloc_run demo_net [AAcquire ''a'', AAcquire ''b''] (newProxyAllocator ''10.0.0.1'', {8700})"

lemma demo_alloc_eq:
  "fst (listen_attempts demo_net 8700 [0..<101] {8700}) = Inr 8701"
  "snd (listen_attempts demo_net 8700 [0..<101] {8700}) = {8700, 8701}"
  "listen_attempts demo_net 8702 [0..<101] {8700, 8701} = (Inr 8702, {8700, 8701, 8702})"
  by (simp_all add: upt_conv_Cons demo_net_def try_port_def proxyPortStart_def proxyPortEnd_def insert_commute)

lemma demo_alloc_instances:
  "\<exists>p h i j. demo_alloc = (p, h) \<and> al_instances p ''a'' = Some i \<and> al_instances p ''b'' = Some j"
proof -
  have "listen_attempts demo_net 8700 [0..<101] {8700} = (Inr 8701, {8700, 8701})"
    using demo_alloc_eq by (simp add: prod_eq_iff)
  with demo_alloc_eq(3) show ?thesis
    by (simp add: demo_alloc_def newProxyAllocator_def Proxy_Acquire_def listenNextLocked_def Let_def
        proxyPortStart_def proxyPortEnd_def next_hint_def)
qed

theorem one_port_per_agent_witness:
  "\<exists>i j. al_instances (fst demo_alloc) ''a'' = Some i \<and> al_instances (fst demo_alloc) ''b'' = Some j
    \<and> in_range (pi_listener i) \<and> (pi_listener i = pi_listener j \<longrightarrow> ''a'' = (''b'' :: string))"
proof -
  obtain p h i j where d: "demo_alloc = (p, h)" "al_instances p ''a'' = Some i" "al_instances p ''b'' = Some j"
    using demo_alloc_instances by blast
  from one_port_per_agent [OF demo_net_discipline d(1) [unfolded demo_alloc_def] d(2,3)] d
  have "in_range (pi_listener i) \<and> (pi_listener i = pi_listener j \<longrightarrow> ''a'' = (''b'' :: string))"
    by blast
  with d show ?thesis by (metis fst_conv)
qed

text \<open>
  As long as one port of the range can be listened on, an agent gets a proxy, whatever port the
  search starts from.
\<close>

theorem free_port_is_found:
  assumes "in_range port" and "\<And>h. fst (no_listen net port h) = None"
    and "in_range (al_nextPortHint p)"
  shows "\<exists>i s. Proxy_Acquire net a (p, h) = (Inr i, s)"
proof (cases "al_instances p a")
  case (Some i)
  then show ?thesis by (simp add: Proxy_Acquire_def)
next
  case None
  obtain k where k: "k < 101" "try_port (al_nextPortHint p) k = port"
    using try_port_covers [OF assms(3,1)] by blast
  then have "k \<in> set [0..<proxyPortEnd - proxyPortStart + 1]"
    by (simp add: proxyPortStart_def proxyPortEnd_def)
  then obtain q h' where "listen_attempts net (al_nextPortHint p) [0..<proxyPortEnd - proxyPortStart + 1] h = (Inr q, h')"
    using listen_attempts_succeeds [of k _ net "al_nextPortHint p" h] k(2) assms(2) by metis
  with None show ?thesis
    by (simp add: Proxy_Acquire_def listenNextLocked_def Let_def)
qed

theorem free_port_is_found_witness:
  "\<exists>i s. Proxy_Acquire \<lparr>no_listen = \<lambda>p (h :: nat). if p = 8750 then (None, Suc h) else (Some EOF, h),
      no_shutdown = \<lambda>p h. (None, h)\<rparr> ''a'' (newProxyAllocator ''10.0.0.1'', 0) = (Inr i, s)"
  by (rule free_port_is_found [of 8750])
    (simp_all add: in_range_def proxyPortStart_def proxyPortEnd_def newProxyAllocator_def)


text \<open>
  A session once open is used for good: while it is recorded, no read asks the browser service
  again, whatever the reader answers, so a Chrome that has died is never replaced.
\<close>

theorem dead_session_is_kept:
  assumes "bm_proxyByID m a = Some proxy" and "bm_client m = Some client" and "bm_proxies m = Some ps"
  shows "Manager_ReadPage net reader a u policy waitFor n (m, h)
    = (fst (reader proxy a u policy waitFor n h), m, snd (reader proxy a u policy waitFor n h))"
  using assms by (simp add: Manager_ReadPage_def split: prod.splits)

definition demo_manager :: "nat browserManager" where
  "demo_manager = \<lparr>bm_client = Some \<lparr>cl_Acquire = \<lambda>_ h. (Inl EOF, Suc h), cl_Release = \<lambda>_ h. (Inl EOF, Suc h)\<rparr>,
     bm_headless = Map.empty, bm_proxyByID = [''a'' \<mapsto> ''127.0.0.1:9222''], bm_proxies = Some (newProxyAllocator ''10.0.0.1'')\<rparr>"

theorem dead_session_is_kept_witness:
  "Manager_ReadPage \<lparr>no_listen = \<lambda>_ h. (None, h), no_shutdown = \<lambda>_ h. (None, h)\<rparr>
      (\<lambda>_ _ _ _ _ _ h. (Inl EOF, h)) ''a'' ''http://x/'' \<lparr>wp_Prefixes = [], wp_Domains = [], wp_DomainSuffixes = [], wp_PathPrefixes = []\<rparr>
      '''' 10 (demo_manager, 0) = (Inl EOF, demo_manager, 0)"
  by (subst dead_session_is_kept [of _ _ "''127.0.0.1:9222''"]) (simp_all add: demo_manager_def)

end
