(* ===== verification/Config.thy ===== *)
theory Config
  imports Prelude Path
begin

text \<open>
  Configuration (\<open>internal/config/config.go\<close>): the orchestrator's and the agents' settings, their
  defaults, parsing and validation; and the writer of \<open>agent.kdl\<close>
  (\<open>cmd/keeperd/provisioning.go\<close>).

  The KDL library is outside the repository.  It is the argument \<open>kdl_Parse\<close>, from a document's
  text to its nodes; a node has what the code reads of it: its name, the text of its arguments
  (a string's in its quotes), its children.  \<open>kdl_Unmarshal\<close> is the library's structural
  decoding.  Files are read by the argument \<open>read_file\<close>.
\<close>

subsection \<open>Data\<close>

record OrchestratorConfig =
  oc_SocketPath :: string
  oc_AuditDBPath :: string
  oc_VaultPath :: string
  oc_MaxAgentPipeBytesPerSec :: u64
  oc_LogLevel :: string
  oc_ProvidersFile :: string
  oc_ChromedSocketPath :: string
  oc_ChromeProxyServer :: string

record ProviderConfig =
  pc_Name :: string
  pc_APIURL :: string
  pc_Description :: string

record AgentCapabilityScope =
  acs_Entity :: string
  acs_Domains :: "string list"
  acs_Suffixes :: "string list"
  acs_PathPrefixes :: "string list"

record AgentCapabilityEntry =
  ace_Name :: string
  ace_Scopes :: "AgentCapabilityScope list"

record AgentBrowserConfig =
  abc_Headless :: bool

record AgentConfig =
  ac_ID :: string
  ac_Provider :: string
  ac_CPUShares :: u32
  ac_MemoryMaxBytes :: u64
  ac_SchemaErrorRetries :: int
  ac_Browser :: AgentBrowserConfig
  ac_Capabilities :: "AgentCapabilityEntry list"

definition zero_AgentConfig :: AgentConfig where
  "zero_AgentConfig = \<lparr>ac_ID = '''', ac_Provider = '''', ac_CPUShares = 0, ac_MemoryMaxBytes = 0,
     ac_SchemaErrorRetries = 0, ac_Browser = \<lparr>abc_Headless = False\<rparr>, ac_Capabilities = []\<rparr>"

datatype read_result = ReadNotExist | ReadErr go_error | ReadOk string

datatype kdl_node = KNode (kn_Name: string) (kn_Arguments: "string list") (kn_Children: "kdl_node list")

subsection \<open>Orchestrator\<close>

definition DefaultOrchestratorConfig :: "string \<Rightarrow> OrchestratorConfig" where
  "DefaultOrchestratorConfig workspaceRoot =
     \<lparr>oc_SocketPath = workspaceRoot @ ''/keeper.sock'',
      oc_AuditDBPath = workspaceRoot @ ''/audit.db'',
      oc_VaultPath = workspaceRoot @ ''/vault.enc'',
      oc_MaxAgentPipeBytesPerSec = 1 * 1024 * 1024,
      oc_LogLevel = ''info'',
      oc_ProvidersFile = workspaceRoot @ ''/providers.kdl'',
      oc_ChromedSocketPath = ''/run/vivary/chromed-host/chromed.sock'',
      oc_ChromeProxyServer = ''''\<rparr>"

definition validLogLevels :: "string list" where
  "validLogLevels = [''debug'', ''info'', ''warn'', ''error'']"

definition ValidateOrchestratorConfig :: "(string \<Rightarrow> string) \<Rightarrow> OrchestratorConfig \<Rightarrow> go_error option" where
  "ValidateOrchestratorConfig quote cfg =
     (if oc_SocketPath cfg = '''' then Some (OtherError ''config: socket-path is required'')
      else if oc_LogLevel cfg \<noteq> '''' \<and> oc_LogLevel cfg \<notin> set validLogLevels
      then Some (OtherError (''config: log-level '' @ quote (oc_LogLevel cfg)
                  @ '' is not valid (must be one of: debug, info, warn, error)''))
      else if oc_MaxAgentPipeBytesPerSec cfg = 0
      then Some (OtherError ''config: max-pipe-bytes-per-sec must be > 0'')
      else None)"

definition LoadOrchestratorConfig ::
  "(string \<Rightarrow> string) \<Rightarrow> (string \<Rightarrow> read_result) \<Rightarrow> (string \<Rightarrow> OrchestratorConfig \<Rightarrow> OrchestratorConfig \<times> go_error option)
     \<Rightarrow> string \<Rightarrow> OrchestratorConfig \<times> go_error option"
where
  "LoadOrchestratorConfig quote read_file kdl_Unmarshal workspaceRoot =
     (let cfg = DefaultOrchestratorConfig workspaceRoot;
          path = workspaceRoot @ ''/orchestrator.kdl''
      in case read_file path of
           ReadNotExist \<Rightarrow> (cfg, None)
         | ReadErr err \<Rightarrow> (cfg, Some (Wrap (''config: read '' @ quote path @ '': '') err))
         | ReadOk data \<Rightarrow>
             (case kdl_Unmarshal data cfg of
                (cfg, Some err) \<Rightarrow> (cfg, Some (Wrap (''config: unmarshal '' @ quote path @ '': '') err))
              | (cfg, None) \<Rightarrow>
                  (case ValidateOrchestratorConfig quote cfg of
                     Some err \<Rightarrow> (cfg, Some err)
                   | None \<Rightarrow> (cfg, None))))"

subsection \<open>Providers\<close>

abbreviation dquote :: char where
  "dquote \<equiv> CHR 0x22"

definition unquote :: "string \<Rightarrow> string" where
  "unquote s = (if 2 \<le> length s \<and> hd s = dquote \<and> last s = dquote then butlast (tl s) else s)"

fun provider_fields :: "kdl_node list \<Rightarrow> ProviderConfig \<Rightarrow> ProviderConfig" where
  "provider_fields [] p = p"
| "provider_fields (child # cs) p =
     (case kn_Arguments child of
        [] \<Rightarrow> provider_fields cs p
      | a # _ \<Rightarrow>
          let val = unquote a in
          if kn_Name child = ''api-url'' then provider_fields cs (p\<lparr>pc_APIURL := val\<rparr>)
          else if kn_Name child = ''description'' then provider_fields cs (p\<lparr>pc_Description := val\<rparr>)
          else provider_fields cs p)"

fun provider_nodes :: "kdl_node list \<Rightarrow> (string \<rightharpoonup> ProviderConfig) \<Rightarrow> (string \<rightharpoonup> ProviderConfig)" where
  "provider_nodes [] providers = providers"
| "provider_nodes (node # nodes) providers =
     (if kn_Name node \<noteq> ''provider'' then provider_nodes nodes providers
      else case kn_Arguments node of
          [] \<Rightarrow> provider_nodes nodes providers
        | a # _ \<Rightarrow>
            let name = unquote a;
                p = provider_fields (kn_Children node) \<lparr>pc_Name = name, pc_APIURL = '''', pc_Description = ''''\<rparr>
            in provider_nodes nodes (providers(name \<mapsto> p)))"

definition LoadProvidersConfig ::
  "(string \<Rightarrow> string) \<Rightarrow> (string \<Rightarrow> read_result) \<Rightarrow> (string \<Rightarrow> go_error + kdl_node list) \<Rightarrow> string
     \<Rightarrow> go_error + (string \<rightharpoonup> ProviderConfig)"
where
  "LoadProvidersConfig quote read_file kdl_Parse path =
     (case read_file path of
        ReadNotExist \<Rightarrow> Inr Map.empty
      | ReadErr err \<Rightarrow> Inl (Wrap (''providers: read '' @ quote path @ '': '') err)
      | ReadOk data \<Rightarrow>
          (case kdl_Parse data of
             Inl err \<Rightarrow> Inl (Wrap (''providers: parse '' @ quote path @ '': '') err)
           | Inr nodes \<Rightarrow> Inr (provider_nodes nodes Map.empty)))"

text \<open>\<open>entries\<close> are the map's entries in the order Go visits them.\<close>

fun ValidateProviderConfig ::
  "(string \<Rightarrow> string) \<Rightarrow> (string \<Rightarrow> go_error + url) \<Rightarrow> (string \<times> ProviderConfig) list \<Rightarrow> go_error option"
where
  "ValidateProviderConfig quote url_Parse [] = None"
| "ValidateProviderConfig quote url_Parse ((name, p) # entries) =
     (if pc_APIURL p = '''' then Some (OtherError (''provider '' @ quote name @ '': api-url is required''))
      else let invalid = Some (OtherError (''provider '' @ quote name @ '': api-url '' @ quote (pc_APIURL p)
                 @ '' is not a valid URL'')) in
        case url_Parse (pc_APIURL p) of
          Inl _ \<Rightarrow> invalid
        | Inr u \<Rightarrow>
            if u_Scheme u = '''' \<or> u_Host u = '''' then invalid
            else if u_Scheme u \<noteq> ''https''
            then Some (OtherError (''provider '' @ quote name @ '': api-url must use https, got '' @ quote (u_Scheme u)))
            else ValidateProviderConfig quote url_Parse entries)"

subsection \<open>Numbers\<close>

text \<open>
  \<open>fmt.Sscanf(s, "%d", &x)\<close> for an unsigned \<open>x\<close> of the given width and for a signed 64-bit one:
  the value stored, if one is.
\<close>

definition is_digit :: "char \<Rightarrow> bool" where
  "is_digit c \<longleftrightarrow> 48 \<le> (of_char c :: nat) \<and> (of_char c :: nat) \<le> 57"

definition digits_value :: "string \<Rightarrow> nat" where
  "digits_value ds = foldl (\<lambda>n c. 10 * n + (of_char c - 48)) 0 ds"

definition skip_space :: "string \<Rightarrow> string" where
  "skip_space s = dropWhile (\<lambda>c. c = CHR '' '' \<or> c = CHR 0x09) s"

definition sscan_uint :: "nat \<Rightarrow> string \<Rightarrow> nat option" where
  "sscan_uint bits s =
     (let ds = takeWhile is_digit (skip_space s) in
      if ds = [] \<or> 2 ^ bits \<le> digits_value ds then None else Some (digits_value ds))"

definition sscan_int :: "string \<Rightarrow> int option" where
  "sscan_int s =
     (let s = skip_space s;
          neg = (case s of c # _ \<Rightarrow> c = CHR ''-'' | [] \<Rightarrow> False);
          s = (case s of c # t \<Rightarrow> if c = CHR ''-'' \<or> c = CHR ''+'' then t else s | [] \<Rightarrow> []);
          ds = takeWhile is_digit s;
          v = (if neg then - int (digits_value ds) else int (digits_value ds))
      in if ds = [] \<or> v < - (2 ^ 63) \<or> 2 ^ 63 \<le> v then None else Some v)"

subsection \<open>Agents\<close>

fun scope_constraints :: "kdl_node list \<Rightarrow> AgentCapabilityScope \<Rightarrow> AgentCapabilityScope" where
  "scope_constraints [] s = s"
| "scope_constraints (constraintNode # ns) s =
     (case kn_Arguments constraintNode of
        [] \<Rightarrow> scope_constraints ns s
      | a # _ \<Rightarrow>
          let val = unquote a in
          if kn_Name constraintNode = ''domain''
          then scope_constraints ns (s\<lparr>acs_Domains := acs_Domains s @ [val]\<rparr>)
          else if kn_Name constraintNode = ''domain-suffix''
          then scope_constraints ns (s\<lparr>acs_Suffixes := acs_Suffixes s @ [val]\<rparr>)
          else if kn_Name constraintNode = ''path-prefix''
          then scope_constraints ns (s\<lparr>acs_PathPrefixes := acs_PathPrefixes s @ [val]\<rparr>)
          else scope_constraints ns s)"

definition parse_scope :: "kdl_node \<Rightarrow> AgentCapabilityScope" where
  "parse_scope scopeNode =
     scope_constraints (kn_Children scopeNode)
       \<lparr>acs_Entity = unquote (kn_Name scopeNode), acs_Domains = [], acs_Suffixes = [], acs_PathPrefixes = []\<rparr>"

definition capabilities_node :: "kdl_node \<Rightarrow> AgentCapabilityEntry list" where
  "capabilities_node node =
     (if kn_Children node \<noteq> [] \<and> kn_Arguments node = []
      then map (\<lambda>capNode. \<lparr>ace_Name = unquote (kn_Name capNode),
                            ace_Scopes = map parse_scope (kn_Children capNode)\<rparr>) (kn_Children node)
      else (case kn_Arguments node of
          a # _ \<Rightarrow> [\<lparr>ace_Name = unquote a, ace_Scopes = map parse_scope (kn_Children node)\<rparr>]
        | [] \<Rightarrow> []))"

definition browser_headless :: "kdl_node list \<Rightarrow> bool \<Rightarrow> bool" where
  "browser_headless children headless =
     foldl (\<lambda>h child. case kn_Arguments child of
              a # _ \<Rightarrow> if kn_Name child = ''headless'' then a = ''true'' else h
            | [] \<Rightarrow> h) headless children"

definition first_arg :: "kdl_node \<Rightarrow> (string \<Rightarrow> AgentConfig) \<Rightarrow> AgentConfig \<Rightarrow> AgentConfig" where
  "first_arg node f cfg = (case kn_Arguments node of a # _ \<Rightarrow> f a | [] \<Rightarrow> cfg)"

definition agent_node :: "AgentConfig \<Rightarrow> kdl_node \<Rightarrow> AgentConfig" where
  "agent_node cfg node =
     (if kn_Name node = ''id'' then first_arg node (\<lambda>a. cfg\<lparr>ac_ID := unquote a\<rparr>) cfg
      else if kn_Name node = ''provider'' then first_arg node (\<lambda>a. cfg\<lparr>ac_Provider := unquote a\<rparr>) cfg
      else if kn_Name node = ''cpu-shares''
      then first_arg node (\<lambda>a. case sscan_uint 32 a of Some n \<Rightarrow> cfg\<lparr>ac_CPUShares := of_nat n\<rparr> | None \<Rightarrow> cfg) cfg
      else if kn_Name node = ''memory-max-bytes''
      then first_arg node (\<lambda>a. case sscan_uint 64 a of Some n \<Rightarrow> cfg\<lparr>ac_MemoryMaxBytes := of_nat n\<rparr> | None \<Rightarrow> cfg) cfg
      else if kn_Name node = ''schema-error-retries''
      then first_arg node (\<lambda>a. case sscan_int a of Some n \<Rightarrow> cfg\<lparr>ac_SchemaErrorRetries := n\<rparr> | None \<Rightarrow> cfg) cfg
      else if kn_Name node = ''browser''
      then cfg\<lparr>ac_Browser := (ac_Browser cfg)\<lparr>abc_Headless :=
                browser_headless (kn_Children node) (abc_Headless (ac_Browser cfg))\<rparr>\<rparr>
      else if kn_Name node = ''capabilities''
      then cfg\<lparr>ac_Capabilities := ac_Capabilities cfg @ capabilities_node node\<rparr>
      else cfg)"

definition ParseAgentKDL ::
  "(string \<Rightarrow> go_error + kdl_node list) \<Rightarrow> string \<Rightarrow> AgentConfig \<times> go_error option"
where
  "ParseAgentKDL kdl_Parse data =
     (let cfg = zero_AgentConfig\<lparr>ac_CPUShares := 1024, ac_SchemaErrorRetries := 1\<rparr> in
      case kdl_Parse data of
        Inl err \<Rightarrow> (cfg, Some (Wrap ''agent config: parse: '' err))
      | Inr nodes \<Rightarrow> (foldl agent_node cfg nodes, None))"

subsection \<open>Validation\<close>

definition is_upper :: "char \<Rightarrow> bool" where
  "is_upper c \<longleftrightarrow> 65 \<le> (of_char c :: nat) \<and> (of_char c :: nat) \<le> 90"

definition is_lower :: "char \<Rightarrow> bool" where
  "is_lower c \<longleftrightarrow> 97 \<le> (of_char c :: nat) \<and> (of_char c :: nat) \<le> 122"

text \<open>\<open>[A-Z][A-Za-z]+\<close>, and the whole pattern: three of them joined by underscores.\<close>

definition cap_word :: "string \<Rightarrow> bool" where
  "cap_word w = (case w of c # d # rest \<Rightarrow> is_upper c \<and> list_all (\<lambda>c. is_upper c \<or> is_lower c) (d # rest)
                 | _ \<Rightarrow> False)"

definition capNameRe :: "string \<Rightarrow> bool" where
  "capNameRe s = (case split_on (CHR ''_'') s of [a, b, c] \<Rightarrow> cap_word a \<and> cap_word b \<and> cap_word c
                  | _ \<Rightarrow> False)"

definition ValidateCapabilityName :: "(string \<Rightarrow> string) \<Rightarrow> string \<Rightarrow> go_error option" where
  "ValidateCapabilityName quote name =
     (if \<not> capNameRe name
      then Some (OtherError (''capability name '' @ quote name @ '' does not follow Namespace_Noun_Verb convention''))
      else None)"

text \<open>
  \<open>quote_rune s\<close> is \<open>%q\<close> of the first character of \<open>s\<close>.  The loop decodes UTF-8, but a byte of a
  multi-byte character is neither of the accepted ones, so it stops at its first byte.
\<close>

fun agent_id_chars :: "(string \<Rightarrow> string) \<Rightarrow> nat \<Rightarrow> string \<Rightarrow> go_error option" where
  "agent_id_chars quote_rune i [] = None"
| "agent_id_chars quote_rune i (c # cs) =
     (if is_lower c then agent_id_chars quote_rune (Suc i) cs
      else if is_digit c then agent_id_chars quote_rune (Suc i) cs
      else if c = CHR ''-'' \<and> 0 < i then agent_id_chars quote_rune (Suc i) cs
      else Some (OtherError (''agent ID contains invalid character '' @ quote_rune (c # cs)
                   @ '' at position '' @ show_nat i)))"

definition ValidateAgentID :: "(string \<Rightarrow> string) \<Rightarrow> string \<Rightarrow> go_error option" where
  "ValidateAgentID quote_rune agentID =
     (if length agentID = 0 \<or> 63 < length agentID
      then Some (OtherError ''agent ID must be between 1 and 63 characters'')
      else agent_id_chars quote_rune 0 agentID)"

fun validate_capabilities :: "(string \<Rightarrow> string) \<Rightarrow> AgentCapabilityEntry list \<Rightarrow> go_error option" where
  "validate_capabilities quote [] = None"
| "validate_capabilities quote (c # cs) =
     (if \<not> capNameRe (ace_Name c)
      then Some (OtherError (''capability name '' @ quote (ace_Name c) @ '' does not follow Namespace_Noun_Verb convention''))
      else validate_capabilities quote cs)"

definition ValidateAgentConfig :: "(string \<Rightarrow> string) \<Rightarrow> (string \<Rightarrow> string) \<Rightarrow> AgentConfig \<Rightarrow> go_error option" where
  "ValidateAgentConfig quote quote_rune cfg =
     (case ValidateAgentID quote_rune (ac_ID cfg) of
        Some err \<Rightarrow> Some err
      | None \<Rightarrow>
          if ac_SchemaErrorRetries cfg < 0 then Some (OtherError ''schema-error-retries must be >= 0'')
          else validate_capabilities quote (ac_Capabilities cfg))"

subsection \<open>Writing agent.kdl (provisioning.go)\<close>

definition nl :: string where
  "nl = [CHR 0x0A]"

definition show_int :: "int \<Rightarrow> string" where
  "show_int i = (if i < 0 then ''-'' @ show_nat (nat (- i)) else show_nat (nat i))"

definition constraint_lines :: "(string \<Rightarrow> string) \<Rightarrow> string \<Rightarrow> string list \<Rightarrow> string" where
  "constraint_lines quote kw vals = concat (map (\<lambda>v. ''            '' @ kw @ '' '' @ quote v @ nl) vals)"

definition scope_text :: "(string \<Rightarrow> string) \<Rightarrow> AgentCapabilityScope \<Rightarrow> string" where
  "scope_text quote s =
     ''        '' @ acs_Entity s @ '' {'' @ nl
     @ constraint_lines quote ''domain'' (acs_Domains s)
     @ constraint_lines quote ''domain-suffix'' (acs_Suffixes s)
     @ constraint_lines quote ''path-prefix'' (acs_PathPrefixes s)
     @ ''        }'' @ nl"

definition capability_text :: "(string \<Rightarrow> string) \<Rightarrow> AgentCapabilityEntry \<Rightarrow> string" where
  "capability_text quote c =
     (if ace_Scopes c = [] then ''    '' @ ace_Name c @ nl
      else ''    '' @ ace_Name c @ '' {'' @ nl
           @ concat (map (scope_text quote) (ace_Scopes c))
           @ ''    }'' @ nl)"

definition writeAgentKDL_text :: "(string \<Rightarrow> string) \<Rightarrow> AgentConfig \<Rightarrow> string" where
  "writeAgentKDL_text quote cfg =
     (let cfg = (if ac_SchemaErrorRetries cfg = 0 then cfg\<lparr>ac_SchemaErrorRetries := 1\<rparr> else cfg) in
      ''// Generated by keeperd '' @ [CHR 0xE2, CHR 0x80, CHR 0x94] @ '' do not edit manually'' @ nl @ nl
      @ ''id '' @ quote (ac_ID cfg) @ nl
      @ (if ac_Provider cfg \<noteq> '''' then ''provider '' @ quote (ac_Provider cfg) @ nl else '''')
      @ ''cpu-shares '' @ show_nat (unat (ac_CPUShares cfg)) @ nl
      @ (if 0 < ac_MemoryMaxBytes cfg
         then ''memory-max-bytes '' @ show_nat (unat (ac_MemoryMaxBytes cfg)) @ nl else '''')
      @ ''schema-error-retries '' @ show_int (ac_SchemaErrorRetries cfg) @ nl
      @ ''browser {'' @ nl
      @ ''    headless '' @ (if abc_Headless (ac_Browser cfg) then ''true'' else ''false'') @ nl
      @ ''}'' @ nl
      @ (if ac_Capabilities cfg \<noteq> []
         then nl @ ''capabilities {'' @ nl @ concat (map (capability_text quote) (ac_Capabilities cfg)) @ ''}'' @ nl
         else ''''))"

subsection \<open>Agent identities\<close>

definition id_char :: "char \<Rightarrow> bool" where
  "id_char c \<longleftrightarrow> is_lower c \<or> is_digit c \<or> c = CHR ''-''"

lemma agent_id_chars_None:
  "agent_id_chars q i s = None \<longleftrightarrow>
     list_all id_char s \<and> (i = 0 \<longrightarrow> (case s of [] \<Rightarrow> True | c # _ \<Rightarrow> c \<noteq> CHR ''-''))"
proof (induction s arbitrary: i)
  case Nil
  then show ?case by simp
next
  case (Cons c s)
  have "c = CHR ''-'' \<Longrightarrow> \<not> is_lower c \<and> \<not> is_digit c"
    by (auto simp: is_lower_def is_digit_def)
  with Cons [of "Suc i"] show ?case
    by (auto simp: id_char_def)
qed

lemma ValidateAgentID_iff:
  "ValidateAgentID q s = None \<longleftrightarrow>
     s \<noteq> [] \<and> length s \<le> 63 \<and> list_all id_char s \<and> hd s \<noteq> CHR ''-''"
proof (cases s)
  case Nil
  then show ?thesis by (simp add: ValidateAgentID_def)
next
  case (Cons c cs)
  then show ?thesis
    by (simp add: ValidateAgentID_def agent_id_chars_None del: agent_id_chars.simps)
qed

lemma id_char_simps: "\<not> id_char slash" "\<not> id_char (CHR ''.'')" "\<not> id_char dquote" "\<not> id_char (CHR '' '')"
  by (simp_all add: id_char_def is_lower_def is_digit_def)

text \<open>A valid identity is one plain component of a path.\<close>

lemma valid_id_component:
  assumes "ValidateAgentID q s = None"
  shows "split_on slash s = [s]" and "rel_parts s = [s]" and "''..'' \<notin> set (split_on slash s)"
    and "s \<noteq> ''.''" and "s \<noteq> ''''"
proof -
  have s: "s \<noteq> []" "list_all id_char s"
    using assms by (simp_all add: ValidateAgentID_iff)
  then have "slash \<notin> set s" and nd: "CHR ''.'' \<notin> set s"
    using id_char_simps by (auto simp: list_all_iff)
  then show sp: "split_on slash s = [s]"
    by (simp add: split_on_plain)
  show "s \<noteq> ''.''" and "s \<noteq> ''''"
    using nd s by auto
  with sp nd show "rel_parts s = [s]" and "''..'' \<notin> set (split_on slash s)"
    by (auto simp: rel_parts_def)
qed

lemma capNameRe_plain:
  "capNameRe s \<Longrightarrow> \<forall>c\<in>set s. is_upper c \<or> is_lower c \<or> c = CHR ''_''"
proof -
  assume "capNameRe s"
  then obtain a b c where sp: "split_on (CHR ''_'') s = [a, b, c]" and "cap_word a" "cap_word b" "cap_word c"
    by (auto simp: capNameRe_def split: list.splits)
  moreover have "cap_word w \<Longrightarrow> \<forall>c\<in>set w. is_upper c \<or> is_lower c" for w
    by (auto simp: cap_word_def list_all_iff split: list.splits)
  moreover have "s = a @ CHR ''_'' # b @ CHR ''_'' # c"
    using join_split [of "CHR ''_''" s] sp by simp
  ultimately show ?thesis by auto
qed

subsection \<open>Reading back what was written\<close>

text \<open>The document \<open>writeAgentKDL\<close> writes, as nodes.\<close>

definition scope_node :: "(string \<Rightarrow> string) \<Rightarrow> AgentCapabilityScope \<Rightarrow> kdl_node" where
  "scope_node quote s = KNode (acs_Entity s) []
     (map (\<lambda>v. KNode ''domain'' [quote v] []) (acs_Domains s)
      @ map (\<lambda>v. KNode ''domain-suffix'' [quote v] []) (acs_Suffixes s)
      @ map (\<lambda>v. KNode ''path-prefix'' [quote v] []) (acs_PathPrefixes s))"

definition capability_node :: "(string \<Rightarrow> string) \<Rightarrow> AgentCapabilityEntry \<Rightarrow> kdl_node" where
  "capability_node quote c = KNode (ace_Name c) [] (map (scope_node quote) (ace_Scopes c))"

definition agent_nodes :: "(string \<Rightarrow> string) \<Rightarrow> AgentConfig \<Rightarrow> kdl_node list" where
  "agent_nodes quote cfg =
     (let retries = (if ac_SchemaErrorRetries cfg = 0 then 1 else ac_SchemaErrorRetries cfg) in
      [KNode ''id'' [quote (ac_ID cfg)] []]
      @ (if ac_Provider cfg \<noteq> '''' then [KNode ''provider'' [quote (ac_Provider cfg)] []] else [])
      @ [KNode ''cpu-shares'' [show_nat (unat (ac_CPUShares cfg))] []]
      @ (if 0 < ac_MemoryMaxBytes cfg then [KNode ''memory-max-bytes'' [show_nat (unat (ac_MemoryMaxBytes cfg))] []] else [])
      @ [KNode ''schema-error-retries'' [show_int retries] [],
         KNode ''browser'' [] [KNode ''headless'' [if abc_Headless (ac_Browser cfg) then ''true'' else ''false''] []]]
      @ (if ac_Capabilities cfg \<noteq> [] then [KNode ''capabilities'' [] (map (capability_node quote) (ac_Capabilities cfg))] else []))"

lemma show_nat_digits: "\<forall>c\<in>set (show_nat n). is_digit c"
proof (induction n rule: show_nat.induct)
  case (1 n)
  have d: "k < 10 \<Longrightarrow> is_digit (char_of (48 + k :: nat))" for k
    by (simp add: is_digit_def)
  show ?case
    using 1 d [of n] d [of "n mod 10"] by (simp add: show_nat.simps [of n])
qed

lemma show_nat_nonempty [simp]: "show_nat n \<noteq> []"
  by (simp add: show_nat.simps [of n])

lemma digits_value_show_nat: "digits_value (show_nat n) = n"
proof (induction n rule: show_nat.induct)
  case (1 n)
  have m: "10 * (n div 10) + n mod 10 = n"
    by simp
  show ?case
  proof (cases "n < 10")
    case True
    then show ?thesis
      by (simp add: digits_value_def show_nat.simps [of n])
  next
    case False
    have "digits_value (show_nat n) = 10 * digits_value (show_nat (n div 10)) + n mod 10"
      using False by (simp add: digits_value_def show_nat.simps [of n])
    with 1 [OF False] m show ?thesis by simp
  qed
qed

lemma show_nat_hd: "skip_space (show_nat n) = show_nat n" "takeWhile is_digit (show_nat n) = show_nat n"
proof -
  show "takeWhile is_digit (show_nat n) = show_nat n"
    using show_nat_digits by (simp add: takeWhile_eq_all_conv)
  have "is_digit (hd (show_nat n))"
    using show_nat_digits [of n] by simp
  then show "skip_space (show_nat n) = show_nat n"
    by (cases "show_nat n") (auto simp: skip_space_def is_digit_def)
qed

lemma sscan_uint_show: "n < 2 ^ bits \<Longrightarrow> sscan_uint bits (show_nat n) = Some n"
  by (simp add: sscan_uint_def show_nat_hd digits_value_show_nat)

lemma sscan_uint_u32 [simp]: "sscan_uint 32 (show_nat (unat (x :: u32))) = Some (unat x)"
  using unsigned_less [of x] by (intro sscan_uint_show) simp

lemma sscan_uint_u64 [simp]: "sscan_uint 64 (show_nat (unat (x :: u64))) = Some (unat x)"
  using unsigned_less [of x] by (intro sscan_uint_show) simp

lemma sscan_int_show:
  assumes "- (2 ^ 63) \<le> i" and "i < 2 ^ 63"
  shows "sscan_int (show_int i) = Some i"
proof (cases "i < 0")
  case True
  then show ?thesis
    using assms by (simp add: sscan_int_def show_int_def skip_space_def show_nat_hd digits_value_show_nat)
next
  case False
  obtain c cs where s: "show_nat (nat i) = c # cs"
    by (cases "show_nat (nat i)") auto
  have "is_digit c"
    using show_nat_digits [of "nat i"] s by simp
  then have "c \<noteq> CHR ''-''" "c \<noteq> CHR ''+''"
    by (auto simp: is_digit_def)
  then show ?thesis
    using assms False show_nat_hd [of "nat i"] digits_value_show_nat [of "nat i"] s
    by (simp add: sscan_int_def show_int_def Let_def)
qed

definition plain_quote :: "(string \<Rightarrow> string) \<Rightarrow> string \<Rightarrow> bool" where
  "plain_quote quote s \<longleftrightarrow> quote s = dquote # s @ [dquote]"

lemma unquote_plain [simp]: "plain_quote quote s \<Longrightarrow> unquote (quote s) = s"
  by (simp add: plain_quote_def unquote_def)

definition bare :: "string \<Rightarrow> bool" where
  "bare s \<longleftrightarrow> s = '''' \<or> hd s \<noteq> dquote"

lemma unquote_bare [simp]: "bare s \<Longrightarrow> unquote s = s"
  by (auto simp: bare_def unquote_def)

definition scope_plain :: "(string \<Rightarrow> string) \<Rightarrow> AgentCapabilityScope \<Rightarrow> bool" where
  "scope_plain quote s \<longleftrightarrow> bare (acs_Entity s)
     \<and> (\<forall>v\<in>set (acs_Domains s @ acs_Suffixes s @ acs_PathPrefixes s). plain_quote quote v)"

lemma scope_constraints_append:
  "scope_constraints (ms @ ns) s = scope_constraints ns (scope_constraints ms s)"
  by (induction ms s rule: scope_constraints.induct) (auto simp: Let_def split: list.splits)

lemma scope_constraints_lines:
  "\<forall>v\<in>set vs. plain_quote quote v \<Longrightarrow>
     scope_constraints (map (\<lambda>v. KNode ''domain'' [quote v] []) vs) s = s\<lparr>acs_Domains := acs_Domains s @ vs\<rparr>"
  "\<forall>v\<in>set vs. plain_quote quote v \<Longrightarrow>
     scope_constraints (map (\<lambda>v. KNode ''domain-suffix'' [quote v] []) vs) s = s\<lparr>acs_Suffixes := acs_Suffixes s @ vs\<rparr>"
  "\<forall>v\<in>set vs. plain_quote quote v \<Longrightarrow>
     scope_constraints (map (\<lambda>v. KNode ''path-prefix'' [quote v] []) vs) s = s\<lparr>acs_PathPrefixes := acs_PathPrefixes s @ vs\<rparr>"
  by (induction vs arbitrary: s) simp_all

lemma parse_scope_node: "scope_plain quote s \<Longrightarrow> parse_scope (scope_node quote s) = s"
  by (simp add: parse_scope_def scope_node_def scope_plain_def scope_constraints_append scope_constraints_lines)

lemma capabilities_node_written:
  assumes "cs \<noteq> []" and "\<forall>c\<in>set cs. bare (ace_Name c) \<and> (\<forall>s\<in>set (ace_Scopes c). scope_plain quote s)"
  shows "capabilities_node (KNode ''capabilities'' [] (map (capability_node quote) cs)) = cs"
proof -
  have "map (parse_scope \<circ> scope_node quote) (ace_Scopes c) = ace_Scopes c" if "c \<in> set cs" for c
    using that assms(2) by (intro map_idI) (simp add: parse_scope_node)
  with assms show ?thesis
    by (simp add: capabilities_node_def comp_def) (intro map_idI, simp add: capability_node_def comp_def)
qed

definition agent_plain :: "(string \<Rightarrow> string) \<Rightarrow> AgentConfig \<Rightarrow> bool" where
  "agent_plain quote cfg \<longleftrightarrow> plain_quote quote (ac_ID cfg) \<and> plain_quote quote (ac_Provider cfg)
     \<and> - (2 ^ 63) \<le> ac_SchemaErrorRetries cfg \<and> ac_SchemaErrorRetries cfg < 2 ^ 63
     \<and> (\<forall>c\<in>set (ac_Capabilities cfg). bare (ace_Name c) \<and> (\<forall>s\<in>set (ace_Scopes c). scope_plain quote s))"

lemma parse_agent_nodes:
  assumes "agent_plain quote cfg"
  shows "foldl agent_node (zero_AgentConfig\<lparr>ac_CPUShares := 1024, ac_SchemaErrorRetries := 1\<rparr>) (agent_nodes quote cfg)
    = cfg\<lparr>ac_SchemaErrorRetries := (if ac_SchemaErrorRetries cfg = 0 then 1 else ac_SchemaErrorRetries cfg)\<rparr>"
proof -
  have r: "sscan_int (show_int (ac_SchemaErrorRetries cfg)) = Some (ac_SchemaErrorRetries cfg)"
    "sscan_int (show_int 1) = Some 1"
    using assms by (auto simp: agent_plain_def intro!: sscan_int_show)
  have caps: "ac_Capabilities cfg \<noteq> [] \<Longrightarrow>
      capabilities_node (KNode ''capabilities'' [] (map (capability_node quote) (ac_Capabilities cfg))) = ac_Capabilities cfg"
    using assms by (intro capabilities_node_written) (simp_all add: agent_plain_def)
  have q: "unquote (quote (ac_ID cfg)) = ac_ID cfg" "unquote (quote (ac_Provider cfg)) = ac_Provider cfg"
    using assms by (simp_all add: agent_plain_def)
  show ?thesis
    using r caps q
    by (cases cfg; cases "ac_Browser cfg")
      (auto simp: agent_nodes_def agent_node_def first_arg_def browser_headless_def zero_AgentConfig_def word_gt_0)
qed

subsection \<open>Properties\<close>


definition demo_agent :: AgentConfig where
  "demo_agent = zero_AgentConfig\<lparr>ac_ID := ''a1'', ac_CPUShares := 2048,
     ac_Capabilities := [\<lparr>ace_Name = ''Filesystem_File_Write'',
        ace_Scopes = [\<lparr>acs_Entity = ''File'', acs_Domains = [], acs_Suffixes = [], acs_PathPrefixes = [''/out'']\<rparr>]\<rparr>]\<rparr>"

definition demo_quote :: "string \<Rightarrow> string" where
  "demo_quote s = dquote # s @ [dquote]"


end
