(* ===== verification/Runtime.thy ===== *)
theory Runtime
  imports Config
begin

text \<open>
  Agent isolation (\<open>internal/runtime/runtime.go\<close>): the interface of a container runtime, its
  production implementation over btrfs, systemd-nspawn and nftables, and the development stub.

  The machine is a record of operations over a state \<open>'h\<close>: the file operations the code makes, and
  \<open>ho_Command\<close>, which runs a program with arguments and an input and returns its combined output
  and its error.  A command that is prepared and not yet started is its name and arguments.  The
  binary copied by \<open>installBinaryCopy\<close> is one operation of the machine.
\<close>

subsection \<open>The interface\<close>

record WardConfig =
  wc_CPUShares :: u32
  wc_MemoryMaxBytes :: u64
  wc_Provider :: string
  wc_LogPath :: string
  wc_LogLevel :: string

record command =
  cm_Name :: string
  cm_Args :: "string list"

record 'h container_runtime =
  rt_ProvisionSubvolume :: "string \<Rightarrow> string \<Rightarrow> 'h \<Rightarrow> (go_error + string) \<times> 'h"
  rt_DestroySubvolume :: "string \<Rightarrow> string \<Rightarrow> 'h \<Rightarrow> go_error option \<times> 'h"
  rt_InstallCapabilityCLIs :: "string \<Rightarrow> string list \<Rightarrow> 'h \<Rightarrow> go_error option \<times> 'h"
  rt_SpawnWard :: "string \<Rightarrow> string \<Rightarrow> WardConfig \<Rightarrow> 'h \<Rightarrow> (go_error + command) \<times> 'h"
  rt_ApplyNetworkRules :: "string \<Rightarrow> string list \<Rightarrow> 'h \<Rightarrow> go_error option \<times> 'h"
  rt_RemoveNetworkRules :: "string \<Rightarrow> 'h \<Rightarrow> go_error option \<times> 'h"
  rt_Terminate :: "(string \<Rightarrow> 'h \<Rightarrow> go_error option \<times> 'h) option"

record 'h host_os =
  ho_MkdirAll :: "string \<Rightarrow> 'h \<Rightarrow> go_error option \<times> 'h"
  ho_RemoveAll :: "string \<Rightarrow> 'h \<Rightarrow> go_error option \<times> 'h"
  ho_Remove :: "string \<Rightarrow> 'h \<Rightarrow> go_error option \<times> 'h"
  ho_Symlink :: "string \<Rightarrow> string \<Rightarrow> 'h \<Rightarrow> go_error option \<times> 'h"
  ho_CopyBinary :: "string \<Rightarrow> string \<Rightarrow> 'h \<Rightarrow> go_error option \<times> 'h"
  ho_Command :: "string \<Rightarrow> string list \<Rightarrow> string \<Rightarrow> 'h \<Rightarrow> (string \<times> go_error option) \<times> 'h"

subsection \<open>The Linux runtime\<close>

record LinuxRuntime =
  lr_NspawnRootBase :: string
  lr_WardBinaryPath :: string
  lr_CapwrapBinaryPath :: string
  lr_UseSystemdRun :: bool

definition Linux_ProvisionSubvolume ::
  "'h host_os \<Rightarrow> LinuxRuntime \<Rightarrow> string \<Rightarrow> string \<Rightarrow> 'h \<Rightarrow> (go_error + string) \<times> 'h"
where
  "Linux_ProvisionSubvolume os r agentID templatePath h =
     (let target = Join2 (lr_NspawnRootBase r) agentID in
      case ho_MkdirAll os (lr_NspawnRootBase r) h of
        (Some err, h) \<Rightarrow> (Inl err, h)
      | (None, h) \<Rightarrow>
          if templatePath = '''' then
            (case ho_MkdirAll os (Join2 target ''output'') h of
               (Some err, h) \<Rightarrow> (Inl err, h)
             | (None, h) \<Rightarrow> (Inr target, h))
          else
            (case ho_Command os ''btrfs'' [''subvolume'', ''snapshot'', templatePath, target] '''' h of
               ((out, None), h) \<Rightarrow> (Inr target, h)
             | ((out, Some err), h) \<Rightarrow>
                 (case ho_Command os ''cp'' [''-a'', templatePath @ ''/.'', target] '''' h of
                    ((out, Some err), h) \<Rightarrow> (Inl (Wrap (''cp template: '' @ out @ '': '') err), h)
                  | ((out, None), h) \<Rightarrow> (Inr target, h))))"

definition Linux_DestroySubvolume ::
  "(string \<Rightarrow> string) \<Rightarrow> 'h host_os \<Rightarrow> string \<Rightarrow> string \<Rightarrow> 'h \<Rightarrow> go_error option \<times> 'h"
where
  "Linux_DestroySubvolume quote os agentID subvolPath h =
     (if subvolPath = '''' \<or> subvolPath = ''/''
      then (Some (OtherError (''invalid subvolPath: '' @ quote subvolPath)), h)
      else case ho_Command os ''btrfs'' [''subvolume'', ''delete'', subvolPath] '''' h of
          ((out, None), h) \<Rightarrow> (None, h)
        | ((out, Some err), h) \<Rightarrow> ho_RemoveAll os subvolPath h)"

definition cpuWeight :: "u32 \<Rightarrow> u32" where
  "cpuWeight shares = max 1 (min 10000 (shares div 1024 * 100))"

definition nspawnArgs :: "LinuxRuntime \<Rightarrow> string \<Rightarrow> string \<Rightarrow> WardConfig \<Rightarrow> string list" where
  "nspawnArgs r agentID subvolPath cfg =
     [''--quiet'', ''--console=pipe'', ''--directory='' @ subvolPath,
      ''--bind-ro='' @ lr_WardBinaryPath r @ '':'' @ ''/usr/bin/ward'',
      ''--private-network'', ''--network-veth'', ''--machine='' @ agentID, ''-U'', ''--'',
      ''/usr/bin/ward'', ''--agent-id'', agentID, ''--log-level'', wc_LogLevel cfg]"

definition Linux_SpawnWard ::
  "LinuxRuntime \<Rightarrow> string \<Rightarrow> string \<Rightarrow> WardConfig \<Rightarrow> 'h \<Rightarrow> (go_error + command) \<times> 'h"
where
  "Linux_SpawnWard r agentID subvolPath cfg h =
     (if lr_UseSystemdRun r \<or> 0 < wc_MemoryMaxBytes cfg
      then (Inr \<lparr>cm_Name = ''systemd-run'', cm_Args =
              [''--unit=vivary-agent-'' @ agentID,
               ''--property=CPUWeight='' @ show_nat (unat (cpuWeight (wc_CPUShares cfg)))]
              @ (if 0 < wc_MemoryMaxBytes cfg
                 then [''--property=MemoryMax='' @ show_nat (unat (wc_MemoryMaxBytes cfg))] else [])
              @ [''systemd-nspawn''] @ nspawnArgs r agentID subvolPath cfg\<rparr>, h)
      else (Inr \<lparr>cm_Name = ''systemd-nspawn'', cm_Args = nspawnArgs r agentID subvolPath cfg\<rparr>, h))"

definition vethIfName :: "string \<Rightarrow> string" where
  "vethIfName machine =
     (let name = ''ve-'' @ machine in if length name > 15 then take 15 name else name)"

text \<open>The rule set handed to \<open>nft\<close>, line by line.\<close>

definition network_rules :: "(string \<Rightarrow> string) \<Rightarrow> string \<Rightarrow> string list \<Rightarrow> string list" where
  "network_rules quote agentID allowedIPs =
     (let vethName = quote (vethIfName agentID) in
      [''table ip vivary-'' @ agentID @ '' {'',
       ''  chain forward {'',
       ''    type filter hook forward priority 0; policy accept;'',
       ''    iifname '' @ vethName @ '' ct state established,related accept'',
       ''    iifname '' @ vethName @ '' udp dport 53 accept'',
       ''    iifname '' @ vethName @ '' tcp dport 53 accept'']
      @ (if allowedIPs \<noteq> []
         then [''    iifname '' @ vethName @ '' ip daddr { '' @ strings_Join allowedIPs '', '' @ '' } tcp dport 443 accept'']
         else [''    iifname '' @ vethName @ '' tcp dport 443 accept''])
      @ [''    iifname '' @ vethName @ '' drop'', ''  }'', ''}''])"

definition Linux_ApplyNetworkRules ::
  "(string \<Rightarrow> string) \<Rightarrow> 'h host_os \<Rightarrow> string \<Rightarrow> string list \<Rightarrow> 'h \<Rightarrow> go_error option \<times> 'h"
where
  "Linux_ApplyNetworkRules quote os agentID allowedIPs h =
     (case ho_Command os ''nft'' [''-f'', ''-''] (concat (map (\<lambda>l. l @ nl) (network_rules quote agentID allowedIPs))) h of
        ((out, Some err), h) \<Rightarrow> (Some (Wrap (''nft apply for agent '' @ agentID @ '': '' @ out @ '': '') err), h)
      | ((out, None), h) \<Rightarrow> (None, h))"

definition run_command :: "'h host_os \<Rightarrow> string \<Rightarrow> string list \<Rightarrow> 'h \<Rightarrow> go_error option \<times> 'h" where
  "run_command os name args h = (case ho_Command os name args '''' h of ((out, err), h) \<Rightarrow> (err, h))"

definition Linux_RemoveNetworkRules :: "'h host_os \<Rightarrow> string \<Rightarrow> 'h \<Rightarrow> go_error option \<times> 'h" where
  "Linux_RemoveNetworkRules os agentID = run_command os ''nft'' [''delete'', ''table'', ''ip'', ''vivary-'' @ agentID]"

fun link_capabilities :: "'h host_os \<Rightarrow> string \<Rightarrow> string list \<Rightarrow> 'h \<Rightarrow> go_error option \<times> 'h" where
  "link_capabilities os binDir [] h = (None, h)"
| "link_capabilities os binDir (name # names) h =
     (let link = Join2 binDir name; h = snd (ho_Remove os link h) in
      case ho_Symlink os ''/usr/bin/capwrap'' link h of
        (Some err, h) \<Rightarrow> (Some (Wrap (''symlink capwrap for '' @ name @ '': '') err), h)
      | (None, h) \<Rightarrow> link_capabilities os binDir names h)"

definition Linux_InstallCapabilityCLIs ::
  "'h host_os \<Rightarrow> LinuxRuntime \<Rightarrow> string \<Rightarrow> string list \<Rightarrow> 'h \<Rightarrow> go_error option \<times> 'h"
where
  "Linux_InstallCapabilityCLIs os r subvolPath capNames h =
     (let binDir = Join2 (Join2 subvolPath ''usr'') ''bin'' in
      case ho_MkdirAll os binDir h of
        (Some err, h) \<Rightarrow> (Some (Wrap ''mkdir cap bin dir: '' err), h)
      | (None, h) \<Rightarrow>
          let capwrap = (if lr_CapwrapBinaryPath r = '''' then ''/usr/bin/capwrap'' else lr_CapwrapBinaryPath r) in
          (case ho_CopyBinary os capwrap (Join2 binDir ''capwrap'') h of
             (Some err, h) \<Rightarrow> (Some (Wrap ''install capwrap: '' err), h)
           | (None, h) \<Rightarrow> link_capabilities os binDir capNames h))"

definition Linux_Terminate :: "'h host_os \<Rightarrow> string \<Rightarrow> 'h \<Rightarrow> go_error option \<times> 'h" where
  "Linux_Terminate os agentID = run_command os ''machinectl'' [''terminate'', agentID]"

definition linux_runtime :: "(string \<Rightarrow> string) \<Rightarrow> 'h host_os \<Rightarrow> LinuxRuntime \<Rightarrow> 'h container_runtime" where
  "linux_runtime quote os r =
     \<lparr>rt_ProvisionSubvolume = Linux_ProvisionSubvolume os r,
      rt_DestroySubvolume = Linux_DestroySubvolume quote os,
      rt_InstallCapabilityCLIs = Linux_InstallCapabilityCLIs os r,
      rt_SpawnWard = Linux_SpawnWard r,
      rt_ApplyNetworkRules = Linux_ApplyNetworkRules quote os,
      rt_RemoveNetworkRules = Linux_RemoveNetworkRules os,
      rt_Terminate = Some (Linux_Terminate os)\<rparr>"

subsection \<open>The stub\<close>

record 'h StubRuntime =
  sr_ProvisionFunc :: "(string \<Rightarrow> string \<Rightarrow> 'h \<Rightarrow> (go_error + string) \<times> 'h) option"
  sr_SpawnFunc :: "(string \<Rightarrow> string \<Rightarrow> WardConfig \<Rightarrow> 'h \<Rightarrow> (go_error + command) \<times> 'h) option"

definition stub_runtime :: "'h host_os \<Rightarrow> string \<Rightarrow> 'h StubRuntime \<Rightarrow> 'h container_runtime" where
  "stub_runtime os tempDir r =
     \<lparr>rt_ProvisionSubvolume = (\<lambda>agentID templatePath h.
        case sr_ProvisionFunc r of
          Some f \<Rightarrow> f agentID templatePath h
        | None \<Rightarrow> (Inr (Join2 (Join2 tempDir ''vivary-agents'') agentID), h)),
      rt_DestroySubvolume = (\<lambda>agentID subvolPath h. ho_RemoveAll os subvolPath h),
      rt_InstallCapabilityCLIs = (\<lambda>subvolPath capNames h. (None, h)),
      rt_SpawnWard = (\<lambda>agentID subvolPath cfg h.
        case sr_SpawnFunc r of
          Some f \<Rightarrow> f agentID subvolPath cfg h
        | None \<Rightarrow> (Inr \<lparr>cm_Name = ''ward'', cm_Args = [''--agent-id'', agentID, ''--log-level'', wc_LogLevel cfg]\<rparr>, h)),
      rt_ApplyNetworkRules = (\<lambda>agentID allowedIPs h. (None, h)),
      rt_RemoveNetworkRules = (\<lambda>agentID h. (None, h)),
      rt_Terminate = None\<rparr>"

subsection \<open>Where a root file system lives\<close>

lemma Provision_path:
  "Linux_ProvisionSubvolume os r agentID templatePath h = (Inr path, h') \<Longrightarrow> path = Join2 (lr_NspawnRootBase r) agentID"
  by (auto simp: Linux_ProvisionSubvolume_def Let_def split: prod.splits option.splits if_splits)

lemma Join2_valid_id:
  assumes "ValidateAgentID q agentID = None" and "base \<noteq> ''''"
  shows "comps (Join2 base agentID) = comps base @ [agentID]"
    and "is_rooted (Join2 base agentID) = is_rooted base"
  using Join2_under [OF assms(2), of agentID] valid_id_component [OF assms(1)] by simp_all

subsection \<open>Interfaces\<close>

lemma vethIfName_take: "vethIfName machine = ''ve-'' @ take 12 machine"
  by (simp add: vethIfName_def Let_def)

lemma cpuWeight_unat: "unat (cpuWeight shares) = max 1 (min 10000 (unat shares div 1024 * 100))"
proof -
  have "unat shares < 2 ^ 32"
    using unsigned_less [of shares] by simp
  then have d: "unat shares div 1024 < 2 ^ 22"
    by (simp add: less_mult_imp_div_less)
  have "unat (shares div 1024 * 100) = unat shares div 1024 * 100"
    using d by (simp add: unat_mult_lem [THEN iffD1] unat_div)
  then show ?thesis
    by (auto simp: cpuWeight_def max_def min_def word_le_nat_alt)
qed

subsection \<open>Properties\<close>

text \<open>
  C37: The root file system of an agent whose identity passes validation is a direct child of the
  runtime's base directory, so no identity reaches outside it or into another agent's.
\<close>

theorem subvolume_is_child_of_base:
  assumes "ValidateAgentID quote agentID = None" and "lr_NspawnRootBase r \<noteq> ''''"
    and "Linux_ProvisionSubvolume os r agentID templatePath h = (Inr path, h')"
  shows "comps path = comps (lr_NspawnRootBase r) @ [agentID] \<and> is_rooted path = is_rooted (lr_NspawnRootBase r)"
  using Provision_path [OF assms(3)] Join2_valid_id [OF assms(1,2)] by simp

definition demo_linux :: LinuxRuntime where
  "demo_linux = \<lparr>lr_NspawnRootBase = ''/agents'', lr_WardBinaryPath = ''/usr/lib/vivary/ward'',
     lr_CapwrapBinaryPath = '''', lr_UseSystemdRun = False\<rparr>"

definition demo_host :: "nat host_os" where
  "demo_host = \<lparr>ho_MkdirAll = \<lambda>_ h. (None, Suc h), ho_RemoveAll = \<lambda>_ h. (None, Suc h), ho_Remove = \<lambda>_ h. (None, Suc h),
     ho_Symlink = \<lambda>_ _ h. (None, Suc h), ho_CopyBinary = \<lambda>_ _ h. (None, Suc h),
     ho_Command = \<lambda>_ _ _ h. (('''', None), Suc h)\<rparr>"

theorem subvolume_is_child_of_base_witness:
  "comps (Join2 ''/agents'' ''a1'') = comps ''/agents'' @ [''a1''] \<and> is_rooted (Join2 ''/agents'' ''a1'') = is_rooted ''/agents''"
proof -
  have v: "ValidateAgentID id ''a1'' = None"
    by (simp add: ValidateAgentID_def is_digit_def is_lower_def)
  have p: "Linux_ProvisionSubvolume demo_host demo_linux ''a1'' '''' 0 = (Inr (Join2 ''/agents'' ''a1''), 2)"
    by (simp add: Linux_ProvisionSubvolume_def demo_host_def demo_linux_def)
  show ?thesis
    using subvolume_is_child_of_base [OF v _ p] by (simp add: demo_linux_def)
qed

text \<open>
  The network interface named in an agent's firewall rules depends on the first twelve
  characters of its identity only: two valid identities that share them get rules, and a final
  drop, on one and the same interface.
\<close>

theorem veth_names_collide:
  assumes "take 12 a = take 12 b"
  shows "vethIfName a = vethIfName b
    \<and> ''    iifname '' @ quote (vethIfName a) @ '' drop'' \<in> set (network_rules quote b allowedIPs)"
  using assms by (simp add: vethIfName_take network_rules_def Let_def)

theorem veth_names_collide_witness:
  "''agent-number-1'' \<noteq> (''agent-number-2'' :: string)
    \<and> vethIfName ''agent-number-1'' = vethIfName ''agent-number-2''
    \<and> ''    iifname '' @ id (vethIfName ''agent-number-1'') @ '' drop''
        \<in> set (network_rules id ''agent-number-2'' [''10.0.0.1''])"
  by (rule conjI, simp, rule veth_names_collide, simp)

text \<open>
  The CPU weight handed to systemd lies between 1 and 10000, the range it accepts, is a hundred
  per full 1024 shares in between, with no overflow, and never decreases when an agent is given
  more shares.
\<close>

theorem cpu_weight_range:
  "1 \<le> unat (cpuWeight s) \<and> unat (cpuWeight s) \<le> 10000
    \<and> unat (cpuWeight s) = max 1 (min 10000 (unat s div 1024 * 100))
    \<and> cpuWeight (min s t) \<le> cpuWeight (max s t)"
proof -
  have "unat (min s t) div 1024 \<le> unat (max s t) div 1024"
    by (intro div_le_mono) (auto simp: word_le_nat_alt [symmetric] min_def max_def)
  then show ?thesis
    by (auto simp: cpuWeight_unat word_le_nat_alt max_def min_def)
qed

end
