(* ===== verification/Daemon.thy ===== *)
theory Daemon
  imports Router AuditLog BrowserManager Runtime
begin

text \<open>
  The state of keeperd (\<open>cmd/keeperd/main.go\<close>) and its handling of the frames that arrive from the
  agents' pipes (\<open>cmd/keeperd/dispatch.go\<close>).

  The daemon is a record of the components it holds.  Capabilities run on the browser manager and
  the machine \<open>'h\<close> together.  A subscriber's channel is a number, its queue an entry of
  \<open>dm_chans\<close>; whether a pipe pointer is set is a flag, since the pipe itself is found in the router.
  \<open>float64\<close> is a type parameter as in \<open>Ctl\<close>.  What the handlers use of the libraries is the record
  \<open>env\<close>; \<open>clk\<close> gives the successive readings of the clock in one handler.  A Go panic in a handler
  ends the process: it is the outcome \<open>Panic\<close>.  Logging is left out.
\<close>

subsection \<open>State\<close>

record 'f agent_state =
  ag_id :: string
  ag_subvolPath :: string
  ag_cfg :: AgentConfig
  ag_pipe :: bool
  ag_lastPromptSeq :: u64
  ag_lastEventAt :: instant
  ag_lastOutcome :: string
  ag_lastFailureDetail :: string
  ag_model :: string
  ag_inputTokens :: u32
  ag_outputTokens :: u32
  ag_costUSD :: 'f
  ag_toolCalls :: u32

record 'f env =
  en_quote :: "string \<Rightarrow> string"
  en_zero :: 'f
  en_sprintf :: "'f \<Rightarrow> string"
  en_sscanf :: "string \<Rightarrow> 'f"

type_synonym 'h cap_world = "'h browserManager option \<times> 'h"

record ('h, 'f) daemon =
  dm_cfg :: OrchestratorConfig
  dm_auditDB :: audit_db
  dm_dispatcher :: "'h cap_world dispatcher"
  dm_router :: router
  dm_browserMgr :: "'h browserManager option"
  dm_seqOut :: seq_counter
  dm_agents :: "string \<rightharpoonup> 'f agent_state"
  dm_startedAt :: instant
  dm_ctlSubs :: "nat list"
  dm_chans :: "nat \<Rightarrow> frame list"
  dm_host :: 'h

definition new_agent_state :: "'f env \<Rightarrow> string \<Rightarrow> 'f agent_state" where
  "new_agent_state env i = \<lparr>ag_id = i, ag_subvolPath = '''', ag_cfg = zero_AgentConfig, ag_pipe = False,
     ag_lastPromptSeq = 0, ag_lastEventAt = zero_time, ag_lastOutcome = '''', ag_lastFailureDetail = '''',
     ag_model = '''', ag_inputTokens = 0, ag_outputTokens = 0, ag_costUSD = en_zero env, ag_toolCalls = 0\<rparr>"

definition daemon_send ::
  "'f env \<Rightarrow> string \<Rightarrow> swarm_header \<Rightarrow> bytes \<Rightarrow> ('h, 'f) daemon \<Rightarrow> go_error option \<times> ('h, 'f) daemon"
where
  "daemon_send env toID hdr payload d =
     (case Send (en_quote env) toID hdr payload (dm_router d) of (err, r) \<Rightarrow> (err, d\<lparr>dm_router := r\<rparr>))"

definition next_seq :: "('h, 'f) daemon \<Rightarrow> u64 \<times> ('h, 'f) daemon" where
  "next_seq d = (case SeqCounter_Next (dm_seqOut d) of (n, s) \<Rightarrow> (n, d\<lparr>dm_seqOut := s\<rparr>))"

definition keeper_header :: "MsgType \<Rightarrow> string \<Rightarrow> u64 \<Rightarrow> swarm_header" where
  "keeper_header t toID seq = \<lparr>h_Version = 0, h_Type = t, h_FromID = ''keeper'', h_ToID = toID,
     h_SeqNo = seq, h_PayloadLen = 0\<rparr>"

subsection \<open>Auditing\<close>

definition decodeCapabilityRequest :: "bytes \<Rightarrow> CapabilityRequestPayload outcome" where
  "decodeCapabilityRequest payload = fst (CapabilityRequestPayload_UnmarshalMUS (bytes_NewReader payload))"

definition shouldAuditPayload :: "('h, 'f) daemon \<Rightarrow> frame \<Rightarrow> bool outcome" where
  "shouldAuditPayload d f =
     (if h_Type (f_Header f) \<noteq> MsgType_CapabilityRequest then Val True
      else case decodeCapabilityRequest (f_Payload f) of
          Panic m \<Rightarrow> Panic m
        | Err err \<Rightarrow> Val True
        | Val payload \<Rightarrow>
            (case Dispatcher_Lookup (dm_dispatcher d) (crq_Capability payload) of
               None \<Rightarrow> Val True
             | Some cap \<Rightarrow> Val (c_AuditPayload cap)))"

text \<open>A nil slice, which is what a frame without payload has, is stored as \<open>NULL\<close>.\<close>

definition stored_payload :: "bytes \<Rightarrow> bytes option" where
  "stored_payload b = (if b = [] then None else Some b)"

definition audit_row :: "instant \<Rightarrow> swarm_header \<Rightarrow> bytes option \<Rightarrow> ('h, 'f) daemon \<Rightarrow> ('h, 'f) daemon" where
  "audit_row now hdr stored d =
     d\<lparr>dm_auditDB := snd (WriteFrame_db now (MsgType_String (h_Type hdr)) (h_FromID hdr) (h_ToID hdr)
                            (h_SeqNo hdr) stored (dm_auditDB d))\<rparr>"

definition auditFrame :: "instant \<Rightarrow> frame \<Rightarrow> ('h, 'f) daemon \<Rightarrow> ('h, 'f) daemon outcome" where
  "auditFrame now f d =
     (case shouldAuditPayload d f of
        Panic m \<Rightarrow> Panic m
      | Err e \<Rightarrow> Err e
      | Val keep \<Rightarrow>
          Val (audit_row now (f_Header f) (if keep then stored_payload (f_Payload f) else None) d))"

definition audit_security :: "instant \<Rightarrow> string \<Rightarrow> string \<Rightarrow> string \<Rightarrow> ('h, 'f) daemon \<Rightarrow> ('h, 'f) daemon" where
  "audit_security now agent kind detail d =
     d\<lparr>dm_auditDB := snd (WriteSecurityEvent now agent kind detail (dm_auditDB d))\<rparr>"

text \<open>The router's security sink.\<close>

definition security_sink :: "security_event \<Rightarrow> ('h, 'f) daemon \<Rightarrow> ('h, 'f) daemon" where
  "security_sink ev d = audit_security (se_Time ev) (se_AgentID ev) (se_Kind ev) (se_Detail ev) d"

subsection \<open>Capability requests\<close>

definition response_payload :: "response \<Rightarrow> CapabilityResponsePayload" where
  "response_payload resp = \<lparr>crs_OK = rs_OK resp, crs_Data = rs_Data resp,
     crs_ErrorCode = rs_ErrorCode resp, crs_ErrorDetail = rs_ErrorDetail resp\<rparr>"

definition sendCapabilityResponse :: "'f env \<Rightarrow> frame \<Rightarrow> response \<Rightarrow> ('h, 'f) daemon \<Rightarrow> ('h, 'f) daemon" where
  "sendCapabilityResponse env f resp d =
     (let from = h_FromID (f_Header f);
          respHdr = keeper_header MsgType_CapabilityResponse from (h_SeqNo (f_Header f))
      in snd (daemon_send env from respHdr (CapabilityResponsePayload_MarshalMUS (response_payload resp)) d))"

definition sendCapabilityDenied :: "'f env \<Rightarrow> frame \<Rightarrow> string \<Rightarrow> ('h, 'f) daemon \<Rightarrow> ('h, 'f) daemon" where
  "sendCapabilityDenied env f detail d =
     (let from = h_FromID (f_Header f);
          resp = DeniedResponse detail;
          respPayload = \<lparr>crs_OK = rs_OK resp, crs_Data = [], crs_ErrorCode = rs_ErrorCode resp,
                         crs_ErrorDetail = rs_ErrorDetail resp\<rparr>
      in snd (daemon_send env from (keeper_header MsgType_CapabilityResponse from (h_SeqNo (f_Header f)))
                (CapabilityResponsePayload_MarshalMUS respPayload) d))"

definition dispatchCapabilityRequest ::
  "'f env \<Rightarrow> frame \<Rightarrow> CapabilityRequestPayload \<Rightarrow> ('h, 'f) daemon \<Rightarrow> response \<times> ('h, 'f) daemon"
where
  "dispatchCapabilityRequest env f payload d =
     (let req = \<lparr>rq_Name = crq_Capability payload, rq_AgentID = h_FromID (f_Header f),
                 rq_SeqNo = h_SeqNo (f_Header f), rq_Args = crq_Args payload\<rparr> in
      case Dispatch (en_quote env) (dm_dispatcher d) req (dm_browserMgr d, dm_host d) of
        ((resp, err), (mgr, h)) \<Rightarrow>
          let d = d\<lparr>dm_browserMgr := mgr, dm_host := h\<rparr> in
          (case err of
             Some e \<Rightarrow> (DeniedResponse (''internal error: '' @ error_text e), d)
           | None \<Rightarrow> (resp, d)))"

definition auditCapabilityDenial ::
  "instant \<Rightarrow> string \<Rightarrow> string \<Rightarrow> response \<Rightarrow> ('h, 'f) daemon \<Rightarrow> ('h, 'f) daemon"
where
  "auditCapabilityDenial now agentID capability resp d =
     (if \<not> rs_OK resp \<and> rs_ErrorCode resp = ''capability_denied''
      then audit_security now agentID ''capability_denied''
             (''cap='' @ capability @ '' detail='' @ rs_ErrorDetail resp) d
      else d)"

definition handleCapabilityRequest ::
  "'f env \<Rightarrow> instant \<Rightarrow> frame \<Rightarrow> ('h, 'f) daemon \<Rightarrow> ('h, 'f) daemon outcome"
where
  "handleCapabilityRequest env now f d =
     (case decodeCapabilityRequest (f_Payload f) of
        Panic m \<Rightarrow> Panic m
      | Err err \<Rightarrow> Val (sendCapabilityDenied env f (''malformed request: '' @ error_text err) d)
      | Val payload \<Rightarrow>
          (case dispatchCapabilityRequest env f payload d of
             (resp, d) \<Rightarrow>
               let d = auditCapabilityDenial now (h_FromID (f_Header f)) (crq_Capability payload) resp d
               in Val (sendCapabilityResponse env f resp d)))"

subsection \<open>Telemetry\<close>

definition updateAgentCompletionState ::
  "instant \<Rightarrow> 'f CompletionEventPayload \<Rightarrow> ('h, 'f) daemon \<Rightarrow> ('h, 'f) daemon"
where
  "updateAgentCompletionState now ev d =
     (case dm_agents d (cep_AgentID ev) of
        None \<Rightarrow> d
      | Some a \<Rightarrow> d\<lparr>dm_agents := (dm_agents d)(cep_AgentID ev \<mapsto>
          a\<lparr>ag_lastEventAt := now, ag_lastOutcome := cep_Outcome ev, ag_model := cep_Model ev,
            ag_inputTokens := cep_InputTokens ev, ag_outputTokens := cep_OutputTokens ev,
            ag_costUSD := cep_CostUSD ev, ag_toolCalls := cep_ToolCalls ev,
            ag_lastFailureDetail := ''''\<rparr>)\<rparr>)"

definition updateAgentFailureState ::
  "instant \<Rightarrow> FailureEventPayload \<Rightarrow> ('h, 'f) daemon \<Rightarrow> ('h, 'f) daemon"
where
  "updateAgentFailureState now ev d =
     (case dm_agents d (fep_AgentID ev) of
        None \<Rightarrow> d
      | Some a \<Rightarrow> d\<lparr>dm_agents := (dm_agents d)(fep_AgentID ev \<mapsto>
          a\<lparr>ag_lastEventAt := now, ag_lastOutcome := fep_Kind ev, ag_lastFailureDetail := fep_Detail ev\<rparr>)\<rparr>)"

text \<open>A channel holds 64 frames; a full one drops.\<close>

definition chan_cap :: nat where
  "chan_cap = 64"

definition offer :: "frame \<Rightarrow> nat \<Rightarrow> (nat \<Rightarrow> frame list) \<Rightarrow> nat \<Rightarrow> frame list" where
  "offer f ch chans = (if length (chans ch) < chan_cap then chans(ch := chans ch @ [f]) else chans)"

definition pushToCtlSubscribers :: "frame \<Rightarrow> ('h, 'f) daemon \<Rightarrow> ('h, 'f) daemon" where
  "pushToCtlSubscribers f d = d\<lparr>dm_chans := fold (offer f) (dm_ctlSubs d) (dm_chans d)\<rparr>"

definition handleCompletionEvent ::
  "'f env \<Rightarrow> instant \<Rightarrow> frame \<Rightarrow> ('h, 'f) daemon \<Rightarrow> ('h, 'f) daemon outcome"
where
  "handleCompletionEvent env now f d =
     (case UnmarshalCompletion (en_sscanf env) (f_Payload f) of
        Panic m \<Rightarrow> Panic m
      | Err err \<Rightarrow> Val d
      | Val ev \<Rightarrow> Val (pushToCtlSubscribers f (updateAgentCompletionState now ev d)))"

definition handleFailureEvent :: "instant \<Rightarrow> frame \<Rightarrow> ('h, 'f) daemon \<Rightarrow> ('h, 'f) daemon outcome" where
  "handleFailureEvent now f d =
     (case UnmarshalFailure (f_Payload f) of
        Panic m \<Rightarrow> Panic m
      | Err err \<Rightarrow> Val d
      | Val ev \<Rightarrow> Val (pushToCtlSubscribers f (updateAgentFailureState now ev d)))"

subsection \<open>The handler\<close>

definition handleFrame ::
  "'f env \<Rightarrow> (nat \<Rightarrow> instant) \<Rightarrow> frame \<Rightarrow> ('h, 'f) daemon \<Rightarrow> ('h, 'f) daemon outcome"
where
  "handleFrame env clk f d =
     (case auditFrame (clk 0) f d of
        Panic m \<Rightarrow> Panic m
      | Err e \<Rightarrow> Err e
      | Val d \<Rightarrow>
          let t = h_Type (f_Header f) in
          if t = MsgType_CapabilityRequest then handleCapabilityRequest env (clk 1) f d
          else if t = MsgType_CompletionEvent then handleCompletionEvent env (clk 1) f d
          else if t = MsgType_FailureEvent then handleFailureEvent (clk 1) f d
          else if t = MsgType_Ping then
            (case next_seq d of (n, d) \<Rightarrow>
               Val (snd (daemon_send env (h_FromID (f_Header f))
                           (keeper_header MsgType_Pong (h_FromID (f_Header f)) n) [] d)))
          else Val d)"

subsection \<open>What the handler does with a request\<close>

definition send_ok :: "bytes \<Rightarrow> pipe \<Rightarrow> pipe" where
  "send_ok b p = p\<lparr>p_Writer := (p_Writer p)\<lparr>w_out := w_out (p_Writer p) @ b\<rparr>\<rparr>"

text \<open>A pipe whose reader keeps up takes the whole frame.\<close>

lemma daemon_send_ok:
  assumes "r_pipes (dm_router d) i = Some p" and "w_room (p_Writer p) = None"
  shows "daemon_send env i hdr b d =
    (None, d\<lparr>dm_router := (dm_router d)\<lparr>r_pipes := (r_pipes (dm_router d))(i \<mapsto> send_ok (frame_bytes hdr b) p)\<rparr>\<rparr>)"
  using assms by (simp add: daemon_send_def Send_def WriteFrame_def writer_Write_def send_ok_def)

lemma daemon_send_other:
  "dm_auditDB (snd (daemon_send env i hdr b d)) = dm_auditDB d"
  "dm_host (snd (daemon_send env i hdr b d)) = dm_host d"
  "dm_browserMgr (snd (daemon_send env i hdr b d)) = dm_browserMgr d"
  "dm_agents (snd (daemon_send env i hdr b d)) = dm_agents d"
  by (simp_all add: daemon_send_def split: prod.splits)

lemma audit_other [simp]:
  "dm_router (audit_row now hdr b d) = dm_router d" "dm_host (audit_row now hdr b d) = dm_host d"
  "dm_browserMgr (audit_row now hdr b d) = dm_browserMgr d" "dm_dispatcher (audit_row now hdr b d) = dm_dispatcher d"
  "dm_agents (audit_row now hdr b d) = dm_agents d" "dm_ctlSubs (audit_row now hdr b d) = dm_ctlSubs d"
  "dm_chans (audit_row now hdr b d) = dm_chans d"
  "dm_router (auditCapabilityDenial now a c resp d) = dm_router d"
  "dm_host (auditCapabilityDenial now a c resp d) = dm_host d"
  "dm_browserMgr (auditCapabilityDenial now a c resp d) = dm_browserMgr d"
  "dm_dispatcher (auditCapabilityDenial now a c resp d) = dm_dispatcher d"
  "db_frames (dm_auditDB (auditCapabilityDenial now a c resp d)) = db_frames (dm_auditDB d)"
  by (simp_all add: audit_row_def auditCapabilityDenial_def audit_security_def)

definition capability_request :: "frame \<Rightarrow> CapabilityRequestPayload \<Rightarrow> request" where
  "capability_request f payload = \<lparr>rq_Name = crq_Capability payload, rq_AgentID = h_FromID (f_Header f),
     rq_SeqNo = h_SeqNo (f_Header f), rq_Args = crq_Args payload\<rparr>"

definition audits_payload :: "('h, 'f) daemon \<Rightarrow> string \<Rightarrow> bool" where
  "audits_payload d name = (case Dispatcher_Lookup (dm_dispatcher d) name of None \<Rightarrow> True | Some cap \<Rightarrow> c_AuditPayload cap)"

lemma dispatchCapabilityRequest_eq:
  assumes "Dispatch (en_quote env) (dm_dispatcher d) (capability_request f payload) (dm_browserMgr d, dm_host d) = ((resp, err), (m, h))"
  shows "\<exists>resp'. dispatchCapabilityRequest env f payload d = (resp', d\<lparr>dm_browserMgr := m, dm_host := h\<rparr>)
    \<and> (err = None \<longrightarrow> resp' = resp)"
  using assms by (cases err) (simp_all add: dispatchCapabilityRequest_def capability_request_def Let_def)

text \<open>A capability request either does not decode, or is dispatched and its response sent.\<close>

lemma handleFrame_request:
  assumes "handleFrame env clk f d = Val d'" and "h_Type (f_Header f) = MsgType_CapabilityRequest"
  obtains (malformed) err where "decodeCapabilityRequest (f_Payload f) = Err err"
      "d' = sendCapabilityDenied env f (''malformed request: '' @ error_text err)
              (audit_row (clk 0) (f_Header f) (stored_payload (f_Payload f)) d)"
  | (decoded) payload resp err m h resp' where "decodeCapabilityRequest (f_Payload f) = Val payload"
      "Dispatch (en_quote env) (dm_dispatcher d) (capability_request f payload) (dm_browserMgr d, dm_host d) = ((resp, err), (m, h))"
      "err = None \<longrightarrow> resp' = resp"
      "d' = sendCapabilityResponse env f resp' (auditCapabilityDenial (clk 1) (h_FromID (f_Header f)) (crq_Capability payload) resp'
              ((audit_row (clk 0) (f_Header f)
                 (if audits_payload d (crq_Capability payload) then stored_payload (f_Payload f) else None) d)
               \<lparr>dm_browserMgr := m, dm_host := h\<rparr>))"
proof (cases "decodeCapabilityRequest (f_Payload f)")
  case (Val payload)
  let ?d1 = "audit_row (clk 0) (f_Header f)
     (if audits_payload d (crq_Capability payload) then stored_payload (f_Payload f) else None) d"
  have a: "auditFrame (clk 0) f d = Val ?d1"
    using assms(2) Val by (simp add: auditFrame_def shouldAuditPayload_def audits_payload_def split: option.splits)
  obtain resp err m h where disp: "Dispatch (en_quote env) (dm_dispatcher ?d1) (capability_request f payload)
      (dm_browserMgr ?d1, dm_host ?d1) = ((resp, err), (m, h))"
    by (metis surj_pair)
  obtain resp' where r: "dispatchCapabilityRequest env f payload ?d1 = (resp', ?d1\<lparr>dm_browserMgr := m, dm_host := h\<rparr>)"
    "err = None \<longrightarrow> resp' = resp"
    using dispatchCapabilityRequest_eq [OF disp] by blast
  have "d' = sendCapabilityResponse env f resp' (auditCapabilityDenial (clk 1) (h_FromID (f_Header f)) (crq_Capability payload) resp'
              (?d1\<lparr>dm_browserMgr := m, dm_host := h\<rparr>))"
    using assms a Val r(1) by (simp add: handleFrame_def handleCapabilityRequest_def Let_def)
  with decoded [OF Val _ r(2)] disp show thesis by simp
next
  case (Err e)
  with assms malformed show thesis
    by (simp add: handleFrame_def handleCapabilityRequest_def auditFrame_def shouldAuditPayload_def)
next
  case (Panic m)
  with assms show thesis
    by (simp add: handleFrame_def auditFrame_def shouldAuditPayload_def)
qed

lemma handleFrame_panics:
  assumes "h_Type (f_Header f) = MsgType_CapabilityRequest" and "panics (decodeCapabilityRequest (f_Payload f))"
  shows "panics (handleFrame env clk f d)"
  using assms by (auto simp: handleFrame_def auditFrame_def shouldAuditPayload_def panics_iff)

text \<open>No other frame runs a capability.\<close>

lemma handleFrame_no_request:
  assumes "handleFrame env clk f d = Val d'" and "h_Type (f_Header f) \<noteq> MsgType_CapabilityRequest"
  shows "dm_host d' = dm_host d \<and> dm_browserMgr d' = dm_browserMgr d"
proof -
  have "auditFrame (clk 0) f d = Val (audit_row (clk 0) (f_Header f) (stored_payload (f_Payload f)) d)"
    using assms(2) by (simp add: auditFrame_def shouldAuditPayload_def)
  with assms show ?thesis
    by (auto simp: handleFrame_def handleCompletionEvent_def handleFailureEvent_def updateAgentCompletionState_def
        updateAgentFailureState_def pushToCtlSubscribers_def next_seq_def daemon_send_other Let_def
        split: if_splits outcome.splits option.splits prod.splits)
qed

end
