(* ===== verification/Provisioning.thy ===== *)
theory Provisioning
  imports Daemon
begin

text \<open>
  Creating and destroying agents (\<open>cmd/keeperd/provisioning.go\<close>).

  What provisioning does to the machine goes through the container runtime and the record
  \<open>provision_ops\<close>: files, the three calls that start a prepared command, name resolution.  The
  deferred clean-up of \<open>agentCreate\<close> is the list of the steps pushed so far, run in reverse when
  the function leaves with an error.  One call is one transition of the daemon; the lock it takes
  and gives back protects the slot of the agent, which it reserves first.
\<close>

subsection \<open>The machine\<close>

record 'h provision_ops =
  pv_runtime :: "'h container_runtime"
  pv_net :: "'h net_ops"
  pv_ReadFile :: "'h \<Rightarrow> string \<Rightarrow> read_result"
  pv_WriteFile :: "string \<Rightarrow> string \<Rightarrow> 'h \<Rightarrow> go_error option \<times> 'h"
  pv_StdinPipe :: "command \<Rightarrow> 'h \<Rightarrow> (go_error + writer) \<times> 'h"
  pv_StdoutPipe :: "command \<Rightarrow> 'h \<Rightarrow> (go_error + reader) \<times> 'h"
  pv_Start :: "command \<Rightarrow> 'h \<Rightarrow> go_error option \<times> 'h"
  pv_kdl_Parse :: "string \<Rightarrow> go_error + kdl_node list"
  pv_Names_order :: "string list \<Rightarrow> string list"
  pv_url_Hostname :: "string \<Rightarrow> go_error + string"
  pv_LookupHost :: "string \<Rightarrow> 'h \<Rightarrow> (go_error + string list) \<times> 'h"
  pv_is_IPv4 :: "string \<Rightarrow> bool"

definition on_host :: "('h \<Rightarrow> 'a \<times> 'h) \<Rightarrow> ('h, 'f) daemon \<Rightarrow> 'a \<times> ('h, 'f) daemon" where
  "on_host f d = (case f (dm_host d) of (x, h) \<Rightarrow> (x, d\<lparr>dm_host := h\<rparr>))"

subsection \<open>The configuration of an agent\<close>

definition loadTemplateAgentConfig :: "'h provision_ops \<Rightarrow> 'h \<Rightarrow> string \<Rightarrow> AgentConfig \<times> go_error option" where
  "loadTemplateAgentConfig pv h subvolPath =
     (case pv_ReadFile pv h (Join2 subvolPath ''agent.kdl'') of
        ReadNotExist \<Rightarrow> (zero_AgentConfig, None)
      | ReadErr err \<Rightarrow> (zero_AgentConfig, Some err)
      | ReadOk data \<Rightarrow>
          (case ParseAgentKDL (pv_kdl_Parse pv) data of
             (cfg, Some err) \<Rightarrow> (zero_AgentConfig, Some err)
           | (cfg, None) \<Rightarrow> (cfg, None)))"

definition requested_config :: "AgentCreatePayload \<Rightarrow> AgentConfig" where
  "requested_config req =
     (let agentCfg = \<lparr>ac_ID = acp_ID req, ac_Provider = acp_Provider req, ac_CPUShares = acp_CPUShares req,
            ac_MemoryMaxBytes = acp_MemoryMaxBytes req, ac_SchemaErrorRetries = 1,
            ac_Browser = \<lparr>abc_Headless = False\<rparr>, ac_Capabilities = []\<rparr>
      in if ac_CPUShares agentCfg = 0 then agentCfg\<lparr>ac_CPUShares := 1024\<rparr> else agentCfg)"

definition with_template :: "AgentConfig \<Rightarrow> AgentConfig \<Rightarrow> AgentConfig" where
  "with_template templateCfg agentCfg =
     (let agentCfg = agentCfg\<lparr>ac_Browser := ac_Browser templateCfg, ac_Capabilities := ac_Capabilities templateCfg\<rparr>
      in if ac_SchemaErrorRetries templateCfg \<noteq> 0
         then agentCfg\<lparr>ac_SchemaErrorRetries := ac_SchemaErrorRetries templateCfg\<rparr> else agentCfg)"

definition writeAgentKDL ::
  "(string \<Rightarrow> string) \<Rightarrow> 'h provision_ops \<Rightarrow> string \<Rightarrow> AgentConfig \<Rightarrow> 'h \<Rightarrow> go_error option \<times> 'h"
where
  "writeAgentKDL quote pv subvolPath cfg =
     pv_WriteFile pv (Join2 subvolPath ''agent.kdl'') (writeAgentKDL_text quote cfg)"

subsection \<open>The access control list\<close>

definition acl_constraint :: "AgentCapabilityScope \<Rightarrow> scope_constraint" where
  "acl_constraint s =
     (let cs = Map.empty;
          cs = (if acs_Domains s \<noteq> [] then cs(''domain'' \<mapsto> acs_Domains s) else cs);
          cs = (if acs_Suffixes s \<noteq> [] then cs(''domain-suffix'' \<mapsto> acs_Suffixes s) else cs);
          cs = (if acs_PathPrefixes s \<noteq> [] then cs(''path-prefix'' \<mapsto> acs_PathPrefixes s) else cs)
      in \<lparr>sc_Entity = acs_Entity s, sc_Constraints = cs\<rparr>)"

definition acl_of_capabilities :: "AgentCapabilityEntry list \<Rightarrow> acl_entry list" where
  "acl_of_capabilities caps =
     map (\<lambda>c. \<lparr>ae_CapabilityName = ace_Name c, ae_Constraints = map acl_constraint (ace_Scopes c)\<rparr>) caps"

definition default_acl :: "string \<Rightarrow> acl_entry list" where
  "default_acl subvolPath =
     [\<lparr>ae_CapabilityName = ''Filesystem_File_Write'',
       ae_Constraints = [\<lparr>sc_Entity = ''File'',
         sc_Constraints = [''path-prefix'' \<mapsto> [Join2 subvolPath ''output'']]\<rparr>]\<rparr>,
      \<lparr>ae_CapabilityName = ''Browser_Page_Read'',
       ae_Constraints = [\<lparr>sc_Entity = ''Link'',
         sc_Constraints = [''domain'' \<mapsto> [''en.wikipedia.org'', ''github.com'']]\<rparr>]\<rparr>]"

definition default_capabilities :: "AgentCapabilityEntry list" where
  "default_capabilities = [\<lparr>ace_Name = ''Filesystem_File_Write'', ace_Scopes = []\<rparr>,
                           \<lparr>ace_Name = ''Browser_Page_Read'', ace_Scopes = []\<rparr>]"

definition install_acl :: "string \<Rightarrow> AgentConfig \<Rightarrow> acl_entry list \<times> AgentConfig" where
  "install_acl subvolPath agentCfg =
     (if ac_Capabilities agentCfg \<noteq> [] then (acl_of_capabilities (ac_Capabilities agentCfg), agentCfg)
      else (default_acl subvolPath, agentCfg\<lparr>ac_Capabilities := default_capabilities\<rparr>))"

subsection \<open>The addresses of a provider\<close>

definition resolveProviderIPs ::
  "(string \<Rightarrow> string) \<Rightarrow> 'h provision_ops \<Rightarrow> string \<Rightarrow> string \<Rightarrow> 'h \<Rightarrow> (go_error + string list) \<times> 'h"
where
  "resolveProviderIPs quote pv providersFile providerName h =
     (if providerName = '''' then (Inr [], h)
      else case LoadProvidersConfig quote (pv_ReadFile pv h) (pv_kdl_Parse pv) providersFile of
          Inl err \<Rightarrow> (Inl err, h)
        | Inr providers \<Rightarrow>
            (case providers providerName of
               None \<Rightarrow> (Inl (OtherError (''provider '' @ quote providerName @ '' not found in '' @ providersFile)), h)
             | Some p \<Rightarrow>
                 if pc_APIURL p = '''' then (Inl (OtherError (''provider '' @ quote providerName @ '' has no api-url'')), h)
                 else (case pv_url_Hostname pv (pc_APIURL p) of
                     Inl err \<Rightarrow> (Inl (Wrap (''provider '' @ quote providerName @ '' invalid api-url: '') err), h)
                   | Inr host \<Rightarrow>
                       (case pv_LookupHost pv host h of
                          (Inl err, h) \<Rightarrow>
                            (Inl (Wrap (''provider '' @ quote providerName @ '': resolve '' @ quote host @ '': '') err), h)
                        | (Inr addrs, h) \<Rightarrow> (Inr (filter (pv_is_IPv4 pv) addrs), h)))))"

subsection \<open>Starting the Ward\<close>

definition set_pipe :: "string \<Rightarrow> ('h, 'f) daemon \<Rightarrow> ('h, 'f) daemon" where
  "set_pipe agentID d =
     (case dm_agents d agentID of
        None \<Rightarrow> d
      | Some a \<Rightarrow> d\<lparr>dm_agents := (dm_agents d)(agentID \<mapsto> a\<lparr>ag_pipe := True\<rparr>)\<rparr>)"

definition ward_pipe :: "('h, 'f) daemon \<Rightarrow> instant \<Rightarrow> string \<Rightarrow> reader \<Rightarrow> writer \<Rightarrow> pipe" where
  "ward_pipe d now agentID rd w = \<lparr>p_AgentID = agentID, p_Reader = rd, p_Writer = w,
     p_Limiter = Some (NewByteRateLimiter now (oc_MaxAgentPipeBytesPerSec (dm_cfg d))), p_lastSeqNo = 0\<rparr>"

text \<open>The prepared command, its two pipes, its start.\<close>

definition start_ward ::
  "'h provision_ops \<Rightarrow> string \<Rightarrow> string \<Rightarrow> WardConfig \<Rightarrow> 'h \<Rightarrow> (go_error + writer \<times> reader) \<times> 'h"
where
  "start_ward pv agentID subvolPath wcfg h =
     (case rt_SpawnWard (pv_runtime pv) agentID subvolPath wcfg h of
        (Inl err, h) \<Rightarrow> (Inl err, h)
      | (Inr cmd, h) \<Rightarrow>
          (case pv_StdinPipe pv cmd h of
             (Inl err, h) \<Rightarrow> (Inl (Wrap ''ward stdin pipe: '' err), h)
           | (Inr stdin, h) \<Rightarrow>
               (case pv_StdoutPipe pv cmd h of
                  (Inl err, h) \<Rightarrow> (Inl (Wrap ''ward stdout pipe: '' err), h)
                | (Inr stdout, h) \<Rightarrow>
                    (case pv_Start pv cmd h of
                       (Some err, h) \<Rightarrow> (Inl (Wrap ''ward start: '' err), h)
                     | (None, h) \<Rightarrow> (Inr (stdin, stdout), h)))))"

definition spawnAgent ::
  "'f env \<Rightarrow> 'h provision_ops \<Rightarrow> instant \<Rightarrow> string \<Rightarrow> string \<Rightarrow> AgentConfig \<Rightarrow> ('h, 'f) daemon
     \<Rightarrow> go_error option \<times> ('h, 'f) daemon"
where
  "spawnAgent env pv now agentID subvolPath cfg d =
     (let wcfg = \<lparr>wc_CPUShares = ac_CPUShares cfg, wc_MemoryMaxBytes = ac_MemoryMaxBytes cfg,
                  wc_Provider = ac_Provider cfg, wc_LogPath = '''', wc_LogLevel = oc_LogLevel (dm_cfg d)\<rparr> in
      case on_host (start_ward pv agentID subvolPath wcfg) d of
        (Inl err, d) \<Rightarrow> (Some err, d)
      | (Inr (stdin, stdout), d) \<Rightarrow>
          let d = d\<lparr>dm_router := AddPipe (ward_pipe d now agentID stdout stdin) (dm_router d)\<rparr>;
              d = set_pipe agentID d;
              (ips, d) = on_host (resolveProviderIPs (en_quote env) pv (oc_ProvidersFile (dm_cfg d)) (ac_Provider cfg)) d;
              allowedIPs = (case ips of Inl err \<Rightarrow> [] | Inr l \<Rightarrow> l);
              (_, d) = on_host (rt_ApplyNetworkRules (pv_runtime pv) agentID allowedIPs) d
          in (None, d))"

text \<open>The goroutine that waits for the process, once it has exited.\<close>

definition ward_exited :: "string \<Rightarrow> ('h, 'f) daemon \<Rightarrow> ('h, 'f) daemon" where
  "ward_exited agentID d = d\<lparr>dm_router := RemovePipe agentID (dm_router d)\<rparr>"

subsection \<open>Creating an agent\<close>

datatype cleanup_step = CleanDestroySubvolume string | CleanReleaseBrowser | CleanRemoveACL

definition release_browser ::
  "'h provision_ops \<Rightarrow> string \<Rightarrow> ('h, 'f) daemon \<Rightarrow> go_error option \<times> ('h, 'f) daemon"
where
  "release_browser pv agentID d =
     (case dm_browserMgr d of
        None \<Rightarrow> (None, d)
      | Some m \<Rightarrow>
          (case Manager_Release (pv_net pv) agentID (m, dm_host d) of
             (err, m, h) \<Rightarrow> (err, d\<lparr>dm_browserMgr := Some m, dm_host := h\<rparr>)))"

definition clean :: "'h provision_ops \<Rightarrow> string \<Rightarrow> cleanup_step \<Rightarrow> ('h, 'f) daemon \<Rightarrow> ('h, 'f) daemon" where
  "clean pv agentID c d =
     (case c of
        CleanDestroySubvolume subvolPath \<Rightarrow> snd (on_host (rt_DestroySubvolume (pv_runtime pv) agentID subvolPath) d)
      | CleanReleaseBrowser \<Rightarrow> snd (release_browser pv agentID d)
      | CleanRemoveACL \<Rightarrow> d\<lparr>dm_dispatcher := RemoveACL agentID (dm_dispatcher d)\<rparr>)"

definition run_cleanup :: "'h provision_ops \<Rightarrow> string \<Rightarrow> cleanup_step list \<Rightarrow> ('h, 'f) daemon \<Rightarrow> ('h, 'f) daemon" where
  "run_cleanup pv agentID cleanup d = fold (clean pv agentID) (rev cleanup) d"

definition set_headless :: "string \<Rightarrow> bool \<Rightarrow> ('h, 'f) daemon \<Rightarrow> ('h, 'f) daemon" where
  "set_headless agentID headless d =
     (case dm_browserMgr d of
        None \<Rightarrow> d | Some m \<Rightarrow> d\<lparr>dm_browserMgr := Some (SetHeadless agentID headless m)\<rparr>)"

definition put_agent :: "string \<Rightarrow> 'f agent_state \<Rightarrow> ('h, 'f) daemon \<Rightarrow> ('h, 'f) daemon" where
  "put_agent agentID a d = d\<lparr>dm_agents := (dm_agents d)(agentID \<mapsto> a)\<rparr>"

definition forget_agent :: "string \<Rightarrow> ('h, 'f) daemon \<Rightarrow> ('h, 'f) daemon" where
  "forget_agent agentID d = d\<lparr>dm_agents := (dm_agents d)(agentID := None)\<rparr>"

text \<open>From the installed configuration on: access list, agent state, process.\<close>

definition activate ::
  "'f env \<Rightarrow> 'h provision_ops \<Rightarrow> instant \<Rightarrow> string \<Rightarrow> string \<Rightarrow> AgentConfig \<Rightarrow> cleanup_step list \<Rightarrow> ('h, 'f) daemon
     \<Rightarrow> go_error option \<times> cleanup_step list \<times> ('h, 'f) daemon"
where
  "activate env pv now agentID subvolPath agentCfg cleanup d =
     (let (cleanup, d) =
            (case dm_browserMgr d of
               None \<Rightarrow> (cleanup, d)
             | Some m \<Rightarrow> (cleanup @ [CleanReleaseBrowser], set_headless agentID (abc_Headless (ac_Browser agentCfg)) d));
          (entries, agentCfg) = install_acl subvolPath agentCfg;
          d = d\<lparr>dm_dispatcher := SetACL \<lparr>acl_AgentID = agentID, acl_Entries = entries\<rparr> (dm_dispatcher d)\<rparr>;
          cleanup = cleanup @ [CleanRemoveACL];
          d = put_agent agentID ((new_agent_state env agentID)\<lparr>ag_subvolPath := subvolPath, ag_cfg := agentCfg\<rparr>) d
      in case spawnAgent env pv now agentID subvolPath agentCfg d of
           (Some err, d) \<Rightarrow> (Some (Wrap ''spawn agent: '' err), cleanup, d)
         | (None, d) \<Rightarrow> (None, cleanup, d))"

definition provision ::
  "'f env \<Rightarrow> 'h provision_ops \<Rightarrow> instant \<Rightarrow> AgentCreatePayload \<Rightarrow> ('h, 'f) daemon
     \<Rightarrow> go_error option \<times> cleanup_step list \<times> ('h, 'f) daemon"
where
  "provision env pv now req d =
     (case on_host (rt_ProvisionSubvolume (pv_runtime pv) (acp_ID req) (acp_Template req)) d of
        (Inl err, d) \<Rightarrow> (Some (Wrap ''provision subvolume: '' err), [], d)
      | (Inr subvolPath, d) \<Rightarrow>
          let cleanup = [CleanDestroySubvolume subvolPath] in
          (case loadTemplateAgentConfig pv (dm_host d) subvolPath of
             (_, Some err) \<Rightarrow> (Some (Wrap ''load template agent config: '' err), cleanup, d)
           | (templateCfg, None) \<Rightarrow>
               let agentCfg = with_template templateCfg (requested_config req) in
               (case on_host (writeAgentKDL (en_quote env) pv subvolPath agentCfg) d of
                  (Some err, d) \<Rightarrow> (Some (Wrap ''write agent.kdl: '' err), cleanup, d)
                | (None, d) \<Rightarrow>
                    (case on_host (rt_InstallCapabilityCLIs (pv_runtime pv) subvolPath
                                     (Dispatcher_Names (pv_Names_order pv) (dm_dispatcher d))) d of
                       (Some err, d) \<Rightarrow> (Some (Wrap ''install capability CLIs: '' err), cleanup, d)
                     | (None, d) \<Rightarrow> activate env pv now (acp_ID req) subvolPath agentCfg cleanup d))))"

definition agentCreate ::
  "'f env \<Rightarrow> 'h provision_ops \<Rightarrow> instant \<Rightarrow> AgentCreatePayload \<Rightarrow> ('h, 'f) daemon \<Rightarrow> go_error option \<times> ('h, 'f) daemon"
where
  "agentCreate env pv now req d =
     (if acp_ID req = '''' then (Some (OtherError ''agent ID is required''), d)
      else case ValidateAgentID (en_quote env) (acp_ID req) of
          Some err \<Rightarrow> (Some err, d)
        | None \<Rightarrow>
            if dm_agents d (acp_ID req) \<noteq> None
            then (Some (OtherError (''agent '' @ en_quote env (acp_ID req) @ '' already exists'')), d)
            else
              (case provision env pv now req (put_agent (acp_ID req) (new_agent_state env (acp_ID req)) d) of
                 (None, cleanup, d) \<Rightarrow> (None, d)
               | (Some err, cleanup, d) \<Rightarrow> (Some err, forget_agent (acp_ID req) (run_cleanup pv (acp_ID req) cleanup d))))"

subsection \<open>Destroying an agent\<close>

definition agentDestroy ::
  "'f env \<Rightarrow> 'h provision_ops \<Rightarrow> AgentDestroyPayload \<Rightarrow> ('h, 'f) daemon \<Rightarrow> go_error option \<times> ('h, 'f) daemon"
where
  "agentDestroy env pv req d =
     (let i = adp_ID req in
      case dm_agents d i of
        None \<Rightarrow> (Some (OtherError (''agent '' @ en_quote env i @ '' not found'')), d)
      | Some agent \<Rightarrow>
          let d = forget_agent i d;
              d = d\<lparr>dm_router := RemovePipe i (dm_router d)\<rparr>;
              d = d\<lparr>dm_dispatcher := RemoveACL i (dm_dispatcher d)\<rparr>;
              d = snd (release_browser pv i d);
              d = snd (on_host (rt_RemoveNetworkRules (pv_runtime pv) i) d);
              d = (case rt_Terminate (pv_runtime pv) of None \<Rightarrow> d | Some t \<Rightarrow> snd (on_host (t i) d));
              d = (if ag_subvolPath agent \<noteq> ''''
                   then snd (on_host (rt_DestroySubvolume (pv_runtime pv) i (ag_subvolPath agent)) d) else d)
          in (None, d))"

subsection \<open>What each step leaves alone\<close>

text \<open>Work on the machine changes nothing else of the daemon.\<close>

lemma on_host_frame [simp]:
  "dm_agents (snd (on_host f d)) = dm_agents d" "dm_router (snd (on_host f d)) = dm_router d"
  "dm_dispatcher (snd (on_host f d)) = dm_dispatcher d" "dm_browserMgr (snd (on_host f d)) = dm_browserMgr d"
  "dm_cfg (snd (on_host f d)) = dm_cfg d" "dm_auditDB (snd (on_host f d)) = dm_auditDB d"
  by (simp_all add: on_host_def split: prod.splits)

lemma on_host_frameD:
  assumes "on_host f d = (x, d')"
  shows "dm_agents d' = dm_agents d" "dm_router d' = dm_router d" "dm_dispatcher d' = dm_dispatcher d"
    "dm_browserMgr d' = dm_browserMgr d" "dm_cfg d' = dm_cfg d" "dm_auditDB d' = dm_auditDB d"
  using assms on_host_frame [of f d] by simp_all

lemma on_hostE:
  assumes "on_host f d = (x, d')"
  obtains h where "d' = d\<lparr>dm_host := h\<rparr>"
  using assms by (auto simp: on_host_def split: prod.splits)

text \<open>The agents with a session, or a setting, in the browser manager.\<close>

definition browser_agents :: "'h browserManager option \<Rightarrow> string set" where
  "browser_agents mgr = (case mgr of None \<Rightarrow> {} | Some m \<Rightarrow> dom (bm_proxyByID m) \<union> dom (bm_headless m))"

lemma Manager_Release_maps:
  assumes "Manager_Release net a (m, h) = (r, m', h')" and "bm_client m \<noteq> None" and "a \<noteq> ''''"
  shows "bm_proxyByID m' = (bm_proxyByID m)(a := None)" "bm_headless m' = (bm_headless m)(a := None)"
    "bm_client m' = bm_client m"
  using assms by (auto simp: Manager_Release_def Let_def split: option.splits prod.splits sum.splits)

lemma release_browser_frame:
  assumes "release_browser pv a d = (r, d')"
  shows "dm_agents d' = dm_agents d" "dm_router d' = dm_router d" "dm_dispatcher d' = dm_dispatcher d"
    "dm_cfg d' = dm_cfg d" "dm_auditDB d' = dm_auditDB d"
  using assms by (auto simp: release_browser_def split: option.splits prod.splits)

lemma set_headless_frame [simp]:
  "dm_agents (set_headless a b d) = dm_agents d" "dm_router (set_headless a b d) = dm_router d"
  "dm_dispatcher (set_headless a b d) = dm_dispatcher d" "dm_cfg (set_headless a b d) = dm_cfg d"
  "dm_host (set_headless a b d) = dm_host d"
  by (simp_all add: set_headless_def split: option.splits)

lemma start_failed_frame:
  assumes "spawnAgent env pv now a sv cfg d = (Some err, d')"
  shows "dm_agents d' = dm_agents d" "dm_router d' = dm_router d" "dm_dispatcher d' = dm_dispatcher d"
    "dm_browserMgr d' = dm_browserMgr d" "dm_cfg d' = dm_cfg d"
  using assms by (auto simp: spawnAgent_def Let_def dest: on_host_frameD split: prod.splits sum.splits)

lemma ward_pipe_host [simp]: "ward_pipe (d\<lparr>dm_host := h\<rparr>) now a rd w = ward_pipe d now a rd w"
  "p_AgentID (ward_pipe d now a rd w) = a"
  by (simp_all add: ward_pipe_def)

lemma spawned_frame:
  assumes "spawnAgent env pv now a sv cfg d = (None, d')"
  obtains rd w h where "d' = set_pipe a (d\<lparr>dm_router := AddPipe (ward_pipe d now a rd w) (dm_router d)\<rparr>)\<lparr>dm_host := h\<rparr>"
  using assms
  by (auto simp: spawnAgent_def Let_def set_pipe_def elim!: on_hostE split: prod.splits sum.splits option.splits)

subsection \<open>The registry of agents governs the rest\<close>

text \<open>
  Pipes, access lists and browser sessions belong to registered agents, each registered under its
  own identity; the browser manager has a client.
\<close>

definition daemon_ok :: "('h, 'f) daemon \<Rightarrow> bool" where
  "daemon_ok d \<longleftrightarrow>
     dom (d_acls (dm_dispatcher d)) \<subseteq> dom (dm_agents d)
     \<and> dom (r_pipes (dm_router d)) \<subseteq> dom (dm_agents d)
     \<and> browser_agents (dm_browserMgr d) \<subseteq> dom (dm_agents d)
     \<and> (\<forall>i a. dm_agents d i = Some a \<longrightarrow> ag_id a = i \<and> i \<noteq> '''')
     \<and> (\<forall>m. dm_browserMgr d = Some m \<longrightarrow> bm_client m \<noteq> None)"

text \<open>What belongs to one agent, and what is left when it is taken away.\<close>

definition without_agent :: "string \<Rightarrow> ('h, 'f) daemon \<Rightarrow> ('h, 'f) daemon \<Rightarrow> bool" where
  "without_agent i d d' \<longleftrightarrow>
     dm_agents d' = (dm_agents d)(i := None)
     \<and> r_pipes (dm_router d') = (r_pipes (dm_router d))(i := None)
     \<and> d_acls (dm_dispatcher d') = (d_acls (dm_dispatcher d))(i := None)
     \<and> d_reg (dm_dispatcher d') = d_reg (dm_dispatcher d)
     \<and> browser_agents (dm_browserMgr d') = browser_agents (dm_browserMgr d) - {i}
     \<and> (\<forall>m'. dm_browserMgr d' = Some m' \<longrightarrow> (\<exists>m. dm_browserMgr d = Some m \<and> bm_client m' = bm_client m))"

definition has_client :: "('h, 'f) daemon \<Rightarrow> bool" where
  "has_client d \<longleftrightarrow> (\<forall>m. dm_browserMgr d = Some m \<longrightarrow> bm_client m \<noteq> None)"

lemma release_browser_agents:
  assumes "release_browser pv i d = (r, d')" and "has_client d" and "i \<noteq> ''''"
  shows "browser_agents (dm_browserMgr d') = browser_agents (dm_browserMgr d) - {i}"
    and "dm_browserMgr d' = Some m' \<Longrightarrow> \<exists>m. dm_browserMgr d = Some m \<and> bm_client m' = bm_client m"
proof -
  have "browser_agents (dm_browserMgr d') = browser_agents (dm_browserMgr d) - {i}
    \<and> (dm_browserMgr d' = Some m' \<longrightarrow> (\<exists>m. dm_browserMgr d = Some m \<and> bm_client m' = bm_client m))"
  proof (cases "dm_browserMgr d")
    case None
    with assms(1) show ?thesis by (auto simp: release_browser_def browser_agents_def)
  next
    case (Some m)
    obtain r' m1 h' where rel: "Manager_Release (pv_net pv) i (m, dm_host d) = (r', m1, h')"
      by (cases "Manager_Release (pv_net pv) i (m, dm_host d)") auto
    have "bm_client m \<noteq> None"
      using assms(2) Some by (simp add: has_client_def)
    from Manager_Release_maps [OF rel this assms(3)] assms(1) Some rel show ?thesis
      by (auto simp: release_browser_def browser_agents_def)
  qed
  then show "browser_agents (dm_browserMgr d') = browser_agents (dm_browserMgr d) - {i}"
    and "dm_browserMgr d' = Some m' \<Longrightarrow> \<exists>m. dm_browserMgr d = Some m \<and> bm_client m' = bm_client m"
    by blast+
qed

lemma without_agent_ok: "without_agent i d d' \<Longrightarrow> daemon_ok d \<Longrightarrow> daemon_ok d'"
  unfolding daemon_ok_def without_agent_def by (auto simp: dom_def split: if_splits)

lemma spawn_failedE:
  assumes "spawnAgent env pv now a sv cfg d = (Some err, d')"
  obtains h where "d' = d\<lparr>dm_host := h\<rparr>"
  using assms by (auto simp: spawnAgent_def Let_def elim!: on_hostE split: prod.splits sum.splits)

definition installed ::
  "'f env \<Rightarrow> string \<Rightarrow> string \<Rightarrow> AgentConfig \<Rightarrow> ('h, 'f) daemon \<Rightarrow> ('h, 'f) daemon"
where
  "installed env i subvolPath cfg d =
     (let d = set_headless i (abc_Headless (ac_Browser cfg)) d;
          d = d\<lparr>dm_dispatcher := SetACL \<lparr>acl_AgentID = i, acl_Entries = fst (install_acl subvolPath cfg)\<rparr> (dm_dispatcher d)\<rparr>
      in put_agent i ((new_agent_state env i)\<lparr>ag_subvolPath := subvolPath, ag_cfg := snd (install_acl subvolPath cfg)\<rparr>) d)"

definition activation_cleanup :: "'h browserManager option \<Rightarrow> cleanup_step list" where
  "activation_cleanup mgr = (if mgr = None then [] else [CleanReleaseBrowser]) @ [CleanRemoveACL]"

lemma set_headless_None: "dm_browserMgr d = None \<Longrightarrow> set_headless i b d = d"
  by (simp add: set_headless_def)

lemma activate_eq:
  "activate env pv now i sv cfg cleanup d =
     (case spawnAgent env pv now i sv (snd (install_acl sv cfg)) (installed env i sv cfg d) of
        (Some err, d') \<Rightarrow> (Some (Wrap ''spawn agent: '' err), cleanup @ activation_cleanup (dm_browserMgr d), d')
      | (None, d') \<Rightarrow> (None, cleanup @ activation_cleanup (dm_browserMgr d), d'))"
  by (cases "dm_browserMgr d"; cases "install_acl sv cfg")
    (auto simp: activate_def installed_def activation_cleanup_def set_headless_None Let_def
      split: prod.splits option.splits)

lemma provision_failedE:
  assumes "provision env pv now req d = (Some err, cleanup, d')"
  obtains (early) h where "d' = d\<lparr>dm_host := h\<rparr>" "\<forall>c\<in>set cleanup. \<exists>sv. c = CleanDestroySubvolume sv"
    | (spawn) sv cfg h0 h where "d' = installed env (acp_ID req) sv cfg (d\<lparr>dm_host := h0\<rparr>)\<lparr>dm_host := h\<rparr>"
      "cleanup = CleanDestroySubvolume sv # activation_cleanup (dm_browserMgr d)"
  using assms
  by (fastforce simp: provision_def Let_def activate_eq elim!: on_hostE spawn_failedE
      split: prod.splits sum.splits option.splits)

lemma installed_router [simp]: "dm_router (installed env i sv cfg d) = dm_router d"
  by (simp add: installed_def put_agent_def Let_def)

lemma spawned_pipeE:
  assumes "spawnAgent env pv now a sv cfg d = (None, d')"
  obtains p h where "p_AgentID p = a"
    "d' = set_pipe a (d\<lparr>dm_router := AddPipe p (dm_router d)\<rparr>)\<lparr>dm_host := h\<rparr>"
  using spawned_frame [OF assms] ward_pipe_host(2) by metis

lemma provision_okE:
  assumes "provision env pv now req d = (None, cleanup, d')"
  obtains sv cfg h0 h p where "p_AgentID p = acp_ID req"
    "d' = set_pipe (acp_ID req) (installed env (acp_ID req) sv cfg (d\<lparr>dm_host := h0\<rparr>)
            \<lparr>dm_router := AddPipe p (dm_router d)\<rparr>)\<lparr>dm_host := h\<rparr>"
  using assms
  by (fastforce simp: provision_def Let_def activate_eq elim!: on_hostE spawned_pipeE
      split: prod.splits sum.splits option.splits)

text \<open>Everything but the agent \<open>i\<close> is as it was.\<close>

definition only_agent :: "string \<Rightarrow> ('h, 'f) daemon \<Rightarrow> ('h, 'f) daemon \<Rightarrow> bool" where
  "only_agent i d d' \<longleftrightarrow>
     (\<forall>j. j \<noteq> i \<longrightarrow> dm_agents d' j = dm_agents d j \<and> d_acls (dm_dispatcher d') j = d_acls (dm_dispatcher d) j)
     \<and> dm_router d' = dm_router d \<and> d_reg (dm_dispatcher d') = d_reg (dm_dispatcher d)
     \<and> browser_agents (dm_browserMgr d') - {i} = browser_agents (dm_browserMgr d) - {i}
     \<and> (\<forall>m'. dm_browserMgr d' = Some m' \<longrightarrow> (\<exists>m. dm_browserMgr d = Some m \<and> bm_client m' = bm_client m))"

lemma only_agent_trans: "only_agent i d d' \<Longrightarrow> only_agent i d' d'' \<Longrightarrow> only_agent i d d''"
  unfolding only_agent_def by (metis (no_types))

lemma only_agent_refl [simp]: "only_agent i d (d\<lparr>dm_host := h\<rparr>)"
  by (simp add: only_agent_def)

lemma only_agent_client: "only_agent i d d' \<Longrightarrow> has_client d \<Longrightarrow> has_client d'"
  unfolding only_agent_def has_client_def by metis

lemma only_agent_installed: "only_agent i d (installed env i sv cfg d)"
  by (auto simp: only_agent_def installed_def put_agent_def set_headless_def SetACL_def SetHeadless_def
      browser_agents_def Let_def split: option.splits)

lemma clean_frame:
  assumes "has_client d" and "i \<noteq> ''''"
  shows "only_agent i d (clean pv i c d)"
    and "browser_agents (dm_browserMgr (clean pv i c d)) \<subseteq> browser_agents (dm_browserMgr d)"
    and "c = CleanReleaseBrowser \<Longrightarrow> i \<notin> browser_agents (dm_browserMgr (clean pv i c d))"
    and "d_acls (dm_dispatcher (clean pv i c d)) = (if c = CleanRemoveACL then (d_acls (dm_dispatcher d))(i := None)
           else d_acls (dm_dispatcher d))"
proof -
  obtain r d1 where r: "release_browser pv i d = (r, d1)"
    by (cases "release_browser pv i d")
  note b = release_browser_agents [OF r assms] release_browser_frame [OF r]
  show "only_agent i d (clean pv i c d)"
    using b r by (cases c) (auto simp: only_agent_def clean_def RemoveACL_def)
  show "browser_agents (dm_browserMgr (clean pv i c d)) \<subseteq> browser_agents (dm_browserMgr d)"
    using b r by (cases c) (auto simp: clean_def)
  show "c = CleanReleaseBrowser \<Longrightarrow> i \<notin> browser_agents (dm_browserMgr (clean pv i c d))"
    using b r by (auto simp: clean_def)
  show "d_acls (dm_dispatcher (clean pv i c d)) = (if c = CleanRemoveACL then (d_acls (dm_dispatcher d))(i := None)
           else d_acls (dm_dispatcher d))"
    using b r by (cases c) (auto simp: clean_def RemoveACL_def)
qed

lemma cleanup_frame:
  assumes "has_client d" and "i \<noteq> ''''"
  shows "only_agent i d (fold (clean pv i) cs d)
    \<and> browser_agents (dm_browserMgr (fold (clean pv i) cs d)) \<subseteq> browser_agents (dm_browserMgr d)
    \<and> (CleanReleaseBrowser \<in> set cs \<longrightarrow> i \<notin> browser_agents (dm_browserMgr (fold (clean pv i) cs d)))
    \<and> d_acls (dm_dispatcher (fold (clean pv i) cs d))
        = (if CleanRemoveACL \<in> set cs then (d_acls (dm_dispatcher d))(i := None) else d_acls (dm_dispatcher d))"
  using assms(1)
proof (induction cs arbitrary: d)
  case Nil
  then show ?case using only_agent_refl [of i d "dm_host d"] by simp
next
  case (Cons c cs)
  let ?d = "clean pv i c d"
  note c = clean_frame [where pv = pv and c = c, OF Cons.prems assms(2)]
  note IH = Cons.IH [OF only_agent_client [OF c(1) Cons.prems]]
  have "only_agent i d (fold (clean pv i) cs ?d)"
    using only_agent_trans [OF c(1)] IH by blast
  moreover have "browser_agents (dm_browserMgr (fold (clean pv i) cs ?d)) \<subseteq> browser_agents (dm_browserMgr d)"
    using IH c(2) by blast
  moreover have "CleanReleaseBrowser \<in> set (c # cs) \<longrightarrow> i \<notin> browser_agents (dm_browserMgr (fold (clean pv i) cs ?d))"
    using IH c(3) by auto
  moreover have "d_acls (dm_dispatcher (fold (clean pv i) cs ?d))
      = (if CleanRemoveACL \<in> set (c # cs) then (d_acls (dm_dispatcher d))(i := None) else d_acls (dm_dispatcher d))"
    using IH c(4) by auto
  ultimately show ?case by simp
qed

subsection \<open>Create and destroy\<close>

lemma absent_everywhere:
  assumes "daemon_ok d" and "dm_agents d i = None"
  shows "r_pipes (dm_router d) i = None" "d_acls (dm_dispatcher d) i = None" "i \<notin> browser_agents (dm_browserMgr d)"
  using assms by (auto simp: daemon_ok_def dom_def)

lemma daemon_ok_client: "daemon_ok d \<Longrightarrow> has_client d"
  by (simp add: daemon_ok_def has_client_def)

lemma only_agent_reserved: "only_agent i d (put_agent i a d)"
  by (simp add: only_agent_def put_agent_def)

lemma rolled_back:
  assumes "daemon_ok d" and "dm_agents d i = None" and "only_agent i d d'"
    and "d_acls (dm_dispatcher d') i = None" and "i \<notin> browser_agents (dm_browserMgr d')"
  shows "without_agent i d (forget_agent i d')"
  using assms absent_everywhere [OF assms(1,2)]
  by (auto simp: without_agent_def only_agent_def forget_agent_def)

lemma activation_cleanup_set:
  "CleanRemoveACL \<in> set (activation_cleanup mgr)" "CleanReleaseBrowser \<in> set (activation_cleanup mgr) \<longleftrightarrow> mgr \<noteq> None"
  by (simp_all add: activation_cleanup_def)

lemma create_failed:
  assumes ok: "daemon_ok d" and c: "agentCreate env pv now req d = (Some err, d')"
  shows "d' = d \<or> dm_agents d (acp_ID req) = None \<and> without_agent (acp_ID req) d d'"
proof (cases "acp_ID req = '''' \<or> ValidateAgentID (en_quote env) (acp_ID req) \<noteq> None \<or> dm_agents d (acp_ID req) \<noteq> None")
  case True
  with c show ?thesis by (auto simp: agentCreate_def split: option.splits if_splits)
next
  case False
  let ?i = "acp_ID req"
  let ?d0 = "put_agent ?i (new_agent_state env ?i) d"
  have none: "dm_agents d ?i = None" and ne: "?i \<noteq> ''''"
    using False by auto
  obtain cs d1 where p: "provision env pv now req ?d0 = (Some err, cs, d1)"
    and d': "d' = forget_agent ?i (run_cleanup pv ?i cs d1)"
    using c False by (auto simp: agentCreate_def split: prod.splits option.splits)
  have o0: "only_agent ?i d ?d0"
    by (rule only_agent_reserved)
  note abs = absent_everywhere [OF ok none]
  from p show ?thesis
  proof (cases rule: provision_failedE)
    case (early h)
    have o1: "only_agent ?i d d1"
      using only_agent_trans [OF o0] early(1) by simp
    note f = cleanup_frame [OF only_agent_client [OF o1 daemon_ok_client [OF ok]] ne, of pv "rev cs"]
    have "CleanRemoveACL \<notin> set (rev cs)"
      using early(2) by auto
    then have "d_acls (dm_dispatcher (run_cleanup pv ?i cs d1)) ?i = None"
      using f early(1) abs by (simp add: run_cleanup_def put_agent_def)
    moreover have "?i \<notin> browser_agents (dm_browserMgr (run_cleanup pv ?i cs d1))"
      using f early(1) abs by (auto simp: run_cleanup_def put_agent_def)
    moreover have "only_agent ?i d (run_cleanup pv ?i cs d1)"
      using only_agent_trans [OF o1] f by (simp add: run_cleanup_def)
    ultimately show ?thesis
      using rolled_back [OF ok none] none d' by blast
  next
    case (spawn sv cfg h0 h)
    have "only_agent ?i (?d0\<lparr>dm_host := h0\<rparr>) (installed env ?i sv cfg (?d0\<lparr>dm_host := h0\<rparr>)\<lparr>dm_host := h\<rparr>)"
      using only_agent_trans [OF only_agent_installed only_agent_refl] .
    then have o1: "only_agent ?i d d1"
      using only_agent_trans [OF only_agent_trans [OF o0 only_agent_refl]] spawn(1) by blast
    note f = cleanup_frame [OF only_agent_client [OF o1 daemon_ok_client [OF ok]] ne, of pv "rev cs"]
    have "CleanRemoveACL \<in> set (rev cs)"
      unfolding spawn(2) using activation_cleanup_set(1) by auto
    with f have "d_acls (dm_dispatcher (run_cleanup pv ?i cs d1)) ?i = None"
      by (simp add: run_cleanup_def)
    moreover have "?i \<notin> browser_agents (dm_browserMgr (run_cleanup pv ?i cs d1))"
    proof (cases "dm_browserMgr d")
      case None
      then have "browser_agents (dm_browserMgr d1) = {}"
        using spawn(1) by (simp add: installed_def put_agent_def set_headless_None browser_agents_def Let_def)
      then show ?thesis using f by (auto simp: run_cleanup_def)
    next
      case (Some m)
      then have "dm_browserMgr ?d0 \<noteq> None"
        by (simp add: put_agent_def)
      then have "CleanReleaseBrowser \<in> set (rev cs)"
        unfolding spawn(2) using activation_cleanup_set(2) by auto
      with f show ?thesis by (simp add: run_cleanup_def)
    qed
    moreover have "only_agent ?i d (run_cleanup pv ?i cs d1)"
      using only_agent_trans [OF o1] f by (simp add: run_cleanup_def)
    ultimately show ?thesis
      using rolled_back [OF ok none] none d' by blast
  qed
qed

lemma destroyed:
  assumes "daemon_ok d" and "agentDestroy env pv req d = (None, d')"
  shows "dm_agents d (adp_ID req) \<noteq> None \<and> without_agent (adp_ID req) d d'"
proof -
  let ?i = "adp_ID req"
  obtain a where a: "dm_agents d ?i = Some a"
    using assms(2) by (cases "dm_agents d ?i") (auto simp: agentDestroy_def)
  then have ne: "?i \<noteq> ''''"
    using assms(1) by (auto simp: daemon_ok_def)
  define d1 where "d1 = (forget_agent ?i d)\<lparr>dm_router := RemovePipe ?i (dm_router d),
      dm_dispatcher := RemoveACL ?i (dm_dispatcher d)\<rparr>"
  obtain r d2 where r: "release_browser pv ?i d1 = (r, d2)"
    by (cases "release_browser pv ?i d1")
  have "has_client d1"
    using daemon_ok_client [OF assms(1)] by (simp add: d1_def has_client_def forget_agent_def)
  note b = release_browser_agents [OF r this ne] release_browser_frame [OF r]
  have "dm_agents d' = dm_agents d2 \<and> dm_router d' = dm_router d2 \<and> dm_dispatcher d' = dm_dispatcher d2
      \<and> dm_browserMgr d' = dm_browserMgr d2"
    using assms(2) a r
    by (auto simp: agentDestroy_def Let_def d1_def forget_agent_def split: option.splits if_splits)
  with b a show ?thesis
    by (auto simp: without_agent_def d1_def forget_agent_def RemovePipe_def RemoveACL_def)
qed

lemma set_pipe_frame [simp]:
  "dm_router (set_pipe i d) = dm_router d" "dm_dispatcher (set_pipe i d) = dm_dispatcher d"
  "dm_browserMgr (set_pipe i d) = dm_browserMgr d"
  by (simp_all add: set_pipe_def split: option.splits)

lemma created:
  assumes "agentCreate env pv now req d = (None, d')"
  obtains a p sv cfg where
    "dm_agents d (acp_ID req) = None" "ValidateAgentID (en_quote env) (acp_ID req) = None"
    "dm_agents d' = (dm_agents d)(acp_ID req \<mapsto> a)" "ag_id a = acp_ID req" "ag_pipe a" "ag_subvolPath a = sv"
    "p_AgentID p = acp_ID req" "r_pipes (dm_router d') = (r_pipes (dm_router d))(acp_ID req \<mapsto> p)"
    "d_acls (dm_dispatcher d') = (d_acls (dm_dispatcher d))(acp_ID req \<mapsto>
        \<lparr>acl_AgentID = acp_ID req, acl_Entries = fst (install_acl sv cfg)\<rparr>)"
    "ag_cfg a = snd (install_acl sv cfg)" "d_reg (dm_dispatcher d') = d_reg (dm_dispatcher d)"
    "browser_agents (dm_browserMgr d') \<subseteq> insert (acp_ID req) (browser_agents (dm_browserMgr d))"
    "has_client d \<longrightarrow> has_client d'"
proof -
  let ?i = "acp_ID req"
  let ?d0 = "put_agent ?i (new_agent_state env ?i) d"
  obtain cs where p: "provision env pv now req ?d0 = (None, cs, d')"
    and i: "dm_agents d ?i = None" "ValidateAgentID (en_quote env) ?i = None"
    using assms by (auto simp: agentCreate_def split: prod.splits option.splits if_splits)
  from p show thesis
  proof (cases rule: provision_okE)
    case (1 sv cfg h0 h p)
    show ?thesis
      by (rule that [of "(new_agent_state env ?i)\<lparr>ag_subvolPath := sv, ag_cfg := snd (install_acl sv cfg), ag_pipe := True\<rparr>"
              sv p cfg])
        (use i 1 in \<open>auto simp: set_pipe_def installed_def put_agent_def SetACL_def AddPipe_def new_agent_state_def Let_def
           set_headless_def SetHeadless_def browser_agents_def has_client_def split: option.splits\<close>)
  qed
qed

lemma created_ok:
  assumes "agentCreate env pv now req d = (None, d')" and ok: "daemon_ok d" and ne: "acp_ID req \<noteq> ''''"
  shows "daemon_ok d'"
proof -
  from assms(1) show ?thesis
  proof (cases rule: created)
    case (1 a p sv cfg)
    have "dom (d_acls (dm_dispatcher d)) \<subseteq> dom (dm_agents d)" "dom (r_pipes (dm_router d)) \<subseteq> dom (dm_agents d)"
      "browser_agents (dm_browserMgr d) \<subseteq> dom (dm_agents d)"
      "\<And>i a. dm_agents d i = Some a \<Longrightarrow> ag_id a = i \<and> i \<noteq> ''''"
      using ok unfolding daemon_ok_def by blast+
    note ok_parts = this
    show ?thesis
      unfolding daemon_ok_def
    proof (intro conjI)
      show "dom (d_acls (dm_dispatcher d')) \<subseteq> dom (dm_agents d')"
        unfolding 1(3,9) using ok_parts(1) by auto
      show "dom (r_pipes (dm_router d')) \<subseteq> dom (dm_agents d')"
        unfolding 1(3,8) using ok_parts(2) by auto
      show "browser_agents (dm_browserMgr d') \<subseteq> dom (dm_agents d')"
        using 1(12) ok_parts(3) unfolding 1(3) by auto
      show "\<forall>i a. dm_agents d' i = Some a \<longrightarrow> ag_id a = i \<and> i \<noteq> ''''"
      proof (intro allI impI)
        fix j b
        assume b: "dm_agents d' j = Some b"
        show "ag_id b = j \<and> j \<noteq> ''''"
        proof (cases "j = acp_ID req")
          case True
          with b have "b = a" by (simp add: 1(3))
          with True show ?thesis using 1(4) ne by simp
        next
          case False
          with b have "dm_agents d j = Some b" by (simp add: 1(3))
          then show ?thesis by (rule ok_parts(4))
        qed
      qed
      show "\<forall>m. dm_browserMgr d' = Some m \<longrightarrow> bm_client m \<noteq> None"
        using 1(13) daemon_ok_client [OF ok] unfolding has_client_def by blast
    qed
  qed
qed

lemma created_nonempty: "agentCreate env pv now req d = (None, d') \<Longrightarrow> acp_ID req \<noteq> ''''"
  by (auto simp: agentCreate_def split: if_splits)

subsection \<open>Properties\<close>

text \<open>
  C5: An agent creation that fails, at whichever step, leaves the daemon's agents, pipes, access
  lists and browser sessions exactly as they were: the clean-up undoes every step that succeeded.
\<close>

theorem create_failure_rolls_back:
  assumes "daemon_ok d" and "agentCreate env pv now req d = (Some err, d')"
  shows "dm_agents d' = dm_agents d \<and> r_pipes (dm_router d') = r_pipes (dm_router d)
    \<and> d_acls (dm_dispatcher d') = d_acls (dm_dispatcher d)
    \<and> browser_agents (dm_browserMgr d') = browser_agents (dm_browserMgr d)"
  using create_failed [OF assms]
proof
  assume n: "dm_agents d (acp_ID req) = None \<and> without_agent (acp_ID req) d d'"
  then show ?thesis
    using absent_everywhere [OF assms(1)] by (simp add: without_agent_def fun_upd_idem)
qed simp

definition demo_env :: "nat env" where
  "demo_env = \<lparr>en_quote = demo_quote, en_zero = 0, en_sprintf = show_nat, en_sscanf = (\<lambda>s. 0)\<rparr>"

definition demo_stub :: "bool \<Rightarrow> nat container_runtime" where
  "demo_stub spawns = stub_runtime demo_host ''/tmp''
     \<lparr>sr_ProvisionFunc = None,
      sr_SpawnFunc = (if spawns then None else Some (\<lambda>a s c h. (Inl (OtherError ''no ward''), h)))\<rparr>"

definition demo_ops :: "bool \<Rightarrow> nat provision_ops" where
  "demo_ops spawns = \<lparr>pv_runtime = demo_stub spawns,
     pv_net = \<lparr>no_listen = (\<lambda>p h. (None, Suc h)), no_shutdown = (\<lambda>p h. (None, Suc h))\<rparr>,
     pv_ReadFile = (\<lambda>h p. ReadNotExist), pv_WriteFile = (\<lambda>p t h. (None, Suc h)),
     pv_StdinPipe = (\<lambda>c h. (Inr \<lparr>w_out = [], w_room = None, w_err = EOF\<rparr>, h)),
     pv_StdoutPipe = (\<lambda>c h. (Inr (bytes_NewReader []), h)), pv_Start = (\<lambda>c h. (None, Suc h)),
     pv_kdl_Parse = (\<lambda>t. Inr []), pv_Names_order = id, pv_url_Hostname = (\<lambda>u. Inr u),
     pv_LookupHost = (\<lambda>n h. (Inr [], h)), pv_is_IPv4 = (\<lambda>a. True)\<rparr>"

definition demo_daemon :: "(nat, nat) daemon" where
  "demo_daemon = \<lparr>dm_cfg = DefaultOrchestratorConfig ''/w'', dm_auditDB = Open_db, dm_dispatcher = NewDispatcher NewRegistry,
     dm_router = NewRouter,
     dm_browserMgr = Some (newBrowserManager (Some \<lparr>cl_Acquire = (\<lambda>r h. (Inl EOF, h)), cl_Release = (\<lambda>a h. (Inl EOF, h))\<rparr>) None),
     dm_seqOut = \<lparr>sc_n = 0\<rparr>, dm_agents = Map.empty, dm_startedAt = 0, dm_ctlSubs = [], dm_chans = (\<lambda>_. []), dm_host = 0\<rparr>"

definition demo_create :: AgentCreatePayload where
  "demo_create = \<lparr>acp_ID = ''a'', acp_Provider = '''', acp_Template = '''', acp_CPUShares = 0, acp_MemoryMaxBytes = 0\<rparr>"

lemma demo_daemon_ok: "daemon_ok demo_daemon"
  by (simp add: daemon_ok_def demo_daemon_def NewDispatcher_def NewRouter_def newBrowserManager_def browser_agents_def)

lemmas demo_create_defs = agentCreate_def provision_def activate_eq installed_def spawnAgent_def start_ward_def
  on_host_def put_agent_def set_headless_def install_acl_def loadTemplateAgentConfig_def writeAgentKDL_def
  demo_daemon_def demo_ops_def demo_stub_def stub_runtime_def demo_create_def with_template_def requested_config_def
  zero_AgentConfig_def ValidateAgentID_def is_lower_def resolveProviderIPs_def Let_def

lemma demo_create_fails: "\<exists>err d'. agentCreate demo_env (demo_ops False) 0 demo_create demo_daemon = (Some err, d')"
  by (simp add: demo_create_defs split: prod.splits)

lemma demo_create_succeeds: "\<exists>d'. agentCreate demo_env (demo_ops True) 0 demo_create demo_daemon = (None, d')"
  by (simp add: demo_create_defs split: prod.splits)

theorem create_failure_rolls_back_witness:
  "\<exists>err d'. agentCreate demo_env (demo_ops False) 0 demo_create demo_daemon = (Some err, d')
    \<and> dm_agents d' = dm_agents demo_daemon \<and> r_pipes (dm_router d') = r_pipes (dm_router demo_daemon)
    \<and> d_acls (dm_dispatcher d') = d_acls (dm_dispatcher demo_daemon)
    \<and> browser_agents (dm_browserMgr d') = browser_agents (dm_browserMgr demo_daemon)"
  using demo_create_fails create_failure_rolls_back [OF demo_daemon_ok] by blast

text \<open>
  C11: When an agent has been destroyed, nothing of it is left: no state, no pipe, no access list,
  no browser session, so every capability it may still ask for is denied without effect; and the
  other agents keep theirs.
\<close>

theorem destroyed_agent_has_nothing:
  assumes "daemon_ok d" and "agentDestroy env pv req d = (None, d')"
  shows "dm_agents d' = (dm_agents d)(adp_ID req := None)
    \<and> r_pipes (dm_router d') = (r_pipes (dm_router d))(adp_ID req := None)
    \<and> d_acls (dm_dispatcher d') = (d_acls (dm_dispatcher d))(adp_ID req := None)
    \<and> browser_agents (dm_browserMgr d') = browser_agents (dm_browserMgr d) - {adp_ID req}
    \<and> Dispatch quote (dm_dispatcher d') \<lparr>rq_Name = name, rq_AgentID = adp_ID req, rq_SeqNo = n, rq_Args = args\<rparr> w
        = ((DeniedResponse (''no ACL registered for agent '' @ quote (adp_ID req)), None), w)"
  using destroyed [OF assms] by (simp add: without_agent_def Dispatch_def)

lemma demo_destroy_succeeds:
  "\<exists>d d'. agentCreate demo_env (demo_ops True) 0 demo_create demo_daemon = (None, d)
    \<and> agentDestroy demo_env (demo_ops True) \<lparr>adp_ID = ''a''\<rparr> d = (None, d')"
proof -
  obtain d where d: "agentCreate demo_env (demo_ops True) 0 demo_create demo_daemon = (None, d)"
    using demo_create_succeeds by blast
  then have "dm_agents d ''a'' \<noteq> None"
    by (cases rule: created) (simp add: demo_create_def)
  then have "\<exists>d'. agentDestroy demo_env (demo_ops True) \<lparr>adp_ID = ''a''\<rparr> d = (None, d')"
    by (auto simp: agentDestroy_def Let_def)
  with d show ?thesis by blast
qed

theorem destroyed_agent_has_nothing_witness:
  "\<exists>d d'. agentDestroy demo_env (demo_ops True) \<lparr>adp_ID = ''a''\<rparr> d = (None, d')
    \<and> dm_agents d ''a'' \<noteq> None \<and> dm_agents d' = (dm_agents d)(''a'' := None)"
proof -
  obtain d d' where d: "agentCreate demo_env (demo_ops True) 0 demo_create demo_daemon = (None, d)"
    "agentDestroy demo_env (demo_ops True) \<lparr>adp_ID = ''a''\<rparr> d = (None, d')"
    using demo_destroy_succeeds by blast
  have ok: "daemon_ok d"
    using created_ok [OF d(1) demo_daemon_ok] by (simp add: demo_create_def)
  from d(1) have "dm_agents d ''a'' \<noteq> None"
    by (cases rule: created) (simp add: demo_create_def)
  moreover have "dm_agents d' = (dm_agents d)(''a'' := None)"
    using destroyed_agent_has_nothing [OF ok d(2)] by simp
  ultimately show ?thesis using d(2) by blast
qed

end
