(* ===== verification/Filesystem.thy ===== *)
theory Filesystem
  imports Capability Path
begin

text \<open>
  \<open>Filesystem_File_Write\<close> (\<open>internal/capabilities/filesystem.go\<close>) and its generated payloads.

  The operating system is the record \<open>os_fs\<close> of the calls the capability makes, over a world
  \<open>'w\<close> and file handles \<open>'h\<close>: \<open>os_Lstat\<close> and \<open>os_EvalSymlinks\<close> only look, the others may change
  the world.  The capability is \<open>FilesystemFileWrite_Execute\<close>; \<open>write_plan\<close> names the decision
  it takes before it touches anything.

  The lemmas show that the path opened lies under the scope component by component, that no
  existing symbolic link on the way leads out of it, and that a refused request leaves the world
  as it was.
\<close>

subsection \<open>Payloads (generated.go)\<close>

record Filesystem_File_Write =
  ffw_Path :: string
  ffw_Content :: string
  ffw_Append :: bool
  ffw_Encoding :: string

definition Filesystem_File_Write_MarshalMUS :: "Filesystem_File_Write \<Rightarrow> bytes" where
  "Filesystem_File_Write_MarshalMUS a =
     (let b = [];
          b = AppendString b (ffw_Path a);
          b = AppendString b (ffw_Content a);
          b = append_bool b (ffw_Append a);
          b = AppendString b (ffw_Encoding a)
      in b)"

definition Filesystem_File_Write_UnmarshalMUS :: "Filesystem_File_Write reads" where
  "Filesystem_File_Write_UnmarshalMUS =
     rbind (rmap_err (Wrap ''path: '') (ReadString (of_nat MaxPayloadBytes))) (\<lambda>Path.
     rbind (rmap_err (Wrap ''content: '') (ReadString (of_nat MaxPayloadBytes))) (\<lambda>Content.
     rbind (rmap_err (Wrap ''append: '') (read_full 1)) (\<lambda>b.
     rbind (rmap_err (Wrap ''encoding: '') (ReadString (of_nat MaxPayloadBytes))) (\<lambda>Encoding.
     rreturn \<lparr>ffw_Path = Path, ffw_Content = Content, ffw_Append = (b ! 0 \<noteq> 0),
              ffw_Encoding = Encoding\<rparr>))))"

record Filesystem_File_Write_Result =
  ffr_Path :: string
  ffr_BytesWritten :: u64

definition Filesystem_File_Write_Result_MarshalMUS :: "Filesystem_File_Write_Result \<Rightarrow> bytes" where
  "Filesystem_File_Write_Result_MarshalMUS a =
     (let b = [];
          b = AppendString b (ffr_Path a);
          b = AppendVarint b (ffr_BytesWritten a)
      in b)"

definition Filesystem_File_Write_Result_UnmarshalMUS :: "Filesystem_File_Write_Result reads" where
  "Filesystem_File_Write_Result_UnmarshalMUS =
     rbind (rmap_err (Wrap ''path: '') (ReadString (of_nat MaxPayloadBytes))) (\<lambda>Path.
     rbind (rmap_err (Wrap ''bytes_written: '') ReadVarint) (\<lambda>v.
     rreturn \<lparr>ffr_Path = Path, ffr_BytesWritten = v\<rparr>))"

definition ffw_wf :: "Filesystem_File_Write \<Rightarrow> bool" where
  "ffw_wf a \<longleftrightarrow> length (ffw_Path a) \<le> MaxPayloadBytes \<and> length (ffw_Content a) \<le> MaxPayloadBytes
     \<and> length (ffw_Encoding a) \<le> MaxPayloadBytes"

interpretation file_write: codec Filesystem_File_Write_MarshalMUS Filesystem_File_Write_UnmarshalMUS ffw_wf
proof unfold_locales
  show "local_reads Filesystem_File_Write_UnmarshalMUS"
    unfolding Filesystem_File_Write_UnmarshalMUS_def by (intro local_intros)
qed (simp add: Filesystem_File_Write_MarshalMUS_def Filesystem_File_Write_UnmarshalMUS_def ffw_wf_def
    marshal_simps codec_simps)

interpretation file_write_result: codec Filesystem_File_Write_Result_MarshalMUS
  Filesystem_File_Write_Result_UnmarshalMUS "\<lambda>a. length (ffr_Path a) \<le> MaxPayloadBytes"
proof unfold_locales
  show "local_reads Filesystem_File_Write_Result_UnmarshalMUS"
    unfolding Filesystem_File_Write_Result_UnmarshalMUS_def by (intro local_intros)
qed (simp add: Filesystem_File_Write_Result_MarshalMUS_def Filesystem_File_Write_Result_UnmarshalMUS_def
    marshal_simps codec_simps)

lemma safe_Filesystem_File_Write: "never_panics Filesystem_File_Write_UnmarshalMUS"
  unfolding Filesystem_File_Write_UnmarshalMUS_def by (intro safe_intros)

subsection \<open>The operating system\<close>

datatype lstat_result = NotExist | LstatErr go_error | Exists bool

datatype open_mode = O_TRUNC | O_APPEND

record ('w, 'h) os_fs =
  os_Lstat :: "string \<Rightarrow> 'w \<Rightarrow> lstat_result"
  os_EvalSymlinks :: "string \<Rightarrow> 'w \<Rightarrow> go_error + string"
  os_MkdirAll :: "string \<Rightarrow> 'w \<Rightarrow> go_error option \<times> 'w"
  os_OpenFile :: "string \<Rightarrow> open_mode \<Rightarrow> 'w \<Rightarrow> (go_error + 'h) \<times> 'w"
  os_WriteString :: "'h \<Rightarrow> string \<Rightarrow> 'w \<Rightarrow> (nat \<times> go_error option) \<times> 'w"
  os_Close :: "'h \<Rightarrow> 'w \<Rightarrow> 'w"

subsection \<open>Guards\<close>

definition containsDotDot :: "string \<Rightarrow> bool" where
  "containsDotDot p = list_ex (\<lambda>part. part = ''..'') (split_on slash p)"

fun getPathPrefixFromConstraints :: "scope_constraint list \<Rightarrow> string" where
  "getPathPrefixFromConstraints [] = ''''"
| "getPathPrefixFromConstraints (sc # scs) =
     (if sc_Entity sc = ''File'' \<or> sc_Entity sc = ''Folder''
      then (case sc_Constraints sc ''path-prefix'' of
          Some (p # ps) \<Rightarrow> p
        | _ \<Rightarrow> getPathPrefixFromConstraints scs)
      else getPathPrefixFromConstraints scs)"

text \<open>The arrow in the error text is U+2192, three bytes in UTF-8.\<close>

definition escape_arrow :: string where
  "escape_arrow = [CHR 0x20, CHR 0xE2, CHR 0x86, CHR 0x92, CHR 0x20]"

fun symlink_walk ::
  "(string \<Rightarrow> string) \<Rightarrow> ('w, 'h) os_fs \<Rightarrow> 'w \<Rightarrow> string \<Rightarrow> string \<Rightarrow> string list \<Rightarrow> go_error option"
where
  "symlink_walk quote os w scope cur [] = None"
| "symlink_walk quote os w scope cur (p # ps) =
     (let cur = Join2 cur p in
      case os_Lstat os cur w of
        NotExist \<Rightarrow> None
      | LstatErr e \<Rightarrow> Some e
      | Exists link \<Rightarrow>
          if link
          then (case os_EvalSymlinks os cur w of
              Inl e \<Rightarrow> Some (Wrap (''could not resolve symlink '' @ quote cur @ '': '') e)
            | Inr resolved \<Rightarrow>
                if \<not> HasPrefix resolved (Clean scope @ [slash]) \<and> resolved \<noteq> Clean scope
                then Some (OtherError (''symlink '' @ quote cur @ escape_arrow @ quote resolved @ '' escapes scope''))
                else symlink_walk quote os w scope cur ps)
          else symlink_walk quote os w scope cur ps)"

definition checkNoSymlinkEscape ::
  "(string \<Rightarrow> string) \<Rightarrow> ('w, 'h) os_fs \<Rightarrow> 'w \<Rightarrow> string \<Rightarrow> string \<Rightarrow> go_error option"
where
  "checkNoSymlinkEscape quote os w scope clean =
     (case Rel scope clean of
        Inl e \<Rightarrow> Some e
      | Inr rel \<Rightarrow> symlink_walk quote os w scope scope (split_on slash rel))"

subsection \<open>Execute\<close>

definition fs_error :: "go_error \<Rightarrow> response" where
  "fs_error e = \<lparr>rs_OK = False, rs_Data = [], rs_ErrorCode = ''fs_error'', rs_ErrorDetail = error_text e\<rparr>"

text \<open>Everything before \<open>MkdirAll\<close>: a denial, or the path to write.\<close>

definition write_plan ::
  "(string \<Rightarrow> string) \<Rightarrow> ('w, 'h) os_fs \<Rightarrow> scope_constraint list \<Rightarrow> Filesystem_File_Write \<Rightarrow> 'w
     \<Rightarrow> response + string"
where
  "write_plan quote os constraints args w =
     (if ffw_Path args = '''' then Inl (DeniedResponse ''path is required'')
      else if IsAbs (ffw_Path args) then Inl (DeniedResponse ''absolute paths are not allowed'')
      else if containsDotDot (ffw_Path args)
      then Inl (DeniedResponse ''path traversal via '..' is not allowed'')
      else let scope = getPathPrefixFromConstraints constraints in
        if scope = '''' then Inl (DeniedResponse ''no filesystem write scope configured for this agent'')
        else let target = Join2 scope (ffw_Path args); clean = Clean target in
          if \<not> HasPrefix clean (Clean scope @ [slash]) \<and> clean \<noteq> Clean scope
          then Inl (DeniedResponse (''path '' @ quote (ffw_Path args) @ '' is outside allowed scope''))
          else (case checkNoSymlinkEscape quote os w scope clean of
              Some e \<Rightarrow> Inl (DeniedResponse (''filesystem security violation: '' @ error_text e))
            | None \<Rightarrow> Inr clean))"

definition FilesystemFileWrite_Execute ::
  "(string \<Rightarrow> string) \<Rightarrow> ('w, 'h) os_fs \<Rightarrow> scope_constraint list \<Rightarrow> request \<Rightarrow> 'w
     \<Rightarrow> (response \<times> go_error option) \<times> 'w"
where
  "FilesystemFileWrite_Execute quote os constraints req w =
     (case fst (Filesystem_File_Write_UnmarshalMUS (bytes_NewReader (rq_Args req))) of
        Err e \<Rightarrow> ((DeniedResponse (''args schema mismatch: '' @ error_text e), None), w)
      | Panic m \<Rightarrow> ((DeniedResponse m, None), w)
      | Val args \<Rightarrow>
          (case write_plan quote os constraints args w of
             Inl denied \<Rightarrow> ((denied, None), w)
           | Inr clean \<Rightarrow>
               (case os_MkdirAll os (Dir clean) w of
                  (Some e, w) \<Rightarrow> ((fs_error e, None), w)
                | (None, w) \<Rightarrow>
                    let flags = (if ffw_Append args then O_APPEND else O_TRUNC) in
                    (case os_OpenFile os clean flags w of
                       (Inl e, w) \<Rightarrow> ((fs_error e, None), w)
                     | (Inr fobj, w) \<Rightarrow>
                         (case os_WriteString os fobj (ffw_Content args) w of
                            ((n, Some e), w) \<Rightarrow> ((fs_error e, None), os_Close os fobj w)
                          | ((n, None), w) \<Rightarrow>
                              let result = \<lparr>ffr_Path = clean, ffr_BytesWritten = of_nat n\<rparr>
                              in ((\<lparr>rs_OK = True, rs_Data = Filesystem_File_Write_Result_MarshalMUS result,
                                    rs_ErrorCode = '''', rs_ErrorDetail = ''''\<rparr>, None),
                                  os_Close os fobj w))))))"

text \<open>The capability, as keeperd registers it; \<open>schema\<close> is the generated schema text.\<close>

definition FilesystemFileWrite ::
  "(string \<Rightarrow> string) \<Rightarrow> ('w, 'h) os_fs \<Rightarrow> string \<Rightarrow> 'w capability"
where
  "FilesystemFileWrite quote os schema =
     \<lparr>c_Name = ''Filesystem_File_Write'', c_Explain = schema, c_AuditPayload = True,
      c_Execute = FilesystemFileWrite_Execute quote os\<rparr>"

subsection \<open>Containment\<close>

lemma containsDotDot_iff: "containsDotDot p \<longleftrightarrow> ''..'' \<in> set (split_on slash p)"
  by (auto simp: containsDotDot_def list_ex_iff)

text \<open>
  The relative path of a component list under the scope, and the paths the walk visits:
  the scope extended one component at a time.
\<close>

definition walk_path :: "string \<Rightarrow> string list \<Rightarrow> string" where
  "walk_path scope cs = render_path (is_rooted scope) (comps scope @ cs)"

definition real_part :: "string \<Rightarrow> bool" where
  "real_part c \<longleftrightarrow> plain c \<and> c \<noteq> ''.'' \<and> c \<noteq> ''..''"

lemma normal_append: "normal r cs \<Longrightarrow> \<forall>d\<in>set ds. real_part d \<Longrightarrow> normal r (cs @ ds)"
  by (fastforce simp: normal_def real_part_def)

lemma walk_path_props:
  assumes "\<forall>c\<in>set cs. real_part c"
  shows "is_rooted (walk_path scope cs) = is_rooted scope" and "comps (walk_path scope cs) = comps scope @ cs"
    and "Clean (walk_path scope cs) = walk_path scope cs"
proof -
  have n: "normal (is_rooted scope) (comps scope @ cs)"
    using assms comps_normal by (rule normal_append [rotated])
  then show r: "is_rooted (walk_path scope cs) = is_rooted scope"
    and c: "comps (walk_path scope cs) = comps scope @ cs"
    by (simp_all add: walk_path_def comps_render)
  have "Clean (walk_path scope cs) = Clean (Clean (walk_path scope cs))"
    by simp
  show "Clean (walk_path scope cs) = walk_path scope cs"
  proof (cases "walk_path scope cs = ''''")
    case True
    then have "comps scope @ cs = []" and "\<not> is_rooted scope"
      using r c by auto
    then show ?thesis by (simp add: walk_path_def render_path_def Clean_def)
  next
    case False
    then show ?thesis
      using r c by (simp add: Clean_def) (simp add: walk_path_def)
  qed
qed

lemma Join2_walk:
  assumes "scope \<noteq> ''''" and "\<forall>c\<in>set cs. real_part c" and "real_part c"
  shows "Join2 (walk_path scope cs) c = walk_path scope (cs @ [c])"
    and "Join2 scope c = walk_path scope [c]"
proof -
  have sp: "split_on slash c = [c]" "rel_parts c = [c]" "''..'' \<notin> set (split_on slash c)"
    using assms(3) by (auto simp: real_part_def plain_def rel_parts_def split_on_plain)
  have j: "Join2 a c = render_path (is_rooted a) (comps a @ [c])" if "a \<noteq> ''''" for a
  proof -
    have "Join2 a c = Clean (Join2 a c)"
      using that by simp
    also have "\<dots> = render_path (is_rooted a) (comps a @ [c])"
      using Join2_under [OF that sp(3)] sp(2) that
      by (metis Clean_def Clean_nonempty Join2_def)
    finally show ?thesis .
  qed
  have "walk_path scope cs \<noteq> ''''"
    using walk_path_props(3) [OF assms(2), of scope] Clean_nonempty by metis
  from j [OF this] show "Join2 (walk_path scope cs) c = walk_path scope (cs @ [c])"
    using walk_path_props [OF assms(2), of scope] by (simp add: walk_path_def)
  show "Join2 scope c = walk_path scope [c]"
    using j [OF assms(1)] by (simp add: walk_path_def)
qed

text \<open>
  What a completed walk has checked: for every prefix of the remaining components that exists
  together with all shorter ones, a symbolic link there resolves to a path under the scope.
\<close>

definition link_ok :: "('w, 'h) os_fs \<Rightarrow> 'w \<Rightarrow> string \<Rightarrow> string \<Rightarrow> bool" where
  "link_ok os w scope p \<longleftrightarrow> (os_Lstat os p w = Exists True \<longrightarrow>
     (\<exists>q. os_EvalSymlinks os p w = Inr q \<and> under_scope scope q))"

definition exists_at :: "('w, 'h) os_fs \<Rightarrow> 'w \<Rightarrow> string \<Rightarrow> bool" where
  "exists_at os w p \<longleftrightarrow> (\<exists>s. os_Lstat os p w = Exists s)"

lemma symlink_walk_sound:
  assumes "symlink_walk quote os w scope cur ps = None" and "scope \<noteq> ''''"
    and "\<forall>c\<in>set cs. real_part c" and "\<forall>c\<in>set ps. real_part c"
    and "cur = walk_path scope cs \<or> cur = scope \<and> cs = []"
    and "n < length ps"
    and "\<forall>k\<le>n. exists_at os w (walk_path scope (cs @ take (Suc k) ps))"
  shows "link_ok os w scope (walk_path scope (cs @ take (Suc n) ps))"
  using assms
proof (induction ps arbitrary: cur cs n)
  case Nil
  then show ?case by simp
next
  case (Cons p ps)
  let ?cur = "Join2 cur p"
  have cur: "?cur = walk_path scope (cs @ [p])"
    using Cons.prems Join2_walk [of scope cs p] by auto
  from Cons.prems(7) have "exists_at os w ?cur"
    unfolding cur by (drule_tac x = 0 in spec) simp
  then obtain link where link: "os_Lstat os ?cur w = Exists link"
    by (auto simp: exists_at_def)
  with Cons.prems(1) have rest: "symlink_walk quote os w scope ?cur ps = None"
    and here: "link_ok os w scope ?cur"
    by (auto simp: Let_def link_ok_def under_scope_def split: if_splits sum.splits)
  show ?case
  proof (cases n)
    case 0
    with here cur show ?thesis by simp
  next
    case (Suc m)
    have "link_ok os w scope (walk_path scope ((cs @ [p]) @ take (Suc m) ps))"
    proof (rule Cons.IH [OF rest])
      show "\<forall>k\<le>m. exists_at os w (walk_path scope ((cs @ [p]) @ take (Suc k) ps))"
        using Cons.prems(7) Suc by (auto dest!: spec [of _ "Suc k" for k])
    qed (use Cons.prems Suc cur in auto)
    with Suc show ?thesis by simp
  qed
qed

lemma rel_comps_append: "rel_comps bs (bs @ cs) = Some cs"
  by (induction bs) auto

lemma rel_parts_real: "''..'' \<notin> set (split_on slash p) \<Longrightarrow> \<forall>c\<in>set (rel_parts p). real_part c"
  by (auto simp: rel_parts_def real_part_def plain_def dest: split_on_no_sep)

text \<open>What a granted write has been checked for.\<close>

lemma write_plan_ok:
  assumes "write_plan quote os constraints args w = Inr clean"
  defines "scope \<equiv> getPathPrefixFromConstraints constraints"
    and "parts \<equiv> rel_parts (ffw_Path args)"
  shows "scope \<noteq> ''''" and "\<not> containsDotDot (ffw_Path args)" and "\<not> IsAbs (ffw_Path args)"
    and "clean = walk_path scope parts"
    and "\<forall>c\<in>set parts. real_part c"
    and "under_scope scope clean"
    and "checkNoSymlinkEscape quote os w scope clean = None"
proof -
  from assms(1) show sc: "scope \<noteq> ''''" and dd: "\<not> containsDotDot (ffw_Path args)"
    and "\<not> IsAbs (ffw_Path args)" and "under_scope scope clean"
    and "checkNoSymlinkEscape quote os w scope clean = None"
    by (auto simp: write_plan_def scope_def Let_def under_scope_def split: if_splits option.splits)
  from assms(1) have cl: "clean = Clean (Join2 scope (ffw_Path args))"
    by (auto simp: write_plan_def scope_def Let_def split: if_splits option.splits)
  from dd have dd': "''..'' \<notin> set (split_on slash (ffw_Path args))"
    by (simp add: containsDotDot_iff)
  show "\<forall>c\<in>set parts. real_part c"
    unfolding parts_def by (rule rel_parts_real [OF dd'])
  show "clean = walk_path scope parts"
    using Join2_under [OF sc dd'] cl sc
    by (metis Clean_def Clean_Join2 Clean_nonempty parts_def walk_path_def)
qed

lemma write_plan_links:
  assumes "write_plan quote os constraints args w = Inr clean"
    and "n < length (rel_parts (ffw_Path args))"
  defines "scope \<equiv> getPathPrefixFromConstraints constraints"
    and "parts \<equiv> rel_parts (ffw_Path args)"
  assumes "\<forall>k\<le>n. exists_at os w (walk_path scope (take (Suc k) parts))"
  shows "link_ok os w scope (walk_path scope (take (Suc n) parts))"
proof -
  note pl = write_plan_ok [OF assms(1), folded scope_def parts_def]
  have ne: "parts \<noteq> []"
    using assms(2) by (auto simp: parts_def)
  have real: "\<forall>c\<in>set parts. slash \<notin> set c"
    using pl(5) by (auto simp: real_part_def plain_def)
  note wp = walk_path_props [OF pl(5), of scope]
  have "Clean scope \<noteq> clean"
    using pl(4) wp(2) ne by (metis append_self_conv comps_Clean)
  then have "Rel scope clean = Inr (join_with slash parts)"
    using pl(4) wp by (simp add: Rel_def Let_def rel_comps_append)
  then have "symlink_walk quote os w scope scope parts = None"
    using pl(7) ne real by (simp add: checkNoSymlinkEscape_def split_on_join)
  from symlink_walk_sound [OF this pl(1) _ pl(5), of "[]" n] assms(2,5) show ?thesis
    by (simp add: parts_def)
qed

subsection \<open>Effects\<close>

lemma Execute_no_plan:
  assumes "\<And>args. fst (Filesystem_File_Write_UnmarshalMUS (bytes_NewReader (rq_Args req))) = Val args
      \<Longrightarrow> \<exists>d. write_plan quote os cs args w = Inl d"
  shows "snd (FilesystemFileWrite_Execute quote os cs req w) = w
    \<and> \<not> rs_OK (fst (fst (FilesystemFileWrite_Execute quote os cs req w)))"
proof -
  have "write_plan quote os cs args w = Inl d \<Longrightarrow> \<not> rs_OK d" for args d
    by (auto simp: write_plan_def Let_def DeniedResponse_def split: if_splits option.splits)
  with assms show ?thesis
    by (fastforce simp: FilesystemFileWrite_Execute_def DeniedResponse_def split: outcome.splits sum.splits)
qed

text \<open>
  A scope that cleans to the root, or to the current directory, admits nothing below itself:
  the test appends a separator to \<open>/\<close> or to \<open>.\<close>.
\<close>

lemma no_double_slash: "Clean s = slash # slash # t \<Longrightarrow> False"
proof -
  assume a: "Clean s = slash # slash # t"
  then have "is_rooted s"
    by (metis is_rooted_Clean is_rooted_Cons(1))
  then have j: "join_with slash (comps s) = slash # t"
    using a by (auto simp: Clean_def render_path_def split: if_splits)
  then have "comps s \<noteq> []"
    by (cases "comps s") auto
  with j is_rooted_join [of "comps s"] comps_plain [of _ s] show False
    by auto
qed

lemma root_scope_denies:
  assumes "Clean (getPathPrefixFromConstraints constraints) = ''/''"
    and "write_plan quote os constraints args w = Inr clean"
  shows "clean = ''/''"
proof -
  note pl = write_plan_ok [OF assms(2)]
  have cl: "Clean clean = clean"
    using pl(4) walk_path_props(3) [OF pl(5)] by simp
  from pl(6) assms(1) consider t where "clean = ''/'' @ ''/'' @ t" | "clean = ''/''"
    by (auto simp: under_scope_def HasPrefix_iff)
  then show ?thesis
  proof cases
    case 1
    with cl no_double_slash [of clean t] show ?thesis by simp
  qed
qed

subsection \<open>Properties\<close>


text \<open>
  C10: When a write is let through, every prefix of the path below the scope whose components all
  exist has been looked at, and one that is a symbolic link resolves to the scope or a path
  under it.
\<close>

theorem file_write_follows_no_escaping_link:
  assumes "write_plan quote os cs args w = Inr clean"
    and "n < length (rel_parts (ffw_Path args))" and "scope = getPathPrefixFromConstraints cs"
    and "\<forall>k\<le>n. exists_at os w (walk_path scope (take (Suc k) (rel_parts (ffw_Path args))))"
    and "os_Lstat os (walk_path scope (take (Suc n) (rel_parts (ffw_Path args)))) w = Exists True"
  shows "\<exists>q. os_EvalSymlinks os (walk_path scope (take (Suc n) (rel_parts (ffw_Path args)))) w = Inr q
    \<and> under_scope scope q"
  using write_plan_links [OF assms(1,2)] assms(3-) by (simp add: link_ok_def)

text \<open>A file system of plain files and symbolic links, to run the capability on.\<close>

record demo_fs =
  df_files :: "string \<rightharpoonup> string"
  df_links :: "string \<rightharpoonup> string"

definition demo_os :: "(demo_fs, string) os_fs" where
  "demo_os = \<lparr>os_Lstat = (\<lambda>p w. if df_links w p \<noteq> None then Exists True
                               else if df_files w p \<noteq> None then Exists False else NotExist),
     os_EvalSymlinks = (\<lambda>p w. case df_links w p of None \<Rightarrow> Inl EOF | Some q \<Rightarrow> Inr q),
     os_MkdirAll = (\<lambda>p w. (None, w)),
     os_OpenFile = (\<lambda>p m w. (Inr p, case (m, df_files w p) of (O_APPEND, Some c) \<Rightarrow> w
                                  | _ \<Rightarrow> w\<lparr>df_files := (df_files w)(p \<mapsto> '''')\<rparr>)),
     os_WriteString = (\<lambda>h s w. ((length s, None),
        w\<lparr>df_files := (df_files w)(h \<mapsto> (case df_files w h of None \<Rightarrow> s | Some c \<Rightarrow> c @ s))\<rparr>)),
     os_Close = (\<lambda>h w. w)\<rparr>"

definition demo_scope :: "scope_constraint list" where
  "demo_scope = [\<lparr>sc_Entity = ''File'', sc_Constraints = [''path-prefix'' \<mapsto> [''/out/'']]\<rparr>]"

definition demo_request :: "Filesystem_File_Write \<Rightarrow> request" where
  "demo_request args = \<lparr>rq_Name = ''Filesystem_File_Write'', rq_AgentID = ''a'', rq_SeqNo = 1,
     rq_Args = Filesystem_File_Write_MarshalMUS args\<rparr>"

definition demo_args :: Filesystem_File_Write where
  "demo_args = \<lparr>ffw_Path = ''d/./n'', ffw_Content = ''hi'', ffw_Append = False, ffw_Encoding = ''''\<rparr>"

definition demo_world :: demo_fs where
  "demo_world = \<lparr>df_files = Map.empty, df_links = [''/out/d'' \<mapsto> ''/out/e'']\<rparr>"

lemmas demo_defs = demo_os_def demo_scope_def demo_args_def demo_world_def

lemma demo_plan: "write_plan id demo_os demo_scope demo_args demo_world = Inr ''/out/d/n''"
  by (simp add: demo_defs write_plan_def IsAbs_def containsDotDot_def Join2_def Clean_def comps_def
      render_path_def HasPrefix_def checkNoSymlinkEscape_def Rel_def Let_def)

lemma demo_decode:
  "fst (Filesystem_File_Write_UnmarshalMUS (bytes_NewReader (rq_Args (demo_request demo_args)))) = Val demo_args"
  by (simp add: demo_request_def file_write.dec_NewReader demo_args_def ffw_wf_def MaxPayloadBytes_def)

lemma demo_execute:
  "FilesystemFileWrite_Execute id demo_os demo_scope (demo_request demo_args) demo_world
    = ((\<lparr>rs_OK = True, rs_Data = Filesystem_File_Write_Result_MarshalMUS \<lparr>ffr_Path = ''/out/d/n'', ffr_BytesWritten = 2\<rparr>,
         rs_ErrorCode = '''', rs_ErrorDetail = ''''\<rparr>, None),
       demo_world\<lparr>df_files := [''/out/d/n'' \<mapsto> ''hi'']\<rparr>)"
  unfolding FilesystemFileWrite_Execute_def demo_decode
  by (simp add: demo_plan) (simp add: demo_defs)


theorem file_write_follows_no_escaping_link_witness:
  "\<exists>q. os_EvalSymlinks demo_os (walk_path ''/out/'' (take (Suc 0) (rel_parts (ffw_Path demo_args)))) demo_world = Inr q
    \<and> under_scope ''/out/'' q"
  by (rule file_write_follows_no_escaping_link [OF demo_plan])
    (auto simp: demo_defs rel_parts_def exists_at_def walk_path_def render_path_def comps_def)

text \<open>A response that carries \<open>capability_denied\<close> has had no effect.\<close>

lemma Execute_denied:
  assumes "FilesystemFileWrite_Execute quote os cs req w = ((resp, err), w')"
    and "rs_ErrorCode resp = ''capability_denied''"
  shows "w' = w"
  using assms
  by (auto simp: FilesystemFileWrite_Execute_def fs_error_def Let_def
      split: outcome.splits sum.splits prod.splits option.splits)

end
