(* ===== verification/Keeperd.thy ===== *)
theory Keeperd
  imports Provisioning Filesystem
begin

text \<open>
  The control socket of keeperd and its start (\<open>cmd/keeperd/main.go\<close>).

  A connection is the record of what its handler keeps: the channel events are pushed to it on, its
  own sequence numbers, the bytes written to it.  The handler's loop is a step per frame read, and
  the push goroutine a step per frame taken off the channel; both may move at any time.  \<open>ids\<close> are
  the keys of the agents' map, in the order Go visits them.
\<close>

subsection \<open>Status\<close>

definition format_rfc3339 :: "instant \<Rightarrow> string" where
  "format_rfc3339 t = format_seconds (t div 1000000000) @ ''Z''"

definition agent_status :: "'f env \<Rightarrow> 'f agent_state \<Rightarrow> AgentStatus" where
  "agent_status env a =
     \<lparr>as_ID = ag_id a,
      as_State = (if ag_pipe a then ''running'' else ''idle''),
      as_LastPromptSeq = ag_lastPromptSeq a,
      as_LastEventAt = (if ag_lastEventAt a \<noteq> zero_time then format_rfc3339 (ag_lastEventAt a) else ''''),
      as_LastOutcome = ag_lastOutcome a,
      as_LastFailureDetail = ag_lastFailureDetail a,
      as_Model = ag_model a,
      as_InputTokens = ag_inputTokens a,
      as_OutputTokens = ag_outputTokens a,
      as_CostUSD = (if ag_costUSD a \<noteq> en_zero env then en_sprintf env (ag_costUSD a) else ''''),
      as_ToolCalls = ag_toolCalls a\<rparr>"

definition buildAgentStatusList :: "'f env \<Rightarrow> string list \<Rightarrow> ('h, 'f) daemon \<Rightarrow> AgentStatus list" where
  "buildAgentStatusList env ids d = map (agent_status env) (List.map_filter (dm_agents d) ids)"

definition daemonVersion :: string where
  "daemonVersion = ''0.1.0-dev''"

definition buildStatus :: "'f env \<Rightarrow> string list \<Rightarrow> instant \<Rightarrow> ('h, 'f) daemon \<Rightarrow> bytes" where
  "buildStatus env ids now d =
     StatusPayload_MarshalMUS \<lparr>sp_DaemonVersion = daemonVersion,
       sp_UptimeSeconds = of_int ((now - dm_startedAt d) div 1000000000),
       sp_Agents = buildAgentStatusList env ids d\<rparr>"

definition buildAgentList :: "'f env \<Rightarrow> string list \<Rightarrow> ('h, 'f) daemon \<Rightarrow> bytes" where
  "buildAgentList env ids d = AgentListPayload_MarshalMUS \<lparr>alp_Agents = buildAgentStatusList env ids d\<rparr>"

definition errorPayload :: "go_error \<Rightarrow> bytes" where
  "errorPayload err = AppendString ([] @ [0]) (error_text err)"

subsection \<open>Requests\<close>

definition set_lastPromptSeq :: "string \<Rightarrow> u64 \<Rightarrow> ('h, 'f) daemon \<Rightarrow> ('h, 'f) daemon" where
  "set_lastPromptSeq agentID seq d =
     (case dm_agents d agentID of
        None \<Rightarrow> d
      | Some a \<Rightarrow> d\<lparr>dm_agents := (dm_agents d)(agentID \<mapsto> a\<lparr>ag_lastPromptSeq := seq\<rparr>)\<rparr>)"

definition dispatchPrompt ::
  "'f env \<Rightarrow> bytes \<Rightarrow> ('h, 'f) daemon \<Rightarrow> (go_error option \<times> ('h, 'f) daemon) outcome"
where
  "dispatchPrompt env payload d =
     (case fst (PromptPayload_UnmarshalMUS (bytes_NewReader payload)) of
        Panic m \<Rightarrow> Panic m
      | Err err \<Rightarrow> Val (Some (Wrap ''invalid PromptPayload: '' err), d)
      | Val req \<Rightarrow>
          (case dm_agents d (pp_AgentID req) of
             None \<Rightarrow> Val (Some (OtherError (''agent '' @ en_quote env (pp_AgentID req) @ '' not found'')), d)
           | Some agent \<Rightarrow>
               if \<not> ag_pipe agent
               then Val (Some (OtherError (''agent '' @ en_quote env (pp_AgentID req)
                           @ '' has no active pipe (not yet spawned)'')), d)
               else
                 let d = set_lastPromptSeq (pp_AgentID req) (pp_Seq req) d;
                     (n, d) = next_seq d
                 in (case daemon_send env (pp_AgentID req) (keeper_header MsgType_CtlPrompt (pp_AgentID req) n) payload d of
                       (Some err, d) \<Rightarrow>
                         Val (Some (Wrap (''forward prompt to agent '' @ en_quote env (pp_AgentID req) @ '': '') err), d)
                     | (None, d) \<Rightarrow> Val (None, d))))"

definition reply_of :: "go_error option \<Rightarrow> bytes" where
  "reply_of err = (case err of Some e \<Rightarrow> errorPayload e | None \<Rightarrow> [1])"

text \<open>The response's type and payload; type 0 stands for no response.\<close>

definition dispatchCtl ::
  "'f env \<Rightarrow> 'h provision_ops \<Rightarrow> string list \<Rightarrow> instant \<Rightarrow> swarm_header \<Rightarrow> bytes \<Rightarrow> ('h, 'f) daemon
     \<Rightarrow> ((MsgType \<times> bytes) \<times> ('h, 'f) daemon) outcome"
where
  "dispatchCtl env pv ids now hdr payload d =
     (let t = h_Type hdr; r = bytes_NewReader payload in
      if t = MsgType_CtlStatus then Val ((t, buildStatus env ids now d), d)
      else if t = MsgType_CtlAgentList then Val ((t, buildAgentList env ids d), d)
      else if t = MsgType_CtlAgentCreate then
        (case fst (AgentCreatePayload_UnmarshalMUS r) of
           Panic m \<Rightarrow> Panic m
         | Err err \<Rightarrow> Val ((0, errorPayload err), d)
         | Val req \<Rightarrow> (case agentCreate env pv now req d of (err, d) \<Rightarrow> Val ((t, reply_of err), d)))
      else if t = MsgType_CtlAgentDestroy then
        (case fst (AgentDestroyPayload_UnmarshalMUS r) of
           Panic m \<Rightarrow> Panic m
         | Err err \<Rightarrow> Val ((0, errorPayload err), d)
         | Val req \<Rightarrow> (case agentDestroy env pv req d of (err, d) \<Rightarrow> Val ((t, reply_of err), d)))
      else if t = MsgType_CtlPrompt then
        (case dispatchPrompt env payload d of
           Panic m \<Rightarrow> Panic m
         | Err e \<Rightarrow> Err e
         | Val (err, d) \<Rightarrow> Val ((t, reply_of err), d))
      else if t = MsgType_Ping then Val ((MsgType_Pong, []), d)
      else if t = MsgType_CtlApproval then
        Val ((t, errorPayload (OtherError ''approval gate not yet implemented (Phase 2)'')), d)
      else Val ((0, []), d))"

subsection \<open>Connections\<close>

record ctl_conn =
  cn_pushCh :: nat
  cn_subscribed :: bool
  cn_seqOut :: seq_counter
  cn_out :: writer

datatype conn_move = Close | Continue

definition new_ctl_conn :: "nat \<Rightarrow> writer \<Rightarrow> ctl_conn" where
  "new_ctl_conn ch w = \<lparr>cn_pushCh = ch, cn_subscribed = False, cn_seqOut = \<lparr>sc_n = 0\<rparr>, cn_out = w\<rparr>"

definition conn_write :: "MsgType \<Rightarrow> bytes \<Rightarrow> ctl_conn \<Rightarrow> go_error option \<times> ctl_conn" where
  "conn_write t payload c =
     (case SeqCounter_Next (cn_seqOut c) of (n, s) \<Rightarrow>
        (case WriteFrame (cn_out c) (keeper_header t CtlIdentity n) payload of
           (err, w) \<Rightarrow> (err, c\<lparr>cn_seqOut := s, cn_out := w\<rparr>)))"

definition subscribe :: "nat \<Rightarrow> ('h, 'f) daemon \<Rightarrow> ('h, 'f) daemon" where
  "subscribe ch d = d\<lparr>dm_ctlSubs := dm_ctlSubs d @ [ch]\<rparr>"

text \<open>The deferred deregistration: the first entry with the channel goes.\<close>

definition unsubscribe :: "nat \<Rightarrow> ('h, 'f) daemon \<Rightarrow> ('h, 'f) daemon" where
  "unsubscribe ch d = d\<lparr>dm_ctlSubs := remove1 ch (dm_ctlSubs d)\<rparr>"

text \<open>What the handler does with one frame it has read.\<close>

definition conn_frame ::
  "'f env \<Rightarrow> 'h provision_ops \<Rightarrow> string list \<Rightarrow> instant \<Rightarrow> swarm_header \<Rightarrow> bytes \<Rightarrow> ctl_conn \<times> ('h, 'f) daemon
     \<Rightarrow> (conn_move \<times> ctl_conn \<times> ('h, 'f) daemon) outcome"
where
  "conn_frame env pv ids now hdr payload = (\<lambda>(c, d).
     if h_FromID hdr \<noteq> CtlIdentity then Val (Close, c, d)
     else
       let d = audit_row now hdr (stored_payload payload) d in
       if h_Type hdr = MsgType_CtlSubscribe \<and> \<not> cn_subscribed c then
         let c = c\<lparr>cn_subscribed := True\<rparr>;
             d = subscribe (cn_pushCh c) d;
             (_, c) = conn_write MsgType_CtlSubscribe [1] c
         in Val (Continue, c, d)
       else
         (case dispatchCtl env pv ids now hdr payload d of
            Panic m \<Rightarrow> Panic m
          | Err e \<Rightarrow> Err e
          | Val ((t, respPayload), d) \<Rightarrow>
              if t = 0 then Val (Continue, c, d)
              else (case conn_write t respPayload c of
                  (Some err, c) \<Rightarrow> Val (Close, c, d)
                | (None, c) \<Rightarrow> Val (Continue, c, d))))"

definition conn_push :: "ctl_conn \<times> ('h, 'f) daemon \<Rightarrow> conn_move \<times> ctl_conn \<times> ('h, 'f) daemon" where
  "conn_push = (\<lambda>(c, d).
     case dm_chans d (cn_pushCh c) of
       [] \<Rightarrow> (Continue, c, d)
     | f # fs \<Rightarrow>
         let d = d\<lparr>dm_chans := (dm_chans d)(cn_pushCh c := fs)\<rparr> in
         (case conn_write (h_Type (f_Header f)) (f_Payload f) c of
            (Some err, c) \<Rightarrow> (Close, c, d)
          | (None, c) \<Rightarrow> (Continue, c, d)))"

definition conn_close :: "ctl_conn \<Rightarrow> ('h, 'f) daemon \<Rightarrow> ('h, 'f) daemon" where
  "conn_close c d = (if cn_subscribed c then unsubscribe (cn_pushCh c) d else d)"

subsection \<open>Start\<close>

text \<open>The browser manager and the machine as the state capabilities run on.\<close>

definition manager_proxy :: "'h net_ops \<Rightarrow> 'h page_reader \<Rightarrow> 'h cap_world chrome_proxy" where
  "manager_proxy net reader agentID targetURL policy waitFor maxChars timeout = (\<lambda>(mgr, h).
     case mgr of
       None \<Rightarrow> (Inl (OtherError ''no browser manager''), (None, h))
     | Some m \<Rightarrow>
         (case Manager_ReadPage net reader agentID targetURL policy waitFor maxChars (m, h) of
            (r, m, h) \<Rightarrow> (r, (Some m, h))))"

definition lift_os :: "('h, 'fd) os_fs \<Rightarrow> ('h cap_world, 'fd) os_fs" where
  "lift_os os =
     \<lparr>os_Lstat = (\<lambda>p (m, h). os_Lstat os p h),
      os_EvalSymlinks = (\<lambda>p (m, h). os_EvalSymlinks os p h),
      os_MkdirAll = (\<lambda>p (m, h). case os_MkdirAll os p h of (r, h) \<Rightarrow> (r, (m, h))),
      os_OpenFile = (\<lambda>p mode (m, h). case os_OpenFile os p mode h of (r, h) \<Rightarrow> (r, (m, h))),
      os_WriteString = (\<lambda>fd s (m, h). case os_WriteString os fd s h of (r, h) \<Rightarrow> (r, (m, h))),
      os_Close = (\<lambda>fd (m, h). (m, os_Close os fd h))\<rparr>"

definition main_registry ::
  "(string \<Rightarrow> string) \<Rightarrow> (string \<Rightarrow> go_error + url) \<Rightarrow> 'h net_ops \<Rightarrow> 'h page_reader \<Rightarrow> ('h, 'fd) os_fs
     \<Rightarrow> string \<Rightarrow> string \<Rightarrow> 'h cap_world registry outcome"
where
  "main_registry quote url_Parse net reader os pageSchema fileSchema =
     (case Registry_Register (BrowserPageRead quote url_Parse (Some (manager_proxy net reader)) pageSchema) NewRegistry of
        Val reg \<Rightarrow> Registry_Register (FilesystemFileWrite quote (lift_os os) fileSchema) reg
      | Err e \<Rightarrow> Err e
      | Panic m \<Rightarrow> Panic m)"

text \<open>\<open>proxyHost\<close> is what the configuration or the interfaces give, empty when neither does.\<close>

definition main_daemon ::
  "OrchestratorConfig \<Rightarrow> audit_db \<Rightarrow> 'h cap_world registry \<Rightarrow> 'h chromed_client \<Rightarrow> go_error + net_iface list
     \<Rightarrow> instant \<Rightarrow> 'h \<Rightarrow> ('h, 'f) daemon"
where
  "main_daemon cfg db reg client ifaces now h =
     (let proxyHost = (if oc_ChromeProxyServer cfg = ''''
                       then (case detectAdvertiseHost ifaces of Inl err \<Rightarrow> '''' | Inr ip \<Rightarrow> ip)
                       else oc_ChromeProxyServer cfg);
          proxyAlloc = (if proxyHost \<noteq> '''' then Some (newProxyAllocator proxyHost) else None)
      in \<lparr>dm_cfg = cfg, dm_auditDB = db, dm_dispatcher = NewDispatcher reg, dm_router = NewRouter,
          dm_browserMgr = Some (newBrowserManager (Some client) proxyAlloc), dm_seqOut = \<lparr>sc_n = 0\<rparr>,
          dm_agents = Map.empty, dm_startedAt = now, dm_ctlSubs = [], dm_chans = (\<lambda>_. []), dm_host = h\<rparr>)"

subsection \<open>Telemetry\<close>

lemma fold_offer:
  assumes "distinct subs"
  shows "fold (offer f) subs chans =
    (\<lambda>ch. if ch \<in> set subs \<and> length (chans ch) < chan_cap then chans ch @ [f] else chans ch)"
  using assms
proof (induction subs arbitrary: chans)
  case (Cons s subs)
  from Cons.IH [of "offer f s chans"] Cons.prems show ?case
    by (auto simp: offer_def fun_eq_iff)
qed simp

lemma handleFrame_completion:
  assumes "h_Type (f_Header f) = MsgType_CompletionEvent" and "UnmarshalCompletion (en_sscanf env) (f_Payload f) = Val ev"
  shows "handleFrame env clk f d = Val (pushToCtlSubscribers f (updateAgentCompletionState (clk 1) ev
    (audit_row (clk 0) (f_Header f) (stored_payload (f_Payload f)) d)))"
  using assms
  by (simp add: handleFrame_def auditFrame_def shouldAuditPayload_def handleCompletionEvent_def MsgType_defs)

text \<open>
  A completion event that decodes is recorded in the state of the agent its payload names and
  forwarded, once, to every subscribed control connection whose queue has room; a full queue drops
  it, and no other queue changes.
\<close>

theorem completion_reaches_subscribers:
  assumes "h_Type (f_Header f) = MsgType_CompletionEvent" and "UnmarshalCompletion (en_sscanf env) (f_Payload f) = Val ev"
    and "dm_agents d (cep_AgentID ev) = Some a" and "distinct (dm_ctlSubs d)"
  shows "\<exists>d'. handleFrame env clk f d = Val d'
    \<and> dm_agents d' = (dm_agents d)(cep_AgentID ev \<mapsto>
        a\<lparr>ag_lastEventAt := clk 1, ag_lastOutcome := cep_Outcome ev, ag_model := cep_Model ev,
          ag_inputTokens := cep_InputTokens ev, ag_outputTokens := cep_OutputTokens ev, ag_costUSD := cep_CostUSD ev,
          ag_toolCalls := cep_ToolCalls ev, ag_lastFailureDetail := ''''\<rparr>)
    \<and> dm_chans d' = (\<lambda>ch. if ch \<in> set (dm_ctlSubs d) \<and> length (dm_chans d ch) < 64
                          then dm_chans d ch @ [f] else dm_chans d ch)"
  using assms(3,4)
  by (simp add: handleFrame_completion [OF assms(1,2)] pushToCtlSubscribers_def updateAgentCompletionState_def
      fold_offer chan_cap_def)

text \<open>Agent \<open>b\<close> reports the completion of a prompt of agent \<open>a\<close>.\<close>

definition demo_completion :: "nat CompletionEventPayload" where
  "demo_completion = \<lparr>cep_AgentID = ''a'', cep_PromptSeq = 1, cep_Model = ''m'', cep_InputTokens = 2,
     cep_OutputTokens = 3, cep_CostUSD = 0, cep_Outcome = ''success'', cep_ToolCalls = 4\<rparr>"

definition demo_spoof :: frame where
  "demo_spoof = \<lparr>f_Header = \<lparr>h_Version = 1, h_Type = MsgType_CompletionEvent, h_FromID = ''b'', h_ToID = '''', h_SeqNo = 1,
     h_PayloadLen = 0\<rparr>, f_Payload = CompletionEventPayload_MarshalMUS show_nat demo_completion\<rparr>"

definition demo_two :: "(nat, nat) daemon" where
  "demo_two = demo_daemon\<lparr>dm_agents := [''a'' \<mapsto> new_agent_state demo_env ''a'', ''b'' \<mapsto> new_agent_state demo_env ''b''],
     dm_ctlSubs := [0]\<rparr>"

theorem completion_reaches_subscribers_witness:
  "\<exists>d' a. handleFrame demo_env (\<lambda>_. 0) demo_spoof demo_two = Val d' \<and> dm_agents d' ''a'' = Some a
    \<and> ag_lastOutcome a = ''success'' \<and> dm_chans d' 0 = [demo_spoof]"
proof -
  have t: "h_Type (f_Header demo_spoof) = MsgType_CompletionEvent"
    by (simp add: demo_spoof_def)
  have u: "UnmarshalCompletion (en_sscanf demo_env) (f_Payload demo_spoof) = Val demo_completion"
    using CompletionEvent_enc [of show_nat demo_completion "en_sscanf demo_env", where r = "bytes_NewReader []" and rest = "[]"]
    by (simp add: UnmarshalCompletion_def demo_spoof_def demo_completion_def cep_wf_def show_nat.simps demo_env_def
        bytes_NewReader_def)
  have a: "dm_agents demo_two (cep_AgentID demo_completion) = Some (new_agent_state demo_env ''a'')"
    "distinct (dm_ctlSubs demo_two)" "dm_ctlSubs demo_two = [0]" "dm_chans demo_two 0 = []"
    by (simp_all add: demo_two_def demo_completion_def demo_daemon_def)
  from completion_reaches_subscribers [OF t u a(1,2), of "\<lambda>_. 0"] a(3,4) show ?thesis
    by (auto simp: demo_completion_def)
qed

subsection \<open>Prompts\<close>

text \<open>
  A prompt for an agent that runs goes to that agent's pipe unchanged, as one frame of type
  \<open>CtlPrompt\<close> with keeperd's next sequence number, and its number is what the agent's status
  shows from then on; no other agent is written to and the request reports success.
\<close>

theorem prompt_reaches_its_agent:
  assumes "fst (PromptPayload_UnmarshalMUS (bytes_NewReader payload)) = Val req"
    and "dm_agents d (pp_AgentID req) = Some a" and "ag_pipe a"
    and "r_pipes (dm_router d) (pp_AgentID req) = Some p" and "w_room (p_Writer p) = None"
  shows "\<exists>d'. dispatchPrompt env payload d = Val (None, d')
    \<and> dm_agents d' = (dm_agents d)(pp_AgentID req \<mapsto> a\<lparr>ag_lastPromptSeq := pp_Seq req\<rparr>)
    \<and> r_pipes (dm_router d') = (r_pipes (dm_router d))(pp_AgentID req \<mapsto>
        p\<lparr>p_Writer := (p_Writer p)\<lparr>w_out := w_out (p_Writer p) @
            frame_bytes (keeper_header MsgType_CtlPrompt (pp_AgentID req) (sc_n (dm_seqOut d) + 1)) payload\<rparr>\<rparr>)"
proof -
  have "r_pipes (dm_router (snd (next_seq (set_lastPromptSeq (pp_AgentID req) (pp_Seq req) d)))) (pp_AgentID req) = Some p"
    using assms(2,4) by (simp add: next_seq_def set_lastPromptSeq_def SeqCounter_Next_def Let_def)
  from daemon_send_ok [OF this assms(5)] assms(1-4) show ?thesis
    by (simp add: dispatchPrompt_def send_ok_def next_seq_def set_lastPromptSeq_def SeqCounter_Next_def Let_def
        split: prod.splits)
qed

definition demo_prompted :: "(nat, nat) daemon" where
  "demo_prompted = demo_daemon\<lparr>dm_agents := [''a'' \<mapsto> (new_agent_state demo_env ''a'')\<lparr>ag_pipe := True\<rparr>],
     dm_router := AddPipe \<lparr>p_AgentID = ''a'', p_Reader = bytes_NewReader [], p_Writer = \<lparr>w_out = [], w_room = None, w_err = EOF\<rparr>,
       p_Limiter = None, p_lastSeqNo = 0\<rparr> NewRouter\<rparr>"

theorem prompt_reaches_its_agent_witness:
  "\<exists>payload d'. dispatchPrompt demo_env payload demo_prompted = Val (None, d')
    \<and> map_option ag_lastPromptSeq (dm_agents d' ''a'') = Some 7
    \<and> map_option (w_out \<circ> p_Writer) (r_pipes (dm_router d') ''a'')
        = Some (frame_bytes (keeper_header MsgType_CtlPrompt ''a'' 1) payload)"
proof -
  let ?req = "\<lparr>pp_AgentID = ''a'', pp_Seq = 7, pp_Text = ''hi''\<rparr>"
  let ?p = "\<lparr>p_AgentID = ''a'', p_Reader = bytes_NewReader [], p_Writer = \<lparr>w_out = [], w_room = None, w_err = EOF\<rparr>,
       p_Limiter = None, p_lastSeqNo = 0\<rparr>"
  have "fst (PromptPayload_UnmarshalMUS (bytes_NewReader (PromptPayload_MarshalMUS ?req))) = Val ?req"
    using prompt.dec_NewReader [of ?req] by (simp add: pp_wf_def MaxPayloadBytes_def)
  note dec = this
  have s: "dm_agents demo_prompted (pp_AgentID ?req) = Some ((new_agent_state demo_env ''a'')\<lparr>ag_pipe := True\<rparr>)"
    "r_pipes (dm_router demo_prompted) (pp_AgentID ?req) = Some ?p" "sc_n (dm_seqOut demo_prompted) = 0"
    by (simp_all add: demo_prompted_def AddPipe_def demo_daemon_def)
  obtain d' where d': "dispatchPrompt demo_env (PromptPayload_MarshalMUS ?req) demo_prompted = Val (None, d')"
    "map_option ag_lastPromptSeq (dm_agents d' ''a'') = Some 7"
    "map_option (w_out \<circ> p_Writer) (r_pipes (dm_router d') ''a'')
        = Some (frame_bytes (keeper_header MsgType_CtlPrompt ''a'' 1) (PromptPayload_MarshalMUS ?req))"
    using prompt_reaches_its_agent [OF dec s(1) _ s(2), of demo_env] s(3) by auto
  then show ?thesis by blast
qed

subsection \<open>Replies on the control socket\<close>

lemma conn_write_ok:
  assumes "w_room (cn_out c) = None"
  shows "conn_write t b c = (None, c\<lparr>cn_seqOut := \<lparr>sc_n = sc_n (cn_seqOut c) + 1\<rparr>,
    cn_out := (cn_out c)\<lparr>w_out := w_out (cn_out c) @ frame_bytes (keeper_header t CtlIdentity (sc_n (cn_seqOut c) + 1)) b\<rparr>\<rparr>)"
  using assms by (simp add: conn_write_def SeqCounter_Next_def WriteFrame_def writer_Write_def Let_def)

text \<open>The requests the dispatcher answers, and the two it answers only when they decode.\<close>

definition ctl_types :: "MsgType set" where
  "ctl_types = {MsgType_CtlStatus, MsgType_CtlAgentList, MsgType_CtlAgentCreate, MsgType_CtlAgentDestroy,
     MsgType_CtlPrompt, MsgType_Ping, MsgType_CtlApproval}"

definition ctl_malformed :: "swarm_header \<Rightarrow> bytes \<Rightarrow> bool" where
  "ctl_malformed hdr payload \<longleftrightarrow>
     (h_Type hdr = MsgType_CtlAgentCreate \<and> (\<exists>e. fst (AgentCreatePayload_UnmarshalMUS (bytes_NewReader payload)) = Err e))
     \<or> (h_Type hdr = MsgType_CtlAgentDestroy \<and> (\<exists>e. fst (AgentDestroyPayload_UnmarshalMUS (bytes_NewReader payload)) = Err e))"

lemma dispatchCtl_type:
  assumes "dispatchCtl env pv ids now hdr payload d = Val ((t, b), d')"
  shows "(t = (if h_Type hdr = MsgType_Ping then MsgType_Pong else h_Type hdr) \<and> t \<noteq> 0)
    \<or> (t = 0 \<and> d' = d \<and> (h_Type hdr \<notin> ctl_types \<or> ctl_malformed hdr payload))"
proof (cases "h_Type hdr \<in> ctl_types")
  case False
  with assms show ?thesis by (simp add: dispatchCtl_def ctl_types_def Let_def)
next
  case True
  then consider "h_Type hdr = MsgType_CtlStatus \<or> h_Type hdr = MsgType_CtlAgentList \<or> h_Type hdr = MsgType_Ping
      \<or> h_Type hdr = MsgType_CtlApproval" | "h_Type hdr = MsgType_CtlAgentCreate" | "h_Type hdr = MsgType_CtlAgentDestroy"
    | "h_Type hdr = MsgType_CtlPrompt"
    unfolding ctl_types_def by blast
  then show ?thesis
  proof cases
    case 1
    with assms show ?thesis by (elim disjE) (simp_all add: dispatchCtl_def MsgType_defs)
  next
    case 2
    with assms show ?thesis
      by (cases "fst (AgentCreatePayload_UnmarshalMUS (bytes_NewReader payload))")
        (auto simp: dispatchCtl_def MsgType_defs ctl_malformed_def split: prod.splits)
  next
    case 3
    with assms show ?thesis
      by (cases "fst (AgentDestroyPayload_UnmarshalMUS (bytes_NewReader payload))")
        (auto simp: dispatchCtl_def MsgType_defs ctl_malformed_def split: prod.splits)
  next
    case 4
    with assms show ?thesis
      by (cases "dispatchPrompt env payload d") (auto simp: dispatchCtl_def MsgType_defs)
  qed
qed



subsection \<open>The reaper\<close>

text \<open>
  The goroutine that waits for a Ward removes the pipe of the agent's identity, whoever owns it
  by then: after an agent has been created, the exit of an earlier Ward of the same name cuts off
  the new one, which is still reported as running.
\<close>

theorem old_reaper_cuts_new_ward:
  assumes "agentCreate env pv now req d = (None, d')"
  shows "r_pipes (dm_router d') (acp_ID req) \<noteq> None
    \<and> r_pipes (dm_router (ward_exited (acp_ID req) d')) (acp_ID req) = None
    \<and> (\<exists>a. dm_agents (ward_exited (acp_ID req) d') (acp_ID req) = Some a \<and> as_State (agent_status env a) = ''running'')"
  using assms
  by (cases rule: created) (simp add: ward_exited_def RemovePipe_def agent_status_def)

text \<open>Agent \<open>a\<close> created, destroyed, created again; then its first Ward is reaped.\<close>

theorem old_reaper_cuts_new_ward_witness:
  "\<exists>d1 d2 d3. agentCreate demo_env (demo_ops True) 0 demo_create demo_daemon = (None, d1)
    \<and> agentDestroy demo_env (demo_ops True) \<lparr>adp_ID = ''a''\<rparr> d1 = (None, d2)
    \<and> agentCreate demo_env (demo_ops True) 0 demo_create d2 = (None, d3)
    \<and> r_pipes (dm_router (ward_exited ''a'' d3)) ''a'' = None"
proof -
  have i: "acp_ID demo_create = ''a''" by (simp add: demo_create_def)
  obtain d1 d2 where d: "agentCreate demo_env (demo_ops True) 0 demo_create demo_daemon = (None, d1)"
    "agentDestroy demo_env (demo_ops True) \<lparr>adp_ID = ''a''\<rparr> d1 = (None, d2)"
    using demo_destroy_succeeds by blast
  have ok: "daemon_ok d1"
    using created_ok [OF d(1) demo_daemon_ok] i by simp
  have "dm_agents d2 ''a'' = None"
    using destroyed [OF ok d(2)] by (simp add: without_agent_def)
  then have "\<exists>d3. agentCreate demo_env (demo_ops True) 0 demo_create d2 = (None, d3)"
    by (simp add: demo_create_defs split: prod.splits option.splits)
  then obtain d3 where "agentCreate demo_env (demo_ops True) 0 demo_create d2 = (None, d3)" by blast
  with old_reaper_cuts_new_ward [OF this] d i show ?thesis by auto
qed

end
