(* ===== verification/Running.thy ===== *)
theory Running
  imports Keeperd
begin

text \<open>
  keeperd as a whole: the moves its goroutines make on the shared state, the states it can reach,
  and the invariant they keep.

  \<open>keeps_registry\<close> collects what the handlers have in common: they neither register nor forget an
  agent, and give nobody a pipe, an access list or, without one, a browser session.  Creating and
  destroying agents are the two requests that do more; \<open>Provisioning\<close> says what.
\<close>

subsection \<open>What handlers leave alone\<close>

text \<open>A capability opens browser sessions for no one but the agent that asked.\<close>

definition cap_local :: "'h cap_world capability \<Rightarrow> bool" where
  "cap_local cap \<longleftrightarrow> (\<forall>cs req m h r m' h'. c_Execute cap cs req (m, h) = (r, (m', h')) \<longrightarrow>
     browser_agents m' \<subseteq> insert (rq_AgentID req) (browser_agents m)
     \<and> (\<forall>x'. m' = Some x' \<longrightarrow> (\<exists>x. m = Some x \<and> bm_client x' = bm_client x)))"

definition caps_local :: "'h cap_world registry \<Rightarrow> bool" where
  "caps_local reg \<longleftrightarrow> (\<forall>(name, cap)\<in>set (reg_caps reg). cap_local cap)"

text \<open>The same agents; no pipe, access list or client more; sessions only for who has an access list.\<close>

definition keeps_registry :: "('h, 'f) daemon \<Rightarrow> ('h, 'f) daemon \<Rightarrow> bool" where
  "keeps_registry d d' \<longleftrightarrow>
     (\<forall>i. map_option ag_id (dm_agents d' i) = map_option ag_id (dm_agents d i))
     \<and> dom (r_pipes (dm_router d')) \<subseteq> dom (r_pipes (dm_router d))
     \<and> dm_dispatcher d' = dm_dispatcher d
     \<and> browser_agents (dm_browserMgr d') \<subseteq> browser_agents (dm_browserMgr d) \<union> dom (d_acls (dm_dispatcher d))
     \<and> (\<forall>m'. dm_browserMgr d' = Some m' \<longrightarrow> (\<exists>m. dm_browserMgr d = Some m \<and> bm_client m' = bm_client m))"

named_theorems keeps

lemma keeps_refl [simp, keeps]: "keeps_registry d d"
  by (simp add: keeps_registry_def)

lemma keepsD:
  assumes "keeps_registry d d'"
  shows "map_option ag_id (dm_agents d' i) = map_option ag_id (dm_agents d i)"
    and "dom (r_pipes (dm_router d')) \<subseteq> dom (r_pipes (dm_router d))"
    and "dm_dispatcher d' = dm_dispatcher d"
    and "browser_agents (dm_browserMgr d') \<subseteq> browser_agents (dm_browserMgr d) \<union> dom (d_acls (dm_dispatcher d))"
    and "dm_browserMgr d' = Some m' \<Longrightarrow> \<exists>m. dm_browserMgr d = Some m \<and> bm_client m' = bm_client m"
  using assms unfolding keeps_registry_def by blast+

lemma keeps_trans:
  assumes "keeps_registry d d'" and "keeps_registry d' d''"
  shows "keeps_registry d d''"
  unfolding keeps_registry_def
proof (intro conjI allI impI)
  show "map_option ag_id (dm_agents d'' i) = map_option ag_id (dm_agents d i)" for i
    using keepsD(1) [OF assms(1)] keepsD(1) [OF assms(2)] by simp
  show "dom (r_pipes (dm_router d'')) \<subseteq> dom (r_pipes (dm_router d))"
    using keepsD(2) [OF assms(1)] keepsD(2) [OF assms(2)] by blast
  show "dm_dispatcher d'' = dm_dispatcher d"
    using keepsD(3) [OF assms(1)] keepsD(3) [OF assms(2)] by simp
  show "browser_agents (dm_browserMgr d'') \<subseteq> browser_agents (dm_browserMgr d) \<union> dom (d_acls (dm_dispatcher d))"
    using keepsD(4) [OF assms(1)] keepsD(4) [OF assms(2)] unfolding keepsD(3) [OF assms(1)] by blast
  show "\<exists>m. dm_browserMgr d = Some m \<and> bm_client m' = bm_client m" if m': "dm_browserMgr d'' = Some m'" for m'
  proof -
    obtain m1 where m1: "dm_browserMgr d' = Some m1" "bm_client m' = bm_client m1"
      using keepsD(5) [OF assms(2) m'] by blast
    with keepsD(5) [OF assms(1) m1(1)] show ?thesis by auto
  qed
qed

lemma keeps_dom: "keeps_registry d d' \<Longrightarrow> dom (dm_agents d') = dom (dm_agents d)"
  using keepsD(1) [of d d'] unfolding dom_def by (metis option.map_disc_iff)

lemma keeps_ok:
  assumes "keeps_registry d d'" and "daemon_ok d"
  shows "daemon_ok d'"
  unfolding daemon_ok_def keeps_dom [OF assms(1)]
proof (intro conjI allI impI)
  have ok: "dom (d_acls (dm_dispatcher d)) \<subseteq> dom (dm_agents d)" "dom (r_pipes (dm_router d)) \<subseteq> dom (dm_agents d)"
    "browser_agents (dm_browserMgr d) \<subseteq> dom (dm_agents d)"
    using assms(2) unfolding daemon_ok_def by blast+
  show "dom (d_acls (dm_dispatcher d')) \<subseteq> dom (dm_agents d)"
    using ok(1) keepsD(3) [OF assms(1)] by simp
  show "dom (r_pipes (dm_router d')) \<subseteq> dom (dm_agents d)"
    using ok(2) keepsD(2) [OF assms(1)] by blast
  show "browser_agents (dm_browserMgr d') \<subseteq> dom (dm_agents d)"
    using ok keepsD(4) [OF assms(1)] by blast
  fix i a
  assume "dm_agents d' i = Some a"
  then obtain b where "dm_agents d i = Some b" "ag_id b = ag_id a"
    using keepsD(1) [OF assms(1), of i] by (cases "dm_agents d i") auto
  then show "ag_id a = i" and "i \<noteq> ''''"
    using assms(2) unfolding daemon_ok_def by metis+
next
  fix m
  assume "dm_browserMgr d' = Some m"
  then show "bm_client m \<noteq> None"
    using keepsD(5) [OF assms(1)] assms(2) unfolding daemon_ok_def by metis
qed

lemma keeps_send [keeps]: "keeps_registry d (snd (daemon_send env toID hdr payload d))"
  by (auto simp: keeps_registry_def daemon_send_def Send_def dom_def split: option.splits prod.splits if_splits)

lemma keeps_audit [keeps]:
  "keeps_registry d (audit_row now hdr p d)" "keeps_registry d (audit_security now a k det d)"
  by (simp_all add: keeps_registry_def audit_row_def audit_security_def)

lemma keeps_denial [keeps]: "keeps_registry d (auditCapabilityDenial now a cap resp d)"
  by (simp add: auditCapabilityDenial_def keeps)

lemma keeps_seq [keeps]: "keeps_registry d (snd (next_seq d))"
  by (simp add: keeps_registry_def next_seq_def split: prod.splits)

lemma keeps_push [keeps]: "keeps_registry d (pushToCtlSubscribers f d)"
  by (simp add: keeps_registry_def pushToCtlSubscribers_def)

lemma keeps_update [keeps]:
  "keeps_registry d (updateAgentCompletionState now ev d)"
  "keeps_registry d (updateAgentFailureState now fev d)"
  "keeps_registry d (set_lastPromptSeq a n d)"
  by (simp_all add: keeps_registry_def updateAgentCompletionState_def updateAgentFailureState_def
      set_lastPromptSeq_def split: option.splits)

lemma keeps_subs [keeps]: "keeps_registry d (subscribe ch d)" "keeps_registry d (unsubscribe ch d)"
  by (simp_all add: keeps_registry_def subscribe_def unsubscribe_def)

lemma Dispatch_local:
  assumes "caps_local (d_reg disp)" and "Dispatch quote disp req (m, h) = (r, (m', h'))"
  shows "browser_agents m' \<subseteq> browser_agents m \<union> dom (d_acls disp)
    \<and> (\<forall>x'. m' = Some x' \<longrightarrow> (\<exists>x. m = Some x \<and> bm_client x' = bm_client x))"
proof (cases "Dispatch quote disp req (m, h) = ((fst (fst (Dispatch quote disp req (m, h))), None), (m, h))")
  case True
  with assms(2) show ?thesis by auto
next
  case False
  then obtain a cs cap where a: "d_acls disp (rq_AgentID req) = Some a"
    and cap: "Registry_Lookup (d_reg disp) (rq_Name req) = Some cap"
    and e: "Dispatch quote disp req (m, h) = c_Execute cap cs req (m, h)"
    by (auto simp: Dispatch_def split: option.splits prod.splits if_splits)
  have "(rq_Name req, cap) \<in> set (reg_caps (d_reg disp))"
    using cap by (simp add: Registry_Lookup_def map_of_SomeD)
  with assms(1) have "cap_local cap"
    by (auto simp: caps_local_def)
  moreover have "c_Execute cap cs req (m, h) = (r, (m', h'))"
    using e assms(2) by simp
  ultimately have "browser_agents m' \<subseteq> insert (rq_AgentID req) (browser_agents m)"
    "\<forall>x'. m' = Some x' \<longrightarrow> (\<exists>x. m = Some x \<and> bm_client x' = bm_client x)"
    unfolding cap_local_def by blast+
  with a show ?thesis by blast
qed

lemma keeps_request:
  assumes "caps_local (d_reg (dm_dispatcher d))" and "handleCapabilityRequest env now f d = Val d'"
  shows "keeps_registry d d'"
proof (cases "decodeCapabilityRequest (f_Payload f)")
  case (Val payload)
  let ?req = "\<lparr>rq_Name = crq_Capability payload, rq_AgentID = h_FromID (f_Header f),
                 rq_SeqNo = h_SeqNo (f_Header f), rq_Args = crq_Args payload\<rparr>"
  obtain resp err m h where disp:
    "Dispatch (en_quote env) (dm_dispatcher d) ?req (dm_browserMgr d, dm_host d) = ((resp, err), (m, h))"
    by (metis surj_pair)
  obtain resp' where call: "dispatchCapabilityRequest env f payload d = (resp', d\<lparr>dm_browserMgr := m, dm_host := h\<rparr>)"
    using disp by (cases err) (auto simp: dispatchCapabilityRequest_def Let_def)
  have "keeps_registry d (d\<lparr>dm_browserMgr := m, dm_host := h\<rparr>)"
    using Dispatch_local [OF assms(1) disp] by (simp add: keeps_registry_def)
  then show ?thesis
    using assms(2) Val call
    by (auto simp: handleCapabilityRequest_def sendCapabilityResponse_def Let_def
        intro!: keeps_trans [OF _ keeps_send] keeps_trans [OF _ keeps_denial])
qed (use assms(2) in \<open>auto simp: handleCapabilityRequest_def sendCapabilityDenied_def Let_def keeps\<close>)

lemma keeps_frame:
  assumes "caps_local (d_reg (dm_dispatcher d))" and "handleFrame env clk f d = Val d'"
  shows "keeps_registry d d'"
proof -
  obtain d1 where a: "auditFrame (clk 0) f d = Val d1"
    using assms(2) by (auto simp: handleFrame_def split: outcome.splits)
  have k1: "keeps_registry d d1"
    using a by (auto simp: auditFrame_def keeps split: outcome.splits)
  then have local1: "caps_local (d_reg (dm_dispatcher d1))"
    using assms(1) by (simp add: keeps_registry_def)
  have k2: "keeps_registry d1 d'"
  proof -
    let ?t = "h_Type (f_Header f)"
    consider "?t = MsgType_CapabilityRequest" | "?t = MsgType_CompletionEvent" | "?t = MsgType_FailureEvent"
      | "?t = MsgType_Ping" | "\<not> ?t \<in> {MsgType_CapabilityRequest, MsgType_CompletionEvent, MsgType_FailureEvent, MsgType_Ping}"
      by blast
    then show ?thesis
    proof cases
      case 1
      with assms(2) a show ?thesis
        by (intro keeps_request [OF local1, of env "clk 1" f]) (simp add: handleFrame_def)
    next
      case 2
      with assms(2) a show ?thesis
        by (auto simp: handleFrame_def handleCompletionEvent_def MsgType_defs split: outcome.splits
            intro: keeps_trans [OF keeps_update(1) keeps_push])
    next
      case 3
      with assms(2) a show ?thesis
        by (auto simp: handleFrame_def handleFailureEvent_def MsgType_defs split: outcome.splits
            intro: keeps_trans [OF keeps_update(2) keeps_push])
    next
      case 4
      obtain n d2 where n: "next_seq d1 = (n, d2)" by (cases "next_seq d1")
      have "keeps_registry d1 d2"
        using keeps_seq [of d1] n by simp
      with assms(2) a 4 n show ?thesis
        by (auto simp: handleFrame_def MsgType_defs intro: keeps_trans [OF _ keeps_send])
    next
      case 5
      with assms(2) a show ?thesis
        by (simp add: handleFrame_def)
    qed
  qed
  with k1 show ?thesis by (rule keeps_trans)
qed

subsection \<open>The capabilities keeperd registers\<close>

lemma browser_agents_Some [simp]: "browser_agents (Some m) = dom (bm_proxyByID m) \<union> dom (bm_headless m)"
  by (simp add: browser_agents_def)

lemma open_session_local:
  assumes "open_session net a client ps (m, h) = (r, m', h')"
  shows "dom (bm_proxyByID m') \<subseteq> insert a (dom (bm_proxyByID m))" "bm_headless m' = bm_headless m"
    "bm_client m' = bm_client m"
  using assms by (auto simp: open_session_def Let_def split: prod.splits sum.splits if_splits)

lemma Manager_ReadPage_local:
  assumes "Manager_ReadPage net reader a u policy wt n (m, h) = (r, m', h')"
  shows "dom (bm_proxyByID m') \<subseteq> insert a (dom (bm_proxyByID m))" "bm_headless m' = bm_headless m"
    "bm_client m' = bm_client m"
  using assms
  by (auto simp: Manager_ReadPage_def dest: open_session_local split: option.splits prod.splits sum.splits)

lemma manager_proxy_local:
  assumes "manager_proxy net reader a u policy wt n t (m, h) = (r, (m', h'))"
  shows "browser_agents m' \<subseteq> insert a (browser_agents m)
    \<and> (\<forall>x'. m' = Some x' \<longrightarrow> (\<exists>x. m = Some x \<and> bm_client x' = bm_client x))"
proof (cases m)
  case None
  with assms show ?thesis by (auto simp: manager_proxy_def browser_agents_def)
next
  case (Some x)
  obtain r1 x1 h1 where p: "Manager_ReadPage net reader a u policy wt n (x, h) = (r1, x1, h1)"
    by (metis surj_pair)
  with assms Some have "m' = Some x1"
    by (simp add: manager_proxy_def)
  with Manager_ReadPage_local [OF p] Some show ?thesis by auto
qed

lemma page_read_local: "cap_local (BrowserPageRead quote url_Parse (Some (manager_proxy net reader)) schema)"
  unfolding cap_local_def
proof (intro allI impI)
  fix cs req m h r m' h'
  assume e: "c_Execute (BrowserPageRead quote url_Parse (Some (manager_proxy net reader)) schema) cs req (m, h) = (r, (m', h'))"
  then consider "m' = m" | u policy wt n t r1 where "manager_proxy net reader (rq_AgentID req) u policy wt n t (m, h) = (r1, (m', h'))"
    unfolding BrowserPageRead_def capability.simps BrowserPageRead_Execute_def Let_def
    by (auto split: outcome.splits if_splits prod.splits sum.splits)
  then show "browser_agents m' \<subseteq> insert (rq_AgentID req) (browser_agents m)
    \<and> (\<forall>x'. m' = Some x' \<longrightarrow> (\<exists>x. m = Some x \<and> bm_client x' = bm_client x))"
    by cases (auto dest: manager_proxy_local)
qed

lemma file_write_local: "cap_local (FilesystemFileWrite quote (lift_os os) schema)"
  unfolding cap_local_def
proof (intro allI impI)
  fix cs req m h r m' h'
  assume "c_Execute (FilesystemFileWrite quote (lift_os os) schema) cs req (m, h) = (r, (m', h'))"
  then have "m' = m"
    by (auto simp: FilesystemFileWrite_def FilesystemFileWrite_Execute_def lift_os_def Let_def
        split: outcome.splits sum.splits option.splits prod.splits)
  then show "browser_agents m' \<subseteq> insert (rq_AgentID req) (browser_agents m)
    \<and> (\<forall>x'. m' = Some x' \<longrightarrow> (\<exists>x. m = Some x \<and> bm_client x' = bm_client x))" by auto
qed

text \<open>Registration at start does not panic, and what it registers is local.\<close>

lemma main_registry_local:
  "\<exists>reg. main_registry quote url_Parse net reader os ps fs = Val reg \<and> caps_local reg"
  by (auto simp: main_registry_def Registry_Register_def Registry_Lookup_def NewRegistry_def caps_local_def
      page_read_local file_write_local) (simp_all add: BrowserPageRead_def FilesystemFileWrite_def)

subsection \<open>The running daemon\<close>

text \<open>
  One move of any of the daemon's goroutines: a frame from an agent's pipe handled, a security
  event stored, a control frame handled, an event pushed, a control connection closed, a Ward
  reaped.  A Panic is no move: it ends the process.
\<close>

inductive daemon_step :: "'f env \<Rightarrow> 'h provision_ops \<Rightarrow> ('h, 'f) daemon \<Rightarrow> ('h, 'f) daemon \<Rightarrow> bool"
  for env pv
where
  agent_frame: "handleFrame env clk f d = Val d' \<Longrightarrow> daemon_step env pv d d'"
| event: "daemon_step env pv d (security_sink ev d)"
| ctl_frame: "conn_frame env pv ids now hdr payload (c, d) = Val (mv, c', d') \<Longrightarrow> daemon_step env pv d d'"
| push: "conn_push (c, d) = (mv, c', d') \<Longrightarrow> daemon_step env pv d d'"
| close: "daemon_step env pv d (conn_close c d)"
| exited: "daemon_step env pv d (ward_exited a d)"

inductive daemon_reachable ::
  "'f env \<Rightarrow> 'h provision_ops \<Rightarrow> ('h, 'f) daemon \<Rightarrow> ('h, 'f) daemon \<Rightarrow> bool"
  for env pv d0
where
  start: "daemon_reachable env pv d0 d0"
| step: "daemon_reachable env pv d0 d \<Longrightarrow> daemon_step env pv d d' \<Longrightarrow> daemon_reachable env pv d0 d'"

inductive_cases daemon_stepE: "daemon_step env pv d d'"

definition queues_ok :: "('h, 'f) daemon \<Rightarrow> bool" where
  "queues_ok d \<longleftrightarrow> (\<forall>ch. length (dm_chans d ch) \<le> chan_cap)"

definition daemon_inv :: "('h, 'f) daemon \<Rightarrow> bool" where
  "daemon_inv d \<longleftrightarrow> daemon_ok d \<and> caps_local (d_reg (dm_dispatcher d)) \<and> queues_ok d"

lemma create_inv:
  assumes "agentCreate env pv now req d = (err, d')" and "daemon_ok d"
  shows "daemon_ok d' \<and> d_reg (dm_dispatcher d') = d_reg (dm_dispatcher d)"
proof (cases err)
  case None
  with assms show ?thesis
    using created_ok [of env pv now req d d'] created_nonempty [of env pv now req d d']
    by (auto elim: created)
next
  case (Some e)
  with create_failed [of d env pv now req e d'] assms show ?thesis
    using without_agent_ok by (auto simp: without_agent_def)
qed

lemma destroy_inv:
  assumes "agentDestroy env pv req d = (err, d')" and "daemon_ok d"
  shows "daemon_ok d' \<and> d_reg (dm_dispatcher d') = d_reg (dm_dispatcher d)"
proof (cases err)
  case None
  with destroyed [of d env pv req d'] assms without_agent_ok [of "adp_ID req" d d'] show ?thesis
    by (simp add: without_agent_def)
next
  case (Some e)
  with assms show ?thesis
    by (auto simp: agentDestroy_def Let_def split: option.splits)
qed

subsection \<open>Queues stay bounded\<close>

lemma chans_frame [simp]:
  "dm_chans (snd (on_host g d)) = dm_chans d" "dm_chans (snd (release_browser pv i d)) = dm_chans d"
  "dm_chans (set_headless i b d) = dm_chans d" "dm_chans (put_agent i a d) = dm_chans d"
  "dm_chans (forget_agent i d) = dm_chans d" "dm_chans (set_pipe i d) = dm_chans d"
  "dm_chans (snd (daemon_send env toID hdr p d)) = dm_chans d" "dm_chans (snd (next_seq d)) = dm_chans d"
  "dm_chans (installed env i sv cfg d) = dm_chans d"
  by (simp_all add: on_host_def release_browser_def set_headless_def put_agent_def forget_agent_def set_pipe_def
      daemon_send_def next_seq_def installed_def Let_def split: prod.splits option.splits)

lemma chans_clean: "dm_chans (fold (clean pv i) cs d) = dm_chans d"
proof (induction cs arbitrary: d)
  case (Cons c cs)
  have "dm_chans (clean pv i c d) = dm_chans d"
    by (cases c) (simp_all add: clean_def)
  with Cons show ?case by simp
qed simp

lemma chans_provision:
  assumes "provision env pv now req d = (err, cleanup, d')"
  shows "dm_chans d' = dm_chans d"
proof (cases err)
  case None
  with assms have "provision env pv now req d = (None, cleanup, d')" by simp
  then show ?thesis by (cases rule: provision_okE) simp_all
next
  case (Some e)
  with assms have "provision env pv now req d = (Some e, cleanup, d')" by simp
  then show ?thesis by (cases rule: provision_failedE) simp_all
qed

lemma chans_create: "agentCreate env pv now req d = (err, d') \<Longrightarrow> dm_chans d' = dm_chans d"
  by (auto simp: agentCreate_def run_cleanup_def chans_clean dest!: chans_provision
      split: option.splits prod.splits if_splits)

lemma chans_destroy: "agentDestroy env pv req d = (err, d') \<Longrightarrow> dm_chans d' = dm_chans d"
  by (auto simp: agentDestroy_def Let_def split: option.splits if_splits)

lemma queues_offer: "\<forall>ch. length (chans ch) \<le> chan_cap \<Longrightarrow> length (fold (offer f) subs chans ch) \<le> chan_cap"
proof (induction subs arbitrary: chans)
  case (Cons s subs)
  have "\<forall>ch. length (offer f s chans ch) \<le> chan_cap"
    using Cons.prems by (auto simp: offer_def)
  with Cons.IH show ?case by simp
qed simp

lemma queues_push: "queues_ok d \<Longrightarrow> queues_ok (pushToCtlSubscribers f d)"
  using queues_offer [of "dm_chans d"] by (simp add: queues_ok_def pushToCtlSubscribers_def)

lemma chans_audit [simp]:
  "dm_chans (audit_row now hdr p d) = dm_chans d" "dm_chans (audit_security now a k det d) = dm_chans d"
  "dm_chans (auditCapabilityDenial now a cap resp d) = dm_chans d"
  "dm_chans (updateAgentCompletionState now ev d) = dm_chans d"
  "dm_chans (updateAgentFailureState now fev d) = dm_chans d"
  "dm_chans (set_lastPromptSeq a n d) = dm_chans d" "dm_chans (subscribe ch d) = dm_chans d"
  "dm_chans (conn_close c d) = dm_chans d" "dm_chans (ward_exited a d) = dm_chans d"
  "dm_chans (security_sink sev d) = dm_chans d"
  by (simp_all add: audit_row_def audit_security_def auditCapabilityDenial_def updateAgentCompletionState_def
      updateAgentFailureState_def set_lastPromptSeq_def subscribe_def conn_close_def unsubscribe_def ward_exited_def
      security_sink_def split: option.splits)

lemma queues_frame:
  assumes "handleFrame env clk f d = Val d'" and "queues_ok d"
  shows "queues_ok d'"
proof -
  obtain d1 where a: "auditFrame (clk 0) f d = Val d1"
    using assms(1) by (auto simp: handleFrame_def split: outcome.splits)
  have "dm_chans d1 = dm_chans d"
    using a by (auto simp: auditFrame_def split: outcome.splits)
  then have q: "queues_ok d1"
    using assms(2) by (simp add: queues_ok_def)
  have disp: "dm_chans (snd (dispatchCapabilityRequest env f p d1)) = dm_chans d1" for p
    by (simp add: dispatchCapabilityRequest_def Let_def split: prod.splits option.splits)
  have "queues_ok d2" if "handleCapabilityRequest env (clk 1) f d1 = Val d2" for d2
  proof (cases "decodeCapabilityRequest (f_Payload f)")
    case (Val p)
    with that have "dm_chans d2 = dm_chans d1"
      using disp [of p]
      by (auto simp: handleCapabilityRequest_def sendCapabilityResponse_def Let_def split: prod.splits)
    with q show ?thesis by (simp add: queues_ok_def)
  next
    case (Err e)
    with that have "dm_chans d2 = dm_chans d1"
      by (auto simp: handleCapabilityRequest_def sendCapabilityDenied_def Let_def)
    with q show ?thesis by (simp add: queues_ok_def)
  next
    case (Panic m)
    with that show ?thesis by (simp add: handleCapabilityRequest_def)
  qed
  moreover have "queues_ok (updateAgentCompletionState now ev d1)" "queues_ok (updateAgentFailureState now fev d1)" for now ev fev
    using q by (simp_all add: queues_ok_def)
  then have "queues_ok d2" if "handleCompletionEvent env (clk 1) f d1 = Val d2 \<or> handleFailureEvent (clk 1) f d1 = Val d2" for d2
    using that q queues_push
    by (auto simp: handleCompletionEvent_def handleFailureEvent_def split: outcome.splits)
  moreover have "queues_ok (snd (daemon_send env t hdr p (snd (next_seq d1))))" for t hdr p
    using q by (simp add: queues_ok_def)
  ultimately show ?thesis
    using assms(1) a q
    by (auto simp: handleFrame_def Let_def case_prod_beta split: if_splits)
qed

subsection \<open>Every move keeps the invariant\<close>

lemma prompt_inv:
  assumes "dispatchPrompt env payload d = Val (err, d')"
  shows "keeps_registry d d' \<and> dm_chans d' = dm_chans d"
proof -
  have send: "keeps_registry d1 (snd (daemon_send env t hdr p (snd (next_seq d1))))" for d1 :: "('a, 'b) daemon" and t hdr p
    by (rule keeps_trans [OF keeps_seq keeps_send])
  show ?thesis
    using assms keeps_trans [OF keeps_update(3) send]
    by (auto simp: dispatchPrompt_def Let_def case_prod_beta split: outcome.splits option.splits if_splits)
qed

text \<open>What a control request may do to the daemon's state.\<close>

lemma dispatchCtl_cases:
  assumes "dispatchCtl env pv ids now hdr payload d = Val (r, d')"
  obtains "d' = d"
    | req err where "h_Type hdr = MsgType_CtlAgentCreate" "agentCreate env pv now req d = (err, d')"
    | req err where "h_Type hdr = MsgType_CtlAgentDestroy" "agentDestroy env pv req d = (err, d')"
    | err where "h_Type hdr = MsgType_CtlPrompt" "dispatchPrompt env payload d = Val (err, d')"
proof -
  consider (create) "h_Type hdr = MsgType_CtlAgentCreate" | (destroy) "h_Type hdr = MsgType_CtlAgentDestroy"
    | (prompt) "h_Type hdr = MsgType_CtlPrompt"
    | (other) "h_Type hdr \<notin> {MsgType_CtlAgentCreate, MsgType_CtlAgentDestroy, MsgType_CtlPrompt}" by blast
  then show thesis
  proof cases
    case create
    show thesis
    proof (cases "fst (AgentCreatePayload_UnmarshalMUS (bytes_NewReader payload))")
      case (Val req)
      with assms create that(2) [OF create] show thesis
        by (cases "agentCreate env pv now req d") (simp add: dispatchCtl_def MsgType_defs)
    qed (use assms create that(1) in \<open>simp_all add: dispatchCtl_def MsgType_defs\<close>)
  next
    case destroy
    show thesis
    proof (cases "fst (AgentDestroyPayload_UnmarshalMUS (bytes_NewReader payload))")
      case (Val req)
      with assms destroy that(3) [OF destroy] show thesis
        by (cases "agentDestroy env pv req d") (simp add: dispatchCtl_def MsgType_defs)
    qed (use assms destroy that(1) in \<open>simp_all add: dispatchCtl_def MsgType_defs\<close>)
  next
    case prompt
    show thesis
    proof (cases "dispatchPrompt env payload d")
      case (Val p)
      with assms prompt that(4) [OF prompt] show thesis
        by (cases p) (simp add: dispatchCtl_def MsgType_defs)
    qed (use assms prompt in \<open>simp_all add: dispatchCtl_def MsgType_defs\<close>)
  next
    case other
    then have "d' = d"
      using assms by (simp add: dispatchCtl_def Let_def split: if_splits)
    then show thesis by (rule that(1))
  qed
qed

lemma ctl_inv:
  assumes "dispatchCtl env pv ids now hdr payload d = Val (r, d')" and "daemon_inv d"
  shows "daemon_inv d'"
proof -
  have ok: "daemon_ok d" "caps_local (d_reg (dm_dispatcher d))" "queues_ok d"
    using assms(2) by (simp_all add: daemon_inv_def)
  from assms(1) show ?thesis
  proof (cases rule: dispatchCtl_cases)
    case 1
    with assms(2) show ?thesis by simp
  next
    case 2
    with create_inv [OF 2(2) ok(1)] chans_create [OF 2(2)] ok show ?thesis
      by (simp add: daemon_inv_def queues_ok_def)
  next
    case 3
    with destroy_inv [OF 3(2) ok(1)] chans_destroy [OF 3(2)] ok show ?thesis
      by (simp add: daemon_inv_def queues_ok_def)
  next
    case 4
    then have k: "keeps_registry d d'" and q: "dm_chans d' = dm_chans d"
      using prompt_inv [OF 4(2)] by blast+
    from keeps_ok [OF k ok(1)] keepsD(3) [OF k] q ok(2,3) show ?thesis
      by (simp add: daemon_inv_def queues_ok_def)
  qed
qed

lemma keeps_inv:
  assumes "keeps_registry d d'" and "daemon_inv d" and "queues_ok d'"
  shows "daemon_inv d'"
proof -
  have "daemon_ok d" "caps_local (d_reg (dm_dispatcher d))"
    using assms(2) by (simp_all add: daemon_inv_def)
  with keeps_ok [OF assms(1)] keepsD(3) [OF assms(1)] assms(3) show ?thesis
    by (simp add: daemon_inv_def)
qed

lemma conn_frame_inv:
  assumes "conn_frame env pv ids now hdr payload (c, d) = Val (mv, c', d')" and "daemon_inv d"
  shows "daemon_inv d'"
proof -
  let ?d = "audit_row now hdr (stored_payload payload) d"
  have a: "daemon_inv ?d"
    using keeps_inv [OF keeps_audit(1) assms(2)] assms(2) by (simp add: daemon_inv_def queues_ok_def)
  have s: "daemon_inv (subscribe ch ?d)" for ch
    using keeps_inv [OF keeps_subs(1) a] a by (simp add: daemon_inv_def queues_ok_def)
  show ?thesis
    using assms a s ctl_inv [of env pv ids now hdr payload ?d]
    by (auto simp: conn_frame_def Let_def case_prod_beta split: if_splits outcome.splits option.splits)
qed

lemma push_inv:
  assumes "conn_push (c, d) = (mv, c', d')" and "daemon_inv d"
  shows "daemon_inv d'"
proof (cases "dm_chans d (cn_pushCh c)")
  case Nil
  with assms show ?thesis by (simp add: conn_push_def)
next
  case (Cons f fs)
  let ?d = "d\<lparr>dm_chans := (dm_chans d)(cn_pushCh c := fs)\<rparr>"
  have d': "d' = ?d"
    using assms(1) Cons by (auto simp: conn_push_def Let_def split: prod.splits option.splits)
  have "length (dm_chans d ch) \<le> chan_cap" for ch
    using assms(2) by (simp add: daemon_inv_def queues_ok_def)
  from this [of "cn_pushCh c"] this have "queues_ok ?d"
    using Cons by (simp add: queues_ok_def)
  moreover have "keeps_registry d ?d"
    by (simp add: keeps_registry_def)
  ultimately show ?thesis
    using keeps_inv assms(2) d' by blast
qed

lemma daemon_step_inv: "daemon_step env pv d d' \<Longrightarrow> daemon_inv d \<Longrightarrow> daemon_inv d'"
proof (induction rule: daemon_step.induct)
  case (agent_frame clk f d d')
  then have "caps_local (d_reg (dm_dispatcher d))" "queues_ok d"
    by (simp_all add: daemon_inv_def)
  with agent_frame show ?case
    using keeps_inv [OF keeps_frame [OF _ agent_frame(1)]] queues_frame [OF agent_frame(1)] by blast
next
  case (event d ev)
  have "keeps_registry d (security_sink ev d)"
    unfolding security_sink_def by (rule keeps_audit(2))
  moreover have "queues_ok (security_sink ev d)"
    using event by (simp add: daemon_inv_def queues_ok_def)
  ultimately show ?case
    using event by (metis keeps_inv)
next
  case (ctl_frame ids now hdr payload c d mv c' d')
  then show ?case by (rule conn_frame_inv)
next
  case (push c d mv c' d')
  then show ?case by (rule push_inv)
next
  case (close d c)
  have "keeps_registry d (conn_close c d)"
    by (simp add: conn_close_def keeps_subs(2))
  moreover have "queues_ok (conn_close c d)"
    using close by (simp add: daemon_inv_def queues_ok_def)
  ultimately show ?case
    using close by (metis keeps_inv)
next
  case (exited d a)
  have "keeps_registry d (ward_exited a d)"
    by (auto simp: ward_exited_def RemovePipe_def keeps_registry_def)
  moreover have "queues_ok (ward_exited a d)"
    using exited by (simp add: daemon_inv_def queues_ok_def)
  ultimately show ?case
    using exited by (metis keeps_inv)
qed

lemma daemon_reachable_inv: "daemon_reachable env pv d0 d \<Longrightarrow> daemon_inv d0 \<Longrightarrow> daemon_inv d"
  by (induction rule: daemon_reachable.induct) (auto intro: daemon_step_inv)

lemma main_daemon_inv: "caps_local reg \<Longrightarrow> daemon_inv (main_daemon cfg db reg client ifaces now h)"
  by (simp add: daemon_inv_def daemon_ok_def main_daemon_def NewDispatcher_def NewRouter_def newBrowserManager_def
      queues_ok_def Let_def)

end
