(* ===== verification/Strconv.thy ===== *)
theory Strconv
  imports Config
begin

text \<open>
  What the command line programs use of Go's \<open>strconv\<close>, \<open>strings\<close>, \<open>path/filepath\<close> and
  \<open>unicode/utf8\<close>: \<open>Atoi\<close>, \<open>ParseBool\<close>, \<open>strings.Index\<close> for one character, \<open>Base\<close>, and the repair
  of invalid UTF-8 that \<open>encoding/json\<close> performs on strings.
\<close>

subsection \<open>Numbers and truth values\<close>

definition Atoi :: "string \<Rightarrow> int option" where
  "Atoi s =
     (let neg = (s \<noteq> [] \<and> hd s = CHR ''-'');
          ds = (if s \<noteq> [] \<and> (hd s = CHR ''-'' \<or> hd s = CHR ''+'') then tl s else s);
          v = (if neg then - int (digits_value ds) else int (digits_value ds))
      in if ds = [] \<or> \<not> list_all is_digit ds then None
         else if v < - (2 ^ 63) \<or> 2 ^ 63 \<le> v then None
         else Some v)"

definition ParseBool :: "string \<Rightarrow> bool option" where
  "ParseBool s =
     (if s \<in> {''1'', ''t'', ''T'', ''TRUE'', ''true'', ''True''} then Some True
      else if s \<in> {''0'', ''f'', ''F'', ''FALSE'', ''false'', ''False''} then Some False
      else None)"

subsection \<open>Strings and paths\<close>

text \<open>The parts of a string before and after the first \<open>c\<close>, if there is one.\<close>

definition split_at :: "char \<Rightarrow> string \<Rightarrow> (string \<times> string) option" where
  "split_at c s = (if c \<in> set s then Some (takeWhile (\<lambda>x. x \<noteq> c) s, tl (dropWhile (\<lambda>x. x \<noteq> c) s)) else None)"

definition strip_slashes :: "string \<Rightarrow> string" where
  "strip_slashes s = rev (dropWhile (\<lambda>c. c = slash) (rev s))"

definition Base :: "string \<Rightarrow> string" where
  "Base path =
     (if path = '''' then ''.''
      else let s = rev (takeWhile (\<lambda>c. c \<noteq> slash) (rev (strip_slashes path)))
           in if s = '''' then [slash] else s)"

subsection \<open>UTF-8\<close>

definition byte_in :: "nat \<Rightarrow> nat \<Rightarrow> char \<Rightarrow> bool" where
  "byte_in lo hi c \<longleftrightarrow> lo \<le> (of_char c :: nat) \<and> (of_char c :: nat) \<le> hi"

abbreviation cont :: "char \<Rightarrow> bool" where
  "cont \<equiv> byte_in 0x80 0xBF"

text \<open>The length of the valid encoding a string starts with, 0 if there is none.\<close>

definition utf8_len :: "string \<Rightarrow> nat" where
  "utf8_len s =
     (case s of
        [] \<Rightarrow> 0
      | a # r \<Rightarrow>
          if byte_in 0 0x7F a then 1
          else (case r of
              [] \<Rightarrow> 0
            | b # r \<Rightarrow>
                if byte_in 0xC2 0xDF a then (if cont b then 2 else 0)
                else (case r of
                    [] \<Rightarrow> 0
                  | c # r \<Rightarrow>
                      if byte_in 0xE0 0xEF a then
                        (if byte_in (if byte_in 0xE0 0xE0 a then 0xA0 else 0x80) (if byte_in 0xED 0xED a then 0x9F else 0xBF) b
                            \<and> cont c then 3 else 0)
                      else (case r of
                          [] \<Rightarrow> 0
                        | d # r \<Rightarrow>
                            if byte_in 0xF0 0xF4 a
                               \<and> byte_in (if byte_in 0xF0 0xF0 a then 0x90 else 0x80) (if byte_in 0xF4 0xF4 a then 0x8F else 0xBF) b
                               \<and> cont c \<and> cont d
                            then 4 else 0))))"

definition replacement_char :: string where
  "replacement_char = [CHR 0xEF, CHR 0xBF, CHR 0xBD]"

function utf8_clean :: "string \<Rightarrow> string" where
  "utf8_clean s =
     (if s = [] then []
      else if utf8_len s = 0 then replacement_char @ utf8_clean (tl s)
      else take (utf8_len s) s @ utf8_clean (drop (utf8_len s) s))"
  by pat_completeness auto

termination utf8_clean
  by (relation "measure length") auto

declare utf8_clean.simps [simp del]

definition ascii :: "string \<Rightarrow> bool" where
  "ascii s \<longleftrightarrow> list_all (byte_in 0 0x7F) s"

lemma utf8_clean_ascii: "ascii s \<Longrightarrow> utf8_clean s = s"
proof (induction s)
  case (Cons c s)
  then have "utf8_len (c # s) = 1" by (simp add: ascii_def utf8_len_def)
  with Cons show ?case by (simp add: utf8_clean.simps [of "c # s"] ascii_def)
qed (simp add: utf8_clean.simps)

subsection \<open>JSON values\<close>

text \<open>
  What \<open>encoding/json\<close> decodes into \<open>any\<close>.  A number is the text that \<open>fmt.Sprint\<close> gives its
  \<open>float64\<close>; an object lists its members, one per key, in the order in which Go visits the map.
\<close>

datatype json =
    JNull
  | JBool bool
  | JNumber string
  | JString string
  | JArray "json list"
  | JObject "(string \<times> json) list"

definition Contains :: "string \<Rightarrow> string \<Rightarrow> bool" where
  "Contains s p \<longleftrightarrow> list_ex (\<lambda>i. HasPrefix (drop i s) p) [0..<Suc (length s)]"

subsection \<open>Programs\<close>

text \<open>What a program that ran to its end has printed, and its exit code.\<close>

record exit_state =
  ex_stdout :: string
  ex_stderr :: string
  ex_code :: int

definition fail_with :: "string \<Rightarrow> exit_state" where
  "fail_with msg = \<lparr>ex_stdout = '''', ex_stderr = msg @ nl, ex_code = 1\<rparr>"

definition exit_ok :: "string \<Rightarrow> exit_state" where
  "exit_ok out = \<lparr>ex_stdout = out, ex_stderr = '''', ex_code = 0\<rparr>"

subsection \<open>Command line flags\<close>

text \<open>
  Go's \<open>flag\<close> package.  A number flag is given by the error text of a value it refuses
  (\<open>ParseInt\<close> and \<open>ParseUint\<close> with base 0).  A later value of a flag comes first in the list.
\<close>

datatype flag_kind = StringFlag | BoolFlag | NumFlag "string \<Rightarrow> string option"

datatype flag_result = Flags "(string \<times> string) list" "string list" | FlagHelp | FlagError string

definition flag_syntax :: "string \<Rightarrow> string option" where
  "flag_syntax s =
     (if length s < 2 \<or> hd s \<noteq> CHR ''-'' then None
      else Some (if s ! 1 = CHR ''-'' then drop 2 s else drop 1 s))"

definition flag_refuses :: "flag_kind \<Rightarrow> string \<Rightarrow> string option" where
  "flag_refuses kind v = (case kind of NumFlag bad \<Rightarrow> bad v | _ \<Rightarrow> None)"

definition is_bool_flag :: "flag_kind \<Rightarrow> bool" where
  "is_bool_flag kind \<longleftrightarrow> (case kind of BoolFlag \<Rightarrow> True | _ \<Rightarrow> False)"

fun parse_flags ::
  "(string \<Rightarrow> string) \<Rightarrow> (string \<times> flag_kind) list \<Rightarrow> string list \<Rightarrow> (string \<times> string) list \<Rightarrow> flag_result"
where
  "parse_flags quote kinds [] acc = Flags acc []"
| "parse_flags quote kinds (s # args) acc =
     (case flag_syntax s of
        None \<Rightarrow> Flags acc (s # args)
      | Some body \<Rightarrow>
          if s = ''--'' then Flags acc args
          else if body = '''' \<or> hd body = CHR ''-'' \<or> hd body = CHR ''='' then FlagError (''bad flag syntax: '' @ s)
          else
            (case (case split_at (CHR ''='') body of Some (n, v) \<Rightarrow> (n, Some v) | None \<Rightarrow> (body, None)) of
               (name, given) \<Rightarrow>
                 (case map_of kinds name of
                    None \<Rightarrow>
                      if name = ''help'' \<or> name = ''h'' then FlagHelp
                      else FlagError (''flag provided but not defined: -'' @ name)
                  | Some kind \<Rightarrow>
                      if is_bool_flag kind then
                        (case given of
                           None \<Rightarrow> parse_flags quote kinds args ((name, ''true'') # acc)
                         | Some v \<Rightarrow>
                             if ParseBool v = None
                             then FlagError (''invalid boolean value '' @ quote v @ '' for -'' @ name @ '': parse error'')
                             else parse_flags quote kinds args ((name, v) # acc))
                      else
                        (case given of
                           Some v \<Rightarrow>
                             (case flag_refuses kind v of
                                Some e \<Rightarrow> FlagError (''invalid value '' @ quote v @ '' for flag -'' @ name @ '': '' @ e)
                              | None \<Rightarrow> parse_flags quote kinds args ((name, v) # acc))
                         | None \<Rightarrow>
                             (case args of
                                [] \<Rightarrow> FlagError (''flag needs an argument: -'' @ name)
                              | v # rest \<Rightarrow>
                                  (case flag_refuses kind v of
                                     Some e \<Rightarrow> FlagError (''invalid value '' @ quote v @ '' for flag -'' @ name @ '': '' @ e)
                                   | None \<Rightarrow> parse_flags quote kinds rest ((name, v) # acc)))))))"

definition flag_value :: "string \<Rightarrow> string \<Rightarrow> (string \<times> string) list \<Rightarrow> string" where
  "flag_value name dflt vs = (case map_of vs name of None \<Rightarrow> dflt | Some v \<Rightarrow> v)"

subsection \<open>Tables\<close>

text \<open>
  \<open>text/tabwriter\<close> with padding 2 on rows of equally many cells: every cell but the last is padded
  with spaces to the width of its column.
\<close>

definition column_width :: "string list list \<Rightarrow> nat \<Rightarrow> nat" where
  "column_width rows j = fold max (map (\<lambda>r. length (r ! j) + 2) rows) 0"

definition pad_cell :: "nat \<Rightarrow> string \<Rightarrow> string" where
  "pad_cell n s = s @ replicate (n - length s) (CHR '' '')"

definition tabulate :: "string list list \<Rightarrow> string" where
  "tabulate rows =
     concat (map (\<lambda>r. concat (map (\<lambda>j. if Suc j < length r then pad_cell (column_width rows j) (r ! j) else r ! j)
                                  [0..<length r]) @ nl) rows)"

end
