(* ===== verification/KeeperdMain.thy ===== *)
theory KeeperdMain
  imports Running Strconv
begin

text \<open>
  How keeperd starts (\<open>main\<close>, \<open>preferExistingPath\<close> and \<open>listenCtl\<close> in \<open>cmd/keeperd/main.go\<close>): the
  flags, the configuration, the audit database, the runtime, the control socket, and what happens
  to the allocated proxies when it is told to stop.

  \<open>'h main_os\<close> holds the calls into the operating system.  \<open>main_result\<close> is how far \<open>main\<close> came: an
  exit with a code and a message, or a daemon that serves its socket.  The daemon itself and the
  moves it makes are those of \<open>Keeperd\<close> and \<open>Running\<close>.
\<close>

record 'h main_os =
  mo_Abs :: "string \<Rightarrow> go_error + string"
  mo_ReadFile :: "string \<Rightarrow> read_result"
  mo_OpenAudit :: "string \<Rightarrow> 'h \<Rightarrow> (go_error + audit_db) \<times> 'h"
  mo_Interfaces :: "go_error + net_iface list"
  mo_Exists :: "string \<Rightarrow> bool"
  mo_Getenv :: "string \<Rightarrow> string"
  mo_GOOS :: string
  mo_TempDir :: string
  mo_Remove :: "string \<Rightarrow> 'h \<Rightarrow> go_error option \<times> 'h"
  mo_Listen :: "string \<Rightarrow> 'h \<Rightarrow> (go_error + nat) \<times> 'h"
  mo_Chmod :: "string \<Rightarrow> nat \<Rightarrow> 'h \<Rightarrow> go_error option \<times> 'h"
  mo_Close :: "nat \<Rightarrow> 'h \<Rightarrow> 'h"

subsection \<open>The runtime\<close>

definition preferExistingPath :: "'h main_os \<Rightarrow> string \<Rightarrow> string \<Rightarrow> string" where
  "preferExistingPath mo preferred fallback = (if mo_Exists mo preferred then preferred else fallback)"

definition main_linux :: "'h main_os \<Rightarrow> LinuxRuntime" where
  "main_linux mo =
     \<lparr>lr_NspawnRootBase = ''/var/lib/vivary/agents'',
      lr_WardBinaryPath = preferExistingPath mo ''/usr/local/bin/ward'' ''/usr/lib/vivary/ward'',
      lr_CapwrapBinaryPath = preferExistingPath mo ''/usr/local/bin/capwrap'' ''/usr/lib/vivary/capwrap'',
      lr_UseSystemdRun = False\<rparr>"

definition main_runtime :: "(string \<Rightarrow> string) \<Rightarrow> 'h host_os \<Rightarrow> 'h main_os \<Rightarrow> 'h container_runtime" where
  "main_runtime quote os mo =
     (if mo_Getenv mo ''VIVARY_STUB_RUNTIME'' \<noteq> '''' \<or> mo_GOOS mo \<noteq> ''linux''
      then stub_runtime os (mo_TempDir mo) \<lparr>sr_ProvisionFunc = None, sr_SpawnFunc = None\<rparr>
      else linux_runtime quote os (main_linux mo))"

subsection \<open>The control socket\<close>

text \<open>0o600 = 384: only the owner may connect.\<close>

definition listenCtl :: "(string \<Rightarrow> string) \<Rightarrow> 'h main_os \<Rightarrow> OrchestratorConfig \<Rightarrow> 'h \<Rightarrow> (go_error + nat) \<times> 'h" where
  "listenCtl quote mo cfg h =
     (case mo_Listen mo (oc_SocketPath cfg) (snd (mo_Remove mo (oc_SocketPath cfg) h)) of
        (Inl err, h) \<Rightarrow> (Inl (Wrap (''listen '' @ quote (oc_SocketPath cfg) @ '': '') err), h)
      | (Inr ln, h) \<Rightarrow>
          (case mo_Chmod mo (oc_SocketPath cfg) 384 h of
             (Some err, h) \<Rightarrow> (Inl (Wrap ''chmod socket: '' err), mo_Close mo ln h)
           | (None, h) \<Rightarrow> (Inr ln, h)))"

text \<open>The accept loop: what \<open>Accept\<close> gives, with whether the context is cancelled by then.\<close>

fun accept_loop :: "((go_error + 'c) \<times> bool) list \<Rightarrow> 'c list" where
  "accept_loop [] = []"
| "accept_loop ((Inr conn, cancelled) # as) = conn # accept_loop as"
| "accept_loop ((Inl err, cancelled) # as) = (if cancelled then [] else accept_loop as)"

subsection \<open>The program\<close>

datatype ('h, 'f) main_result =
    MainExit int string
  | MainReady "('h, 'f) daemon" "'h container_runtime" nat

definition keeperd_main ::
  "(string \<Rightarrow> string) \<Rightarrow> (go_error \<Rightarrow> string) \<Rightarrow> 'h host_os \<Rightarrow> 'h main_os
     \<Rightarrow> (string \<Rightarrow> OrchestratorConfig \<Rightarrow> OrchestratorConfig \<times> go_error option)
     \<Rightarrow> 'h cap_world registry \<Rightarrow> (string \<Rightarrow> 'h chromed_client) \<Rightarrow> (string \<times> string) list \<Rightarrow> instant \<Rightarrow> 'h
     \<Rightarrow> ('h, 'f) main_result \<times> 'h"
where
  "keeperd_main quote error_string os mo kdl_Unmarshal reg client vs now h =
     (case mo_Abs mo (flag_value ''workspace'' ''.'' vs) of
        Inl err \<Rightarrow> (MainExit 1 (''keeperd: invalid workspace path: '' @ error_string err), h)
      | Inr root \<Rightarrow>
          (case LoadOrchestratorConfig quote (mo_ReadFile mo) kdl_Unmarshal root of
             (cfg, Some err) \<Rightarrow> (MainExit 1 (''keeperd: config error: '' @ error_string err), h)
           | (cfg, None) \<Rightarrow>
               (case mo_OpenAudit mo (oc_AuditDBPath cfg) h of
                  (Inl err, h) \<Rightarrow> (MainExit 1 ''failed to open audit DB'', h)
                | (Inr db, h) \<Rightarrow>
                    (case listenCtl quote mo cfg h of
                       (Inl err, h) \<Rightarrow> (MainExit 1 ''ctl socket error'', h)
                     | (Inr ln, h) \<Rightarrow>
                         (MainReady (main_daemon cfg db reg (client (oc_ChromedSocketPath cfg)) (mo_Interfaces mo) now h)
                            (main_runtime quote os mo) ln, h)))))"

text \<open>The deferred calls once the context is cancelled: the proxies that are open are released.\<close>

definition keeperd_shutdown :: "'h net_ops \<Rightarrow> string list \<Rightarrow> ('h, 'f) daemon \<Rightarrow> ('h, 'f) daemon" where
  "keeperd_shutdown net ids d =
     (case dm_browserMgr d of
        None \<Rightarrow> d
      | Some m \<Rightarrow>
          (case bm_proxies m of
             None \<Rightarrow> d
           | Some ps \<Rightarrow>
               (case Proxy_ReleaseAll net ids (ps, dm_host d) of
                  (ps, h) \<Rightarrow> d\<lparr>dm_browserMgr := Some (m\<lparr>bm_proxies := Some ps\<rparr>), dm_host := h\<rparr>)))"

subsection \<open>Starting and stopping\<close>

lemma listenCtl_ok:
  assumes "listenCtl quote mo cfg h = (Inr ln, h')"
  obtains h1 h2 where "mo_Listen mo (oc_SocketPath cfg) h1 = (Inr ln, h2)" "mo_Chmod mo (oc_SocketPath cfg) 384 h2 = (None, h')"
  using assms unfolding listenCtl_def by (auto split: prod.splits sum.splits option.splits)

lemma accept_loop_serves:
  "\<forall>(r, cancelled)\<in>set as. \<not> cancelled \<Longrightarrow> accept_loop as = [conn. (Inr conn, cancelled) \<leftarrow> as]"
  by (induction as rule: accept_loop.induct) auto

lemma Proxy_Release_instances: "al_instances (fst (snd (Proxy_Release net i (p, h)))) = (al_instances p)(i := None)"
  by (auto simp: Proxy_Release_def fun_eq_iff split: option.splits prod.splits)

lemma Proxy_ReleaseAll_instances:
  "Proxy_ReleaseAll net ids (p, h) = (p', h') \<Longrightarrow> al_instances p' = (\<lambda>i. if i \<in> set ids then None else al_instances p i)"
proof (induction ids arbitrary: p h)
  case (Cons i ids)
  obtain p1 h1 where r: "snd (Proxy_Release net i (p, h)) = (p1, h1)"
    by (cases "snd (Proxy_Release net i (p, h))")
  have "Proxy_ReleaseAll net ids (p1, h1) = (p', h')"
    using Cons.prems by (simp add: Proxy_ReleaseAll_def r)
  from Cons.IH [OF this] Proxy_Release_instances [of net i p h] show ?case
    by (auto simp: r fun_eq_iff)
qed (auto simp: Proxy_ReleaseAll_def)

text \<open>
  keeperd serves only with a configuration that was loaded and is valid, a database that was opened
  and a socket whose permissions were restricted; the daemon it serves with keeps the invariant.
\<close>

theorem serving_daemon_is_set_up:
  assumes "keeperd_main quote error_string os mo kdl_Unmarshal reg client vs now h = (MainReady d rt ln, h')"
    and "caps_local reg"
  shows "daemon_inv d \<and> dm_agents d = Map.empty \<and> rt = main_runtime quote os mo
    \<and> (\<exists>root. mo_Abs mo (flag_value ''workspace'' ''.'' vs) = Inr root
         \<and> LoadOrchestratorConfig quote (mo_ReadFile mo) kdl_Unmarshal root = (dm_cfg d, None))
    \<and> (\<exists>h0. mo_Chmod mo (oc_SocketPath (dm_cfg d)) 384 h0 = (None, h'))"
proof -
  from assms(1) obtain root cfg db h1 where s: "mo_Abs mo (flag_value ''workspace'' ''.'' vs) = Inr root"
      "LoadOrchestratorConfig quote (mo_ReadFile mo) kdl_Unmarshal root = (cfg, None)"
      "listenCtl quote mo cfg h1 = (Inr ln, h')" "rt = main_runtime quote os mo"
      "d = main_daemon cfg db reg (client (oc_ChromedSocketPath cfg)) (mo_Interfaces mo) now h'"
    unfolding keeperd_main_def by (auto split: sum.splits prod.splits option.splits)
  have "dm_cfg d = cfg" "dm_agents d = Map.empty"
    by (simp_all add: s(5) main_daemon_def Let_def)
  moreover have "daemon_inv d"
    unfolding s(5) by (rule main_daemon_inv [OF assms(2)])
  moreover obtain h2 where "mo_Chmod mo (oc_SocketPath cfg) 384 h2 = (None, h')"
    using s(3) by (rule listenCtl_ok)
  ultimately show ?thesis
    using s by auto
qed

text \<open>After the deferred calls no proxy is open, if every instance was visited.\<close>

lemma shutdown_closes_proxies:
  assumes "dm_browserMgr d = Some m" and "bm_proxies m = Some ps" and "set ids = dom (al_instances ps)"
    and "dm_browserMgr (keeperd_shutdown net ids d) = Some m'" and "bm_proxies m' = Some ps'"
  shows "al_instances ps' = Map.empty"
proof -
  obtain p h where r: "Proxy_ReleaseAll net ids (ps, dm_host d) = (p, h)"
    by force
  with assms have "ps' = p"
    by (auto simp: keeperd_shutdown_def)
  with Proxy_ReleaseAll_instances [OF r] assms(3) show ?thesis
    by (auto simp: fun_eq_iff domIff)
qed

end
