(* ===== verification/AgentProxy.thy ===== *)
theory AgentProxy
  imports BrowserManager Strconv
begin

text \<open>
  What the proxy of an agent's browser does with a request (\<open>agentProxyHandler\<close> in
  \<open>cmd/keeperd/browser_proxy.go\<close>), with the parts of \<open>net/http\<close> it uses: the writer of a response
  and \<open>http.Error\<close>.

  \<open>'h proxy_net\<close> holds the calls into the network; connections are numbers.  The goroutines of a
  tunnel are the directions that are left to copy, as pairs of destination and source.
\<close>

subsection \<open>Requests and responses\<close>

record proxy_request =
  pr_Method :: string
  pr_Host :: string
  pr_RequestURI :: string
  pr_Header :: "(string \<times> string list) list"

record proxy_response =
  ps_StatusCode :: nat
  ps_Header :: "(string \<times> string list) list"
  ps_Body :: string

record response_writer =
  rw_Header :: "string \<Rightarrow> string list"
  rw_Status :: "nat option"
  rw_Body :: string

definition new_writer :: response_writer where
  "new_writer = \<lparr>rw_Header = (\<lambda>_. []), rw_Status = None, rw_Body = ''''\<rparr>"

definition Header_Add :: "string \<Rightarrow> string \<Rightarrow> response_writer \<Rightarrow> response_writer" where
  "Header_Add k v w = w\<lparr>rw_Header := (rw_Header w)(k := rw_Header w k @ [v])\<rparr>"

definition Header_Set :: "string \<Rightarrow> string \<Rightarrow> response_writer \<Rightarrow> response_writer" where
  "Header_Set k v w = w\<lparr>rw_Header := (rw_Header w)(k := [v])\<rparr>"

text \<open>The first status that is written stays.\<close>

definition WriteHeader :: "nat \<Rightarrow> response_writer \<Rightarrow> response_writer" where
  "WriteHeader code w = (case rw_Status w of None \<Rightarrow> w\<lparr>rw_Status := Some code\<rparr> | Some _ \<Rightarrow> w)"

definition write_body :: "string \<Rightarrow> response_writer \<Rightarrow> response_writer" where
  "write_body s w = w\<lparr>rw_Body := rw_Body w @ s\<rparr>"

definition http_Error :: "string \<Rightarrow> nat \<Rightarrow> response_writer \<Rightarrow> response_writer" where
  "http_Error msg code w =
     (let w = w\<lparr>rw_Header := (rw_Header w)(''Content-Length'' := [])\<rparr>;
          w = Header_Set ''X-Content-Type-Options'' ''nosniff'' (Header_Set ''Content-Type'' ''text/plain; charset=utf-8'' w)
      in write_body (msg @ [CHR 0x0A]) (WriteHeader code w))"

subsection \<open>The handler\<close>

text \<open>\<open>pn_Hijack\<close> is absent where the writer cannot be taken over.\<close>

record 'h proxy_net =
  pn_Do :: "proxy_request \<Rightarrow> 'h \<Rightarrow> (go_error + proxy_response) \<times> 'h"
  pn_Dial :: "string \<Rightarrow> 'h \<Rightarrow> (go_error + nat) \<times> 'h"
  pn_Hijack :: "('h \<Rightarrow> (go_error + nat) \<times> 'h) option"
  pn_Write :: "nat \<Rightarrow> string \<Rightarrow> 'h \<Rightarrow> 'h"
  pn_Copy :: "nat \<Rightarrow> nat \<Rightarrow> 'h \<Rightarrow> 'h"
  pn_Close :: "nat \<Rightarrow> 'h \<Rightarrow> 'h"

datatype proxy_reply = Replied response_writer | Tunnel "(nat \<times> nat) list" | Dropped

definition established :: string where
  "established = ''HTTP/1.1 200 Connection Established'' @ [CHR 0x0D, CHR 0x0A, CHR 0x0D, CHR 0x0A]"

definition proxyCopy :: "'h proxy_net \<Rightarrow> nat \<Rightarrow> nat \<Rightarrow> 'h \<Rightarrow> 'h" where
  "proxyCopy n dst src h = pn_Close n dst (pn_Close n src (pn_Copy n dst src h))"

definition handleConnect ::
  "(go_error \<Rightarrow> string) \<Rightarrow> 'h proxy_net \<Rightarrow> response_writer \<Rightarrow> proxy_request \<Rightarrow> 'h \<Rightarrow> proxy_reply \<times> 'h"
where
  "handleConnect error_string n w r h =
     (case pn_Dial n (pr_Host r) h of
        (Inl err, h) \<Rightarrow> (Replied (http_Error (error_string err) 502 w), h)
      | (Inr dst, h) \<Rightarrow>
          (case pn_Hijack n of
             None \<Rightarrow> (Replied (http_Error ''hijack unsupported'' 500 w), pn_Close n dst h)
           | Some hijack \<Rightarrow>
               (case hijack h of
                  (Inl err, h) \<Rightarrow> (Dropped, pn_Close n dst h)
                | (Inr clientConn, h) \<Rightarrow> (Tunnel [(dst, clientConn), (clientConn, dst)], pn_Write n clientConn established h))))"

definition add_values :: "string \<times> string list \<Rightarrow> response_writer \<Rightarrow> response_writer" where
  "add_values kv w = fold (Header_Add (fst kv)) (snd kv) w"

definition ServeHTTP ::
  "(go_error \<Rightarrow> string) \<Rightarrow> 'h proxy_net \<Rightarrow> response_writer \<Rightarrow> proxy_request \<Rightarrow> 'h \<Rightarrow> proxy_reply \<times> 'h"
where
  "ServeHTTP error_string n w r h =
     (if pr_Method r = ''CONNECT'' then handleConnect error_string n w r h
      else case pn_Do n (r\<lparr>pr_RequestURI := ''''\<rparr>) h of
          (Inl err, h) \<Rightarrow> (Replied (http_Error (error_string err) 502 w), h)
        | (Inr resp, h) \<Rightarrow>
            (Replied (write_body (ps_Body resp) (WriteHeader (ps_StatusCode resp) (fold add_values (ps_Header resp) w))), h))"

subsection \<open>What the browser gets\<close>

lemma add_values_header: "rw_Header (add_values (k, vs) w) = (rw_Header w)(k := rw_Header w k @ vs)"
  unfolding add_values_def
  by (induction vs arbitrary: w) (simp_all add: Header_Add_def)

lemma add_values_other:
  "rw_Status (add_values kv w) = rw_Status w" "rw_Body (add_values kv w) = rw_Body w"
proof -
  have "rw_Status (fold (Header_Add k) vs w) = rw_Status w \<and> rw_Body (fold (Header_Add k) vs w) = rw_Body w" for k vs
    by (induction vs arbitrary: w) (simp_all add: Header_Add_def)
  then show "rw_Status (add_values kv w) = rw_Status w" "rw_Body (add_values kv w) = rw_Body w"
    by (simp_all add: add_values_def)
qed

lemma fold_add_values:
  "distinct (map fst hs) \<Longrightarrow> rw_Header (fold add_values hs w) k = rw_Header w k @ (case map_of hs k of None \<Rightarrow> [] | Some vs \<Rightarrow> vs)"
  "rw_Status (fold add_values hs w) = rw_Status w" "rw_Body (fold add_values hs w) = rw_Body w"
proof (induction hs arbitrary: w)
  case (Cons kv hs)
  {
    case 1
    have "map_of hs (fst kv) = None"
      using 1 by (simp add: map_of_eq_None_iff)
    with 1 Cons.IH(1) [of "add_values kv w"] show ?case
      by (cases kv) (auto simp: add_values_header)
  next
    case 2
    from Cons.IH(2) show ?case by (simp add: add_values_other)
  next
    case 3
    from Cons.IH(3) show ?case by (simp add: add_values_other)
  }
qed simp_all

text \<open>A response reaches the browser as the server sent it: status, every header, body.\<close>

theorem proxied_response_unchanged:
  assumes "pr_Method r \<noteq> ''CONNECT''" and "pn_Do n (r\<lparr>pr_RequestURI := ''''\<rparr>) h = (Inr resp, h')"
    and "distinct (map fst (ps_Header resp))"
  shows "\<exists>w. ServeHTTP error_string n new_writer r h = (Replied w, h') \<and> rw_Status w = Some (ps_StatusCode resp)
    \<and> (\<forall>k. rw_Header w k = (case map_of (ps_Header resp) k of None \<Rightarrow> [] | Some vs \<Rightarrow> vs)) \<and> rw_Body w = ps_Body resp"
  using assms
  by (auto simp: ServeHTTP_def WriteHeader_def write_body_def fold_add_values new_writer_def)

text \<open>
  The handler has no guard of its own: a host that can be dialled gets a tunnel, whoever asks and
  whichever host it is.
\<close>

theorem connect_has_no_guard:
  assumes "pr_Method r = ''CONNECT''" and "pn_Dial n (pr_Host r) h = (Inr dst, h1)"
    and "pn_Hijack n = Some hijack" and "hijack h1 = (Inr conn, h2)"
  shows "ServeHTTP error_string n w r h = (Tunnel [(dst, conn), (conn, dst)], pn_Write n conn established h2)"
  using assms by (simp add: ServeHTTP_def handleConnect_def)

text \<open>A connection that was dialled for a tunnel that did not come about is closed.\<close>

lemma failed_tunnel_closes:
  assumes "pn_Dial n (pr_Host r) h = (Inr dst, h1)" and "handleConnect error_string n w r h = (reply, h')"
  obtains ds where "reply = Tunnel ds" | h2 where "h' = pn_Close n dst h2"
  using assms by (auto simp: handleConnect_def split: option.splits prod.splits sum.splits)

end
