(* ===== verification/PageSession.thy ===== *)
theory PageSession
  imports Chromproxy Strconv
begin

text \<open>
  The browser proxy from \<open>ReadPage\<close> down to the WebSocket (\<open>internal/chromproxy/proxy.go\<close>): a call
  registers its channel, writes its command as a frame and waits; what the read loop receives in
  the meantime goes to the channels it belongs to.  \<open>reader_cdp\<close> makes of calls, of
  \<open>openTarget\<close> and of the wait for a quiet page the operations that \<open>Proxy_ReadPage\<close> works on.

  \<open>pg_events\<close> is what happens on the connection while calls wait, in order: a message (\<open>None\<close> if
  it is no JSON), the end of the connection, or the end of the waiting call's context.  The channel
  of call \<open>i\<close> has the number \<open>i\<close>.  \<open>encoding/json\<close> is the record \<open>cdp_json\<close>; a decoder returns what it
  has filled in, and an error.
\<close>

subsection \<open>Calls\<close>

datatype cdp_event = Received "cdp_envelope option" | Closed go_error | ContextDone go_error

record page_session =
  pg_target :: cdp_target
  pg_writer :: writer
  pg_events :: "cdp_event list"

record cdp_json =
  cj_command :: "int \<Rightarrow> string \<Rightarrow> (string \<times> json) list \<Rightarrow> bytes"
  cj_value :: "bytes \<Rightarrow> string \<times> go_error option"
  cj_nodes :: "bytes \<Rightarrow> ax_node list \<times> go_error option"

definition new_session :: "writer \<Rightarrow> cdp_event list \<Rightarrow> page_session" where
  "new_session w es = \<lparr>pg_target = \<lparr>tg_msgID = 0, tg_pending = Map.empty\<rparr>, pg_writer = w, pg_events = es\<rparr>"

text \<open>The waiting call \<open>i\<close>, with the table and what is left of the events when it returns.\<close>

fun await :: "int \<Rightarrow> cdp_event list \<Rightarrow> cdp_target \<Rightarrow> (go_error + bytes) \<times> cdp_target \<times> cdp_event list" where
  "await i [] t = (Inl (OtherError ''context canceled''), call_abandon i t, [])"
| "await i (ContextDone err # es) t = (Inl err, call_abandon i t, es)"
| "await i (Closed err # es) t = (Inl err, snd (cdp_drain err t), es)"
| "await i (Received msg # es) t =
     (case cdp_message msg t of
        (None, t) \<Rightarrow> await i es t
      | (Some (ch, r), t) \<Rightarrow> if ch = nat i then (r, t, es) else await i es t)"

definition conn_Send :: "bytes \<Rightarrow> writer \<Rightarrow> go_error option \<times> writer" where
  "conn_Send msg w = (case writer_Write w (wsEncodeFrame msg) of ((n, err), w) \<Rightarrow> (err, w))"

definition target_call ::
  "cdp_json \<Rightarrow> string \<Rightarrow> (string \<times> json) list \<Rightarrow> page_session \<Rightarrow> (go_error + bytes) \<times> page_session"
where
  "target_call J method params s =
     (let i = tg_msgID (pg_target s) + 1;
          msg = cj_command J i method params;
          t = snd (call_register (nat i) (pg_target s)) in
      case conn_Send msg (pg_writer s) of
        (Some err, w) \<Rightarrow> (Inl err, s\<lparr>pg_target := call_abandon i t, pg_writer := w\<rparr>)
      | (None, w) \<Rightarrow>
          (case await i (pg_events s) t of
             (r, t, es) \<Rightarrow> (r, s\<lparr>pg_target := t, pg_writer := w, pg_events := es\<rparr>)))"

subsection \<open>The commands of a page\<close>

definition navigate :: "cdp_json \<Rightarrow> string \<Rightarrow> page_session \<Rightarrow> go_error option \<times> page_session" where
  "navigate J url s =
     (case target_call J ''Page.navigate'' [(''url'', JString url)] s of
        (Inl err, s) \<Rightarrow> (Some err, s) | (Inr res, s) \<Rightarrow> (None, s))"

definition evaluate_params :: "string \<Rightarrow> (string \<times> json) list" where
  "evaluate_params expression = [(''expression'', JString expression), (''returnByValue'', JBool True)]"

definition readyState :: "cdp_json \<Rightarrow> page_session \<Rightarrow> (go_error + string) \<times> page_session" where
  "readyState J s =
     (case target_call J ''Runtime.evaluate'' (evaluate_params ''document.readyState'') s of
        (Inl err, s) \<Rightarrow> (Inl err, s) | (Inr res, s) \<Rightarrow> (Inr (fst (cj_value J res)), s))"

text \<open>The answers that the ticks at \<open>nows\<close> get, until one of them fails.\<close>

fun idle_ticks :: "cdp_json \<Rightarrow> int list \<Rightarrow> page_session \<Rightarrow> (int \<times> (go_error + string)) list" where
  "idle_ticks J [] s = []"
| "idle_ticks J (now # nows) s = (case readyState J s of (r, s) \<Rightarrow> (now, r) # idle_ticks J nows s)"

text \<open>\<open>waitNetworkIdle\<close> on a session: the same decisions, with the calls in between.\<close>

fun session_idle :: "cdp_json \<Rightarrow> int \<Rightarrow> int \<Rightarrow> int option \<Rightarrow> int list \<Rightarrow> page_session \<Rightarrow> go_error option \<times> page_session" where
  "session_idle J quietDur deadline lastActivity [] s = (Some (OtherError ''context canceled''), s)"
| "session_idle J quietDur deadline lastActivity (now # nows) s =
     (case readyState J s of
        (Inl err, s) \<Rightarrow> (Some err, s)
      | (Inr state, s) \<Rightarrow>
          let lastActivity =
                (if state = ''complete'' then (case lastActivity of None \<Rightarrow> Some now | Some t \<Rightarrow> Some t) else None) in
          if state = ''complete'' \<and> (case lastActivity of None \<Rightarrow> False | Some t \<Rightarrow> quietDur \<le> now - t) then (None, s)
          else if deadline < now then (None, s)
          else session_idle J quietDur deadline lastActivity nows s)"

definition getFullAXTree :: "cdp_json \<Rightarrow> page_session \<Rightarrow> (go_error + ax_node list option) \<times> page_session" where
  "getFullAXTree J s =
     (case target_call J ''Accessibility.getFullAXTree'' [] s of
        (Inl err, s) \<Rightarrow> (Inl err, s)
      | (Inr res, s) \<Rightarrow> (Inr (case cj_nodes J res of (nodes, Some err) \<Rightarrow> None | (nodes, None) \<Rightarrow> Some nodes), s))"

definition inner_text_js :: string where
  "inner_text_js = ''document.body ? document.body.innerText : '' @ replicate 2 (CHR 0x27)"

definition innerText :: "cdp_json \<Rightarrow> page_session \<Rightarrow> (go_error + string option) \<times> page_session" where
  "innerText J s =
     (case target_call J ''Runtime.evaluate'' (evaluate_params inner_text_js) s of
        (Inl err, s) \<Rightarrow> (Inl err, s)
      | (Inr res, s) \<Rightarrow> (Inr (case cj_value J res of (v, Some err) \<Rightarrow> None | (v, None) \<Rightarrow> Some v), s))"

subsection \<open>The reader\<close>

text \<open>Sessions are kept by the number of their connection; \<open>rs_tgt\<close> is the one being read.\<close>

record 'h reader_state =
  rs_proxy :: proxy
  rs_host :: 'h
  rs_sessions :: "nat \<Rightarrow> page_session"
  rs_tgt :: nat

definition on_tgt :: "(page_session \<Rightarrow> 'r \<times> page_session) \<Rightarrow> 'h reader_state \<Rightarrow> 'r \<times> 'h reader_state" where
  "on_tgt f S = (case f (rs_sessions S (rs_tgt S)) of
     (r, s) \<Rightarrow> (r, S\<lparr>rs_sessions := (rs_sessions S)(rs_tgt S := s)\<rparr>))"

definition reader_cdp :: "'h devtools \<Rightarrow> cdp_json \<Rightarrow> int \<Rightarrow> int list \<Rightarrow> 'h reader_state cdp" where
  "reader_cdp d J deadline nows =
     \<lparr>cdp_openTarget = (\<lambda>agentID S. case openTarget d agentID (rs_proxy S, rs_host S) of
        (Inl err, p, h) \<Rightarrow> (Some err, S\<lparr>rs_proxy := p, rs_host := h\<rparr>)
      | (Inr conn, p, h) \<Rightarrow> (None, S\<lparr>rs_proxy := p, rs_host := h, rs_tgt := conn\<rparr>)),
      cdp_navigate = (\<lambda>url. on_tgt (navigate J url)),
      cdp_waitNetworkIdle = on_tgt (session_idle J 2000000000 deadline None nows),
      cdp_getFullAXTree = on_tgt (getFullAXTree J),
      cdp_innerText = on_tgt (innerText J)\<rparr>"

subsection \<open>A call gets its own answer\<close>

definition session_ok :: "cdp_target \<Rightarrow> bool" where
  "session_ok t \<longleftrightarrow> pending_ok t \<and> (\<forall>i ch. tg_pending t i = Some ch \<longrightarrow> ch = nat i)"

lemma register_session_ok:
  assumes "session_ok t" and "i = tg_msgID t + 1"
  shows "session_ok (snd (call_register (nat i) t))" and "tg_pending (snd (call_register (nat i) t)) i = Some (nat i)" and "0 < i"
proof -
  obtain j t' where r: "call_register (nat i) t = (j, t')"
    by force
  have j: "j = i"
    using r assms(2) by (auto simp: call_register_def Let_def)
  have p: "pending_ok t"
    using assms(1) by (simp add: session_ok_def)
  have t': "tg_pending t' = (tg_pending t)(i \<mapsto> nat i)"
    using r assms(2) by (auto simp: call_register_def Let_def)
  show "session_ok (snd (call_register (nat i) t))"
    using call_register_ok(1) [OF p r] assms(1) by (auto simp: session_ok_def r t')
  show "tg_pending (snd (call_register (nat i) t)) i = Some (nat i)" and "0 < i"
    using call_register_ok(3,4) [OF p r] j by (simp_all add: r)
qed

lemma message_session_ok:
  assumes "session_ok t"
  shows "session_ok (snd (cdp_message msg t))"
  using assms by (auto simp: session_ok_def pending_ok_def cdp_message_def Let_def split: option.splits if_splits)

text \<open>A message that carries another id is not taken for the answer, and leaves the call waiting.\<close>

lemma await_other:
  assumes "session_ok t" and "tg_pending t i = Some (nat i)" and "0 < i" and "\<forall>env. msg = Some env \<longrightarrow> ev_ID env \<noteq> i"
  shows "await i (Received msg # es) t = await i es (snd (cdp_message msg t))"
    and "tg_pending (snd (cdp_message msg t)) i = Some (nat i)"
proof -
  show "tg_pending (snd (cdp_message msg t)) i = Some (nat i)"
    using assms(2,4) by (cases msg) (auto simp: cdp_message_def Let_def split: option.splits)
  obtain d t' where m: "cdp_message msg t = (d, t')"
    by force
  have "ch \<noteq> nat i" if d: "d = Some (ch, r)" for ch r
  proof -
    obtain env where env: "msg = Some env" "tg_pending t (ev_ID env) = Some ch"
      using m d by (auto elim: cdp_message_delivers)
    with assms(1) have "ch = nat (ev_ID env)" "0 < ev_ID env"
      by (auto simp: session_ok_def pending_ok_def)
    with assms(3,4) env(1) show ?thesis by (metis int_nat_eq less_imp_le)
  qed
  with m show "await i (Received msg # es) t = await i es (snd (cdp_message msg t))"
    by (auto split: option.split)
qed

lemma await_answer:
  assumes "session_ok t" and "tg_pending t i = Some (nat i)" and "0 < i"
    and "\<forall>e\<in>set pre. \<exists>msg. e = Received msg \<and> (\<forall>env. msg = Some env \<longrightarrow> ev_ID env \<noteq> i)" and "ev_ID env = i"
  shows "\<exists>t'. await i (pre @ Received (Some env) # post) t = (call_result env, t', post)
    \<and> session_ok t' \<and> tg_pending t' i = None"
  using assms(1,2,4)
proof (induction pre arbitrary: t)
  case Nil
  have "cdp_message (Some env) t = (Some (nat i, call_result env), t\<lparr>tg_pending := (tg_pending t)(i := None)\<rparr>)"
    using Nil.prems(2) assms(3,5) by (simp add: cdp_message_def Let_def)
  moreover from this message_session_ok [OF Nil.prems(1), of "Some env"]
  have "session_ok (t\<lparr>tg_pending := (tg_pending t)(i := None)\<rparr>)" by simp
  ultimately show ?case by simp
next
  case (Cons e pre)
  then obtain msg where e: "e = Received msg" "\<forall>env. msg = Some env \<longrightarrow> ev_ID env \<noteq> i"
    by auto
  note step = await_other [OF Cons.prems(1,2) assms(3) e(2)]
  have "\<exists>t'. await i (pre @ Received (Some env) # post) (snd (cdp_message msg t)) = (call_result env, t', post)
      \<and> session_ok t' \<and> tg_pending t' i = None"
    using Cons.IH [OF message_session_ok [OF Cons.prems(1)] step(2)] Cons.prems(3) by simp
  with step(1) show ?case by (simp add: e(1))
qed

text \<open>
  A call returns the answer to its own command: whatever events, foreign answers and messages that
  are no JSON come first, the message with its number decides, the ones behind it are left for the
  next call, and nothing waits under the number any more.
\<close>

theorem call_gets_its_answer:
  assumes "session_ok (pg_target s)" and "i = tg_msgID (pg_target s) + 1"
    and "fst (conn_Send (cj_command J i method params) (pg_writer s)) = None"
    and "pg_events s = pre @ Received (Some env) # post" and "ev_ID env = i"
    and "\<forall>e\<in>set pre. \<exists>msg. e = Received msg \<and> (\<forall>env. msg = Some env \<longrightarrow> ev_ID env \<noteq> i)"
  shows "\<exists>s'. target_call J method params s = (call_result env, s') \<and> pg_events s' = post
    \<and> session_ok (pg_target s') \<and> tg_pending (pg_target s') i = None"
proof -
  note r = register_session_ok [OF assms(1,2)]
  obtain t' where "await i (pre @ Received (Some env) # post) (snd (call_register (nat i) (pg_target s))) = (call_result env, t', post)"
      "session_ok t'" "tg_pending t' i = None"
    using await_answer [OF r assms(6,5)] by blast
  with assms(2-4) show ?thesis
    by (cases "conn_Send (cj_command J i method params) (pg_writer s)") (simp add: target_call_def)
qed

text \<open>The wait on a session is the wait on the answers it gets.\<close>

lemma session_idle_answers:
  "fst (session_idle J quietDur deadline la nows s) = waitNetworkIdle quietDur deadline la (idle_ticks J nows s)"
proof (induction nows arbitrary: la s)
  case (Cons now nows)
  obtain r s' where "readyState J s = (r, s')"
    by force
  with Cons.IH show ?case
    by (cases r) (simp_all add: Let_def)
qed simp

text \<open>A page outside the whitelist costs the browser nothing: no connection, no frame.\<close>

lemma refused_page_sends_nothing:
  "\<not> Allows url_Parse policy rawURL \<Longrightarrow>
     snd (Proxy_ReadPage quote url_Parse (reader_cdp d J deadline nows) je agentID rawURL policy waitFor maxChars S) = S"
  by (simp add: Proxy_ReadPage_def)

text \<open>A connection that ends answers the waiting call with its error, and leaves nobody waiting.\<close>

lemma await_closed: "await i (Closed err # es) t = (Inl err, t', es') \<Longrightarrow> tg_pending t' = Map.empty"
  by (auto simp: cdp_drain_def)

end
