(* ===== verification/Schema.thy ===== *)
theory Schema
  imports Capability
begin

text \<open>
  The field codecs of the generated payload types (\<open>internal/capabilities/generated.go\<close>).

  The generator writes, for every capability, a struct with one field per argument or result, and
  a \<open>MarshalMUS\<close>/\<open>UnmarshalMUS\<close> pair that treats the fields one after the other, each by one of
  six patterns that depend only on the field's type.  A struct is therefore the list of its
  fields, a value the list of the fields' values; \<open>append_value\<close> and \<open>read_value\<close> are the
  patterns, and \<open>Generated\<close> holds the lists.  A few result structs have a field that neither
  method mentions: \<open>fd_coded\<close> is false for it, and a decoded struct has its zero value there.
\<close>

subsection \<open>Structs\<close>

datatype field_type = TString | TInt | TBool | TStrings | TRawList | TMatrix

datatype field_value =
    VString string
  | VInt u64
  | VBool bool
  | VStrings "string list"
  | VRawList "string list"
  | VMatrix "string list list"

record field =
  fd_name :: string
  fd_type :: field_type
  fd_coded :: bool

abbreviation coded :: "string \<Rightarrow> field_type \<Rightarrow> field" where
  "coded n t \<equiv> \<lparr>fd_name = n, fd_type = t, fd_coded = True\<rparr>"

abbreviation uncoded :: "string \<Rightarrow> field_type \<Rightarrow> field" where
  "uncoded n t \<equiv> \<lparr>fd_name = n, fd_type = t, fd_coded = False\<rparr>"

fun type_of :: "field_value \<Rightarrow> field_type" where
  "type_of (VString s) = TString"
| "type_of (VInt n) = TInt"
| "type_of (VBool x) = TBool"
| "type_of (VStrings vs) = TStrings"
| "type_of (VRawList vs) = TRawList"
| "type_of (VMatrix rows) = TMatrix"

fun zero_value :: "field_type \<Rightarrow> field_value" where
  "zero_value TString = VString ''''"
| "zero_value TInt = VInt 0"
| "zero_value TBool = VBool False"
| "zero_value TStrings = VStrings []"
| "zero_value TRawList = VRawList []"
| "zero_value TMatrix = VMatrix []"

subsection \<open>Encoding\<close>

definition append_strings :: "bytes \<Rightarrow> string list \<Rightarrow> bytes" where
  "append_strings b vs = fold (\<lambda>v b. AppendString b v) vs (AppendVarint b (of_nat (length vs)))"

fun append_value :: "bytes \<Rightarrow> field_value \<Rightarrow> bytes" where
  "append_value b (VString s) = AppendString b s"
| "append_value b (VInt n) = AppendVarint b n"
| "append_value b (VBool x) = append_bool b x"
| "append_value b (VStrings vs) = append_strings b vs"
| "append_value b (VRawList vs) = append_strings b vs"
| "append_value b (VMatrix rows) = fold (\<lambda>v b. append_strings b v) rows (AppendVarint b (of_nat (length rows)))"

fun marshal_fields :: "field list \<Rightarrow> field_value list \<Rightarrow> bytes \<Rightarrow> bytes" where
  "marshal_fields (f # fs) (v # vs) b = marshal_fields fs vs (if fd_coded f then append_value b v else b)"
| "marshal_fields _ _ b = b"

subsection \<open>Decoding\<close>

text \<open>The loop over a counted list; \<open>body\<close> is told the index, which its errors name.\<close>

fun read_from :: "nat \<Rightarrow> nat \<Rightarrow> (nat \<Rightarrow> 'a reads) \<Rightarrow> 'a list reads" where
  "read_from i 0 body = rreturn []"
| "read_from i (Suc n) body =
     rbind (body i) (\<lambda>x. rbind (read_from (Suc i) n body) (\<lambda>xs. rreturn (x # xs)))"

definition read_counted :: "string \<Rightarrow> nat \<Rightarrow> (nat \<Rightarrow> 'a reads) \<Rightarrow> 'a list reads" where
  "read_counted label elem_size body =
     rbind (rmap_err (Wrap (label @ '': '')) ReadVarint) (\<lambda>n.
     rbind (make_slice elem_size n) (\<lambda>_.
     read_from 0 (unat n) body))"

definition index_label :: "string \<Rightarrow> nat \<Rightarrow> string" where
  "index_label label i = label @ ''['' @ show_nat i @ '']''"

definition read_text :: "string \<Rightarrow> string reads" where
  "read_text label = rmap_err (Wrap (label @ '': '')) (ReadString (of_nat MaxPayloadBytes))"

fun read_value :: "string \<Rightarrow> field_type \<Rightarrow> field_value reads" where
  "read_value name TString = rbind (read_text name) (\<lambda>s. rreturn (VString s))"
| "read_value name TInt = rbind (rmap_err (Wrap (name @ '': '')) ReadVarint) (\<lambda>v. rreturn (VInt v))"
| "read_value name TBool = rbind (rmap_err (Wrap (name @ '': '')) (read_full 1)) (\<lambda>b. rreturn (VBool (b ! 0 \<noteq> 0)))"
| "read_value name TStrings =
     rbind (read_counted name 16 (\<lambda>i. read_text (index_label name i))) (\<lambda>vs. rreturn (VStrings vs))"
| "read_value name TRawList =
     rbind (read_counted name 24 (\<lambda>i. read_text (index_label name i))) (\<lambda>vs. rreturn (VRawList vs))"
| "read_value name TMatrix =
     rbind (read_counted name 24 (\<lambda>i.
              read_counted (index_label name i) 16 (\<lambda>j. read_text (index_label (index_label name i) j))))
       (\<lambda>rows. rreturn (VMatrix rows))"

fun unmarshal_fields :: "field list \<Rightarrow> field_value list reads" where
  "unmarshal_fields [] = rreturn []"
| "unmarshal_fields (f # fs) =
     rbind (if fd_coded f then read_value (fd_name f) (fd_type f) else rreturn (zero_value (fd_type f)))
       (\<lambda>v. rbind (unmarshal_fields fs) (\<lambda>vs. rreturn (v # vs)))"

subsection \<open>Lists of structs\<close>

text \<open>\<open>unsafe.Sizeof\<close> of a struct on a 64-bit machine: only a \<open>bool\<close> is not aligned to 8.\<close>

fun field_size :: "field_type \<Rightarrow> nat" where
  "field_size TString = 16"
| "field_size TInt = 8"
| "field_size TBool = 1"
| "field_size TStrings = 24"
| "field_size TRawList = 24"
| "field_size TMatrix = 24"

definition align8 :: "nat \<Rightarrow> nat" where
  "align8 n = (n + 7) div 8 * 8"

fun struct_end :: "nat \<Rightarrow> field list \<Rightarrow> nat" where
  "struct_end n [] = n"
| "struct_end n (f # fs) = struct_end ((if fd_type f = TBool then n else align8 n) + field_size (fd_type f)) fs"

definition struct_size :: "field list \<Rightarrow> nat" where
  "struct_size fs =
     (if list_all (\<lambda>f. fd_type f = TBool) fs then struct_end 0 fs else align8 (struct_end 0 fs))"

definition marshal_items :: "field list \<Rightarrow> field_value list list \<Rightarrow> bytes" where
  "marshal_items fs items = fold (\<lambda>vs b. b @ marshal_fields fs vs []) items (AppendVarint [] (of_nat (length items)))"

definition unmarshal_items :: "field list \<Rightarrow> field_value list list reads" where
  "unmarshal_items fs =
     rbind ReadVarint (\<lambda>n. rbind (make_slice (struct_size fs) n) (\<lambda>_. read_from 0 (unat n) (\<lambda>_. unmarshal_fields fs)))"

subsection \<open>The matrix result\<close>

definition decodeStringMatrix :: "bytes \<Rightarrow> string list list outcome" where
  "decodeStringMatrix data =
     (case rbind ReadVarint (\<lambda>rowsN. rbind (make_slice 24 rowsN) (\<lambda>_.
             read_from 0 (unat rowsN) (\<lambda>_.
               rbind ReadVarint (\<lambda>colsN. rbind (make_slice 16 colsN) (\<lambda>_.
                 read_from 0 (unat colsN) (\<lambda>_. ReadString (of_nat MaxPayloadBytes)))))))
          (bytes_NewReader data) of
        (Val rows, r) \<Rightarrow>
          if rd_buf r \<noteq> [] then Err (OtherError ''string matrix result: trailing payload bytes'') else Val rows
      | (Err e, r) \<Rightarrow> Err e
      | (Panic m, r) \<Rightarrow> Panic m)"

subsection \<open>Round trips\<close>

fun value_wf :: "field_value \<Rightarrow> bool" where
  "value_wf (VString s) \<longleftrightarrow> length s \<le> MaxPayloadBytes"
| "value_wf (VInt n) \<longleftrightarrow> True"
| "value_wf (VBool x) \<longleftrightarrow> True"
| "value_wf (VStrings vs) \<longleftrightarrow> 16 * length vs \<le> maxAlloc \<and> (\<forall>v\<in>set vs. length v \<le> MaxPayloadBytes)"
| "value_wf (VRawList vs) \<longleftrightarrow> 24 * length vs \<le> maxAlloc \<and> (\<forall>v\<in>set vs. length v \<le> MaxPayloadBytes)"
| "value_wf (VMatrix rows) \<longleftrightarrow> 24 * length rows \<le> maxAlloc
     \<and> (\<forall>row\<in>set rows. 16 * length row \<le> maxAlloc \<and> (\<forall>v\<in>set row. length v \<le> MaxPayloadBytes))"

text \<open>A value of a struct: one value per field, of the field's type, within the decoder's limits.\<close>

definition struct_wf :: "field list \<Rightarrow> field_value list \<Rightarrow> bool" where
  "struct_wf fs vs \<longleftrightarrow> list_all2 (\<lambda>f v. type_of v = fd_type f \<and> value_wf v) fs vs"

text \<open>What is left of a value after it has been sent: uncoded fields become zero.\<close>

definition coded_part :: "field list \<Rightarrow> field_value list \<Rightarrow> field_value list" where
  "coded_part fs vs = map2 (\<lambda>f v. if fd_coded f then v else zero_value (fd_type f)) fs vs"

lemma append_strings_enc: "append_strings b vs = b @ enc_varint (of_nat (length vs)) @ concat (map enc_string vs)"
proof -
  have "fold (\<lambda>v b. AppendString b v) vs b' = b' @ concat (map enc_string vs)" for b'
    by (induction vs arbitrary: b') simp_all
  then show ?thesis by (simp add: append_strings_def)
qed

lemma append_value_enc: "append_value b v = b @ append_value [] v"
proof (cases v)
  case (VMatrix rows)
  have "fold (\<lambda>v b. append_strings b v) rows b' = b' @ concat (map (append_strings []) rows)" for b'
    by (induction rows arbitrary: b') (simp_all add: append_strings_enc)
  with VMatrix show ?thesis by simp
qed (simp_all add: append_strings_enc append_bool_def)

lemma marshal_fields_append: "marshal_fields fs vs b = b @ marshal_fields fs vs []"
proof (induction fs arbitrary: vs b)
  case Nil
  then show ?case by simp
next
  case (Cons f fs)
  show ?case
  proof (cases vs)
    case Nil
    then show ?thesis by simp
  next
    case (Cons v ws)
    show ?thesis
    proof (cases "fd_coded f")
      case True
      have "marshal_fields (f # fs) vs b = append_value b v @ marshal_fields fs ws []"
        using Cons.IH [of ws "append_value b v"] Cons True by simp
      also have "\<dots> = b @ append_value [] v @ marshal_fields fs ws []"
        by (subst append_value_enc) simp
      also have "append_value [] v @ marshal_fields fs ws [] = marshal_fields (f # fs) vs []"
        using Cons.IH [of ws "append_value [] v"] Cons True by simp
      finally show ?thesis .
    next
      case False
      with Cons.IH [of ws b] Cons show ?thesis by simp
    qed
  qed
qed

lemma read_from_mapped:
  assumes "\<And>i x r rest. x \<in> set xs \<Longrightarrow> body i (r\<lparr>rd_buf := enc x @ rest\<rparr>) = (Val (g x), r\<lparr>rd_buf := rest\<rparr>)"
  shows "read_from i (length xs) body (r\<lparr>rd_buf := concat (map enc xs) @ rest\<rparr>) = (Val (map g xs), r\<lparr>rd_buf := rest\<rparr>)"
  using assms
proof (induction xs arbitrary: i)
  case (Cons x xs)
  have "body i (r\<lparr>rd_buf := enc x @ concat (map enc xs) @ rest\<rparr>) = (Val (g x), r\<lparr>rd_buf := concat (map enc xs) @ rest\<rparr>)"
    by (rule Cons.prems) simp
  moreover have "read_from (Suc i) (length xs) body (r\<lparr>rd_buf := concat (map enc xs) @ rest\<rparr>) = (Val (map g xs), r\<lparr>rd_buf := rest\<rparr>)"
    by (rule Cons.IH, rule Cons.prems) simp
  ultimately show ?case by (simp add: rbind_Val)
qed simp

lemmas read_from_enc = read_from_mapped [where g = "\<lambda>x. x", unfolded list.map_ident]

lemma read_counted_enc:
  assumes "\<And>i x r rest. x \<in> set xs \<Longrightarrow> body i (r\<lparr>rd_buf := enc x @ rest\<rparr>) = (Val x, r\<lparr>rd_buf := rest\<rparr>)"
    and "sz * length xs \<le> maxAlloc" and "0 < sz"
  shows "read_counted label sz body (r\<lparr>rd_buf := enc_varint (of_nat (length xs)) @ concat (map enc xs) @ rest\<rparr>)
    = (Val xs, r\<lparr>rd_buf := rest\<rparr>)"
proof -
  have "length xs \<le> sz * length xs"
    using assms(3) by (cases sz) simp_all
  then have "length xs \<le> 2 ^ 48"
    using assms(2) unfolding maxAlloc_def by (rule le_trans)
  then have len: "length xs < 2 ^ 64"
    by simp
  have u: "unat (of_nat (length xs) :: u64) = length xs"
    using len by (simp add: unat_of_nat_u64)
  show ?thesis
    unfolding read_counted_def
    by (simp add: rbind_Val rmap_err_Val ReadVarint_enc make_slice_ok [OF assms(2) len] u
        read_from_enc [where xs = xs and body = body and enc = enc, OF assms(1)])
qed

lemma read_text_enc:
  assumes "length s \<le> MaxPayloadBytes"
  shows "read_text label (r\<lparr>rd_buf := enc_string s @ rest\<rparr>) = (Val s, r\<lparr>rd_buf := rest\<rparr>)"
  using assms by (simp add: read_text_def rmap_err_Val marshal_simps)

lemma read_strings_enc:
  assumes "\<forall>v\<in>set vs. length v \<le> MaxPayloadBytes" and "sz * length vs \<le> maxAlloc" and "0 < sz"
  shows "read_counted label sz (\<lambda>i. read_text (index_label label i)) (r\<lparr>rd_buf := append_strings [] vs @ rest\<rparr>)
    = (Val vs, r\<lparr>rd_buf := rest\<rparr>)"
  using read_counted_enc [where xs = vs and body = "\<lambda>i. read_text (index_label label i)" and enc = enc_string
      and sz = sz and label = label and r = r and rest = rest] assms
  by (simp add: append_strings_enc read_text_enc)

lemma read_value_enc:
  assumes "value_wf v"
  shows "read_value name (type_of v) (r\<lparr>rd_buf := append_value [] v @ rest\<rparr>) = (Val v, r\<lparr>rd_buf := rest\<rparr>)"
proof (cases v)
  case (VMatrix rows)
  have "fold (\<lambda>v b. append_strings b v) rows b' = b' @ concat (map (append_strings []) rows)" for b'
    by (induction rows arbitrary: b') (simp_all add: append_strings_enc)
  then have e: "append_value [] v = enc_varint (of_nat (length rows)) @ concat (map (append_strings []) rows)"
    using VMatrix by simp
  have "read_counted name 24 (\<lambda>i. read_counted (index_label name i) 16 (\<lambda>j. read_text (index_label (index_label name i) j)))
      (r\<lparr>rd_buf := enc_varint (of_nat (length rows)) @ concat (map (append_strings []) rows) @ rest\<rparr>)
    = (Val rows, r\<lparr>rd_buf := rest\<rparr>)"
    using assms VMatrix by (intro read_counted_enc read_strings_enc) auto
  with VMatrix e show ?thesis by (simp add: rbind_Val)
next
  case (VStrings vs)
  with assms show ?thesis by (simp add: rbind_Val read_strings_enc)
next
  case (VRawList vs)
  with assms show ?thesis by (simp add: rbind_Val read_strings_enc)
qed (use assms in \<open>simp_all add: rbind_Val rmap_err_Val read_text_enc ReadVarint_enc append_bool_def codec_simps\<close>)

text \<open>What a decoder makes of an encoded struct, with anything behind it.\<close>

lemma unmarshal_fields_enc:
  assumes "struct_wf fs vs"
  shows "unmarshal_fields fs (r\<lparr>rd_buf := marshal_fields fs vs [] @ rest\<rparr>) = (Val (coded_part fs vs), r\<lparr>rd_buf := rest\<rparr>)"
  using assms
proof (induction fs arbitrary: vs)
  case (Cons f fs)
  then obtain v ws where vs: "vs = v # ws" "type_of v = fd_type f" "value_wf v" "struct_wf fs ws"
    by (auto simp: struct_wf_def list_all2_Cons1)
  note IH = Cons.IH [OF vs(4)]
  show ?case
  proof (cases "fd_coded f")
    case True
    have "marshal_fields (f # fs) vs [] = append_value [] v @ marshal_fields fs ws []"
      using True vs(1) marshal_fields_append [of fs ws "append_value [] v"] by simp
    with read_value_enc [OF vs(3), where name = "fd_name f" and r = r and rest = "marshal_fields fs ws [] @ rest"]
      IH True vs(1,2) show ?thesis
      by (simp add: rbind_Val coded_part_def)
  next
    case False
    with IH vs(1) show ?thesis by (simp add: rbind_Val coded_part_def)
  qed
qed (simp add: struct_wf_def coded_part_def)

lemma coded_part_id: "struct_wf fs vs \<Longrightarrow> list_all fd_coded fs \<Longrightarrow> coded_part fs vs = vs"
proof (induction fs arbitrary: vs)
  case (Cons f fs)
  then show ?case by (auto simp: struct_wf_def coded_part_def list_all2_Cons1)
qed (simp add: struct_wf_def coded_part_def)

lemma local_read_from [local_intros]: "(\<And>i. local_reads (body i)) \<Longrightarrow> local_reads (read_from i n body)"
  by (induction n arbitrary: i) (auto intro!: local_intros simp del: rreturn_simp)

lemma local_read_counted [local_intros]: "(\<And>i. local_reads (body i)) \<Longrightarrow> local_reads (read_counted label sz body)"
  unfolding read_counted_def by (intro local_intros)

lemma local_read_text [local_intros]: "local_reads (read_text label)"
  unfolding read_text_def by (intro local_intros)

lemma local_read_value [local_intros]: "local_reads (read_value name t)"
  by (cases t) (auto intro!: local_intros simp del: rreturn_simp)

lemma local_unmarshal_fields [local_intros]: "local_reads (unmarshal_fields fs)"
  by (induction fs) (auto intro!: local_intros simp del: rreturn_simp)

subsection \<open>Lists of structs travel element by element\<close>

lemma marshal_items_enc:
  "marshal_items fs items = enc_varint (of_nat (length items)) @ concat (map (\<lambda>vs. marshal_fields fs vs []) items)"
proof -
  have "fold (\<lambda>vs b. b @ marshal_fields fs vs []) items b' = b' @ concat (map (\<lambda>vs. marshal_fields fs vs []) items)" for b'
    by (induction items arbitrary: b') simp_all
  then show ?thesis by (simp add: marshal_items_def)
qed

lemma unmarshal_items_enc:
  assumes "\<forall>vs\<in>set items. struct_wf fs vs" and "struct_size fs * length items \<le> maxAlloc" and "length items < 2 ^ 64"
  shows "unmarshal_items fs (r\<lparr>rd_buf := marshal_items fs items @ rest\<rparr>) = (Val (map (coded_part fs) items), r\<lparr>rd_buf := rest\<rparr>)"
  using assms
  by (simp add: unmarshal_items_def marshal_items_enc rbind_Val ReadVarint_enc make_slice_ok unat_of_nat_u64
      read_from_mapped [where enc = "\<lambda>vs. marshal_fields fs vs []"] unmarshal_fields_enc)

end
