(* ===== verification/Generated.thy ===== *)
theory Generated
  imports Schema
begin

text \<open>
  The payload types the generator wrote (\<open>internal/capabilities/generated.go\<close>): the fields of every
  argument and result struct in the order in which they are encoded, the factories that pick the
  type of a capability, and the registry of what each capability takes and returns.

  The JSON schema texts and the descriptions are prose for the language model; the texts are a
  parameter of \<open>GeneratedRegistry\<close>, and the descriptions are left out.
\<close>

subsection \<open>Structs\<close>

definition Browser_Form_Submit_fields :: "field list" where
  "Browser_Form_Submit_fields = [coded ''url'' TString, coded ''fields'' TRawList,
     coded ''submit_selector'' TString]"

definition Browser_Form_Submit_Result_fields :: "field list" where
  "Browser_Form_Submit_Result_fields = [coded ''final_url'' TString, coded ''status_code'' TInt,
     coded ''page_text'' TString]"

definition Browser_Link_List_fields :: "field list" where
  "Browser_Link_List_fields = [coded ''url'' TString, coded ''same_domain_only'' TBool]"

definition Browser_Link_List_ResultItem_fields :: "field list" where
  "Browser_Link_List_ResultItem_fields = [coded ''text'' TString, coded ''href'' TString, coded ''rel'' TString]"

definition Browser_Page_GetTitle_fields :: "field list" where
  "Browser_Page_GetTitle_fields = [coded ''url'' TString]"

definition Browser_Page_GetTitle_Result_fields :: "field list" where
  "Browser_Page_GetTitle_Result_fields = [coded ''title'' TString, coded ''description'' TString,
     coded ''canonical_url'' TString, coded ''status_code'' TInt]"

definition Browser_Page_Read_fields :: "field list" where
  "Browser_Page_Read_fields = [coded ''url'' TString, coded ''timeout'' TInt, coded ''wait_for'' TString]"

definition Browser_Page_Screenshot_fields :: "field list" where
  "Browser_Page_Screenshot_fields = [coded ''url'' TString, coded ''selector'' TString, coded ''full_page'' TBool]"

definition Calendar_Event_Create_fields :: "field list" where
  "Calendar_Event_Create_fields = [coded ''title'' TString, coded ''start'' TString, coded ''end'' TString,
     coded ''attendees'' TStrings, coded ''location'' TString, coded ''description'' TString]"

definition Calendar_Event_Create_Result_fields :: "field list" where
  "Calendar_Event_Create_Result_fields = [coded ''event_id'' TString, coded ''html_link'' TString]"

definition Calendar_Event_List_fields :: "field list" where
  "Calendar_Event_List_fields = [coded ''start'' TString, coded ''end'' TString, coded ''calendar_id'' TString]"

definition Calendar_Event_List_ResultItem_fields :: "field list" where
  "Calendar_Event_List_ResultItem_fields = [coded ''id'' TString, coded ''title'' TString,
     coded ''start'' TString, coded ''end'' TString, coded ''location'' TString, uncoded ''attendees'' TStrings,
     coded ''organizer'' TString]"

definition Calendar_Event_Read_fields :: "field list" where
  "Calendar_Event_Read_fields = [coded ''event_id'' TString]"

definition Calendar_Event_Read_Result_fields :: "field list" where
  "Calendar_Event_Read_Result_fields = [coded ''id'' TString, coded ''title'' TString, coded ''start'' TString,
     coded ''end'' TString, coded ''location'' TString, coded ''description'' TString,
     uncoded ''attendees'' TStrings, coded ''status'' TString]"

definition Calendar_Slot_Find_fields :: "field list" where
  "Calendar_Slot_Find_fields = [coded ''attendees'' TStrings, coded ''duration_minutes'' TInt,
     coded ''window_start'' TString, coded ''window_end'' TString, coded ''working_hours_only'' TBool]"

definition Calendar_Slot_Find_ResultItem_fields :: "field list" where
  "Calendar_Slot_Find_ResultItem_fields = [coded ''start'' TString, coded ''end'' TString]"

definition Code_Lint_Run_fields :: "field list" where
  "Code_Lint_Run_fields = [coded ''linter'' TString, coded ''path'' TString]"

definition Code_Lint_Run_ResultItem_fields :: "field list" where
  "Code_Lint_Run_ResultItem_fields = [coded ''file'' TString, coded ''line'' TString, coded ''severity'' TString,
     coded ''message'' TString, coded ''rule'' TString]"

definition Code_Script_Exec_fields :: "field list" where
  "Code_Script_Exec_fields = [coded ''interpreter'' TString, coded ''script'' TString, coded ''timeout'' TInt]"

definition Code_Script_Exec_Result_fields :: "field list" where
  "Code_Script_Exec_Result_fields = [coded ''stdout'' TString, coded ''stderr'' TString, coded ''exit_code'' TInt,
     coded ''duration_ms'' TString]"

definition Code_Test_Run_fields :: "field list" where
  "Code_Test_Run_fields = [coded ''framework'' TString, coded ''path'' TString, coded ''filter'' TString]"

definition Code_Test_Run_Result_fields :: "field list" where
  "Code_Test_Run_Result_fields = [coded ''passed'' TInt, coded ''failed'' TInt, coded ''skipped'' TInt,
     coded ''output'' TString]"

definition Database_Query_Exec_fields :: "field list" where
  "Database_Query_Exec_fields = [coded ''source_id'' TString, coded ''query'' TString, coded ''max_rows'' TInt]"

definition Database_Query_Exec_Result_fields :: "field list" where
  "Database_Query_Exec_Result_fields = [uncoded ''columns'' TStrings, uncoded ''rows'' TMatrix,
     coded ''row_count'' TInt, coded ''truncated'' TBool]"

definition Database_Schema_Read_fields :: "field list" where
  "Database_Schema_Read_fields = [coded ''source_id'' TString, coded ''table'' TString]"

definition Database_Schema_Read_ResultItem_fields :: "field list" where
  "Database_Schema_Read_ResultItem_fields = [coded ''column'' TString, coded ''type'' TString,
     coded ''nullable'' TBool, coded ''default'' TString]"

definition Database_Table_List_fields :: "field list" where
  "Database_Table_List_fields = [coded ''source_id'' TString]"

definition Database_Table_List_ResultItem_fields :: "field list" where
  "Database_Table_List_ResultItem_fields = [coded ''name'' TString, coded ''row_count'' TInt,
     coded ''size_bytes'' TInt]"

definition Document_Content_Append_fields :: "field list" where
  "Document_Content_Append_fields = [coded ''document_id'' TString, coded ''content'' TString]"

definition Document_Content_Append_Result_fields :: "field list" where
  "Document_Content_Append_Result_fields = [coded ''document_id'' TString, coded ''revision_id'' TString]"

definition Document_Content_Read_fields :: "field list" where
  "Document_Content_Read_fields = [coded ''document_id'' TString]"

definition Document_Content_Replace_fields :: "field list" where
  "Document_Content_Replace_fields = [coded ''document_id'' TString, coded ''heading'' TString,
     coded ''content'' TString]"

definition Document_Content_Replace_Result_fields :: "field list" where
  "Document_Content_Replace_Result_fields = [coded ''document_id'' TString, coded ''revision_id'' TString,
     coded ''replaced_chars'' TInt]"

definition Document_Doc_List_fields :: "field list" where
  "Document_Doc_List_fields = [coded ''query'' TString, coded ''max_results'' TInt]"

definition Document_Doc_List_ResultItem_fields :: "field list" where
  "Document_Doc_List_ResultItem_fields = [coded ''id'' TString, coded ''title'' TString,
     coded ''modified_at'' TString, coded ''owner'' TString]"

definition Email_Message_Create_fields :: "field list" where
  "Email_Message_Create_fields = [coded ''to'' TStrings, coded ''subject'' TString, coded ''body'' TString,
     coded ''cc'' TStrings]"

definition Email_Message_Create_Result_fields :: "field list" where
  "Email_Message_Create_Result_fields = [coded ''draft_id'' TString, coded ''created_at'' TString]"

definition Email_Message_List_fields :: "field list" where
  "Email_Message_List_fields = [coded ''folder'' TString, coded ''unread_only'' TBool, coded ''max_results'' TInt,
     coded ''query'' TString]"

definition Email_Message_List_ResultItem_fields :: "field list" where
  "Email_Message_List_ResultItem_fields = [coded ''id'' TString, coded ''from'' TString,
     coded ''subject'' TString, coded ''date'' TString, coded ''unread'' TBool, coded ''has_attachments'' TBool]"

definition Email_Message_Read_fields :: "field list" where
  "Email_Message_Read_fields = [coded ''message_id'' TString, coded ''strip_tracking'' TBool]"

definition Email_Message_Read_Result_fields :: "field list" where
  "Email_Message_Read_Result_fields = [coded ''from'' TString, coded ''to'' TString, coded ''cc'' TString,
     coded ''subject'' TString, coded ''date'' TString, coded ''body_markdown'' TString,
     coded ''attachments'' TString]"

definition Email_Message_Send_fields :: "field list" where
  "Email_Message_Send_fields = [coded ''draft_id'' TString]"

definition Email_Message_Send_Result_fields :: "field list" where
  "Email_Message_Send_Result_fields = [coded ''message_id'' TString, coded ''sent_at'' TString]"

definition Filesystem_Dir_Create_fields :: "field list" where
  "Filesystem_Dir_Create_fields = [coded ''path'' TString]"

definition Filesystem_Dir_List_fields :: "field list" where
  "Filesystem_Dir_List_fields = [coded ''path'' TString, coded ''recursive'' TBool]"

definition Filesystem_Dir_List_ResultItem_fields :: "field list" where
  "Filesystem_Dir_List_ResultItem_fields = [coded ''name'' TString, coded ''type'' TString,
     coded ''size_bytes'' TInt, coded ''modified_at'' TString]"

definition Filesystem_File_Delete_fields :: "field list" where
  "Filesystem_File_Delete_fields = [coded ''path'' TString]"

definition Filesystem_File_Move_fields :: "field list" where
  "Filesystem_File_Move_fields = [coded ''src'' TString, coded ''dst'' TString]"

definition Filesystem_File_Read_fields :: "field list" where
  "Filesystem_File_Read_fields = [coded ''path'' TString, coded ''encoding'' TString]"

definition Filesystem_File_Write_fields :: "field list" where
  "Filesystem_File_Write_fields = [coded ''path'' TString, coded ''content'' TString, coded ''append'' TBool,
     coded ''encoding'' TString]"

definition Filesystem_File_Write_Result_fields :: "field list" where
  "Filesystem_File_Write_Result_fields = [coded ''path'' TString, coded ''bytes_written'' TInt]"

definition Media_Audio_Transcribe_fields :: "field list" where
  "Media_Audio_Transcribe_fields = [coded ''path'' TString, coded ''language'' TString]"

definition Media_Audio_Transcribe_Result_fields :: "field list" where
  "Media_Audio_Transcribe_Result_fields = [coded ''text'' TString, coded ''language'' TString,
     coded ''duration_seconds'' TInt]"

definition Media_Image_Analyze_fields :: "field list" where
  "Media_Image_Analyze_fields = [coded ''source'' TString, coded ''prompt'' TString]"

definition Memory_Fact_Delete_fields :: "field list" where
  "Memory_Fact_Delete_fields = [coded ''key'' TString]"

definition Memory_Fact_List_fields :: "field list" where
  "Memory_Fact_List_fields = [coded ''tag'' TString, coded ''max_results'' TInt]"

definition Memory_Fact_List_ResultItem_fields :: "field list" where
  "Memory_Fact_List_ResultItem_fields = [coded ''key'' TString, coded ''value'' TString,
     uncoded ''tags'' TStrings, coded ''stored_at'' TString]"

definition Memory_Fact_Search_fields :: "field list" where
  "Memory_Fact_Search_fields = [coded ''query'' TString, coded ''max_results'' TInt]"

definition Memory_Fact_Search_ResultItem_fields :: "field list" where
  "Memory_Fact_Search_ResultItem_fields = [coded ''key'' TString, coded ''value'' TString,
     uncoded ''tags'' TStrings, coded ''score'' TInt, coded ''stored_at'' TString]"

definition Memory_Fact_Store_fields :: "field list" where
  "Memory_Fact_Store_fields = [coded ''key'' TString, coded ''value'' TString, coded ''tags'' TStrings]"

definition Memory_Fact_Store_Result_fields :: "field list" where
  "Memory_Fact_Store_Result_fields = [coded ''key'' TString, coded ''stored_at'' TString]"

definition Search_Corpus_Query_fields :: "field list" where
  "Search_Corpus_Query_fields = [coded ''query'' TString, coded ''corpus_id'' TString, coded ''max_results'' TInt]"

definition Search_Corpus_Query_ResultItem_fields :: "field list" where
  "Search_Corpus_Query_ResultItem_fields = [coded ''content'' TString, coded ''source'' TString,
     coded ''score'' TInt]"

definition Search_Web_Query_fields :: "field list" where
  "Search_Web_Query_fields = [coded ''query'' TString, coded ''max_results'' TInt, coded ''date_after'' TString]"

definition Search_Web_Query_ResultItem_fields :: "field list" where
  "Search_Web_Query_ResultItem_fields = [coded ''title'' TString, coded ''url'' TString,
     coded ''snippet'' TString, coded ''published_date'' TString]"

definition Spreadsheet_Range_Read_fields :: "field list" where
  "Spreadsheet_Range_Read_fields = [coded ''spreadsheet_id'' TString, coded ''range'' TString]"

definition Spreadsheet_Range_Update_fields :: "field list" where
  "Spreadsheet_Range_Update_fields = [coded ''spreadsheet_id'' TString, coded ''range'' TString,
     coded ''values'' TMatrix]"

definition Spreadsheet_Range_Update_Result_fields :: "field list" where
  "Spreadsheet_Range_Update_Result_fields = [coded ''updated_range'' TString, coded ''updated_cells'' TInt]"

definition Spreadsheet_Row_Create_fields :: "field list" where
  "Spreadsheet_Row_Create_fields = [coded ''spreadsheet_id'' TString, coded ''sheet_name'' TString,
     coded ''values'' TStrings]"

definition Spreadsheet_Row_Create_Result_fields :: "field list" where
  "Spreadsheet_Row_Create_Result_fields = [coded ''range'' TString, coded ''updated_rows'' TInt]"

definition Spreadsheet_Sheet_List_fields :: "field list" where
  "Spreadsheet_Sheet_List_fields = [coded ''spreadsheet_id'' TString]"

definition Spreadsheet_Sheet_List_ResultItem_fields :: "field list" where
  "Spreadsheet_Sheet_List_ResultItem_fields = [coded ''sheet_id'' TString, coded ''title'' TString,
     coded ''row_count'' TInt, coded ''col_count'' TInt]"

definition Swarm_Agent_List_fields :: "field list" where
  "Swarm_Agent_List_fields = []"

definition Swarm_Agent_List_ResultItem_fields :: "field list" where
  "Swarm_Agent_List_ResultItem_fields = [coded ''id'' TString, coded ''status'' TString,
     uncoded ''groups'' TStrings, coded ''last_seen'' TString]"

definition Swarm_Group_Send_fields :: "field list" where
  "Swarm_Group_Send_fields = [coded ''group'' TString, coded ''payload'' TString, coded ''msg_type'' TString]"

definition Swarm_Group_Send_Result_fields :: "field list" where
  "Swarm_Group_Send_Result_fields = [coded ''seq_no'' TInt, coded ''delivered_to_count'' TInt]"

definition Swarm_Message_Send_fields :: "field list" where
  "Swarm_Message_Send_fields = [coded ''to_id'' TString, coded ''payload'' TString, coded ''msg_type'' TString]"

definition Swarm_Message_Send_Result_fields :: "field list" where
  "Swarm_Message_Send_Result_fields = [coded ''seq_no'' TInt, coded ''delivered_at'' TString]"

definition System_Process_Exec_fields :: "field list" where
  "System_Process_Exec_fields = [coded ''command'' TString, coded ''workdir'' TString, coded ''timeout'' TInt,
     coded ''env'' TRawList]"

definition System_Process_Exec_Result_fields :: "field list" where
  "System_Process_Exec_Result_fields = [coded ''stdout'' TString, coded ''stderr'' TString,
     coded ''exit_code'' TInt, coded ''duration_ms'' TString]"

definition System_Process_Kill_fields :: "field list" where
  "System_Process_Kill_fields = [coded ''pid'' TInt, coded ''signal'' TString]"

definition System_Process_List_fields :: "field list" where
  "System_Process_List_fields = []"

definition System_Process_List_ResultItem_fields :: "field list" where
  "System_Process_List_ResultItem_fields = [coded ''pid'' TInt, coded ''name'' TString, coded ''cpu_pct'' TInt,
     coded ''mem_mb'' TInt, coded ''started_at'' TString]"

definition VersionControl_Branch_Create_fields :: "field list" where
  "VersionControl_Branch_Create_fields = [coded ''path'' TString, coded ''name'' TString, coded ''from'' TString]"

definition VersionControl_Branch_Create_Result_fields :: "field list" where
  "VersionControl_Branch_Create_Result_fields = [coded ''name'' TString, coded ''from_hash'' TString]"

definition VersionControl_Branch_List_fields :: "field list" where
  "VersionControl_Branch_List_fields = [coded ''path'' TString, coded ''remote'' TBool]"

definition VersionControl_Branch_List_ResultItem_fields :: "field list" where
  "VersionControl_Branch_List_ResultItem_fields = [coded ''name'' TString, coded ''is_current'' TBool,
     coded ''last_commit_hash'' TString, coded ''last_commit_date'' TString]"

definition VersionControl_Commit_Create_fields :: "field list" where
  "VersionControl_Commit_Create_fields = [coded ''path'' TString, coded ''message'' TString,
     coded ''files'' TStrings]"

definition VersionControl_Commit_Create_Result_fields :: "field list" where
  "VersionControl_Commit_Create_Result_fields = [coded ''hash'' TString, coded ''branch'' TString,
     coded ''files_changed'' TInt]"

definition VersionControl_Diff_Read_fields :: "field list" where
  "VersionControl_Diff_Read_fields = [coded ''path'' TString, coded ''base'' TString, coded ''head'' TString]"

definition VersionControl_Log_List_fields :: "field list" where
  "VersionControl_Log_List_fields = [coded ''path'' TString, coded ''max_results'' TInt, coded ''branch'' TString]"

definition VersionControl_Log_List_ResultItem_fields :: "field list" where
  "VersionControl_Log_List_ResultItem_fields = [coded ''hash'' TString, coded ''author'' TString,
     coded ''date'' TString, coded ''subject'' TString]"

definition VersionControl_Remote_Push_fields :: "field list" where
  "VersionControl_Remote_Push_fields = [coded ''path'' TString, coded ''remote'' TString, coded ''force'' TBool]"

definition VersionControl_Remote_Push_Result_fields :: "field list" where
  "VersionControl_Remote_Push_Result_fields = [coded ''remote'' TBool, coded ''branch'' TString,
     coded ''commits_pushed'' TInt]"

definition VersionControl_Status_Read_fields :: "field list" where
  "VersionControl_Status_Read_fields = [coded ''path'' TString]"

definition VersionControl_Status_Read_Result_fields :: "field list" where
  "VersionControl_Status_Read_Result_fields = [coded ''branch'' TString, coded ''staged'' TString,
     coded ''unstaged'' TString, coded ''untracked'' TString]"

subsection \<open>Results\<close>

datatype shape = Struct "field list" | Items "field list"

definition Browser_Link_List_Result_shape :: shape where
  "Browser_Link_List_Result_shape = Items Browser_Link_List_ResultItem_fields"

definition Calendar_Event_List_Result_shape :: shape where
  "Calendar_Event_List_Result_shape = Items Calendar_Event_List_ResultItem_fields"

definition Calendar_Slot_Find_Result_shape :: shape where
  "Calendar_Slot_Find_Result_shape = Items Calendar_Slot_Find_ResultItem_fields"

definition Code_Lint_Run_Result_shape :: shape where
  "Code_Lint_Run_Result_shape = Items Code_Lint_Run_ResultItem_fields"

definition Database_Schema_Read_Result_shape :: shape where
  "Database_Schema_Read_Result_shape = Items Database_Schema_Read_ResultItem_fields"

definition Database_Table_List_Result_shape :: shape where
  "Database_Table_List_Result_shape = Items Database_Table_List_ResultItem_fields"

definition Document_Doc_List_Result_shape :: shape where
  "Document_Doc_List_Result_shape = Items Document_Doc_List_ResultItem_fields"

definition Email_Message_List_Result_shape :: shape where
  "Email_Message_List_Result_shape = Items Email_Message_List_ResultItem_fields"

definition Filesystem_Dir_List_Result_shape :: shape where
  "Filesystem_Dir_List_Result_shape = Items Filesystem_Dir_List_ResultItem_fields"

definition Memory_Fact_List_Result_shape :: shape where
  "Memory_Fact_List_Result_shape = Items Memory_Fact_List_ResultItem_fields"

definition Memory_Fact_Search_Result_shape :: shape where
  "Memory_Fact_Search_Result_shape = Items Memory_Fact_Search_ResultItem_fields"

definition Search_Corpus_Query_Result_shape :: shape where
  "Search_Corpus_Query_Result_shape = Items Search_Corpus_Query_ResultItem_fields"

definition Search_Web_Query_Result_shape :: shape where
  "Search_Web_Query_Result_shape = Items Search_Web_Query_ResultItem_fields"

definition Spreadsheet_Sheet_List_Result_shape :: shape where
  "Spreadsheet_Sheet_List_Result_shape = Items Spreadsheet_Sheet_List_ResultItem_fields"

definition Swarm_Agent_List_Result_shape :: shape where
  "Swarm_Agent_List_Result_shape = Items Swarm_Agent_List_ResultItem_fields"

definition System_Process_List_Result_shape :: shape where
  "System_Process_List_Result_shape = Items System_Process_List_ResultItem_fields"

definition VersionControl_Branch_List_Result_shape :: shape where
  "VersionControl_Branch_List_Result_shape = Items VersionControl_Branch_List_ResultItem_fields"

definition VersionControl_Log_List_Result_shape :: shape where
  "VersionControl_Log_List_Result_shape = Items VersionControl_Log_List_ResultItem_fields"

subsection \<open>The factories\<close>

definition argument_table :: "(string \<times> field list) list" where
  "argument_table = [
      (''Browser_Form_Submit'', Browser_Form_Submit_fields),
      (''Browser_Link_List'', Browser_Link_List_fields),
      (''Browser_Page_GetTitle'', Browser_Page_GetTitle_fields),
      (''Browser_Page_Read'', Browser_Page_Read_fields),
      (''Browser_Page_Screenshot'', Browser_Page_Screenshot_fields),
      (''Calendar_Event_Create'', Calendar_Event_Create_fields),
      (''Calendar_Event_List'', Calendar_Event_List_fields),
      (''Calendar_Event_Read'', Calendar_Event_Read_fields),
      (''Calendar_Slot_Find'', Calendar_Slot_Find_fields),
      (''Code_Lint_Run'', Code_Lint_Run_fields),
      (''Code_Script_Exec'', Code_Script_Exec_fields),
      (''Code_Test_Run'', Code_Test_Run_fields),
      (''Database_Query_Exec'', Database_Query_Exec_fields),
      (''Database_Schema_Read'', Database_Schema_Read_fields),
      (''Database_Table_List'', Database_Table_List_fields),
      (''Document_Content_Append'', Document_Content_Append_fields),
      (''Document_Content_Read'', Document_Content_Read_fields),
      (''Document_Content_Replace'', Document_Content_Replace_fields),
      (''Document_Doc_List'', Document_Doc_List_fields),
      (''Email_Message_Create'', Email_Message_Create_fields),
      (''Email_Message_List'', Email_Message_List_fields),
      (''Email_Message_Read'', Email_Message_Read_fields),
      (''Email_Message_Send'', Email_Message_Send_fields),
      (''Filesystem_Dir_Create'', Filesystem_Dir_Create_fields),
      (''Filesystem_Dir_List'', Filesystem_Dir_List_fields),
      (''Filesystem_File_Delete'', Filesystem_File_Delete_fields),
      (''Filesystem_File_Move'', Filesystem_File_Move_fields),
      (''Filesystem_File_Read'', Filesystem_File_Read_fields),
      (''Filesystem_File_Write'', Filesystem_File_Write_fields),
      (''Media_Audio_Transcribe'', Media_Audio_Transcribe_fields),
      (''Media_Image_Analyze'', Media_Image_Analyze_fields),
      (''Memory_Fact_Delete'', Memory_Fact_Delete_fields),
      (''Memory_Fact_List'', Memory_Fact_List_fields),
      (''Memory_Fact_Search'', Memory_Fact_Search_fields),
      (''Memory_Fact_Store'', Memory_Fact_Store_fields),
      (''Search_Corpus_Query'', Search_Corpus_Query_fields),
      (''Search_Web_Query'', Search_Web_Query_fields),
      (''Spreadsheet_Range_Read'', Spreadsheet_Range_Read_fields),
      (''Spreadsheet_Range_Update'', Spreadsheet_Range_Update_fields),
      (''Spreadsheet_Row_Create'', Spreadsheet_Row_Create_fields),
      (''Spreadsheet_Sheet_List'', Spreadsheet_Sheet_List_fields),
      (''Swarm_Agent_List'', Swarm_Agent_List_fields),
      (''Swarm_Group_Send'', Swarm_Group_Send_fields),
      (''Swarm_Message_Send'', Swarm_Message_Send_fields),
      (''System_Process_Exec'', System_Process_Exec_fields),
      (''System_Process_Kill'', System_Process_Kill_fields),
      (''System_Process_List'', System_Process_List_fields),
      (''VersionControl_Branch_Create'', VersionControl_Branch_Create_fields),
      (''VersionControl_Branch_List'', VersionControl_Branch_List_fields),
      (''VersionControl_Commit_Create'', VersionControl_Commit_Create_fields),
      (''VersionControl_Diff_Read'', VersionControl_Diff_Read_fields),
      (''VersionControl_Log_List'', VersionControl_Log_List_fields),
      (''VersionControl_Remote_Push'', VersionControl_Remote_Push_fields),
      (''VersionControl_Status_Read'', VersionControl_Status_Read_fields)]"

definition NewArgumentPayload :: "string \<Rightarrow> field list option" where
  "NewArgumentPayload name = map_of argument_table name"

definition result_table :: "(string \<times> shape) list" where
  "result_table = [
      (''Browser_Form_Submit'', Struct Browser_Form_Submit_Result_fields),
      (''Browser_Link_List'', Browser_Link_List_Result_shape),
      (''Browser_Page_GetTitle'', Struct Browser_Page_GetTitle_Result_fields),
      (''Calendar_Event_Create'', Struct Calendar_Event_Create_Result_fields),
      (''Calendar_Event_List'', Calendar_Event_List_Result_shape),
      (''Calendar_Event_Read'', Struct Calendar_Event_Read_Result_fields),
      (''Calendar_Slot_Find'', Calendar_Slot_Find_Result_shape),
      (''Code_Lint_Run'', Code_Lint_Run_Result_shape),
      (''Code_Script_Exec'', Struct Code_Script_Exec_Result_fields),
      (''Code_Test_Run'', Struct Code_Test_Run_Result_fields),
      (''Database_Query_Exec'', Struct Database_Query_Exec_Result_fields),
      (''Database_Schema_Read'', Database_Schema_Read_Result_shape),
      (''Database_Table_List'', Database_Table_List_Result_shape),
      (''Document_Content_Append'', Struct Document_Content_Append_Result_fields),
      (''Document_Content_Replace'', Struct Document_Content_Replace_Result_fields),
      (''Document_Doc_List'', Document_Doc_List_Result_shape),
      (''Email_Message_Create'', Struct Email_Message_Create_Result_fields),
      (''Email_Message_List'', Email_Message_List_Result_shape),
      (''Email_Message_Read'', Struct Email_Message_Read_Result_fields),
      (''Email_Message_Send'', Struct Email_Message_Send_Result_fields),
      (''Filesystem_Dir_List'', Filesystem_Dir_List_Result_shape),
      (''Filesystem_File_Write'', Struct Filesystem_File_Write_Result_fields),
      (''Media_Audio_Transcribe'', Struct Media_Audio_Transcribe_Result_fields),
      (''Memory_Fact_List'', Memory_Fact_List_Result_shape),
      (''Memory_Fact_Search'', Memory_Fact_Search_Result_shape),
      (''Memory_Fact_Store'', Struct Memory_Fact_Store_Result_fields),
      (''Search_Corpus_Query'', Search_Corpus_Query_Result_shape),
      (''Search_Web_Query'', Search_Web_Query_Result_shape),
      (''Spreadsheet_Range_Update'', Struct Spreadsheet_Range_Update_Result_fields),
      (''Spreadsheet_Row_Create'', Struct Spreadsheet_Row_Create_Result_fields),
      (''Spreadsheet_Sheet_List'', Spreadsheet_Sheet_List_Result_shape),
      (''Swarm_Agent_List'', Swarm_Agent_List_Result_shape),
      (''Swarm_Group_Send'', Struct Swarm_Group_Send_Result_fields),
      (''Swarm_Message_Send'', Struct Swarm_Message_Send_Result_fields),
      (''System_Process_Exec'', Struct System_Process_Exec_Result_fields),
      (''System_Process_List'', System_Process_List_Result_shape),
      (''VersionControl_Branch_Create'', Struct VersionControl_Branch_Create_Result_fields),
      (''VersionControl_Branch_List'', VersionControl_Branch_List_Result_shape),
      (''VersionControl_Commit_Create'', Struct VersionControl_Commit_Create_Result_fields),
      (''VersionControl_Log_List'', VersionControl_Log_List_Result_shape),
      (''VersionControl_Remote_Push'', Struct VersionControl_Remote_Push_Result_fields),
      (''VersionControl_Status_Read'', Struct VersionControl_Status_Read_Result_fields)]"

definition NewResultPayload :: "string \<Rightarrow> shape option" where
  "NewResultPayload name = map_of result_table name"

subsection \<open>What each capability takes and returns\<close>

record GeneratedField =
  gf_Name :: string
  gf_Type :: string
  gf_Required :: bool
  gf_Enum :: "string list"

abbreviation field_info :: "string \<Rightarrow> string \<Rightarrow> bool \<Rightarrow> string list \<Rightarrow> GeneratedField" where
  "field_info n t r e \<equiv> \<lparr>gf_Name = n, gf_Type = t, gf_Required = r, gf_Enum = e\<rparr>"

record GeneratedCapabilityInfo =
  gi_Fields :: "GeneratedField list"
  gi_ReturnType :: string

definition info_table :: "(string \<times> GeneratedCapabilityInfo) list" where
  "info_table = [
      (''Browser_Form_Submit'', \<lparr>gi_Fields = [field_info ''url'' ''string'' True [],
          field_info ''fields'' ''list<object>'' True [],
          field_info ''submit_selector'' ''string'' False []],
          gi_ReturnType = ''object''\<rparr>),
      (''Browser_Link_List'', \<lparr>gi_Fields = [field_info ''url'' ''string'' True [],
          field_info ''same_domain_only'' ''bool'' False []],
          gi_ReturnType = ''list<object>''\<rparr>),
      (''Browser_Page_GetTitle'', \<lparr>gi_Fields = [field_info ''url'' ''string'' True []],
          gi_ReturnType = ''object''\<rparr>),
      (''Browser_Page_Read'', \<lparr>gi_Fields = [field_info ''url'' ''string'' True [],
          field_info ''timeout'' ''int'' False [],
          field_info ''wait_for'' ''string'' False [''load'', ''domcontentloaded'', ''networkidle'']],
          gi_ReturnType = ''string''\<rparr>),
      (''Browser_Page_Screenshot'', \<lparr>gi_Fields = [field_info ''url'' ''string'' True [],
          field_info ''selector'' ''string'' False [],
          field_info ''full_page'' ''bool'' False []],
          gi_ReturnType = ''bytes''\<rparr>),
      (''Calendar_Event_Create'', \<lparr>gi_Fields = [field_info ''title'' ''string'' True [],
          field_info ''start'' ''string'' True [],
          field_info ''end'' ''string'' True [],
          field_info ''attendees'' ''list<string>'' False [],
          field_info ''location'' ''string'' False [],
          field_info ''description'' ''string'' False []],
          gi_ReturnType = ''object''\<rparr>),
      (''Calendar_Event_List'', \<lparr>gi_Fields = [field_info ''start'' ''string'' True [],
          field_info ''end'' ''string'' True [],
          field_info ''calendar_id'' ''string'' False []],
          gi_ReturnType = ''list<object>''\<rparr>),
      (''Calendar_Event_Read'', \<lparr>gi_Fields = [field_info ''event_id'' ''string'' True []],
          gi_ReturnType = ''object''\<rparr>),
      (''Calendar_Slot_Find'', \<lparr>gi_Fields = [field_info ''attendees'' ''list<string>'' True [],
          field_info ''duration_minutes'' ''int'' True [],
          field_info ''window_start'' ''string'' True [],
          field_info ''window_end'' ''string'' True [],
          field_info ''working_hours_only'' ''bool'' False []],
          gi_ReturnType = ''list<object>''\<rparr>),
      (''Code_Lint_Run'', \<lparr>gi_Fields = [field_info ''linter'' ''string'' True [''golangci-lint'', ''ruff'', ''eslint'', ''rubocop'', ''clippy''],
          field_info ''path'' ''string'' False []],
          gi_ReturnType = ''list<object>''\<rparr>),
      (''Code_Script_Exec'', \<lparr>gi_Fields = [field_info ''interpreter'' ''string'' True [''bash'', ''python3'', ''node'', ''ruby''],
          field_info ''script'' ''string'' True [],
          field_info ''timeout'' ''int'' False []],
          gi_ReturnType = ''object''\<rparr>),
      (''Code_Test_Run'', \<lparr>gi_Fields = [field_info ''framework'' ''string'' True [''go-test'', ''pytest'', ''jest'', ''rspec'', ''cargo-test''],
          field_info ''path'' ''string'' False [],
          field_info ''filter'' ''string'' False []],
          gi_ReturnType = ''object''\<rparr>),
      (''Database_Query_Exec'', \<lparr>gi_Fields = [field_info ''source_id'' ''string'' True [],
          field_info ''query'' ''string'' True [],
          field_info ''max_rows'' ''int'' False []],
          gi_ReturnType = ''object''\<rparr>),
      (''Database_Schema_Read'', \<lparr>gi_Fields = [field_info ''source_id'' ''string'' True [],
          field_info ''table'' ''string'' True []],
          gi_ReturnType = ''list<object>''\<rparr>),
      (''Database_Table_List'', \<lparr>gi_Fields = [field_info ''source_id'' ''string'' True []],
          gi_ReturnType = ''list<object>''\<rparr>),
      (''Document_Content_Append'', \<lparr>gi_Fields = [field_info ''document_id'' ''string'' True [],
          field_info ''content'' ''string'' True []],
          gi_ReturnType = ''object''\<rparr>),
      (''Document_Content_Read'', \<lparr>gi_Fields = [field_info ''document_id'' ''string'' True []],
          gi_ReturnType = ''string''\<rparr>),
      (''Document_Content_Replace'', \<lparr>gi_Fields = [field_info ''document_id'' ''string'' True [],
          field_info ''heading'' ''string'' True [],
          field_info ''content'' ''string'' True []],
          gi_ReturnType = ''object''\<rparr>),
      (''Document_Doc_List'', \<lparr>gi_Fields = [field_info ''query'' ''string'' False [],
          field_info ''max_results'' ''int'' False []],
          gi_ReturnType = ''list<object>''\<rparr>),
      (''Email_Message_Create'', \<lparr>gi_Fields = [field_info ''to'' ''list<string>'' True [],
          field_info ''subject'' ''string'' True [],
          field_info ''body'' ''string'' True [],
          field_info ''cc'' ''list<string>'' False []],
          gi_ReturnType = ''object''\<rparr>),
      (''Email_Message_List'', \<lparr>gi_Fields = [field_info ''folder'' ''string'' False [],
          field_info ''unread_only'' ''bool'' False [],
          field_info ''max_results'' ''int'' False [],
          field_info ''query'' ''string'' False []],
          gi_ReturnType = ''list<object>''\<rparr>),
      (''Email_Message_Read'', \<lparr>gi_Fields = [field_info ''message_id'' ''string'' True [],
          field_info ''strip_tracking'' ''bool'' False []],
          gi_ReturnType = ''object''\<rparr>),
      (''Email_Message_Send'', \<lparr>gi_Fields = [field_info ''draft_id'' ''string'' True []],
          gi_ReturnType = ''object''\<rparr>),
      (''Filesystem_Dir_Create'', \<lparr>gi_Fields = [field_info ''path'' ''string'' True []],
          gi_ReturnType = ''bool''\<rparr>),
      (''Filesystem_Dir_List'', \<lparr>gi_Fields = [field_info ''path'' ''string'' False [],
          field_info ''recursive'' ''bool'' False []],
          gi_ReturnType = ''list<object>''\<rparr>),
      (''Filesystem_File_Delete'', \<lparr>gi_Fields = [field_info ''path'' ''string'' True []],
          gi_ReturnType = ''bool''\<rparr>),
      (''Filesystem_File_Move'', \<lparr>gi_Fields = [field_info ''src'' ''string'' True [],
          field_info ''dst'' ''string'' True []],
          gi_ReturnType = ''bool''\<rparr>),
      (''Filesystem_File_Read'', \<lparr>gi_Fields = [field_info ''path'' ''string'' True [],
          field_info ''encoding'' ''string'' False [''utf-8'', ''base64'']],
          gi_ReturnType = ''string''\<rparr>),
      (''Filesystem_File_Write'', \<lparr>gi_Fields = [field_info ''path'' ''string'' True [],
          field_info ''content'' ''string'' True [],
          field_info ''append'' ''bool'' False [],
          field_info ''encoding'' ''string'' False [''utf-8'', ''base64'']],
          gi_ReturnType = ''object''\<rparr>),
      (''Media_Audio_Transcribe'', \<lparr>gi_Fields = [field_info ''path'' ''string'' True [],
          field_info ''language'' ''string'' False []],
          gi_ReturnType = ''object''\<rparr>),
      (''Media_Image_Analyze'', \<lparr>gi_Fields = [field_info ''source'' ''string'' True [],
          field_info ''prompt'' ''string'' False []],
          gi_ReturnType = ''string''\<rparr>),
      (''Memory_Fact_Delete'', \<lparr>gi_Fields = [field_info ''key'' ''string'' True []],
          gi_ReturnType = ''bool''\<rparr>),
      (''Memory_Fact_List'', \<lparr>gi_Fields = [field_info ''tag'' ''string'' False [],
          field_info ''max_results'' ''int'' False []],
          gi_ReturnType = ''list<object>''\<rparr>),
      (''Memory_Fact_Search'', \<lparr>gi_Fields = [field_info ''query'' ''string'' True [],
          field_info ''max_results'' ''int'' False []],
          gi_ReturnType = ''list<object>''\<rparr>),
      (''Memory_Fact_Store'', \<lparr>gi_Fields = [field_info ''key'' ''string'' True [],
          field_info ''value'' ''string'' True [],
          field_info ''tags'' ''list<string>'' False []],
          gi_ReturnType = ''object''\<rparr>),
      (''Search_Corpus_Query'', \<lparr>gi_Fields = [field_info ''query'' ''string'' True [],
          field_info ''corpus_id'' ''string'' True [],
          field_info ''max_results'' ''int'' False []],
          gi_ReturnType = ''list<object>''\<rparr>),
      (''Search_Web_Query'', \<lparr>gi_Fields = [field_info ''query'' ''string'' True [],
          field_info ''max_results'' ''int'' False [],
          field_info ''date_after'' ''string'' False []],
          gi_ReturnType = ''list<object>''\<rparr>),
      (''Spreadsheet_Range_Read'', \<lparr>gi_Fields = [field_info ''spreadsheet_id'' ''string'' True [],
          field_info ''range'' ''string'' True []],
          gi_ReturnType = ''list<list<string>>''\<rparr>),
      (''Spreadsheet_Range_Update'', \<lparr>gi_Fields = [field_info ''spreadsheet_id'' ''string'' True [],
          field_info ''range'' ''string'' True [],
          field_info ''values'' ''list<list<string>>'' True []],
          gi_ReturnType = ''object''\<rparr>),
      (''Spreadsheet_Row_Create'', \<lparr>gi_Fields = [field_info ''spreadsheet_id'' ''string'' True [],
          field_info ''sheet_name'' ''string'' True [],
          field_info ''values'' ''list<string>'' True []],
          gi_ReturnType = ''object''\<rparr>),
      (''Spreadsheet_Sheet_List'', \<lparr>gi_Fields = [field_info ''spreadsheet_id'' ''string'' True []],
          gi_ReturnType = ''list<object>''\<rparr>),
      (''Swarm_Agent_List'', \<lparr>gi_Fields = [],
          gi_ReturnType = ''list<object>''\<rparr>),
      (''Swarm_Group_Send'', \<lparr>gi_Fields = [field_info ''group'' ''string'' True [],
          field_info ''payload'' ''string'' True [],
          field_info ''msg_type'' ''string'' False [''task'', ''result'', ''query'', ''ack'', ''error'']],
          gi_ReturnType = ''object''\<rparr>),
      (''Swarm_Message_Send'', \<lparr>gi_Fields = [field_info ''to_id'' ''string'' True [],
          field_info ''payload'' ''string'' True [],
          field_info ''msg_type'' ''string'' False [''task'', ''result'', ''query'', ''ack'', ''error'']],
          gi_ReturnType = ''object''\<rparr>),
      (''System_Process_Exec'', \<lparr>gi_Fields = [field_info ''command'' ''string'' True [],
          field_info ''workdir'' ''string'' False [],
          field_info ''timeout'' ''int'' False [],
          field_info ''env'' ''list<object>'' False []],
          gi_ReturnType = ''object''\<rparr>),
      (''System_Process_Kill'', \<lparr>gi_Fields = [field_info ''pid'' ''int'' True [],
          field_info ''signal'' ''string'' False [''SIGTERM'', ''SIGKILL'', ''SIGINT'', ''SIGHUP'']],
          gi_ReturnType = ''bool''\<rparr>),
      (''System_Process_List'', \<lparr>gi_Fields = [],
          gi_ReturnType = ''list<object>''\<rparr>),
      (''VersionControl_Branch_Create'', \<lparr>gi_Fields = [field_info ''path'' ''string'' False [],
          field_info ''name'' ''string'' True [],
          field_info ''from'' ''string'' False []],
          gi_ReturnType = ''object''\<rparr>),
      (''VersionControl_Branch_List'', \<lparr>gi_Fields = [field_info ''path'' ''string'' False [],
          field_info ''remote'' ''bool'' False []],
          gi_ReturnType = ''list<object>''\<rparr>),
      (''VersionControl_Commit_Create'', \<lparr>gi_Fields = [field_info ''path'' ''string'' False [],
          field_info ''message'' ''string'' True [],
          field_info ''files'' ''list<string>'' True []],
          gi_ReturnType = ''object''\<rparr>),
      (''VersionControl_Diff_Read'', \<lparr>gi_Fields = [field_info ''path'' ''string'' False [],
          field_info ''base'' ''string'' False [],
          field_info ''head'' ''string'' False []],
          gi_ReturnType = ''string''\<rparr>),
      (''VersionControl_Log_List'', \<lparr>gi_Fields = [field_info ''path'' ''string'' False [],
          field_info ''max_results'' ''int'' False [],
          field_info ''branch'' ''string'' False []],
          gi_ReturnType = ''list<object>''\<rparr>),
      (''VersionControl_Remote_Push'', \<lparr>gi_Fields = [field_info ''path'' ''string'' False [],
          field_info ''remote'' ''string'' False [],
          field_info ''force'' ''bool'' False []],
          gi_ReturnType = ''object''\<rparr>),
      (''VersionControl_Status_Read'', \<lparr>gi_Fields = [field_info ''path'' ''string'' False []],
          gi_ReturnType = ''object''\<rparr>)]"

definition GeneratedCapabilityInfoRegistry :: "string \<Rightarrow> GeneratedCapabilityInfo option" where
  "GeneratedCapabilityInfoRegistry name = map_of info_table name"

definition GeneratedRegistry :: "(string \<Rightarrow> string) \<Rightarrow> string \<Rightarrow> string option" where
  "GeneratedRegistry schema_text name =
     (if name \<in> set (map fst info_table) then Some (schema_text name) else None)"

subsection \<open>Rendering a result\<close>

datatype decoded_result =
    RString string
  | RBool bool
  | RBytes bytes
  | RMatrix "string list list"
  | RStruct "field list" "field_value list"
  | RItems "field list" "field_value list list"

text \<open>
  \<open>json_Marshal\<close> is \<open>encoding/json\<close> on the decoded value (base64 for bytes).  \<open>Val None\<close>: the name
  or its type is unknown and the caller has to render the data itself.
\<close>

definition unmarshal_result :: "shape \<Rightarrow> decoded_result reads" where
  "unmarshal_result sh =
     (case sh of
        Struct fs \<Rightarrow> rbind (unmarshal_fields fs) (\<lambda>vs. rreturn (RStruct fs vs))
      | Items fs \<Rightarrow> rbind (unmarshal_items fs) (\<lambda>items. rreturn (RItems fs items)))"

definition json_of :: "(decoded_result \<Rightarrow> go_error + string) \<Rightarrow> decoded_result \<Rightarrow> string option outcome" where
  "json_of json_Marshal v = (case json_Marshal v of Inl e \<Rightarrow> Err e | Inr jb \<Rightarrow> Val (Some jb))"

definition DecodeResultToJSON ::
  "(decoded_result \<Rightarrow> go_error + string) \<Rightarrow> string \<Rightarrow> bytes \<Rightarrow> string option outcome"
where
  "DecodeResultToJSON json_Marshal name data =
     (case GeneratedCapabilityInfoRegistry name of
        None \<Rightarrow> Val None
      | Some info \<Rightarrow>
          if gi_ReturnType info = ''string'' then
            (case fst (ReadString (of_nat MaxPayloadBytes) (bytes_NewReader data)) of
               Panic m \<Rightarrow> Panic m | Err e \<Rightarrow> Err e | Val v \<Rightarrow> json_of json_Marshal (RString v))
          else if gi_ReturnType info = ''bool'' then
            (if length data \<noteq> 1
             then Err (OtherError (''bool result: expected 1 byte, got '' @ show_nat (length data)))
             else json_of json_Marshal (RBool (data ! 0 \<noteq> 0)))
          else if gi_ReturnType info = ''bytes'' then json_of json_Marshal (RBytes data)
          else if gi_ReturnType info = ''list<list<string>>'' then
            (case decodeStringMatrix data of
               Panic m \<Rightarrow> Panic m | Err e \<Rightarrow> Err e | Val v \<Rightarrow> json_of json_Marshal (RMatrix v))
          else
            (case NewResultPayload name of
               None \<Rightarrow> Val None
             | Some sh \<Rightarrow>
                 (case fst (unmarshal_result sh (bytes_NewReader data)) of
                    Panic m \<Rightarrow> Panic m | Err e \<Rightarrow> Err e | Val v \<Rightarrow> json_of json_Marshal v)))"

subsection \<open>The tables agree with each other\<close>

lemmas struct_defs =
  Browser_Form_Submit_fields_def Browser_Form_Submit_Result_fields_def Browser_Link_List_fields_def
  Browser_Link_List_ResultItem_fields_def Browser_Page_GetTitle_fields_def Browser_Page_GetTitle_Result_fields_def
  Browser_Page_Read_fields_def Browser_Page_Screenshot_fields_def Calendar_Event_Create_fields_def
  Calendar_Event_Create_Result_fields_def Calendar_Event_List_fields_def Calendar_Event_List_ResultItem_fields_def
  Calendar_Event_Read_fields_def Calendar_Event_Read_Result_fields_def Calendar_Slot_Find_fields_def
  Calendar_Slot_Find_ResultItem_fields_def Code_Lint_Run_fields_def Code_Lint_Run_ResultItem_fields_def
  Code_Script_Exec_fields_def Code_Script_Exec_Result_fields_def Code_Test_Run_fields_def
  Code_Test_Run_Result_fields_def Database_Query_Exec_fields_def Database_Query_Exec_Result_fields_def
  Database_Schema_Read_fields_def Database_Schema_Read_ResultItem_fields_def Database_Table_List_fields_def
  Database_Table_List_ResultItem_fields_def Document_Content_Append_fields_def
  Document_Content_Append_Result_fields_def Document_Content_Read_fields_def Document_Content_Replace_fields_def
  Document_Content_Replace_Result_fields_def Document_Doc_List_fields_def Document_Doc_List_ResultItem_fields_def
  Email_Message_Create_fields_def Email_Message_Create_Result_fields_def Email_Message_List_fields_def
  Email_Message_List_ResultItem_fields_def Email_Message_Read_fields_def Email_Message_Read_Result_fields_def
  Email_Message_Send_fields_def Email_Message_Send_Result_fields_def Filesystem_Dir_Create_fields_def
  Filesystem_Dir_List_fields_def Filesystem_Dir_List_ResultItem_fields_def Filesystem_File_Delete_fields_def
  Filesystem_File_Move_fields_def Filesystem_File_Read_fields_def Filesystem_File_Write_fields_def
  Filesystem_File_Write_Result_fields_def Media_Audio_Transcribe_fields_def
  Media_Audio_Transcribe_Result_fields_def Media_Image_Analyze_fields_def Memory_Fact_Delete_fields_def
  Memory_Fact_List_fields_def Memory_Fact_List_ResultItem_fields_def Memory_Fact_Search_fields_def
  Memory_Fact_Search_ResultItem_fields_def Memory_Fact_Store_fields_def Memory_Fact_Store_Result_fields_def
  Search_Corpus_Query_fields_def Search_Corpus_Query_ResultItem_fields_def Search_Web_Query_fields_def
  Search_Web_Query_ResultItem_fields_def Spreadsheet_Range_Read_fields_def Spreadsheet_Range_Update_fields_def
  Spreadsheet_Range_Update_Result_fields_def Spreadsheet_Row_Create_fields_def
  Spreadsheet_Row_Create_Result_fields_def Spreadsheet_Sheet_List_fields_def
  Spreadsheet_Sheet_List_ResultItem_fields_def Swarm_Agent_List_fields_def Swarm_Agent_List_ResultItem_fields_def
  Swarm_Group_Send_fields_def Swarm_Group_Send_Result_fields_def Swarm_Message_Send_fields_def
  Swarm_Message_Send_Result_fields_def System_Process_Exec_fields_def System_Process_Exec_Result_fields_def
  System_Process_Kill_fields_def System_Process_List_fields_def System_Process_List_ResultItem_fields_def
  VersionControl_Branch_Create_fields_def VersionControl_Branch_Create_Result_fields_def
  VersionControl_Branch_List_fields_def VersionControl_Branch_List_ResultItem_fields_def
  VersionControl_Commit_Create_fields_def VersionControl_Commit_Create_Result_fields_def
  VersionControl_Diff_Read_fields_def VersionControl_Log_List_fields_def
  VersionControl_Log_List_ResultItem_fields_def VersionControl_Remote_Push_fields_def
  VersionControl_Remote_Push_Result_fields_def VersionControl_Status_Read_fields_def
  VersionControl_Status_Read_Result_fields_def

lemmas shape_defs =
  Browser_Link_List_Result_shape_def Calendar_Event_List_Result_shape_def Calendar_Slot_Find_Result_shape_def
  Code_Lint_Run_Result_shape_def Database_Schema_Read_Result_shape_def Database_Table_List_Result_shape_def
  Document_Doc_List_Result_shape_def Email_Message_List_Result_shape_def Filesystem_Dir_List_Result_shape_def
  Memory_Fact_List_Result_shape_def Memory_Fact_Search_Result_shape_def Search_Corpus_Query_Result_shape_def
  Search_Web_Query_Result_shape_def Spreadsheet_Sheet_List_Result_shape_def Swarm_Agent_List_Result_shape_def
  System_Process_List_Result_shape_def VersionControl_Branch_List_Result_shape_def
  VersionControl_Log_List_Result_shape_def

text \<open>The generator's name for a field's type, and the type the struct gives it.\<close>

definition go_type :: "string \<Rightarrow> field_type" where
  "go_type t =
     (if t = ''int'' then TInt else if t = ''bool'' then TBool else if t = ''list<string>'' then TStrings
      else if t = ''list<object>'' then TRawList else if t = ''list<list<string>>'' then TMatrix else TString)"

lemma tables_aligned:
  "list_all2 (\<lambda>(n, fs) (m, info). n = m
      \<and> map (\<lambda>f. (fd_name f, fd_type f, fd_coded f)) fs = map (\<lambda>g. (gf_Name g, go_type (gf_Type g), True)) (gi_Fields info))
     argument_table info_table"
  unfolding argument_table_def info_table_def
  by (simp add: struct_defs go_type_def)

lemma aligned_lookup:
  assumes "list_all2 (\<lambda>(n, x) (m, y). n = m \<and> P x y) xs ys"
  shows "rel_option P (map_of xs name) (map_of ys name)"
  using assms by (induction rule: list_all2_induct) auto

lemma registry_lookup:
  "rel_option (\<lambda>fs info. map (\<lambda>f. (fd_name f, fd_type f, fd_coded f)) fs
        = map (\<lambda>g. (gf_Name g, go_type (gf_Type g), True)) (gi_Fields info))
     (NewArgumentPayload name) (GeneratedCapabilityInfoRegistry name)"
  unfolding NewArgumentPayload_def GeneratedCapabilityInfoRegistry_def
  by (rule aligned_lookup [OF tables_aligned])

lemma arguments_coded:
  assumes "NewArgumentPayload name = Some fs"
  shows "list_all fd_coded fs"
proof -
  obtain info :: GeneratedCapabilityInfo where m: "map (\<lambda>f. (fd_name f, fd_type f, fd_coded f)) fs
      = map (\<lambda>g. (gf_Name g, go_type (gf_Type g), True)) (gi_Fields info)"
    using registry_lookup [of name] assms by (auto simp: option_rel_Some1)
  show ?thesis
    unfolding list_all_iff
  proof
    fix f assume "f \<in> set fs"
    then have "(fd_name f, fd_type f, fd_coded f) \<in> set (map (\<lambda>g. (gf_Name g, go_type (gf_Type g), True)) (gi_Fields info))"
      using m by (metis (mono_tags, lifting) image_eqI list.set_map)
    then show "fd_coded f" by auto
  qed
qed

fun shape_fields :: "shape \<Rightarrow> field list" where
  "shape_fields (Struct fs) = fs"
| "shape_fields (Items fs) = fs"

subsection \<open>Properties\<close>

text \<open>
  C27: The arguments of every generated capability survive encoding and decoding: whatever the
  argument values are, as long as they have the types of the fields and respect the size limits,
  the decoder gives them back and stops exactly where the encoding ended.
\<close>

theorem argument_roundtrip:
  assumes "NewArgumentPayload name = Some fs" and "struct_wf fs vs"
  shows "unmarshal_fields fs (r\<lparr>rd_buf := marshal_fields fs vs [] @ rest\<rparr>) = (Val vs, r\<lparr>rd_buf := rest\<rparr>)"
  using unmarshal_fields_enc [OF assms(2)] coded_part_id [OF assms(2) arguments_coded [OF assms(1)]] by simp

theorem argument_roundtrip_witness:
  "unmarshal_fields Spreadsheet_Range_Update_fields (bytes_NewReader
      (marshal_fields Spreadsheet_Range_Update_fields
         [VString ''s'', VString ''A1:B1'', VMatrix [[''1'', ''2''], []]] []))
    = (Val [VString ''s'', VString ''A1:B1'', VMatrix [[''1'', ''2''], []]], bytes_NewReader [])"
proof -
  have n: "NewArgumentPayload ''Spreadsheet_Range_Update'' = Some Spreadsheet_Range_Update_fields"
    by (simp add: NewArgumentPayload_def argument_table_def)
  have "struct_wf Spreadsheet_Range_Update_fields [VString ''s'', VString ''A1:B1'', VMatrix [[''1'', ''2''], []]]"
    by (simp add: struct_wf_def Spreadsheet_Range_Update_fields_def MaxPayloadBytes_def maxAlloc_def)
  from argument_roundtrip [OF n this, where r = "bytes_NewReader []" and rest = "[]"] show ?thesis
    by (simp add: bytes_NewReader_def)
qed

text \<open>
  Six of the result types lose data on the wire, and only six: their list fields are neither
  encoded nor decoded.  A query's columns and rows, whatever they are, arrive empty.
\<close>

theorem results_lose_lists:
  "map fst (filter (\<lambda>(name, sh). \<not> list_all fd_coded (shape_fields sh)) result_table)
     = [''Calendar_Event_List'', ''Calendar_Event_Read'', ''Database_Query_Exec'', ''Memory_Fact_List'',
        ''Memory_Fact_Search'', ''Swarm_Agent_List'']
   \<and> unmarshal_fields Database_Query_Exec_Result_fields
       (r\<lparr>rd_buf := marshal_fields Database_Query_Exec_Result_fields
          [VStrings columns, VMatrix rows, VInt row_count, VBool truncated] [] @ rest\<rparr>)
     = (Val [VStrings [], VMatrix [], VInt row_count, VBool truncated], r\<lparr>rd_buf := rest\<rparr>)"
proof
  show "map fst (filter (\<lambda>(name, sh). \<not> list_all fd_coded (shape_fields sh)) result_table)
     = [''Calendar_Event_List'', ''Calendar_Event_Read'', ''Database_Query_Exec'', ''Memory_Fact_List'',
        ''Memory_Fact_Search'', ''Swarm_Agent_List'']"
    by (simp add: result_table_def struct_defs shape_defs)
  have "struct_wf [coded ''row_count'' TInt, coded ''truncated'' TBool] [VInt row_count, VBool truncated]"
    by (simp add: struct_wf_def)
  from unmarshal_fields_enc [OF this, where r = r and rest = rest]
  show "unmarshal_fields Database_Query_Exec_Result_fields
       (r\<lparr>rd_buf := marshal_fields Database_Query_Exec_Result_fields
          [VStrings columns, VMatrix rows, VInt row_count, VBool truncated] [] @ rest\<rparr>)
     = (Val [VStrings [], VMatrix [], VInt row_count, VBool truncated], r\<lparr>rd_buf := rest\<rparr>)"
    by (simp add: Database_Query_Exec_Result_fields_def coded_part_def rbind_Val)
qed

end
