(* ===== verification/Ward.thy ===== *)
theory Ward
  imports Generated Router Runtime
begin

text \<open>
  The Ward, the control process in an agent's container (\<open>cmd/ward/main.go\<close>, \<open>toolserver.go\<close>,
  \<open>schema_validation.go\<close>, \<open>prompt.go\<close>).

  The Ward is a record: its end of the pipe to keeperd, the pending calls, what the current prompt's
  run has published for the tool server.  A pending call's channel has room for one response: it is
  a list of at most one payload.  A tool call is split where other goroutines can come in between:
  \<open>executeTool\<close> up to the numbering of its request, the writing of the frame, and what happens when
  the wait ends.  \<open>wd_killed\<close> lists the processes the Ward has killed.

  The language model's process is a parameter: its run takes a Ward to its standard output, its
  exit and the Ward it leaves behind, since the tool server serves it while it runs.
\<close>

subsection \<open>Loop detection\<close>

definition fnv_step :: "u64 \<Rightarrow> u8 \<Rightarrow> u64" where
  "fnv_step h b = (h XOR ucast b) * 1099511628211"

definition fnv64a :: "bytes \<Rightarrow> u64" where
  "fnv64a bs = fold (\<lambda>b h. fnv_step h b) bs 14695981039346656037"

record loopDetector =
  ld_threshold :: int
  ld_counts :: "u64 \<Rightarrow> int"

definition newLoopDetector :: "int \<Rightarrow> loopDetector" where
  "newLoopDetector threshold = \<lparr>ld_threshold = threshold, ld_counts = (\<lambda>_. 0)\<rparr>"

definition loop_key :: "string \<Rightarrow> bytes \<Rightarrow> u64" where
  "loop_key toolName args = fnv64a (bytes_of toolName @ args)"

definition loop_check :: "string \<Rightarrow> bytes \<Rightarrow> loopDetector \<Rightarrow> bool \<times> loopDetector" where
  "loop_check toolName args l =
     (let key = loop_key toolName args;
          l = l\<lparr>ld_counts := (ld_counts l)(key := ld_counts l key + 1)\<rparr>
      in (ld_threshold l \<le> ld_counts l key, l))"

subsection \<open>State\<close>

record ward =
  wd_agentID :: string
  wd_out :: writer
  wd_seq :: seq_counter
  wd_loopThreshold :: int
  wd_toolSockPath :: string
  wd_systemPrompt :: string
  wd_schemaErrorRetries :: int
  wd_promptSeq :: u64
  wd_activeLoop :: "loopDetector option"
  wd_activeCmd :: "nat option"
  wd_activeAbort :: "string option"
  wd_activeAbortDetail :: "string option"
  wd_pending :: "u64 \<rightharpoonup> bytes list"
  wd_killed :: "nat list"

subsection \<open>The pipe to keeperd\<close>

definition ward_header :: "string \<Rightarrow> MsgType \<Rightarrow> string \<Rightarrow> u64 \<Rightarrow> swarm_header" where
  "ward_header agentID t toID n = \<lparr>h_Version = 0, h_Type = t, h_FromID = agentID, h_ToID = toID,
     h_SeqNo = n, h_PayloadLen = 0\<rparr>"

definition ward_next_seq :: "ward \<Rightarrow> u64 \<times> ward" where
  "ward_next_seq w = (case SeqCounter_Next (wd_seq w) of (n, s) \<Rightarrow> (n, w\<lparr>wd_seq := s\<rparr>))"

definition ward_write :: "swarm_header \<Rightarrow> bytes \<Rightarrow> ward \<Rightarrow> go_error option \<times> ward" where
  "ward_write hdr payload w = (case WriteFrame (wd_out w) hdr payload of (err, out) \<Rightarrow> (err, w\<lparr>wd_out := out\<rparr>))"

definition ward_send :: "MsgType \<Rightarrow> string \<Rightarrow> bytes \<Rightarrow> ward \<Rightarrow> go_error option \<times> ward" where
  "ward_send t toID payload w =
     (case ward_next_seq w of (n, w) \<Rightarrow> ward_write (ward_header (wd_agentID w) t toID n) payload w)"

definition sendWithSeq :: "u64 \<Rightarrow> bytes \<Rightarrow> ward \<Rightarrow> go_error option \<times> ward" where
  "sendWithSeq n payload w =
     ward_write (ward_header (wd_agentID w) MsgType_CapabilityRequest ''keeper'' n) payload w"

subsection \<open>Pending calls\<close>

definition registerPending :: "u64 \<Rightarrow> ward \<Rightarrow> ward" where
  "registerPending n w = w\<lparr>wd_pending := (wd_pending w)(n \<mapsto> [])\<rparr>"

definition removePending :: "u64 \<Rightarrow> ward \<Rightarrow> ward" where
  "removePending n w = w\<lparr>wd_pending := (wd_pending w)(n := None)\<rparr>"

definition deliverCapabilityResponse :: "swarm_header \<Rightarrow> bytes \<Rightarrow> ward \<Rightarrow> ward" where
  "deliverCapabilityResponse hdr payload w =
     (case wd_pending w (h_SeqNo hdr) of
        Some [] \<Rightarrow> w\<lparr>wd_pending := (wd_pending w)(h_SeqNo hdr \<mapsto> [payload])\<rparr>
      | _ \<Rightarrow> w)"

subsection \<open>Aborting a prompt\<close>

definition kill_active :: "ward \<Rightarrow> ward" where
  "kill_active w = (case wd_activeCmd w of None \<Rightarrow> w | Some cmd \<Rightarrow> w\<lparr>wd_killed := wd_killed w @ [cmd]\<rparr>)"

definition abortActivePrompt :: "string \<Rightarrow> string \<Rightarrow> ward \<Rightarrow> ward" where
  "abortActivePrompt kind detail w =
     (if kind = '''' then w
      else
        let w = w\<lparr>wd_activeAbort := Some kind\<rparr>;
            w = (if detail \<noteq> '''' then w\<lparr>wd_activeAbortDetail := Some detail\<rparr> else w)
        in kill_active w)"

subsection \<open>Validation of arguments\<close>

definition validateToolArgs :: "string \<Rightarrow> bytes \<Rightarrow> go_error option outcome" where
  "validateToolArgs capability args =
     (case NewArgumentPayload capability of
        None \<Rightarrow> Val None
      | Some fs \<Rightarrow>
          (case unmarshal_fields fs (bytes_NewReader args) of
             (Panic m, r) \<Rightarrow> Panic m
           | (Err err, r) \<Rightarrow> Val (Some (Wrap (''args must satisfy '' @ capability @ '' schema: '') err))
           | (Val vs, r) \<Rightarrow>
               if rd_buf r \<noteq> []
               then Val (Some (OtherError (''args must satisfy '' @ capability @ '' schema: trailing payload bytes'')))
               else Val None))"

subsection \<open>Tool calls\<close>

definition tool_error :: "string \<Rightarrow> string \<Rightarrow> CapabilityResponsePayload" where
  "tool_error code detail = \<lparr>crs_OK = False, crs_Data = [], crs_ErrorCode = code, crs_ErrorDetail = detail\<rparr>"

text \<open>A call is answered at once, or its request has a number and is about to be written.\<close>

datatype tool_start = Answer CapabilityResponsePayload | Numbered u64 bytes

definition loop_guard :: "(string \<Rightarrow> string) \<Rightarrow> ToolRequestPayload \<Rightarrow> ward \<Rightarrow> CapabilityResponsePayload option \<times> ward" where
  "loop_guard quote req w =
     (case wd_activeLoop w of
        None \<Rightarrow> (None, w)
      | Some ld \<Rightarrow>
          (case loop_check (trp_Capability req) (trp_Args req) ld of
             (hit, ld) \<Rightarrow>
               let w = w\<lparr>wd_activeLoop := Some ld\<rparr> in
               if hit
               then (Some (tool_error ''loop_detected''
                       (''capability '' @ quote (trp_Capability req) @ '' repeated with identical args above threshold'')),
                     kill_active (w\<lparr>wd_activeAbort := Some ''loop_detected''\<rparr>))
               else (None, w)))"

definition executeTool_begin ::
  "(string \<Rightarrow> string) \<Rightarrow> ToolRequestPayload \<Rightarrow> ward \<Rightarrow> (tool_start \<times> ward) outcome"
where
  "executeTool_begin quote req w =
     (case loop_guard quote req w of
        (Some resp, w) \<Rightarrow> Val (Answer resp, w)
      | (None, w) \<Rightarrow>
          (case validateToolArgs (trp_Capability req) (trp_Args req) of
             Panic m \<Rightarrow> Panic m
           | Err e \<Rightarrow> Err e
           | Val (Some err) \<Rightarrow>
               Val (Answer (tool_error ''schema_invalid'' (error_text err)),
                    abortActivePrompt ''schema_invalid''
                      (''capability '' @ trp_Capability req @ '': '' @ error_text err) w)
           | Val None \<Rightarrow>
               let reqPayload = \<lparr>crq_Capability = trp_Capability req, crq_Args = trp_Args req\<rparr>;
                   (n, w) = ward_next_seq w
               in Val (Numbered n (CapabilityRequestPayload_MarshalMUS reqPayload), registerPending n w)))"

definition executeTool_send :: "u64 \<Rightarrow> bytes \<Rightarrow> ward \<Rightarrow> CapabilityResponsePayload option \<times> ward" where
  "executeTool_send n payload w =
     (case sendWithSeq n payload w of
        (Some err, w) \<Rightarrow> (Some (tool_error ''pipe_error'' (error_text err)), removePending n w)
      | (None, w) \<Rightarrow> (None, w))"

text \<open>The end of the wait: the context, the clock, or the channel, when it has something.\<close>

datatype wait_event = ContextDone | Timeout | Arrived

definition executeTool_finish :: "u64 \<Rightarrow> wait_event \<Rightarrow> ward \<Rightarrow> (CapabilityResponsePayload outcome \<times> ward) option" where
  "executeTool_finish n ev w =
     (case ev of
        ContextDone \<Rightarrow> Some (Val (tool_error ''timeout'' ''context cancelled''), removePending n w)
      | Timeout \<Rightarrow> Some (Val (tool_error ''timeout'' ''keeperd response timeout''), removePending n w)
      | Arrived \<Rightarrow>
          (case wd_pending w n of
             Some (payload # _) \<Rightarrow>
               Some (case fst (CapabilityResponsePayload_UnmarshalMUS (bytes_NewReader payload)) of
                       Panic m \<Rightarrow> Panic m
                     | Err err \<Rightarrow> Val (tool_error ''decode_error'' (error_text err))
                     | Val capResp \<Rightarrow> Val capResp,
                     removePending n w)
           | _ \<Rightarrow> None))"

definition getCapabilitySchema :: "(string \<rightharpoonup> string) \<Rightarrow> string \<Rightarrow> string" where
  "getCapabilitySchema capRegistry name = (case capRegistry name of None \<Rightarrow> '''' | Some schema \<Rightarrow> schema)"

definition capabilitiesString :: "string \<Rightarrow> bytes" where
  "capabilitiesString v = AppendString [] v"

text \<open>\<open>tool_handleConn\<close> on what the connection sends before it shuts down its writing side.\<close>

definition tool_limit :: nat where
  "tool_limit = 256 * 1024"

definition tool_handleConn ::
  "(string \<Rightarrow> string) \<Rightarrow> (string \<rightharpoonup> string) \<Rightarrow> bytes \<Rightarrow> ward \<Rightarrow> (tool_start \<times> ward) outcome"
where
  "tool_handleConn quote capRegistry sent w =
     (let data = take tool_limit sent in
      case fst (ToolRequestPayload_UnmarshalMUS (bytes_NewReader data)) of
        Panic m \<Rightarrow> Panic m
      | Err err \<Rightarrow>
          let detail = ''malformed MUS payload: '' @ error_text err in
          Val (Answer (tool_error ''bad_request'' detail), abortActivePrompt ''malformed_tool_call'' detail w)
      | Val req \<Rightarrow>
          if trp_Capability req = '''' then
            Val (Answer (tool_error ''bad_request'' ''capability name is required''),
                 abortActivePrompt ''malformed_tool_call'' ''capability name is required'' w)
          else if trp_Mode req = ToolRequestSchema then
            let schema = getCapabilitySchema capRegistry (trp_Capability req) in
            if schema = ''''
            then Val (Answer (tool_error ''not_found'' (''capability '' @ trp_Capability req @ '' not registered'')), w)
            else Val (Answer \<lparr>crs_OK = True, crs_Data = capabilitiesString schema, crs_ErrorCode = '''',
                              crs_ErrorDetail = ''''\<rparr>, w)
          else executeTool_begin quote req w)"

definition writeToolResponse :: "CapabilityResponsePayload \<Rightarrow> bytes" where
  "writeToolResponse resp = CapabilityResponsePayload_MarshalMUS resp"

subsection \<open>Running the language model\<close>

record llm_event =
  ev_type :: "string option"
  ev_usage :: "(int \<times> int) option"

text \<open>
  What \<open>runLLMSubprocessOnce\<close> uses of the system: finding the program, the environment, preparing
  and starting the command, its run, the context's error, and the JSON decoder on a line.
  \<open>lo_run\<close> gives the lines on standard output and the result of \<open>Wait\<close>.
\<close>

record llm_ops =
  lo_LookPath :: "go_error + string"
  lo_exists :: "string \<Rightarrow> bool"
  lo_Environ :: "string list"
  lo_StdoutPipe :: "command \<Rightarrow> go_error option"
  lo_StderrPipe :: "command \<Rightarrow> go_error option"
  lo_Start :: "command \<Rightarrow> go_error + nat"
  lo_run :: "command \<Rightarrow> string list \<Rightarrow> ward \<Rightarrow> (string list \<times> go_error option) \<times> ward"
  lo_ctx_err :: "go_error option"
  lo_json :: "string \<Rightarrow> llm_event option"

record llmOutcome =
  lm_model :: string
  lm_inputTokens :: int
  lm_outputTokens :: int
  lm_toolCalls :: int

definition zero_outcome :: llmOutcome where
  "zero_outcome = \<lparr>lm_model = '''', lm_inputTokens = 0, lm_outputTokens = 0, lm_toolCalls = 0\<rparr>"

definition claude_candidates :: "string list" where
  "claude_candidates = [''/usr/local/bin/claude'', ''/usr/bin/claude'', ''/bin/claude'']"

definition resolveClaudePath :: "llm_ops \<Rightarrow> go_error + string" where
  "resolveClaudePath ops =
     (case lo_LookPath ops of
        Inr path \<Rightarrow> Inr path
      | Inl err \<Rightarrow> (case find (lo_exists ops) claude_candidates of Some c \<Rightarrow> Inr c | None \<Rightarrow> Inl err))"

definition preferred_path :: string where
  "preferred_path = ''/usr/local/bin:/usr/bin:/bin''"

fun withPreferredPATH :: "string list \<Rightarrow> string list" where
  "withPreferredPATH [] = [''PATH='' @ preferred_path]"
| "withPreferredPATH (kv # env) =
     (if \<not> HasPrefix kv ''PATH='' then kv # withPreferredPATH env
      else let pathValue = TrimPrefix kv ''PATH='' in
        if pathValue = '''' then (''PATH='' @ preferred_path) # env
        else (''PATH='' @ preferred_path @ '':'' @ pathValue) # env)"

text \<open>
  One line of the stream.  The scanner gives up at the first line its buffer of 64 KiB cannot hold,
  and the lines behind it are not seen.
\<close>

definition scan_line :: "(string \<Rightarrow> llm_event option) \<Rightarrow> llmOutcome \<Rightarrow> string \<Rightarrow> llmOutcome" where
  "scan_line json outcome line =
     (if line = '''' then outcome
      else case json line of
          None \<Rightarrow> outcome
        | Some event \<Rightarrow>
            (case ev_type event of
               None \<Rightarrow> outcome
             | Some evType \<Rightarrow>
                 if evType = ''tool_use'' then outcome\<lparr>lm_toolCalls := lm_toolCalls outcome + 1\<rparr>
                 else if evType = ''message_stop'' then
                   (case ev_usage event of
                      None \<Rightarrow> outcome
                    | Some (i, n) \<Rightarrow> outcome\<lparr>lm_inputTokens := i, lm_outputTokens := n\<rparr>)
                 else outcome))"

definition scan_lines :: "(string \<Rightarrow> llm_event option) \<Rightarrow> string list \<Rightarrow> llmOutcome" where
  "scan_lines json lines = foldl (scan_line json) zero_outcome (takeWhile (\<lambda>l. length l < 64 * 1024) lines)"

text \<open>What a run publishes for the tool server, and its deferred withdrawal.\<close>

definition run_begin :: "nat \<Rightarrow> ward \<Rightarrow> ward" where
  "run_begin pid w = w\<lparr>wd_activeLoop := Some (newLoopDetector (wd_loopThreshold w)), wd_activeCmd := Some pid,
     wd_activeAbort := None, wd_activeAbortDetail := None\<rparr>"

definition run_end :: "ward \<Rightarrow> ward" where
  "run_end w = w\<lparr>wd_activeLoop := None, wd_activeCmd := None\<rparr>"

definition llm_command :: "string \<Rightarrow> string \<Rightarrow> ward \<Rightarrow> command" where
  "llm_command claudePath promptText w = \<lparr>cm_Name = claudePath,
     cm_Args = [''--print'', promptText, ''--output-format'', ''stream-json'']
       @ (if wd_systemPrompt w \<noteq> '''' then [''--system-prompt'', wd_systemPrompt w] else [])\<rparr>"

text \<open>The failure kind and error of a run whose process did not exit cleanly.\<close>

definition run_failure :: "llm_ops \<Rightarrow> go_error \<Rightarrow> ward \<Rightarrow> (string \<times> go_error) \<times> ward" where
  "run_failure ops err w =
     (case wd_activeAbort w of
        Some kind \<Rightarrow>
          let w = w\<lparr>wd_activeAbort := None\<rparr> in
          (case wd_activeAbortDetail w of
             Some detail \<Rightarrow>
               if detail \<noteq> ''''
               then ((kind, OtherError (''prompt aborted: '' @ kind @ '': '' @ detail)), w)
               else ((kind, OtherError (''prompt aborted: '' @ kind)), w)
           | None \<Rightarrow> ((kind, OtherError (''prompt aborted: '' @ kind)), w))
      | None \<Rightarrow>
          (case lo_ctx_err ops of
             Some e \<Rightarrow> ((''timeout'', e), w)
           | None \<Rightarrow> ((''subprocess_crash'', err), w)))"

type_synonym run_result = "llmOutcome \<times> string \<times> go_error option"

definition crash :: "string \<Rightarrow> go_error \<Rightarrow> run_result" where
  "crash what err = (zero_outcome, ''subprocess_crash'', Some (Wrap what err))"

definition runLLMSubprocessOnce :: "llm_ops \<Rightarrow> string \<Rightarrow> ward \<Rightarrow> run_result \<times> ward" where
  "runLLMSubprocessOnce ops promptText w =
     (case resolveClaudePath ops of
        Inl err \<Rightarrow> (crash ''resolve LLM subprocess: '' err, w)
      | Inr claudePath \<Rightarrow>
          let cmd = llm_command claudePath promptText w;
              env = withPreferredPATH (lo_Environ ops) @ [''WARD_TOOL_SOCK='' @ wd_toolSockPath w]
          in case lo_StdoutPipe ops cmd of
               Some err \<Rightarrow> (crash ''stdout pipe: '' err, w)
             | None \<Rightarrow>
                 (case lo_StderrPipe ops cmd of
                    Some err \<Rightarrow> (crash ''stderr pipe: '' err, w)
                  | None \<Rightarrow>
                      (case lo_Start ops cmd of
                         Inl err \<Rightarrow> (crash ''start LLM subprocess: '' err, w)
                       | Inr pid \<Rightarrow>
                           (case lo_run ops cmd env (run_begin pid w) of
                              ((lines, None), w) \<Rightarrow> ((scan_lines (lo_json ops) lines, '''', None), run_end w)
                            | ((lines, Some err), w) \<Rightarrow>
                                (case run_failure ops err w of
                                   ((kind, e), w) \<Rightarrow> ((zero_outcome, kind, Some e), run_end w))))))"

definition appendSchemaRetryInstruction :: "string \<Rightarrow> string \<Rightarrow> int \<Rightarrow> string" where
  "appendSchemaRetryInstruction promptText detail remainingRetries =
     promptText @ nl @ nl @ ''Schema repair required:'' @ nl
     @ ''- The previous tool call was rejected before execution.'' @ nl
     @ ''- Do not change the task intent. Do not ask follow-up questions.'' @ nl
     @ ''- Retry by emitting one corrected tool call with valid arguments only.'' @ nl
     @ ''- Validation error: '' @ detail @ nl
     @ ''- Remaining schema retries after this attempt: '' @ show_int (remainingRetries - 1)"

text \<open>The loop of attempts; it counts down the retries that remain.\<close>

function run_attempts :: "llm_ops \<Rightarrow> string \<Rightarrow> string \<Rightarrow> int \<Rightarrow> ward \<Rightarrow> run_result \<times> ward" where
  "run_attempts ops promptText attemptPrompt remainingRetries w =
     (case runLLMSubprocessOnce ops attemptPrompt w of
        ((outcome, kind, err), w) \<Rightarrow>
          if err = None \<or> kind \<noteq> ''schema_invalid'' \<or> remainingRetries \<le> 0 then ((outcome, kind, err), w)
          else
            let detail = (case wd_activeAbortDetail w of
                   Some d \<Rightarrow> if d \<noteq> '''' then d else ''schema validation failed''
                 | None \<Rightarrow> ''schema validation failed'')
            in run_attempts ops promptText (appendSchemaRetryInstruction promptText detail remainingRetries)
                 (remainingRetries - 1) (w\<lparr>wd_activeAbortDetail := None\<rparr>))"
  by pat_completeness auto

termination run_attempts
  by (relation "measure (\<lambda>(ops, p, a, n, w). nat n)") auto

declare run_attempts.simps [simp del]

definition runLLMSubprocess :: "llm_ops \<Rightarrow> string \<Rightarrow> ward \<Rightarrow> run_result \<times> ward" where
  "runLLMSubprocess ops promptText w = run_attempts ops promptText promptText (wd_schemaErrorRetries w) w"

subsection \<open>Prompts and frames\<close>

text \<open>\<open>cost\<close> is \<open>outcome.costUSD\<close>, which no line of the stream sets: zero, as its text.\<close>

definition handlePrompt :: "('f \<Rightarrow> string) \<Rightarrow> 'f \<Rightarrow> llm_ops \<Rightarrow> bytes \<Rightarrow> ward \<Rightarrow> ward outcome" where
  "handlePrompt sprintf_f cost ops payload w =
     (case fst (PromptPayload_UnmarshalMUS (bytes_NewReader payload)) of
        Panic m \<Rightarrow> Panic m
      | Err err \<Rightarrow> Val w
      | Val msg \<Rightarrow>
          (case runLLMSubprocess ops (pp_Text msg) (w\<lparr>wd_promptSeq := pp_Seq msg\<rparr>) of
             ((outcome, ev, Some ferr), w) \<Rightarrow>
               let fev = \<lparr>fep_AgentID = wd_agentID w, fep_PromptSeq = pp_Seq msg, fep_Kind = ev, fep_Detail = error_text ferr\<rparr>
               in Val (snd (ward_send MsgType_FailureEvent ''keeper'' (FailureEventPayload_MarshalMUS fev) w))
           | ((outcome, ev, None), w) \<Rightarrow>
               let cev = \<lparr>cep_AgentID = wd_agentID w, cep_PromptSeq = pp_Seq msg, cep_Model = lm_model outcome,
                     cep_InputTokens = of_int (lm_inputTokens outcome), cep_OutputTokens = of_int (lm_outputTokens outcome),
                     cep_CostUSD = cost, cep_Outcome = ''success'', cep_ToolCalls = of_int (lm_toolCalls outcome)\<rparr>
               in Val (snd (ward_send MsgType_CompletionEvent ''keeper'' (CompletionEventPayload_MarshalMUS sprintf_f cev) w))))"

text \<open>One frame of the main loop: the prompt to start in a goroutine, if any, and the Ward.\<close>

definition ward_frame :: "swarm_header \<Rightarrow> bytes \<Rightarrow> ward \<Rightarrow> bytes option \<times> ward" where
  "ward_frame hdr payload w =
     (let t = h_Type hdr in
      if t = MsgType_CtlPrompt then (Some payload, w)
      else if t = MsgType_CapabilityResponse then (None, deliverCapabilityResponse hdr payload w)
      else if t = MsgType_Ping then (None, snd (ward_send MsgType_Pong ''keeper'' [] w))
      else (None, w))"

text \<open>
  The main loop on what its reads of the pipe give, until one fails, decoding a frame panics, or
  there is nothing more to look at: the prompts to start, the error \<open>run\<close> returns, the Ward.
\<close>

fun ward_run :: "(swarm_header \<times> bytes) outcome list \<Rightarrow> ward \<Rightarrow> (bytes list \<times> go_error option outcome) \<times> ward" where
  "ward_run [] w = (([], Val None), w)"
| "ward_run (Panic m # reads) w = (([], Panic m), w)"
| "ward_run (Err err # reads) w =
     (if err = EOF then (([], Val None), w) else (([], Val (Some (Wrap ''pipe recv: '' err))), w))"
| "ward_run (Val (hdr, payload) # reads) w =
     (case ward_frame hdr payload w of
        (p, w) \<Rightarrow>
          (case ward_run reads w of
             ((ps, res), w) \<Rightarrow> ((case p of None \<Rightarrow> ps | Some b \<Rightarrow> b # ps, res), w)))"

subsection \<open>The system prompt\<close>

definition prompt_header :: "string list" where
  "prompt_header = [''You are a Vivary AI agent running inside an isolated container.'',
     '''',
     ''You have access to a set of capability tools installed as CLI commands.'',
     ''Call each tool by running its name as a shell command with '' @ dquote # ''--field value'' @ dquote # '' arguments.'',
     ''On error, a tool writes a description to stderr and exits non-zero.'',
     ''Write all output files using Filesystem_File_Write.'',
     '''',
     ''Available capabilities:'',
     '''']"

definition systemPromptHeader :: string where
  "systemPromptHeader = concat (map (\<lambda>l. l @ nl) prompt_header)"

definition systemPromptFooter :: string where
  "systemPromptFooter = nl @ ''Complete your task and then stop.'' @ nl
     @ ''Do not ask follow-up questions unless the task explicitly requires interaction.'' @ nl"

definition code_fence :: string where
  "code_fence = [CHR 0x60, CHR 0x60, CHR 0x60]"

text \<open>The dash in the text for an unknown schema is U+2014, three bytes in UTF-8.\<close>

definition em_dash :: string where
  "em_dash = [CHR 0xE2, CHR 0x80, CHR 0x94]"

definition capability_section :: "(string \<rightharpoonup> string) \<Rightarrow> string \<Rightarrow> string" where
  "capability_section capRegistry name =
     (case capRegistry name of
        None \<Rightarrow> ''### '' @ name @ nl @ ''(schema unavailable '' @ em_dash @ '' call with --help for usage)'' @ nl @ nl
      | Some schema \<Rightarrow> ''### '' @ name @ nl @ code_fence @ ''json'' @ nl @ schema @ nl @ code_fence @ nl @ nl)"

definition granted_names :: "kdl_node list \<Rightarrow> string list" where
  "granted_names nodes = concat (map (\<lambda>n. if kn_Name n \<noteq> ''capabilities'' then [] else map kn_Name (kn_Children n)) nodes)"

definition loadAgentPromptConfig ::
  "(string \<rightharpoonup> string) \<Rightarrow> (string \<Rightarrow> go_error + kdl_node list) \<Rightarrow> read_result \<Rightarrow> string \<times> int"
where
  "loadAgentPromptConfig capRegistry kdl_Parse file =
     (case file of
        ReadNotExist \<Rightarrow> ('''', 1)
      | ReadErr err \<Rightarrow> ('''', 1)
      | ReadOk data \<Rightarrow>
          (case ParseAgentKDL kdl_Parse data of
             (cfg, Some err) \<Rightarrow> ('''', 1)
           | (cfg, None) \<Rightarrow>
               (case kdl_Parse data of
                  Inl err \<Rightarrow> ('''', ac_SchemaErrorRetries cfg)
                | Inr nodes \<Rightarrow>
                    let capNames = granted_names nodes in
                    if capNames = [] then ('''', ac_SchemaErrorRetries cfg)
                    else (systemPromptHeader @ concat (map (capability_section capRegistry) capNames) @ systemPromptFooter,
                          ac_SchemaErrorRetries cfg))))"

definition buildSystemPrompt ::
  "(string \<rightharpoonup> string) \<Rightarrow> (string \<Rightarrow> go_error + kdl_node list) \<Rightarrow> read_result \<Rightarrow> string"
where
  "buildSystemPrompt capRegistry kdl_Parse file = fst (loadAgentPromptConfig capRegistry kdl_Parse file)"

definition countCapLines :: "string \<Rightarrow> nat" where
  "countCapLines prompt = length (filter (\<lambda>line. HasPrefix line ''### '') (split_on (CHR 0x0A) prompt))"

definition parentDir :: "string \<Rightarrow> string" where
  "parentDir p = (if slash \<in> set p then rev (tl (dropWhile (\<lambda>c. c \<noteq> slash) (rev p))) else ''.'')"

text \<open>The Ward as \<open>main\<close> starts it.\<close>

definition main_ward ::
  "string \<Rightarrow> int \<Rightarrow> string \<Rightarrow> (string \<rightharpoonup> string) \<Rightarrow> (string \<Rightarrow> go_error + kdl_node list) \<Rightarrow> read_result \<Rightarrow> writer \<Rightarrow> ward"
where
  "main_ward agentID loopThreshold toolSock capRegistry kdl_Parse agentKDL out =
     (case loadAgentPromptConfig capRegistry kdl_Parse agentKDL of
        (sysPrompt, schemaErrorRetries) \<Rightarrow>
          \<lparr>wd_agentID = agentID, wd_out = out, wd_seq = \<lparr>sc_n = 0\<rparr>, wd_loopThreshold = loopThreshold,
           wd_toolSockPath = toolSock, wd_systemPrompt = sysPrompt, wd_schemaErrorRetries = schemaErrorRetries,
           wd_promptSeq = 0, wd_activeLoop = None, wd_activeCmd = None, wd_activeAbort = None,
           wd_activeAbortDetail = None, wd_pending = Map.empty, wd_killed = []\<rparr>)"

subsection \<open>Loop detection counts\<close>

lemma loop_check_count:
  "ld_counts (snd (loop_check t a l)) k = ld_counts l k + (if k = loop_key t a then 1 else 0)"
  "ld_threshold (snd (loop_check t a l)) = ld_threshold l"
  by (simp_all add: loop_check_def Let_def)

lemma loop_check_hit: "fst (loop_check t a l) \<longleftrightarrow> ld_threshold l \<le> ld_counts l (loop_key t a) + 1"
  by (simp add: loop_check_def Let_def)

definition loop_run :: "(string \<times> bytes) list \<Rightarrow> loopDetector \<Rightarrow> loopDetector" where
  "loop_run calls l = fold (\<lambda>(t, a) l. snd (loop_check t a l)) calls l"

lemma loop_run_count:
  "ld_counts (loop_run calls l) k = ld_counts l k + int (length (filter (\<lambda>(t, a). loop_key t a = k) calls))
   \<and> ld_threshold (loop_run calls l) = ld_threshold l"
proof (induction calls arbitrary: l)
  case (Cons c calls)
  obtain t a where "c = (t, a)" by (cases c)
  with Cons.IH [of "snd (loop_check t a l)"] show ?case
    by (simp add: loop_run_def loop_check_count)
qed (simp add: loop_run_def)

subsection \<open>Calls in progress\<close>

datatype call_phase = ToSend u64 bytes | InFlight u64

fun call_number :: "call_phase \<Rightarrow> u64" where
  "call_number (ToSend n b) = n"
| "call_number (InFlight n) = n"

text \<open>
  A Ward and its connections.  The last three fields are what an observer has written down: the
  responses read from the pipe, the answers given, with the number of the request when the answer
  came through the pipe, and how many sequence numbers have been taken.
\<close>

record ward_world =
  ww_ward :: ward
  ww_calls :: "nat \<rightharpoonup> call_phase"
  ww_received :: "(u64 \<times> bytes) list"
  ww_replies :: "(nat \<times> u64 option \<times> CapabilityResponsePayload) list"
  ww_issued :: nat

inductive ward_step :: "(string \<Rightarrow> string) \<Rightarrow> (string \<rightharpoonup> string) \<Rightarrow> ward_world \<Rightarrow> ward_world \<Rightarrow> bool"
  for quote reg
where
  answered: "ww_calls W i = None \<Longrightarrow> tool_handleConn quote reg sent (ww_ward W) = Val (Answer resp, w) \<Longrightarrow>
    ward_step quote reg W (W\<lparr>ww_ward := w, ww_replies := ww_replies W @ [(i, None, resp)]\<rparr>)"
| numbered: "ww_calls W i = None \<Longrightarrow> tool_handleConn quote reg sent (ww_ward W) = Val (Numbered n b, w) \<Longrightarrow>
    ward_step quote reg W (W\<lparr>ww_ward := w, ww_calls := (ww_calls W)(i \<mapsto> ToSend n b), ww_issued := Suc (ww_issued W)\<rparr>)"
| sent: "ww_calls W i = Some (ToSend n b) \<Longrightarrow> executeTool_send n b (ww_ward W) = (None, w) \<Longrightarrow>
    ward_step quote reg W (W\<lparr>ww_ward := w, ww_calls := (ww_calls W)(i \<mapsto> InFlight n)\<rparr>)"
| broken: "ww_calls W i = Some (ToSend n b) \<Longrightarrow> executeTool_send n b (ww_ward W) = (Some resp, w) \<Longrightarrow>
    ward_step quote reg W (W\<lparr>ww_ward := w, ww_calls := (ww_calls W)(i := None),
      ww_replies := ww_replies W @ [(i, None, resp)]\<rparr>)"
| finished: "ww_calls W i = Some (InFlight n) \<Longrightarrow> executeTool_finish n ev (ww_ward W) = Some (Val resp, w) \<Longrightarrow>
    ward_step quote reg W (W\<lparr>ww_ward := w, ww_calls := (ww_calls W)(i := None),
      ww_replies := ww_replies W @ [(i, if ev = Arrived then Some n else None, resp)]\<rparr>)"
| response: "h_Type hdr = MsgType_CapabilityResponse \<Longrightarrow> ward_frame hdr payload (ww_ward W) = (p, w) \<Longrightarrow>
    ward_step quote reg W (W\<lparr>ww_ward := w, ww_received := ww_received W @ [(h_SeqNo hdr, payload)]\<rparr>)"
| reported: "ward_send t toID payload (ww_ward W) = (err, w) \<Longrightarrow>
    ward_step quote reg W (W\<lparr>ww_ward := w, ww_issued := Suc (ww_issued W)\<rparr>)"
| begun: "ward_step quote reg W (W\<lparr>ww_ward := run_begin pid (ww_ward W)\<rparr>)"
| ended: "ward_step quote reg W (W\<lparr>ww_ward := run_end (ww_ward W)\<rparr>)"

inductive ward_reachable :: "(string \<Rightarrow> string) \<Rightarrow> (string \<rightharpoonup> string) \<Rightarrow> ward \<Rightarrow> ward_world \<Rightarrow> bool"
  for quote reg w0
where
  start: "ward_reachable quote reg w0 \<lparr>ww_ward = w0, ww_calls = Map.empty, ww_received = [], ww_replies = [], ww_issued = 0\<rparr>"
| step: "ward_reachable quote reg w0 W \<Longrightarrow> ward_step quote reg W W' \<Longrightarrow> ward_reachable quote reg w0 W'"

definition decoded_reply :: "bytes \<Rightarrow> CapabilityResponsePayload outcome" where
  "decoded_reply payload =
     (case fst (CapabilityResponsePayload_UnmarshalMUS (bytes_NewReader payload)) of
        Panic m \<Rightarrow> Panic m
      | Err err \<Rightarrow> Val (tool_error ''decode_error'' (error_text err))
      | Val capResp \<Rightarrow> Val capResp)"

definition replies_ok :: "ward_world \<Rightarrow> bool" where
  "replies_ok W \<longleftrightarrow>
     (\<forall>n p ps. wd_pending (ww_ward W) n = Some (p # ps) \<longrightarrow> (n, p) \<in> set (ww_received W))
     \<and> (\<forall>i n resp. (i, Some n, resp) \<in> set (ww_replies W) \<longrightarrow>
          (\<exists>payload. (n, payload) \<in> set (ww_received W) \<and> decoded_reply payload = Val resp))"

definition numbers_ok :: "ward_world \<Rightarrow> bool" where
  "numbers_ok W \<longleftrightarrow> sc_n (wd_seq (ww_ward W)) = of_nat (ww_issued W)
     \<and> (\<exists>f. inj_on f (dom (ww_calls W)) \<and> (\<forall>i c. ww_calls W i = Some c \<longrightarrow> f i \<le> ww_issued W \<and> call_number c = of_nat (f i)))"

subsection \<open>What the operations do to calls and numbers\<close>

lemma ward_write_frame [simp]:
  "wd_pending (snd (ward_write hdr b w)) = wd_pending w" "wd_seq (snd (ward_write hdr b w)) = wd_seq w"
  by (simp_all add: ward_write_def split: prod.splits)

lemma ward_send_frame:
  "wd_pending (snd (ward_send t i b w)) = wd_pending w"
  "sc_n (wd_seq (snd (ward_send t i b w))) = sc_n (wd_seq w) + 1"
  by (simp_all add: ward_send_def ward_next_seq_def SeqCounter_Next_def)

lemma run_frame [simp]:
  "wd_pending (run_begin pid w) = wd_pending w" "wd_seq (run_begin pid w) = wd_seq w"
  "wd_pending (run_end w) = wd_pending w" "wd_seq (run_end w) = wd_seq w"
  "wd_pending (kill_active w) = wd_pending w" "wd_seq (kill_active w) = wd_seq w"
  "wd_pending (abortActivePrompt k det w) = wd_pending w" "wd_seq (abortActivePrompt k det w) = wd_seq w"
  by (simp_all add: run_begin_def run_end_def kill_active_def abortActivePrompt_def Let_def split: option.splits)

lemma loop_guard_frame:
  assumes "loop_guard quote req w = (r, w')"
  shows "wd_pending w' = wd_pending w" "wd_seq w' = wd_seq w"
  using assms by (auto simp: loop_guard_def Let_def split: option.splits prod.splits if_splits)

lemma executeTool_begin_frame:
  assumes "executeTool_begin quote req w = Val (s, w')"
  obtains resp where "s = Answer resp" "wd_pending w' = wd_pending w" "wd_seq w' = wd_seq w"
  | b where "s = Numbered (sc_n (wd_seq w) + 1) b" "wd_pending w' = (wd_pending w)(sc_n (wd_seq w) + 1 \<mapsto> [])"
      "sc_n (wd_seq w') = sc_n (wd_seq w) + 1"
proof -
  obtain r w1 where g: "loop_guard quote req w = (r, w1)" by (cases "loop_guard quote req w")
  note f = loop_guard_frame [OF g]
  show thesis
  proof (cases r)
    case (Some resp)
    with assms g f that(1) [of resp] show thesis by (auto simp: executeTool_begin_def)
  next
    case None
    show thesis
    proof (cases "validateToolArgs (trp_Capability req) (trp_Args req)")
      case (Val v)
      show thesis
      proof (cases v)
        case (Some err)
        with assms g f None Val that(1) show thesis by (auto simp: executeTool_begin_def)
      next
        case n: None
        with assms g f None Val that(2) show thesis
          by (auto simp: executeTool_begin_def ward_next_seq_def SeqCounter_Next_def registerPending_def)
      qed
    qed (use assms g None in \<open>simp_all add: executeTool_begin_def\<close>)
  qed
qed

lemma tool_handleConn_frame:
  assumes "tool_handleConn quote reg data w = Val (s, w')"
  obtains resp where "s = Answer resp" "wd_pending w' = wd_pending w" "wd_seq w' = wd_seq w"
  | b where "s = Numbered (sc_n (wd_seq w) + 1) b" "wd_pending w' = (wd_pending w)(sc_n (wd_seq w) + 1 \<mapsto> [])"
      "sc_n (wd_seq w') = sc_n (wd_seq w) + 1"
proof (cases "fst (ToolRequestPayload_UnmarshalMUS (bytes_NewReader (take tool_limit data)))")
  case (Val req)
  show thesis
  proof (cases "trp_Capability req = '''' \<or> trp_Mode req = ToolRequestSchema")
    case True
    with assms Val that(1) show thesis by (auto simp: tool_handleConn_def Let_def split: if_splits)
  next
    case False
    with assms Val have "executeTool_begin quote req w = Val (s, w')" by (simp add: tool_handleConn_def)
    then show thesis by (rule executeTool_begin_frame) (use that in blast)+
  qed
qed (use assms that(1) in \<open>auto simp: tool_handleConn_def Let_def\<close>)

lemma executeTool_send_frame:
  assumes "executeTool_send n b w = (r, w')"
  shows "wd_pending w' = wd_pending w \<or> wd_pending w' = (wd_pending w)(n := None)" "wd_seq w' = wd_seq w"
proof -
  obtain e w1 where s: "sendWithSeq n b w = (e, w1)" by (cases "sendWithSeq n b w")
  then have "wd_pending w1 = wd_pending w" "wd_seq w1 = wd_seq w"
    using ward_write_frame [of "ward_header (wd_agentID w) MsgType_CapabilityRequest ''keeper'' n" b w]
    by (simp_all add: sendWithSeq_def)
  with assms s show "wd_pending w' = wd_pending w \<or> wd_pending w' = (wd_pending w)(n := None)" "wd_seq w' = wd_seq w"
    by (auto simp: executeTool_send_def removePending_def split: option.splits)
qed


lemma executeTool_finish_frame:
  assumes "executeTool_finish n ev w = Some (Val resp, w')"
  shows "wd_pending w' = (wd_pending w)(n := None)" "wd_seq w' = wd_seq w"
    "ev = Arrived \<Longrightarrow> \<exists>p ps. wd_pending w n = Some (p # ps) \<and> decoded_reply p = Val resp"
  using assms
  by (auto simp: executeTool_finish_def removePending_def decoded_reply_def
      split: wait_event.splits option.splits list.splits outcome.splits)

lemma deliver_frame:
  assumes "ward_frame hdr payload w = (p, w')" and "h_Type hdr = MsgType_CapabilityResponse"
  shows "wd_pending w' = wd_pending w \<or> wd_pending w' = (wd_pending w)(h_SeqNo hdr \<mapsto> [payload])" "wd_seq w' = wd_seq w"
  using assms
  by (auto simp: ward_frame_def MsgType_defs deliverCapabilityResponse_def Let_def split: option.splits list.splits)

lemma replies_keep:
  assumes "replies_ok W" and "set (ww_received W) \<subseteq> set (ww_received W')"
    and "\<And>n p ps. wd_pending (ww_ward W') n = Some (p # ps) \<Longrightarrow>
      wd_pending (ww_ward W) n = Some (p # ps) \<or> (n, p) \<in> set (ww_received W')"
    and "\<And>i n resp. (i, Some n, resp) \<in> set (ww_replies W') \<Longrightarrow> (i, Some n, resp) \<in> set (ww_replies W)
      \<or> (\<exists>payload. (n, payload) \<in> set (ww_received W) \<and> decoded_reply payload = Val resp)"
  shows "replies_ok W'"
  using assms unfolding replies_ok_def by (meson subsetD)

lemma ward_step_replies: "ward_step quote reg W W' \<Longrightarrow> replies_ok W \<Longrightarrow> replies_ok W'"
proof (induction rule: ward_step.induct)
  case (answered W i sent resp w)
  have p: "wd_pending w = wd_pending (ww_ward W)"
    using answered.hyps(2) by (rule tool_handleConn_frame) simp_all
  show ?case
    by (rule replies_keep [OF answered.prems]) (auto simp: p)
next
  case (numbered W i sent n b w)
  have p: "wd_pending w = (wd_pending (ww_ward W))(n \<mapsto> [])"
    using numbered.hyps(2) by (rule tool_handleConn_frame) simp_all
  show ?case
    by (rule replies_keep [OF numbered.prems]) (auto simp: p split: if_splits)
next
  case (sent W i n b w)
  note f = executeTool_send_frame(1) [OF sent.hyps(2)]
  show ?case
    by (rule replies_keep [OF sent.prems]) (use f in \<open>auto split: if_splits\<close>)
next
  case (broken W i n b resp w)
  note f = executeTool_send_frame(1) [OF broken.hyps(2)]
  show ?case
    by (rule replies_keep [OF broken.prems]) (use f in \<open>auto split: if_splits\<close>)
next
  case (finished W i n ev resp w)
  note f = executeTool_finish_frame [OF finished.hyps(2)]
  have "\<exists>payload. (n, payload) \<in> set (ww_received W) \<and> decoded_reply payload = Val resp" if "ev = Arrived"
    using f(3) [OF that] finished.prems unfolding replies_ok_def by blast
  then show ?case
    by (intro replies_keep [OF finished.prems]) (auto simp: f(1) split: if_splits)
next
  case (response hdr payload W p w)
  note f = deliver_frame(1) [OF response.hyps(2,1)]
  show ?case
    by (rule replies_keep [OF response.prems]) (use f in \<open>auto split: if_splits\<close>)
next
  case (reported t toID payload W err w)
  have p: "wd_pending w = wd_pending (ww_ward W)"
    using ward_send_frame(1) [of t toID payload "ww_ward W"] reported.hyps by simp
  show ?case
    by (rule replies_keep [OF reported.prems]) (auto simp: p)
next
  case (begun W pid)
  show ?case by (rule replies_keep [OF begun.prems]) auto
next
  case (ended W)
  show ?case by (rule replies_keep [OF ended.prems]) auto
qed

lemma ward_reachable_replies: "ward_reachable quote reg w0 W \<Longrightarrow> wd_pending w0 = Map.empty \<Longrightarrow> replies_ok W"
proof (induction rule: ward_reachable.induct)
  case start
  then show ?case by (simp add: replies_ok_def)
next
  case (step W W')
  then show ?case using ward_step_replies by blast
qed


subsection \<open>Calls in progress have different numbers\<close>

lemma numbers_keep:
  assumes "numbers_ok W" and "wd_seq (ww_ward W') = wd_seq (ww_ward W)" and "ww_issued W' = ww_issued W"
    and "\<And>i c. ww_calls W' i = Some c \<Longrightarrow> \<exists>c'. ww_calls W i = Some c' \<and> call_number c' = call_number c"
  shows "numbers_ok W'"
proof -
  obtain f where f: "inj_on f (dom (ww_calls W))"
    "\<And>i c. ww_calls W i = Some c \<Longrightarrow> f i \<le> ww_issued W \<and> call_number c = of_nat (f i)"
    using assms(1) unfolding numbers_ok_def by blast
  have "dom (ww_calls W') \<subseteq> dom (ww_calls W)"
    using assms(4) by blast
  then have "inj_on f (dom (ww_calls W'))"
    using f(1) inj_on_subset by blast
  moreover have "f i \<le> ww_issued W' \<and> call_number c = of_nat (f i)" if "ww_calls W' i = Some c" for i c
    using assms(3) assms(4) [OF that] f(2) by metis
  ultimately show ?thesis
    using assms(1,2,3) unfolding numbers_ok_def by auto
qed

lemma ward_step_numbers: "ward_step quote reg W W' \<Longrightarrow> numbers_ok W \<Longrightarrow> numbers_ok W'"
proof (induction rule: ward_step.induct)
  case (answered W i sent resp w)
  have "wd_seq w = wd_seq (ww_ward W)"
    using answered.hyps(2) by (rule tool_handleConn_frame) simp_all
  with answered.prems show ?case by (rule_tac numbers_keep) auto
next
  case (numbered W i sent n b w)
  have n: "n = sc_n (wd_seq (ww_ward W)) + 1" "sc_n (wd_seq w) = sc_n (wd_seq (ww_ward W)) + 1"
    using numbered.hyps(2) by (rule tool_handleConn_frame; simp)+
  obtain f where f: "inj_on f (dom (ww_calls W))"
    "\<And>i c. ww_calls W i = Some c \<Longrightarrow> f i \<le> ww_issued W \<and> call_number c = of_nat (f i)"
    and s: "sc_n (wd_seq (ww_ward W)) = of_nat (ww_issued W)"
    using numbered.prems unfolding numbers_ok_def by blast
  let ?f = "f(i := Suc (ww_issued W))"
  have "Suc (ww_issued W) \<notin> f ` dom (ww_calls W)"
    using f(2) by (metis Suc_n_not_le_n domD imageE)
  moreover have "i \<notin> dom (ww_calls W)"
    using numbered.hyps(1) by blast
  ultimately have "inj_on ?f (insert i (dom (ww_calls W)))"
    using f(1) by (auto simp: inj_on_fun_updI)
  moreover have "?f j \<le> Suc (ww_issued W) \<and> call_number c = of_nat (?f j)"
    if "((ww_calls W)(i \<mapsto> ToSend n b)) j = Some c" for j c
  proof (cases "j = i")
    case True
    with that have "c = ToSend n b" by simp
    with True n(1) s show ?thesis by simp
  next
    case False
    with that have "ww_calls W j = Some c" by simp
    from f(2) [OF this] False show ?thesis by simp
  qed
  moreover have "dom ((ww_calls W)(i \<mapsto> ToSend n b)) = insert i (dom (ww_calls W))"
    by simp
  ultimately show ?case
    unfolding numbers_ok_def using n s by (intro conjI exI [of _ ?f]) simp_all
next
  case (sent W i n b w)
  note f = executeTool_send_frame(2) [OF sent.hyps(2)]
  show ?case
    by (rule numbers_keep [OF sent.prems]) (use f sent.hyps(1) in \<open>auto split: if_splits\<close>)
next
  case (broken W i n b resp w)
  note f = executeTool_send_frame(2) [OF broken.hyps(2)]
  show ?case
    by (rule numbers_keep [OF broken.prems]) (use f in \<open>auto split: if_splits\<close>)
next
  case (finished W i n ev resp w)
  note f = executeTool_finish_frame(2) [OF finished.hyps(2)]
  show ?case
    by (rule numbers_keep [OF finished.prems]) (use f in \<open>auto split: if_splits\<close>)
next
  case (response hdr payload W p w)
  note f = deliver_frame(2) [OF response.hyps(2,1)]
  show ?case
    by (rule numbers_keep [OF response.prems]) (use f in auto)
next
  case (reported t toID payload W err w)
  have "sc_n (wd_seq w) = sc_n (wd_seq (ww_ward W)) + 1"
    using ward_send_frame(2) [of t toID payload "ww_ward W"] reported.hyps by simp
  then show ?case
    using reported.prems unfolding numbers_ok_def by (auto simp: le_SucI)
next
  case (begun W pid)
  show ?case by (rule numbers_keep [OF begun.prems]) auto
next
  case (ended W)
  show ?case by (rule numbers_keep [OF ended.prems]) auto
qed

lemma ward_reachable_numbers: "ward_reachable quote reg w0 W \<Longrightarrow> sc_n (wd_seq w0) = 0 \<Longrightarrow> numbers_ok W"
proof (induction rule: ward_reachable.induct)
  case start
  then show ?case by (simp add: numbers_ok_def)
next
  case (step W W')
  then show ?case using ward_step_numbers by blast
qed

lemma numbers_differ:
  assumes "numbers_ok W" and "ww_issued W < 2 ^ 64"
    and "ww_calls W i = Some c" and "ww_calls W j = Some c'" and "i \<noteq> j"
  shows "call_number c \<noteq> call_number c'"
proof -
  obtain f where f: "inj_on f (dom (ww_calls W))"
    "\<And>i c. ww_calls W i = Some c \<Longrightarrow> f i \<le> ww_issued W \<and> call_number c = of_nat (f i)"
    using assms(1) unfolding numbers_ok_def by blast
  have "f i \<noteq> f j"
    using f(1) assms(3,4,5) by (auto dest: inj_onD)
  moreover have "f i < 2 ^ 64" "f j < 2 ^ 64"
    using f(2) assms(2,3,4) le_less_trans by blast+
  ultimately have "(of_nat (f i) :: u64) \<noteq> of_nat (f j)"
    by (metis unat_of_nat_u64)
  then show ?thesis using f(2) assms(3,4) by simp
qed

lemma main_ward_fresh:
  "wd_pending (main_ward i t s reg p f out) = Map.empty" "sc_n (wd_seq (main_ward i t s reg p f out)) = 0"
  by (simp_all add: main_ward_def split: prod.splits)


subsection \<open>What the attempts of a prompt can cost\<close>

lemma run_frame_out [simp]:
  "wd_out (run_begin pid w) = wd_out w" "wd_out (run_end w) = wd_out w"
  "wd_schemaErrorRetries (run_begin pid w) = wd_schemaErrorRetries w"
  by (simp_all add: run_begin_def run_end_def)

lemma run_failure_out [simp]: "wd_out (snd (run_failure ops err w)) = wd_out w"
  by (simp add: run_failure_def Let_def split: option.splits)

definition sent_bytes :: "ward \<Rightarrow> nat" where
  "sent_bytes w = length (w_out (wd_out w))"

lemma run_once_sends:
  assumes "\<And>cmd env w. sent_bytes (snd (lo_run ops cmd env w)) \<le> sent_bytes w + k"
  shows "sent_bytes (snd (runLLMSubprocessOnce ops p w)) \<le> sent_bytes w + k"
proof -
  have "sent_bytes (snd (lo_run ops cmd env (run_begin pid w))) \<le> sent_bytes w + k" for cmd env pid
    using assms [of cmd env "run_begin pid w"] by (simp add: sent_bytes_def)
  then have r: "lo_run ops cmd env (run_begin pid w) = (x, w') \<Longrightarrow> length (w_out (wd_out w')) \<le> length (w_out (wd_out w)) + k" for cmd env pid x w'
    unfolding sent_bytes_def by (metis snd_conv)
  have f: "run_failure ops err w1 = (x, w2) \<Longrightarrow> wd_out w2 = wd_out w1" for err w1 x w2
    using run_failure_out [of ops err w1] by simp
  show ?thesis
    unfolding runLLMSubprocessOnce_def sent_bytes_def
    by (auto simp: Let_def dest!: r f split: sum.splits option.splits prod.splits)
qed


lemma run_attempts_sends:
  assumes "\<And>cmd env w. sent_bytes (snd (lo_run ops cmd env w)) \<le> sent_bytes w + k"
  shows "sent_bytes (snd (run_attempts ops p a n w)) \<le> sent_bytes w + k * Suc (nat n)"
proof (induction "nat n" arbitrary: a n w rule: less_induct)
  case less
  obtain outcome kind err w1 where once: "runLLMSubprocessOnce ops a w = ((outcome, kind, err), w1)"
    by (cases "runLLMSubprocessOnce ops a w") (metis prod_cases3)
  have s: "sent_bytes w1 \<le> sent_bytes w + k"
    using run_once_sends [OF assms, of a w] once by simp
  show ?case
  proof (cases "err = None \<or> kind \<noteq> ''schema_invalid'' \<or> n \<le> 0")
    case True
    with once have "run_attempts ops p a n w = ((outcome, kind, err), w1)"
      by (auto simp: run_attempts.simps [of ops p a n w])
    with s show ?thesis by simp
  next
    case False
    define detail where "detail = (case wd_activeAbortDetail w1 of
       Some d \<Rightarrow> if d \<noteq> '''' then d else ''schema validation failed'' | None \<Rightarrow> ''schema validation failed'')"
    have e: "run_attempts ops p a n w = run_attempts ops p (appendSchemaRetryInstruction p detail n) (n - 1)
        (w1\<lparr>wd_activeAbortDetail := None\<rparr>)"
      using False once by (auto simp: run_attempts.simps [of ops p a n w] detail_def Let_def)
    have pos: "0 < n" using False by simp
    then have lt: "nat (n - 1) < nat n" by simp
    have m: "Suc (nat n) = Suc (Suc (nat (n - 1)))" using pos by simp
    have "sent_bytes (snd (run_attempts ops p a n w)) \<le> sent_bytes w1 + k * Suc (nat (n - 1))"
      unfolding e using less [OF lt, of "appendSchemaRetryInstruction p detail n" "w1\<lparr>wd_activeAbortDetail := None\<rparr>"]
      by (simp add: sent_bytes_def)
    with s show ?thesis unfolding m by simp
  qed
qed

subsection \<open>Properties\<close>



text \<open>
  C17: With a loop detector that has seen \<open>calls\<close>, a call is refused as a loop exactly when it is at
  least the \<open>threshold\<close>-th with its key, and then the prompt's process is killed.  Name and
  arguments are hashed with nothing between them, so calls that only concatenate to the same bytes
  count as repetitions of each other.
\<close>

theorem loop_refused_at_threshold:
  assumes "wd_activeLoop w = Some (loop_run calls (newLoopDetector threshold))" and "wd_activeCmd w = Some pid"
  shows "((\<exists>resp w'. executeTool_begin quote req w = Val (Answer resp, w') \<and> crs_ErrorCode resp = ''loop_detected''
             \<and> last (wd_killed w') = pid \<and> wd_activeAbort w' = Some ''loop_detected'')
         \<longleftrightarrow> threshold \<le> 1 + int (length (filter (\<lambda>(name, args). loop_key name args = loop_key (trp_Capability req) (trp_Args req)) calls)))
    \<and> (bytes_of name @ args = bytes_of name' @ args' \<longrightarrow> loop_key name args = loop_key name' args')"
proof -
  let ?ld = "loop_run calls (newLoopDetector threshold)"
  let ?hit = "threshold \<le> 1 + int (length (filter (\<lambda>(name, args). loop_key name args = loop_key (trp_Capability req) (trp_Args req)) calls))"
  obtain hit ld where c: "loop_check (trp_Capability req) (trp_Args req) ?ld = (hit, ld)"
    by fastforce
  have "hit \<longleftrightarrow> ?hit"
    using loop_check_hit [of "trp_Capability req" "trp_Args req" ?ld] loop_run_count [of calls "newLoopDetector threshold"] c
    by (auto simp: newLoopDetector_def)
  moreover have "crs_ErrorCode resp \<noteq> ''loop_detected''" if "\<not> hit" "executeTool_begin quote req w = Val (Answer resp, w')" for resp w'
    using that c assms(1)
    by (auto simp: executeTool_begin_def loop_guard_def tool_error_def Let_def split: outcome.splits option.splits prod.splits)
  moreover have "\<exists>resp w'. executeTool_begin quote req w = Val (Answer resp, w') \<and> crs_ErrorCode resp = ''loop_detected''
      \<and> last (wd_killed w') = pid \<and> wd_activeAbort w' = Some ''loop_detected''" if hit
    using that c assms by (simp add: executeTool_begin_def loop_guard_def tool_error_def kill_active_def Let_def)
  ultimately have "(\<exists>resp w'. executeTool_begin quote req w = Val (Answer resp, w') \<and> crs_ErrorCode resp = ''loop_detected''
      \<and> last (wd_killed w') = pid \<and> wd_activeAbort w' = Some ''loop_detected'') \<longleftrightarrow> ?hit"
    by blast
  then show ?thesis by (simp add: loop_key_def)
qed

theorem loop_refused_at_threshold_witness:
  "\<exists>resp w'. executeTool_begin (\<lambda>x. x) \<lparr>trp_Capability = ''X'', trp_Mode = 0, trp_Args = [1]\<rparr>
      ((main_ward ''a'' 2 ''/s'' Map.empty (\<lambda>_. Inl EOF) ReadNotExist \<lparr>w_out = [], w_room = None, w_err = EOF\<rparr>)
        \<lparr>wd_activeLoop := Some (loop_run [(''X'', [1])] (newLoopDetector 2)), wd_activeCmd := Some 9\<rparr>)
    = Val (Answer resp, w') \<and> crs_ErrorCode resp = ''loop_detected'' \<and> last (wd_killed w') = 9"
proof -
  let ?w = "(main_ward ''a'' 2 ''/s'' Map.empty (\<lambda>_. Inl EOF) ReadNotExist \<lparr>w_out = [], w_room = None, w_err = EOF\<rparr>)
        \<lparr>wd_activeLoop := Some (loop_run [(''X'', [1])] (newLoopDetector 2)), wd_activeCmd := Some 9\<rparr>"
  have "wd_activeLoop ?w = Some (loop_run [(''X'', [1])] (newLoopDetector 2))" "wd_activeCmd ?w = Some 9"
    by simp_all
  note hit = loop_refused_at_threshold [where quote = "\<lambda>x. x"
      and req = "\<lparr>trp_Capability = ''X'', trp_Mode = 0, trp_Args = [1]\<rparr>", OF this, THEN conjunct1, THEN iffD2]
  show ?thesis using hit by simp blast
qed



end
