(* ===== verification/ToolServer.thy ===== *)
theory ToolServer
  imports Ward Strconv
begin

text \<open>
  The start of the Ward (\<open>main\<close> in \<open>cmd/ward/main.go\<close>) and the listening side of its tool server
  (\<open>toolServer.run\<close> in \<open>cmd/ward/toolserver.go\<close>): the socket that capability commands connect to, its
  permissions, its accept loop, and the clean-up on the way out.  What happens on a connection is
  \<open>tool_handleConn\<close> in \<open>Ward\<close>.
\<close>

definition defaultToolSockPath :: string where
  "defaultToolSockPath = ''/run/ward-tool.sock''"

text \<open>Without an agent id the program exits; \<open>loopThreshold\<close> is the parsed value of its flag.\<close>

definition ward_main ::
  "(string \<times> string) list \<Rightarrow> int \<Rightarrow> (string \<rightharpoonup> string) \<Rightarrow> (string \<Rightarrow> go_error + kdl_node list) \<Rightarrow> (string \<Rightarrow> read_result)
     \<Rightarrow> writer \<Rightarrow> ward option"
where
  "ward_main vs loopThreshold capRegistry kdl_Parse read_file out =
     (let agentID = flag_value ''agent-id'' '''' vs;
          toolSock = flag_value ''tool-sock'' defaultToolSockPath vs;
          agentKDL = flag_value ''agent-kdl'' ''/agent.kdl'' vs
      in if agentID = '''' then None
         else Some (main_ward agentID loopThreshold toolSock capRegistry kdl_Parse (read_file agentKDL) out))"

record 'h tool_os =
  to_Remove :: "string \<Rightarrow> 'h \<Rightarrow> 'h"
  to_MkdirAll :: "string \<Rightarrow> 'h \<Rightarrow> go_error option \<times> 'h"
  to_Listen :: "string \<Rightarrow> 'h \<Rightarrow> (go_error + nat) \<times> 'h"
  to_Chmod :: "string \<Rightarrow> nat \<Rightarrow> 'h \<Rightarrow> go_error option \<times> 'h"
  to_Close :: "nat \<Rightarrow> 'h \<Rightarrow> 'h"

text \<open>
  What \<open>Accept\<close> gives, with whether the context is cancelled by then: the connections that get a
  handler, and whether the loop has ended.
\<close>

fun tool_accepts :: "((go_error + 'c) \<times> bool) list \<Rightarrow> 'c list \<times> bool" where
  "tool_accepts [] = ([], False)"
| "tool_accepts ((Inr conn, cancelled) # as) = (case tool_accepts as of (conns, ended) \<Rightarrow> (conn # conns, ended))"
| "tool_accepts ((Inl err, cancelled) # as) = (if cancelled then ([], True) else tool_accepts as)"

text \<open>
  The connections that are handled, what \<open>run\<close> has returned (\<open>None\<close> while it accepts), and the machine.
  0o600 = 384.
\<close>

definition toolServer_run ::
  "'h tool_os \<Rightarrow> string \<Rightarrow> ((go_error + 'c) \<times> bool) list \<Rightarrow> 'h \<Rightarrow> 'c list \<times> go_error option option \<times> 'h"
where
  "toolServer_run os sockPath accepts h =
     (let h = to_Remove os sockPath h in
      case to_MkdirAll os (parentDir sockPath) h of
        (Some err, h) \<Rightarrow> ([], Some (Some (Wrap ''mkdir tool sock dir: '' err)), h)
      | (None, h) \<Rightarrow>
          (case to_Listen os sockPath h of
             (Inl err, h) \<Rightarrow> ([], Some (Some (Wrap (''listen '' @ sockPath @ '': '') err)), h)
           | (Inr ln, h) \<Rightarrow>
               let leave = (\<lambda>h. to_Remove os sockPath (to_Close os ln h)) in
               (case to_Chmod os sockPath 384 h of
                  (Some err, h) \<Rightarrow> ([], Some (Some (Wrap ''chmod tool sock: '' err)), leave h)
                | (None, h) \<Rightarrow>
                    (case tool_accepts accepts of
                       (conns, False) \<Rightarrow> (conns, None, h)
                     | (conns, True) \<Rightarrow> (conns, Some None, leave h)))))"

subsection \<open>Serving and leaving\<close>

lemma started_ward:
  "ward_main vs n reg kdl_Parse read_file out = Some w \<Longrightarrow>
     wd_agentID w \<noteq> '''' \<and> wd_pending w = Map.empty \<and> sc_n (wd_seq w) = 0 \<and> wd_activeLoop w = None"
  by (auto simp: ward_main_def Let_def main_ward_def split: if_splits prod.splits)

lemma tool_accepts_until:
  assumes "\<forall>(r, cancelled)\<in>set as. \<not> cancelled"
  shows "tool_accepts (as @ (Inl err, True) # bs) = ([conn. (Inr conn, cancelled) \<leftarrow> as], True)"
  using assms by (induction as rule: tool_accepts.induct) auto

text \<open>No connection is handled through a socket whose permissions were not restricted.\<close>

lemma tool_server_restricts:
  assumes "toolServer_run os sockPath accepts h = (conns, r, h')" and "conns \<noteq> []"
  obtains h1 h2 where "to_Chmod os sockPath 384 h1 = (None, h2)"
  using assms unfolding toolServer_run_def Let_def by (auto split: prod.splits option.splits sum.splits)

text \<open>Once it listens, the server leaves only with its listener closed and its socket removed.\<close>

lemma tool_server_cleans_up:
  assumes "toolServer_run os sockPath accepts h = (conns, Some r, h')"
    and "to_MkdirAll os (parentDir sockPath) (to_Remove os sockPath h) = (None, h1)" and "to_Listen os sockPath h1 = (Inr ln, h2)"
  obtains h3 where "h' = to_Remove os sockPath (to_Close os ln h3)"
  using assms by (auto simp: toolServer_run_def Let_def split: prod.splits option.splits bool.splits)

end
