(* ===== verification/Capwrap.thy ===== *)
theory Capwrap
  imports Generated Strconv
begin

text \<open>
  The program behind every capability command of a container (\<open>cmd/capwrap/main.go\<close>).

  It turns its command line into the argument payload of the capability it is named after, sends
  one request to the Ward and prints what comes back.  \<open>encoding/json\<close> is the record \<open>json_ops\<close>:
  the decoded value of a text, the texts of the elements of an array as they come out of
  \<open>Marshal\<close> and \<open>Unmarshal\<close>, the indentation of a text, and the parsing of floats, whose value is the
  text \<open>Marshal\<close> gives it, or nothing if it is not finite.  A string that passes through \<open>Marshal\<close>
  and \<open>Unmarshal\<close> has its invalid UTF-8 replaced.  \<open>js_range\<close> is the order in which Go visits the
  keys of a map.
\<close>

subsection \<open>JSON\<close>

record json_ops =
  js_Unmarshal :: "string \<Rightarrow> json option"
  js_raw :: "string \<Rightarrow> string list"
  js_ParseFloat :: "string \<Rightarrow> string option option"
  js_MarshalIndent :: "string \<Rightarrow> go_error + string"
  js_range :: "string list \<Rightarrow> string list"

text \<open>The dynamic types that \<open>coerceFieldValue\<close> puts into \<open>any\<close>.\<close>

datatype any_value =
    AString string
  | AInt int
  | AFloat "string option"
  | ABool bool
  | ARaw string

subsection \<open>The command line\<close>

definition map_put :: "'a \<Rightarrow> 'b \<Rightarrow> ('a \<times> 'b) list \<Rightarrow> ('a \<times> 'b) list" where
  "map_put k v m = (k, v) # filter (\<lambda>e. fst e \<noteq> k) m"

fun parseArgs_from :: "(string \<Rightarrow> string) \<Rightarrow> string list \<Rightarrow> (string \<times> string) list \<Rightarrow> go_error + (string \<times> string) list" where
  "parseArgs_from quote [] result = Inr result"
| "parseArgs_from quote (arg # argv) result =
     (if \<not> HasPrefix arg ''--'' then Inl (OtherError (''unexpected positional argument '' @ quote arg))
      else
        let key = TrimPrefix arg ''--'' in
        case split_at (CHR ''='') key of
          Some (key, v) \<Rightarrow>
            if key = '''' then Inl (OtherError ''empty flag name'')
            else parseArgs_from quote argv (map_put key v result)
        | None \<Rightarrow>
            (case argv of
               [] \<Rightarrow>
                 if key = '''' then Inl (OtherError ''empty flag name'')
                 else parseArgs_from quote [] (map_put key ''true'' result)
             | v # rest \<Rightarrow>
                 if \<not> HasPrefix v ''--'' then
                   (if key = '''' then Inl (OtherError ''empty flag name'')
                    else parseArgs_from quote rest (map_put key v result))
                 else
                   (if key = '''' then Inl (OtherError ''empty flag name'')
                    else parseArgs_from quote (v # rest) (map_put key ''true'' result))))"

definition parseArgs :: "(string \<Rightarrow> string) \<Rightarrow> string list \<Rightarrow> go_error + (string \<times> string) list" where
  "parseArgs quote argv = parseArgs_from quote argv []"

subsection \<open>Values of fields\<close>

definition formatEnum :: "(string \<Rightarrow> string) \<Rightarrow> string list \<Rightarrow> string" where
  "formatEnum quote values = strings_Join (map quote values) '', ''"

text \<open>The type between the angle brackets of \<open>list<...>\<close>.\<close>

definition inner_type :: "string \<Rightarrow> string" where
  "inner_type t = butlast (drop 5 t)"

fun validateListElement :: "(string \<Rightarrow> string) \<Rightarrow> string \<Rightarrow> string \<Rightarrow> json \<Rightarrow> go_error option"
and validateListElements :: "(string \<Rightarrow> string) \<Rightarrow> string \<Rightarrow> string \<Rightarrow> json list \<Rightarrow> go_error option" where
  "validateListElement quote fieldName typ (JArray items) =
     (if typ = ''string'' then Some (OtherError (''field '' @ quote fieldName @ '' must be an array of strings''))
      else if typ = ''object'' then Some (OtherError (''field '' @ quote fieldName @ '' must be an array of JSON objects''))
      else if HasPrefix typ ''list<'' then validateListElements quote fieldName (inner_type typ) items
      else None)"
| "validateListElement quote fieldName typ v =
     (if typ = ''string'' then
        (case v of JString s \<Rightarrow> None
         | _ \<Rightarrow> Some (OtherError (''field '' @ quote fieldName @ '' must be an array of strings'')))
      else if typ = ''object'' then
        (case v of JObject kvs \<Rightarrow> None
         | _ \<Rightarrow> Some (OtherError (''field '' @ quote fieldName @ '' must be an array of JSON objects'')))
      else if HasPrefix typ ''list<'' then
        Some (OtherError (''field '' @ quote fieldName @ '' must be a nested JSON array''))
      else None)"
| "validateListElements quote fieldName typ [] = None"
| "validateListElements quote fieldName typ (item # items) =
     (case validateListElement quote fieldName typ item of
        Some err \<Rightarrow> Some err
      | None \<Rightarrow> validateListElements quote fieldName typ items)"

definition validateListField :: "(string \<Rightarrow> string) \<Rightarrow> json_ops \<Rightarrow> GeneratedField \<Rightarrow> string \<Rightarrow> go_error option" where
  "validateListField quote js field raw =
     (case js_Unmarshal js raw of
        None \<Rightarrow> Some (OtherError (''field '' @ quote (gf_Name field) @ '' must be a valid JSON array''))
      | Some (JArray items) \<Rightarrow> validateListElements quote (gf_Name field) (inner_type (gf_Type field)) items
      | Some _ \<Rightarrow> Some (OtherError (''field '' @ quote (gf_Name field) @ '' must be a JSON array'')))"

definition coerceFieldValue :: "(string \<Rightarrow> string) \<Rightarrow> json_ops \<Rightarrow> GeneratedField \<Rightarrow> string \<Rightarrow> go_error + any_value" where
  "coerceFieldValue quote js field raw =
     (let t = gf_Type field;
          bad = (\<lambda>what. Inl (OtherError (''field '' @ quote (gf_Name field) @ '' must be '' @ what)))
      in if t = ''string'' then
           (if gf_Enum field \<noteq> [] \<and> raw \<notin> set (gf_Enum field)
            then bad (''one of '' @ formatEnum quote (gf_Enum field))
            else Inr (AString raw))
         else if t = ''int'' \<or> t = ''integer'' then
           (case Atoi raw of None \<Rightarrow> bad ''an integer'' | Some v \<Rightarrow> Inr (AInt v))
         else if t = ''float'' \<or> t = ''number'' then
           (case js_ParseFloat js raw of None \<Rightarrow> bad ''a number'' | Some v \<Rightarrow> Inr (AFloat v))
         else if t = ''bool'' \<or> t = ''boolean'' then
           (case ParseBool raw of None \<Rightarrow> bad ''a boolean'' | Some v \<Rightarrow> Inr (ABool v))
         else if t = ''object'' then
           (case js_Unmarshal js raw of
              Some (JObject kvs) \<Rightarrow> Inr (ARaw raw)
            | Some JNull \<Rightarrow> Inr (ARaw raw)
            | _ \<Rightarrow> bad ''a valid JSON object'')
         else if HasPrefix t ''list<'' then
           (case validateListField quote js field raw of Some err \<Rightarrow> Inl err | None \<Rightarrow> Inr (ARaw raw))
         else Inr (AString raw))"

subsection \<open>The payload\<close>

text \<open>A decoded array of strings, and of arrays of strings.\<close>

definition json_strings :: "json \<Rightarrow> string list option" where
  "json_strings v =
     (case v of
        JArray items \<Rightarrow> those (map (\<lambda>x. case x of JString s \<Rightarrow> Some s | _ \<Rightarrow> None) items)
      | _ \<Rightarrow> None)"

definition json_matrix :: "json \<Rightarrow> string list list option" where
  "json_matrix v = (case v of JArray items \<Rightarrow> those (map json_strings items) | _ \<Rightarrow> None)"

text \<open>What \<open>json.Unmarshal\<close> makes of a value of the typed map in a field of the struct.\<close>

definition assign :: "json_ops \<Rightarrow> field_type \<Rightarrow> any_value \<Rightarrow> field_value option" where
  "assign js t v =
     (case (t, v) of
        (TString, AString s) \<Rightarrow> Some (VString (utf8_clean s))
      | (TInt, AInt i) \<Rightarrow> Some (VInt (of_int i))
      | (TBool, ABool b) \<Rightarrow> Some (VBool b)
      | (TStrings, ARaw raw) \<Rightarrow> map_option VStrings (Option.bind (js_Unmarshal js raw) json_strings)
      | (TRawList, ARaw raw) \<Rightarrow> Some (VRawList (js_raw js raw))
      | (TMatrix, ARaw raw) \<Rightarrow> map_option VMatrix (Option.bind (js_Unmarshal js raw) json_matrix)
      | _ \<Rightarrow> None)"

fun coerce_fields ::
  "(string \<Rightarrow> string) \<Rightarrow> json_ops \<Rightarrow> (string \<times> string) list \<Rightarrow> GeneratedField list \<Rightarrow> go_error + (string \<times> any_value) list"
where
  "coerce_fields quote js rawArgs [] = Inr []"
| "coerce_fields quote js rawArgs (field # fls) =
     (case map_of rawArgs (gf_Name field) of
        None \<Rightarrow> coerce_fields quote js rawArgs fls
      | Some raw \<Rightarrow>
          (case coerceFieldValue quote js field raw of
             Inl err \<Rightarrow> Inl err
           | Inr v \<Rightarrow>
               (case coerce_fields quote js rawArgs fls of
                  Inl err \<Rightarrow> Inl err
                | Inr typed \<Rightarrow> Inr ((gf_Name field, v) # typed))))"

fun struct_of :: "json_ops \<Rightarrow> (string \<times> any_value) list \<Rightarrow> field list \<Rightarrow> field_value list option" where
  "struct_of js typed [] = Some []"
| "struct_of js typed (f # fs) =
     (case (case map_of typed (fd_name f) of None \<Rightarrow> Some (zero_value (fd_type f)) | Some v \<Rightarrow> assign js (fd_type f) v) of
        None \<Rightarrow> None
      | Some x \<Rightarrow> map_option ((#) x) (struct_of js typed fs))"

definition typed_args ::
  "(string \<Rightarrow> string) \<Rightarrow> json_ops \<Rightarrow> GeneratedCapabilityInfo \<Rightarrow> string list \<Rightarrow> go_error + (string \<times> any_value) list"
where
  "typed_args quote js info argv =
     (case parseArgs quote argv of
        Inl err \<Rightarrow> Inl err
      | Inr rawArgs \<Rightarrow>
          (case find (\<lambda>n. n \<notin> set (map gf_Name (gi_Fields info))) (js_range js (map fst rawArgs)) of
             Some n \<Rightarrow> Inl (OtherError (''unknown field '' @ quote n))
           | None \<Rightarrow>
               (case find (\<lambda>f. gf_Required f \<and> gf_Name f \<notin> set (map fst rawArgs)) (gi_Fields info) of
                  Some f \<Rightarrow> Inl (OtherError (''missing required field '' @ quote (gf_Name f)))
                | None \<Rightarrow> coerce_fields quote js rawArgs (gi_Fields info))))"

definition buildArgumentPayload :: "(string \<Rightarrow> string) \<Rightarrow> json_ops \<Rightarrow> string \<Rightarrow> string list \<Rightarrow> go_error + bytes" where
  "buildArgumentPayload quote js capName argv =
     (case GeneratedCapabilityInfoRegistry capName of
        None \<Rightarrow> Inl (OtherError (''capability '' @ quote capName @ '' not registered''))
      | Some info \<Rightarrow>
          (case typed_args quote js info argv of
             Inl err \<Rightarrow> Inl err
           | Inr typed \<Rightarrow>
               if \<exists>e\<in>set typed. snd e = AFloat None then Inl (OtherError ''marshal typed args: json: unsupported value'')
               else (case NewArgumentPayload capName of
                   None \<Rightarrow> Inl (OtherError (''capability '' @ quote capName @ '' has no argument codec''))
                 | Some fs \<Rightarrow>
                     (case struct_of js typed fs of
                        None \<Rightarrow> Inl (OtherError ''decode typed args: json: cannot unmarshal'')
                      | Some vs \<Rightarrow> Inr (marshal_fields fs vs [])))))"

subsection \<open>Talking to the Ward\<close>

record ward_socket =
  ws_Getenv :: "string \<Rightarrow> string"
  ws_Dial :: "string \<Rightarrow> go_error option"
  ws_Write :: "bytes \<Rightarrow> go_error option"
  ws_ReadAll :: "bytes \<Rightarrow> go_error + bytes"

definition callWard :: "ward_socket \<Rightarrow> ToolRequestPayload \<Rightarrow> CapabilityResponsePayload outcome" where
  "callWard ws req =
     (let sockPath = (if ws_Getenv ws ''WARD_TOOL_SOCK'' = '''' then ''/run/ward-tool.sock'' else ws_Getenv ws ''WARD_TOOL_SOCK'')
      in case ws_Dial ws sockPath of
           Some err \<Rightarrow> Err (Wrap ''connect to Ward: '' err)
         | None \<Rightarrow>
             let b = ToolRequestPayload_MarshalMUS req in
             (case ws_Write ws b of
                Some err \<Rightarrow> Err (Wrap ''send request: '' err)
              | None \<Rightarrow>
                  (case ws_ReadAll ws b of
                     Inl err \<Rightarrow> Err (Wrap ''read response: '' err)
                   | Inr respBytes \<Rightarrow>
                       (case fst (CapabilityResponsePayload_UnmarshalMUS (bytes_NewReader respBytes)) of
                          Panic m \<Rightarrow> Panic m
                        | Err err \<Rightarrow> Err (Wrap ''decode response: '' err)
                        | Val resp \<Rightarrow> Val resp))))"

definition decodeMUSString :: "bytes \<Rightarrow> string outcome" where
  "decodeMUSString data = fst (ReadString (of_nat MaxPayloadBytes) (bytes_NewReader data))"

definition fetchSchema :: "ward_socket \<Rightarrow> string \<Rightarrow> string outcome" where
  "fetchSchema ws capName =
     (case callWard ws \<lparr>trp_Capability = capName, trp_Mode = ToolRequestSchema, trp_Args = []\<rparr> of
        Panic m \<Rightarrow> Panic m
      | Err err \<Rightarrow> Err err
      | Val resp \<Rightarrow>
          if \<not> crs_OK resp then Err (OtherError (crs_ErrorCode resp @ '': '' @ crs_ErrorDetail resp))
          else decodeMUSString (crs_Data resp))"

definition formatResult ::
  "json_ops \<Rightarrow> (decoded_result \<Rightarrow> go_error + string) \<Rightarrow> string \<Rightarrow> bytes \<Rightarrow> string outcome"
where
  "formatResult js json_Marshal capName data =
     (case GeneratedCapabilityInfoRegistry capName of
        None \<Rightarrow> decodeMUSString data
      | Some info \<Rightarrow>
          if gi_ReturnType info = ''string'' then decodeMUSString data
          else (case DecodeResultToJSON json_Marshal capName data of
              Panic m \<Rightarrow> Panic m
            | Err err \<Rightarrow> Err err
            | Val None \<Rightarrow> decodeMUSString data
            | Val (Some jsonData) \<Rightarrow>
                (case js_MarshalIndent js jsonData of
                   Inl err \<Rightarrow> Err err
                 | Inr pretty \<Rightarrow> Val (pretty @ nl))))"

subsection \<open>The program\<close>

definition capwrap_main ::
  "(string \<Rightarrow> string) \<Rightarrow> json_ops \<Rightarrow> (decoded_result \<Rightarrow> go_error + string) \<Rightarrow> ward_socket \<Rightarrow> string \<Rightarrow> string list \<Rightarrow> exit_state outcome"
where
  "capwrap_main quote js json_Marshal ws arg0 args =
     (let capName = Base arg0 in
      if args \<noteq> [] \<and> (hd args = ''--help'' \<or> hd args = ''-h'') then
        (case fetchSchema ws capName of
           Panic m \<Rightarrow> Panic m
         | Err err \<Rightarrow> Val (fail_with (capName @ '': cannot fetch schema: '' @ error_text err))
         | Val schema \<Rightarrow> Val (exit_ok (schema @ nl)))
      else
        (case buildArgumentPayload quote js capName args of
           Inl err \<Rightarrow> Val (fail_with (capName @ '': '' @ error_text err))
         | Inr argPayload \<Rightarrow>
             (case callWard ws \<lparr>trp_Capability = capName, trp_Mode = ToolRequestInvoke, trp_Args = argPayload\<rparr> of
                Panic m \<Rightarrow> Panic m
              | Err err \<Rightarrow> Val (fail_with (capName @ '': '' @ error_text err))
              | Val resp \<Rightarrow>
                  if \<not> crs_OK resp
                  then Val (fail_with (capName @ '': '' @ crs_ErrorCode resp @ '': '' @ crs_ErrorDetail resp))
                  else (case formatResult js json_Marshal capName (crs_Data resp) of
                      Panic m \<Rightarrow> Panic m
                    | Err err \<Rightarrow> Val (fail_with (capName @ '': decode result: '' @ error_text err))
                    | Val out \<Rightarrow> Val (exit_ok out)))))"


subsection \<open>Payloads have the types of their fields\<close>

lemma type_zero_value [simp]: "type_of (zero_value t) = t"
  by (cases t) simp_all

lemma type_assign: "assign js t v = Some x \<Longrightarrow> type_of x = t"
  by (auto simp: assign_def split: field_type.splits any_value.splits)

lemma struct_of_types: "struct_of js typed fs = Some vs \<Longrightarrow> list_all2 (\<lambda>f v. type_of v = fd_type f) fs vs"
  by (induction fs arbitrary: vs) (auto split: option.splits dest: type_assign)

lemma length_enc_string_ge: "length s \<le> length (enc_string s)"
  by (simp add: enc_string_def)

lemma length_enc_varint_pos: "1 \<le> length (enc_varint v)"
  using VarintLen_bounds [of v] by (simp add: VarintLen_correct)

lemma strings_fit:
  "length vs \<le> length (append_strings [] vs) \<and> (\<forall>v\<in>set vs. length v \<le> length (append_strings [] vs))"
proof -
  have e: "1 \<le> length (enc_string s)" for s
    using length_enc_varint_pos [of "of_nat (length s)"] by (simp add: enc_string_def)
  have "length vs \<le> length (concat (map enc_string vs)) \<and> (\<forall>v\<in>set vs. length v \<le> length (concat (map enc_string vs)))"
  proof (induction vs)
    case (Cons s vs)
    with e [of s] length_enc_string_ge [of s] show ?case by fastforce
  qed simp
  then show ?thesis by (auto simp: append_strings_enc)
qed

lemma value_fits: "length (append_value [] v) \<le> MaxPayloadBytes \<Longrightarrow> value_wf v"
proof (cases v)
  case (VMatrix rows)
  assume small: "length (append_value [] v) \<le> MaxPayloadBytes"
  have "fold (\<lambda>v b. append_strings b v) rows b' = b' @ concat (map (append_strings []) rows)" for b'
    by (induction rows arbitrary: b') (simp_all add: append_strings_enc)
  then have e: "length (concat (map (append_strings []) rows)) \<le> MaxPayloadBytes"
    using small VMatrix by simp
  have one: "1 \<le> length (append_strings [] row)" for row
    using length_enc_varint_pos [of "of_nat (length row)"] by (simp add: append_strings_enc)
  have n: "length rows \<le> length (concat (map (append_strings []) rows))
      \<and> (\<forall>row\<in>set rows. length (append_strings [] row) \<le> length (concat (map (append_strings []) rows)))"
  proof (induction rows)
    case (Cons row rows)
    with one [of row] show ?case by fastforce
  qed simp
  show ?thesis
    unfolding VMatrix value_wf.simps
  proof (intro conjI ballI)
    show "24 * length rows \<le> maxAlloc"
      using n e by (simp add: maxAlloc_def MaxPayloadBytes_def)
    fix row assume "row \<in> set rows"
    then have r: "length (append_strings [] row) \<le> MaxPayloadBytes"
      using n e by (meson le_trans)
    show "16 * length row \<le> maxAlloc"
      using strings_fit [of row] r by (simp add: maxAlloc_def MaxPayloadBytes_def)
    fix s assume "s \<in> set row"
    then show "length s \<le> MaxPayloadBytes"
      using strings_fit [of row] r by (meson le_trans)
  qed
next
  case (VString s)
  assume "length (append_value [] v) \<le> MaxPayloadBytes"
  with VString length_enc_string_ge [of s] show ?thesis by simp
next
  case (VStrings vs)
  assume small: "length (append_value [] v) \<le> MaxPayloadBytes"
  have "length vs \<le> MaxPayloadBytes" "\<forall>s\<in>set vs. length s \<le> MaxPayloadBytes"
    using strings_fit [of vs] small VStrings by (auto intro: le_trans)
  with VStrings show ?thesis by (simp add: maxAlloc_def MaxPayloadBytes_def)
next
  case (VRawList vs)
  assume small: "length (append_value [] v) \<le> MaxPayloadBytes"
  have "length vs \<le> MaxPayloadBytes" "\<forall>s\<in>set vs. length s \<le> MaxPayloadBytes"
    using strings_fit [of vs] small VRawList by (auto intro: le_trans)
  with VRawList show ?thesis by (simp add: maxAlloc_def MaxPayloadBytes_def)
qed simp_all

lemma struct_fits:
  assumes "list_all2 (\<lambda>f v. type_of v = fd_type f) fs vs" and "list_all fd_coded fs"
    and "length (marshal_fields fs vs []) \<le> MaxPayloadBytes"
  shows "struct_wf fs vs"
  using assms
proof (induction fs vs rule: list_all2_induct)
  case (Cons f fs v vs)
  have "marshal_fields (f # fs) (v # vs) [] = append_value [] v @ marshal_fields fs vs []"
    using Cons.prems(1) marshal_fields_append [of fs vs "append_value [] v"] by simp
  then have "length (append_value [] v) \<le> MaxPayloadBytes" "length (marshal_fields fs vs []) \<le> MaxPayloadBytes"
    using Cons.prems(2) by simp_all
  with Cons value_fits show ?case by (simp add: struct_wf_def)
qed (simp add: struct_wf_def)

text \<open>What a command line that was accepted has become.\<close>

lemma buildArgumentPayload_cases:
  assumes "buildArgumentPayload quote js capName argv = Inr b"
  obtains info typed fs vs where "GeneratedCapabilityInfoRegistry capName = Some info"
    "typed_args quote js info argv = Inr typed" "NewArgumentPayload capName = Some fs"
    "struct_of js typed fs = Some vs" "b = marshal_fields fs vs []"
  using assms by (auto simp: buildArgumentPayload_def split: option.splits sum.splits if_splits)

lemma payload_decodes:
  assumes "NewArgumentPayload capName = Some fs" and "struct_of js typed fs = Some vs"
    and "length (marshal_fields fs vs []) \<le> MaxPayloadBytes"
  shows "unmarshal_fields fs (bytes_NewReader (marshal_fields fs vs [])) = (Val vs, bytes_NewReader [])"
proof -
  have wf: "struct_wf fs vs"
    using struct_fits [OF struct_of_types [OF assms(2)] arguments_coded [OF assms(1)] assms(3)] .
  show ?thesis
    using unmarshal_fields_enc [OF wf, where r = "bytes_NewReader []" and rest = "[]"]
      coded_part_id [OF wf arguments_coded [OF assms(1)]]
    by (simp add: bytes_NewReader_def)
qed


lemma info_names_short: "GeneratedCapabilityInfoRegistry name = Some info \<Longrightarrow> length name \<le> 256"
proof -
  assume "GeneratedCapabilityInfoRegistry name = Some info"
  then have "(name, info) \<in> set info_table"
    unfolding GeneratedCapabilityInfoRegistry_def by (rule map_of_SomeD)
  moreover have "list_all (\<lambda>e. length (fst e) \<le> 256) info_table"
    by (simp add: info_table_def)
  ultimately show ?thesis by (auto simp: list_all_iff)
qed

end
