(* ===== verification/Toolpath.thy ===== *)
theory Toolpath
  imports Capwrap Ward Filesystem Daemon
begin

text \<open>
  The way of a tool call: from the command line in the container (\<open>Capwrap\<close>) through the Ward and
  its pipe (\<open>Ward\<close>, \<open>Router\<close>) to the daemon's decoders (\<open>Daemon\<close>, \<open>Filesystem\<close>, \<open>Browser\<close>).
\<close>

subsection \<open>Ward and daemon\<close>

lemma rbind_assoc: "rbind (rbind m f) g = rbind m (\<lambda>x. rbind (f x) g)"
  by (auto simp: rbind_def fun_eq_iff split: prod.splits outcome.splits)

lemma rbind_rreturn: "rbind (rreturn x) f = f x"
  by (auto simp: rbind_def rreturn_def fun_eq_iff)

text \<open>The decoders that keeperd's capabilities call are the field-by-field ones.\<close>

lemma file_write_decoder:
  "unmarshal_fields Filesystem_File_Write_fields = rbind Filesystem_File_Write_UnmarshalMUS
     (\<lambda>a. rreturn [VString (ffw_Path a), VString (ffw_Content a), VBool (ffw_Append a), VString (ffw_Encoding a)])"
  by (simp add: Filesystem_File_Write_fields_def Filesystem_File_Write_UnmarshalMUS_def read_text_def rbind_assoc rbind_rreturn
      del: rreturn_simp)

lemma page_read_decoder:
  "unmarshal_fields Browser_Page_Read_fields = rbind Browser_Page_Read_UnmarshalMUS
     (\<lambda>a. rreturn [VString (bpr_URL a), VInt (bpr_Timeout a), VString (bpr_WaitFor a)])"
  by (simp add: Browser_Page_Read_fields_def Browser_Page_Read_UnmarshalMUS_def read_text_def rbind_assoc rbind_rreturn
      del: rreturn_simp)

lemma validateToolArgs_accepts:
  assumes "NewArgumentPayload name = Some fs"
  shows "validateToolArgs name args = Val None
    \<longleftrightarrow> (\<exists>vs r. unmarshal_fields fs (bytes_NewReader args) = (Val vs, r) \<and> rd_buf r = [])"
  using assms by (auto simp: validateToolArgs_def split: prod.splits outcome.splits)

text \<open>
  C16: The Ward lets arguments of the two capabilities that keeperd implements through exactly when
  keeperd's own decoder of these arguments reads them to the last byte: what the Ward accepts,
  keeperd never refuses as malformed, and the Ward refuses nothing else.
\<close>

theorem accepted_arguments_are_decoded:
  "(validateToolArgs ''Filesystem_File_Write'' args = Val None
     \<longleftrightarrow> (\<exists>a r. Filesystem_File_Write_UnmarshalMUS (bytes_NewReader args) = (Val a, r) \<and> rd_buf r = []))
   \<and> (validateToolArgs ''Browser_Page_Read'' args = Val None
     \<longleftrightarrow> (\<exists>a r. Browser_Page_Read_UnmarshalMUS (bytes_NewReader args) = (Val a, r) \<and> rd_buf r = []))"
proof
  have f: "NewArgumentPayload ''Filesystem_File_Write'' = Some Filesystem_File_Write_fields"
    by (simp add: NewArgumentPayload_def argument_table_def)
  show "validateToolArgs ''Filesystem_File_Write'' args = Val None
     \<longleftrightarrow> (\<exists>a r. Filesystem_File_Write_UnmarshalMUS (bytes_NewReader args) = (Val a, r) \<and> rd_buf r = [])"
    unfolding validateToolArgs_accepts [OF f] file_write_decoder by (auto simp: rbind_eq_Val rreturn_def)
  have b: "NewArgumentPayload ''Browser_Page_Read'' = Some Browser_Page_Read_fields"
    by (simp add: NewArgumentPayload_def argument_table_def)
  show "validateToolArgs ''Browser_Page_Read'' args = Val None
     \<longleftrightarrow> (\<exists>a r. Browser_Page_Read_UnmarshalMUS (bytes_NewReader args) = (Val a, r) \<and> rd_buf r = [])"
    unfolding validateToolArgs_accepts [OF b] page_read_decoder by (auto simp: rbind_eq_Val rreturn_def)
qed

lemma read_step_frame:
  assumes "rd_buf (p_Reader p) = frame_bytes hdr payload @ rest" and "p_Limiter p = None" and "\<not> t_done t"
    and "length (h_FromID hdr) \<le> 256" and "length (h_ToID hdr) \<le> 256" and "length payload \<le> MaxPayloadBytes"
  shows "read_step quote t p = (case accept_frame quote t (p\<lparr>p_Reader := (p_Reader p)\<lparr>rd_buf := rest\<rparr>\<rparr>)
      (hdr\<lparr>h_PayloadLen := of_nat (length payload)\<rparr>) payload of (p', acts) \<Rightarrow> (NextFrame, p', acts))"
proof -
  have "ReadFrame (p_Reader p) = (Val (hdr\<lparr>h_PayloadLen := of_nat (length payload)\<rparr>, payload), (p_Reader p)\<lparr>rd_buf := rest\<rparr>)"
    using ReadFrame_frame_bytes [OF assms(4-6), where r = "p_Reader p" and rest = rest] assms(1) by (cases "p_Reader p") simp
  moreover have "\<not> length (rd_buf (p_Reader p)) < 2"
    using frame_bytes_length2 [of hdr payload] assms(1) by simp
  ultimately show ?thesis
    using assms(2,3) by (cases p) (simp add: read_step_def Allow_opt_def)
qed



subsection \<open>From the command line to the daemon\<close>

lemma executeTool_numbers:
  assumes "loop_guard quote req w = (None, w1)" and "validateToolArgs (trp_Capability req) (trp_Args req) = Val None"
  shows "\<exists>n w'. executeTool_begin quote req w = Val (Numbered n (CapabilityRequestPayload_MarshalMUS
      \<lparr>crq_Capability = trp_Capability req, crq_Args = trp_Args req\<rparr>), w')"
  using assms by (auto simp: executeTool_begin_def Let_def split: prod.splits)

text \<open>
  C14: What capwrap makes of a command line it accepts, the Ward accepts and keeperd decodes: if the
  request fits the Ward's limit of 256 KiB and is not a loop, the Ward numbers it and sends exactly
  this capability with these argument bytes, keeperd decodes the same request, and the decoder of
  the capability's arguments reads back, to the last byte, the values that the command line gave
  to its fields, zero values for the fields it did not name.
\<close>

theorem command_line_reaches_keeperd:
  assumes "buildArgumentPayload quote js capName argv = Inr b"
    and "req = \<lparr>trp_Capability = capName, trp_Mode = ToolRequestInvoke, trp_Args = b\<rparr>"
    and "length (ToolRequestPayload_MarshalMUS req) \<le> tool_limit" and "loop_guard quote req w = (None, w1)"
  shows "\<exists>info typed fs vs n w' payload.
      GeneratedCapabilityInfoRegistry capName = Some info \<and> typed_args quote js info argv = Inr typed
      \<and> NewArgumentPayload capName = Some fs \<and> struct_of js typed fs = Some vs
      \<and> tool_handleConn quote reg (ToolRequestPayload_MarshalMUS req) w = Val (Numbered n payload, w')
      \<and> decodeCapabilityRequest payload = Val \<lparr>crq_Capability = capName, crq_Args = b\<rparr>
      \<and> unmarshal_fields fs (bytes_NewReader b) = (Val vs, bytes_NewReader [])"
proof -
  obtain info typed fs vs where c: "GeneratedCapabilityInfoRegistry capName = Some info"
    "typed_args quote js info argv = Inr typed" "NewArgumentPayload capName = Some fs"
    "struct_of js typed fs = Some vs" "b = marshal_fields fs vs []"
    using assms(1) by (rule buildArgumentPayload_cases)
  have "length b \<le> length (ToolRequestPayload_MarshalMUS req)"
    using assms(2) by (simp add: ToolRequestPayload_MarshalMUS_def)
  with assms(3) have len: "length b \<le> MaxPayloadBytes" "length b \<le> maxAlloc"
    by (simp_all add: tool_limit_def MaxPayloadBytes_def maxAlloc_def)
  note short = info_names_short [OF c(1)]
  have d: "unmarshal_fields fs (bytes_NewReader b) = (Val vs, bytes_NewReader [])"
    using payload_decodes [OF c(3,4)] len(1) c(5) by simp
  have dec: "ToolRequestPayload_UnmarshalMUS (bytes_NewReader (ToolRequestPayload_MarshalMUS req)) = (Val req, bytes_NewReader [])"
    by (rule tool_request.dec_NewReader) (use assms(2) len(2) short in simp)
  have v: "validateToolArgs capName b = Val None"
    using validateToolArgs_accepts [OF c(3), of b] d by (simp add: bytes_NewReader_def)
  have t: "trp_Capability req = capName" "trp_Args req = b" "trp_Mode req = 0"
    using assms(2) by (simp_all add: ToolRequestInvoke_def)
  have name: "capName \<noteq> ''''"
    using c(1) by (auto simp: GeneratedCapabilityInfoRegistry_def info_table_def)
  have h: "\<exists>n w'. tool_handleConn quote reg (ToolRequestPayload_MarshalMUS req) w
      = Val (Numbered n (CapabilityRequestPayload_MarshalMUS \<lparr>crq_Capability = capName, crq_Args = b\<rparr>), w')"
    using executeTool_numbers [OF assms(4), unfolded t, OF v]
    unfolding tool_handleConn_def Let_def take_all [OF assms(3)] dec
    by (simp add: t name ToolRequestSchema_def)
  have q: "decodeCapabilityRequest (CapabilityRequestPayload_MarshalMUS \<lparr>crq_Capability = capName, crq_Args = b\<rparr>)
      = Val \<lparr>crq_Capability = capName, crq_Args = b\<rparr>"
    using capability_request.dec_NewReader [of "\<lparr>crq_Capability = capName, crq_Args = b\<rparr>"] len(2) short
    by (simp add: decodeCapabilityRequest_def)
  from h q c d show ?thesis by blast
qed

definition demo_json :: json_ops where
  "demo_json = \<lparr>js_Unmarshal = (\<lambda>_. None), js_raw = (\<lambda>_. []), js_ParseFloat = (\<lambda>_. None),
     js_MarshalIndent = (\<lambda>_. Inl EOF), js_range = (\<lambda>ns. ns)\<rparr>"

theorem command_line_reaches_keeperd_witness:
  "\<exists>b n w' payload. buildArgumentPayload (\<lambda>x. x) demo_json ''Filesystem_File_Write'' [''--path'', ''a'', ''--content=b''] = Inr b
     \<and> tool_handleConn (\<lambda>x. x) Map.empty
          (ToolRequestPayload_MarshalMUS \<lparr>trp_Capability = ''Filesystem_File_Write'', trp_Mode = ToolRequestInvoke, trp_Args = b\<rparr>)
          (main_ward ''a'' 5 ''/s'' Map.empty (\<lambda>_. Inl EOF) ReadNotExist \<lparr>w_out = [], w_room = None, w_err = EOF\<rparr>)
        = Val (Numbered n payload, w')
     \<and> decodeCapabilityRequest payload = Val \<lparr>crq_Capability = ''Filesystem_File_Write'', crq_Args = b\<rparr>
     \<and> fst (unmarshal_fields Filesystem_File_Write_fields (bytes_NewReader b)) = Val [VString ''a'', VString ''b'', VBool False, VString '''']"
proof -
  let ?argv = "[''--path'', ''a'', ''--content=b'']"
  let ?vs = "[VString ''a'', VString ''b'', VBool False, VString '''']"
  let ?b = "marshal_fields Filesystem_File_Write_fields ?vs []"
  let ?w = "main_ward ''a'' 5 ''/s'' Map.empty (\<lambda>_. Inl EOF) ReadNotExist \<lparr>w_out = [], w_room = None, w_err = EOF\<rparr>"
  let ?info = "\<lparr>gi_Fields = [field_info ''path'' ''string'' True [], field_info ''content'' ''string'' True [],
      field_info ''append'' ''bool'' False [], field_info ''encoding'' ''string'' False [''utf-8'', ''base64'']],
      gi_ReturnType = ''object''\<rparr>"
  have info: "GeneratedCapabilityInfoRegistry ''Filesystem_File_Write'' = Some ?info"
    by (simp add: GeneratedCapabilityInfoRegistry_def info_table_def)
  have parsed: "parseArgs (\<lambda>x. x) ?argv = Inr [(''content'', ''b''), (''path'', ''a'')]"
    by (simp add: parseArgs_def HasPrefix_def TrimPrefix_def split_at_def map_put_def)
  have typed: "typed_args (\<lambda>x. x) demo_json ?info ?argv = Inr [(''path'', AString ''a''), (''content'', AString ''b'')]"
    by (simp add: typed_args_def parsed demo_json_def coerceFieldValue_def)
  have cl: "utf8_clean ''a'' = ''a''" "utf8_clean ''b'' = ''b''"
    by (simp_all add: utf8_clean_ascii ascii_def byte_in_def)
  have st: "struct_of demo_json [(''path'', AString ''a''), (''content'', AString ''b'')] Filesystem_File_Write_fields = Some ?vs"
    by (simp add: Filesystem_File_Write_fields_def assign_def cl)
  have f: "NewArgumentPayload ''Filesystem_File_Write'' = Some Filesystem_File_Write_fields"
    by (simp add: NewArgumentPayload_def argument_table_def)
  have b: "buildArgumentPayload (\<lambda>x. x) demo_json ''Filesystem_File_Write'' ?argv = Inr ?b"
    by (simp add: buildArgumentPayload_def info typed st f)
  have len: "length (ToolRequestPayload_MarshalMUS \<lparr>trp_Capability = ''Filesystem_File_Write'', trp_Mode = ToolRequestInvoke, trp_Args = ?b\<rparr>) \<le> tool_limit"
    using length_enc_string_le [of "''a''"] length_enc_string_le [of "''b''"] length_enc_string_le [of "''''"]
      length_enc_string_le [of "''Filesystem_File_Write''"] length_enc_varint_le [of "of_nat (length ?b)"]
    by (simp add: ToolRequestPayload_MarshalMUS_def tool_limit_def Filesystem_File_Write_fields_def append_bool_def)
  have g: "loop_guard (\<lambda>x. x) \<lparr>trp_Capability = ''Filesystem_File_Write'', trp_Mode = ToolRequestInvoke, trp_Args = ?b\<rparr> ?w = (None, ?w)"
    by (simp add: loop_guard_def main_ward_def split: prod.splits)
  from command_line_reaches_keeperd [OF b refl len g, of Map.empty] b show ?thesis
    by (intro exI [of _ ?b]) (auto simp: info f typed st)
qed

end
