(* ===== verification/Migrate.thy ===== *)
theory Migrate
  imports Strconv Runtime "HOL-Library.List_Lexorder" "HOL-Library.Char_ord"
begin

text \<open>
  The inventory of an OpenClaw installation (\<open>internal/migrate/openclaw.go\<close>): what its
  configuration and files hold, which credentials they refer to, and the findings file.

  \<open>Discovery\<close> is threaded through the steps that fill it.  A count map is a list of keys with their
  counts.  Directory trees are values, visited as \<open>filepath.WalkDir\<close> visits them.  The home and
  working directories, the file system and the JSON parser are the record \<open>migrate_os\<close>.

  The lemmas show that the summary counts are the numbers of the findings they summarise, and what
  the findings file can show of a credential's value.
\<close>

subsection \<open>Findings\<close>

record ArtifactFinding =
  af_Kind :: string
  af_Path :: string
  af_Portability :: string
  af_Reason :: string

record ChannelFinding =
  chf_Name :: string
  chf_Path :: string
  chf_Portability :: string
  chf_Reason :: string

record PluginFinding =
  pf_Name :: string
  pf_Path :: string
  pf_Category :: string
  pf_Enabled :: bool
  pf_Portability :: string
  pf_Reason :: string

record CredentialFinding =
  cf_RefPath :: string
  cf_Owner :: string
  cf_Kind :: string
  cf_Storage :: string
  cf_Portability :: string
  cf_Locator :: string
  cf_ValuePresent :: bool

type_synonym counts = "(string \<times> nat) list"

record Discovery =
  di_Source :: string
  di_GeneratedAt :: string
  di_ConfigPath :: string
  di_ConfigParsed :: bool
  di_TopLevelKeys :: "string list"
  di_Artifacts :: "ArtifactFinding list"
  di_Channels :: "ChannelFinding list"
  di_Plugins :: "PluginFinding list"
  di_Credentials :: "CredentialFinding list"
  di_PortabilityCounts :: counts
  di_CategoryCounts :: counts
  di_UnknownConfigFields :: "string list"

definition count_of :: "counts \<Rightarrow> string \<Rightarrow> nat" where
  "count_of m k = (case map_of m k of None \<Rightarrow> 0 | Some n \<Rightarrow> n)"

definition increment :: "string \<Rightarrow> counts \<Rightarrow> counts" where
  "increment k m = (k, count_of m k + 1) # filter (\<lambda>e. fst e \<noteq> k) m"

definition addArtifact :: "ArtifactFinding \<Rightarrow> Discovery \<Rightarrow> Discovery" where
  "addArtifact a d = d\<lparr>di_Artifacts := di_Artifacts d @ [a],
     di_PortabilityCounts := increment (af_Portability a) (di_PortabilityCounts d)\<rparr>"

subsection \<open>Credentials\<close>

definition classifyCredentialKey :: "string \<Rightarrow> string \<Rightarrow> string option" where
  "classifyCredentialKey key path =
     (let lower = ToLower key in
      if Contains lower ''bottoken'' \<or> Contains lower ''bot_token'' \<or> HasSuffix lower ''bottoken'' then Some ''bot_token''
      else if Contains lower ''apptoken'' \<or> Contains lower ''app_token'' then Some ''app_token''
      else if Contains lower ''apikey'' \<or> Contains lower ''api_key'' then Some ''api_key''
      else if Contains lower ''signingsecret'' \<or> Contains lower ''signing_secret'' then Some ''signing_secret''
      else if Contains lower ''webhooksecret'' \<or> Contains lower ''webhook_secret'' then Some ''webhook_secret''
      else if Contains lower ''password'' then Some ''password''
      else if Contains lower ''clientsecret'' \<or> Contains lower ''client_secret'' then Some ''shared_secret''
      else if Contains lower ''clientid'' \<or> Contains lower ''client_id'' \<or> Contains lower ''connectionid''
        then Some ''client_id_or_app_id''
      else if Contains lower ''authtoken'' \<or> Contains lower ''auth_token'' then
        (if Contains (ToLower path) ''twilio'' then Some ''account_sid_auth_token'' else Some ''shared_secret'')
      else if Contains lower ''token'' then
        (if Contains (ToLower path) ''gateway'' then Some ''gateway_access_token'' else Some ''oauth_access_token'')
      else if lower = ''cookie'' \<or> Contains lower ''cookie'' then Some ''cookie_session''
      else if Contains lower ''aws_profile'' then Some ''cloud_profile_reference''
      else if Contains lower ''aws_access_key_id'' \<or> Contains lower ''aws_secret_access_key'' then Some ''cloud_access_key_pair''
      else if Contains lower ''aws_bearer_token'' then Some ''cloud_bearer_token''
      else None)"

text \<open>\<open>fmt.Sprint\<close> of a decoded value; the members of a map come sorted by key.\<close>

fun Sprint :: "json \<Rightarrow> string"
and Sprint_members :: "(string \<times> json) list \<Rightarrow> (string \<times> string) list" where
  "Sprint JNull = ''<nil>''"
| "Sprint (JBool b) = (if b then ''true'' else ''false'')"
| "Sprint (JNumber s) = s"
| "Sprint (JString s) = s"
| "Sprint (JArray items) = ''['' @ strings_Join (map Sprint items) '' '' @ '']''"
| "Sprint (JObject kvs) = ''map['' @ strings_Join (map (\<lambda>(k, s). k @ '':'' @ s) (sort_key fst (Sprint_members kvs))) '' '' @ '']''"
| "Sprint_members [] = []"
| "Sprint_members ((k, v) # kvs) = (k, Sprint v) # Sprint_members kvs"

definition redactValue :: "string \<Rightarrow> string" where
  "redactValue s = (if length s \<le> 8 then ''present'' else take 4 s @ ''...'' @ drop (length s - 2) s)"

definition classifyCredentialValue :: "json \<Rightarrow> string \<times> string \<times> bool" where
  "classifyCredentialValue v =
     (let s = TrimSpace (Sprint v) in
      if s = ''<nil>'' \<or> s = '''' then (''unknown'', '''', False)
      else if HasPrefix s ''${'' \<and> HasSuffix s ''}'' then (''env_var'', s, True)
      else if HasPrefix s ''$'' \<and> 1 < length s then (''env_var'', s, True)
      else if Contains s ''/'' \<and> Contains (ToLower s) ''credential'' then (''credential_file'', s, True)
      else (''inline'', redactValue s, True))"

definition credentialPortability :: "string \<Rightarrow> string" where
  "credentialPortability kind =
     (if kind \<in> {''device_pairing_session'', ''qr_login_session'', ''cookie_session''} then ''bridge_required''
      else ''portable_with_review'')"

definition credentialOwnerFromPath :: "string \<Rightarrow> string" where
  "credentialOwnerFromPath lowerRel =
     (if Contains lowerRel ''credentials/whatsapp/'' then ''channel:whatsapp'' else ''credential_store'')"

definition add_credential :: "string \<Rightarrow> string \<Rightarrow> string \<Rightarrow> json \<Rightarrow> Discovery \<Rightarrow> Discovery" where
  "add_credential refPath owner kind child d =
     (case classifyCredentialValue child of
        (storage, locator, present) \<Rightarrow>
          d\<lparr>di_Credentials := di_Credentials d @
               [\<lparr>cf_RefPath = refPath, cf_Owner = owner, cf_Kind = kind, cf_Storage = storage,
                 cf_Portability = credentialPortability kind, cf_Locator = locator, cf_ValuePresent = present\<rparr>],
             di_PortabilityCounts := increment (credentialPortability kind) (di_PortabilityCounts d)\<rparr>)"

definition member_path :: "string \<Rightarrow> string \<Rightarrow> string" where
  "member_path path k = (if path \<noteq> '''' then path @ ''.'' else path) @ k"

fun scanCredentialRefs :: "json \<Rightarrow> string \<Rightarrow> string \<Rightarrow> Discovery \<Rightarrow> Discovery"
and scan_members :: "(string \<times> json) list \<Rightarrow> string \<Rightarrow> string \<Rightarrow> Discovery \<Rightarrow> Discovery"
and scan_items :: "nat \<Rightarrow> json list \<Rightarrow> string \<Rightarrow> string \<Rightarrow> Discovery \<Rightarrow> Discovery" where
  "scanCredentialRefs (JObject kvs) path owner d = scan_members kvs path owner d"
| "scanCredentialRefs (JArray items) path owner d = scan_items 0 items path owner d"
| "scanCredentialRefs JNull path owner d = d"
| "scanCredentialRefs (JBool b) path owner d = d"
| "scanCredentialRefs (JNumber s) path owner d = d"
| "scanCredentialRefs (JString s) path owner d = d"
| "scan_members [] path owner d = d"
| "scan_members ((k, child) # kvs) path owner d =
     (let p = member_path path k;
          d = (case classifyCredentialKey k p of None \<Rightarrow> d | Some kind \<Rightarrow> add_credential p owner kind child d);
          d = scanCredentialRefs child p owner d
      in scan_members kvs path owner d)"
| "scan_items i [] path owner d = d"
| "scan_items i (child # items) path owner d =
     scan_items (Suc i) items path owner (scanCredentialRefs child (path @ ''['' @ show_nat i @ '']'') owner d)"

subsection \<open>The configuration\<close>

definition classifyPlugin :: "string \<Rightarrow> string \<times> string \<times> string" where
  "classifyPlugin name =
     (let lower = ToLower name in
      if Contains lower ''memory'' \<or> Contains lower ''mem'' then
        (''Memory'', ''portable_with_review'', ''memory plugins may map to Memory capabilities or archive import'')
      else if Contains lower ''search'' \<or> Contains lower ''tavily'' \<or> Contains lower ''searx'' then
        (''Search'', ''portable_with_review'', ''search plugins often map to Search capabilities'')
      else if Contains lower ''vault'' \<or> Contains lower ''obsidian'' then
        (''Filesystem'', ''portable_with_review'', ''vault plugins may be imported as files plus filesystem/document scopes'')
      else if Contains lower ''browser'' then
        (''Browser'', ''bridge_required'', ''browser plugins need review against the host-side chrome proxy model'')
      else if list_ex (Contains lower) [''slack'', ''discord'', ''telegram'', ''whatsapp'', ''wechat'', ''wecom'', ''qq'', ''dingtalk'', ''xianyu''] then
        (''Messaging'', ''bridge_required'', ''chat/channel plugins should migrate as ingress bridges, not in-core plugins'')
      else (''Unknown'', ''unsupported'', ''dynamic plugin code has no safe in-core migration path yet''))"

definition asMap :: "json option \<Rightarrow> (string \<times> json) list option" where
  "asMap v = (case v of Some (JObject kvs) \<Rightarrow> Some kvs | _ \<Rightarrow> None)"

definition known_config_fields :: "string list" where
  "known_config_fields = [''agents'', ''channels'', ''commands'', ''models'', ''plugins'', ''skills'', ''webhooks'', ''gateway'', ''memory'', ''automation'']"

definition add_channel :: "string \<times> json \<Rightarrow> Discovery \<Rightarrow> Discovery" where
  "add_channel e d =
     (case e of (name, v) \<Rightarrow>
        scanCredentialRefs v (''channels.'' @ name) (''channel:'' @ name)
          (d\<lparr>di_Channels := di_Channels d @ [\<lparr>chf_Name = name, chf_Path = ''channels.'' @ name,
               chf_Portability = ''bridge_required'',
               chf_Reason = ''chat/channel ingress should remain outside the VIVARY runtime core''\<rparr>]\<rparr>))"

definition plugin_enabled :: "json \<Rightarrow> bool" where
  "plugin_enabled raw =
     (case asMap (Some raw) of
        None \<Rightarrow> True
      | Some entry \<Rightarrow> (case map_of entry ''enabled'' of Some (JBool v) \<Rightarrow> v | _ \<Rightarrow> True))"

definition add_plugin :: "string \<times> json \<Rightarrow> Discovery \<Rightarrow> Discovery" where
  "add_plugin e d =
     (case e of (name, raw) \<Rightarrow>
      case classifyPlugin name of (category, portability, reason) \<Rightarrow>
        scanCredentialRefs raw (''plugins.entries.'' @ name) (''plugin:'' @ name)
          (d\<lparr>di_Plugins := di_Plugins d @ [\<lparr>pf_Name = name, pf_Path = ''plugins.entries.'' @ name,
               pf_Category = category, pf_Enabled = plugin_enabled raw, pf_Portability = portability, pf_Reason = reason\<rparr>],
             di_CategoryCounts := increment category (di_CategoryCounts d)\<rparr>))"

definition scan_provider :: "string \<times> json \<Rightarrow> Discovery \<Rightarrow> Discovery" where
  "scan_provider e d =
     (case e of (name, raw) \<Rightarrow> scanCredentialRefs raw (''models.providers.'' @ name) (''provider:'' @ name) d)"

definition scan_section :: "string \<times> json \<Rightarrow> Discovery \<Rightarrow> Discovery" where
  "scan_section e d =
     (case e of (k, v) \<Rightarrow>
        if k \<in> {''channels'', ''plugins'', ''models''} then d else scanCredentialRefs v k (''config:'' @ k) d)"

definition inspect_root :: "(string \<times> json) list \<Rightarrow> Discovery \<Rightarrow> Discovery" where
  "inspect_root root d =
     (let d = d\<lparr>di_ConfigParsed := True, di_TopLevelKeys := di_TopLevelKeys d @ map fst root\<rparr>;
          d = d\<lparr>di_UnknownConfigFields := di_UnknownConfigFields d
                  @ filter (\<lambda>k. k \<notin> set known_config_fields) (di_TopLevelKeys d)\<rparr>;
          d = (case asMap (map_of root ''channels'') of None \<Rightarrow> d | Some channels \<Rightarrow> fold add_channel channels d);
          d = (case asMap (map_of root ''plugins'') of
                 None \<Rightarrow> d
               | Some pluginsRoot \<Rightarrow>
                   (case asMap (map_of pluginsRoot ''entries'') of None \<Rightarrow> d | Some entries \<Rightarrow> fold add_plugin entries d));
          d = (case asMap (map_of root ''models'') of
                 None \<Rightarrow> d
               | Some modelsRoot \<Rightarrow>
                   (case asMap (map_of modelsRoot ''providers'') of None \<Rightarrow> d | Some providers \<Rightarrow> fold scan_provider providers d))
      in fold scan_section root d)"

subsection \<open>Directories\<close>

text \<open>A file, a directory with its entries in order, a directory that cannot be read.\<close>

datatype dir_tree = File string | Directory string "dir_tree list" | Unreadable string go_error

record migrate_os =
  mo_UserHomeDir :: "go_error + string"
  mo_Getwd :: "go_error + string"
  mo_Stat :: "string \<Rightarrow> go_error + bool"
  mo_ReadFile :: "string \<Rightarrow> read_result"
  mo_tree :: "string \<Rightarrow> go_error + dir_tree"
  mo_Unmarshal :: "string \<Rightarrow> json option"
  mo_Now :: string

definition artifact :: "string \<Rightarrow> string \<Rightarrow> string \<Rightarrow> string \<Rightarrow> ArtifactFinding" where
  "artifact kind path portability reason =
     \<lparr>af_Kind = kind, af_Path = path, af_Portability = portability, af_Reason = reason\<rparr>"

definition add_pairing :: "string \<Rightarrow> string \<Rightarrow> Discovery \<Rightarrow> Discovery" where
  "add_pairing rel lowerRel d =
     d\<lparr>di_Credentials := di_Credentials d @
          [\<lparr>cf_RefPath = rel, cf_Owner = credentialOwnerFromPath lowerRel, cf_Kind = ''device_pairing_session'',
            cf_Storage = ''credential_file'', cf_Portability = ''bridge_required'', cf_Locator = rel, cf_ValuePresent = True\<rparr>],
        di_PortabilityCounts := increment ''bridge_required'' (di_PortabilityCounts d)\<rparr>"

definition inspect_file :: "string \<Rightarrow> string \<Rightarrow> Discovery \<Rightarrow> Discovery" where
  "inspect_file name rel d =
     (let lowerRel = ToLower rel in
      if name = ''SKILL.md'' then
        addArtifact (artifact ''skill'' rel ''portable'' ''skill prompt asset can be imported as a VIVARY prompt fragment'') d
      else if Contains lowerRel ''/credentials/'' \<or> HasPrefix lowerRel ''credentials/'' then
        let d = addArtifact (artifact ''credential_file'' rel ''portable_with_review''
                   ''credential-bearing file should be inventoried and redacted, not copied into prompts'') d
        in if HasSuffix lowerRel ''/creds.json'' then add_pairing rel lowerRel d else d
      else if Contains lowerRel ''/extensions/'' \<or> HasPrefix lowerRel ''extensions/'' then
        (if HasSuffix lowerRel ''.ts'' \<or> HasSuffix lowerRel ''.js''
         then addArtifact (artifact ''extension'' rel ''unsupported''
                ''workspace/global extension code is not imported into VIVARY core runtime'') d
         else d)
      else if Contains lowerRel ''standing'' \<and> HasSuffix lowerRel ''.md'' then
        addArtifact (artifact ''standing_order'' rel ''portable_with_review'' ''standing-order docs can become keeperd-managed schedules'') d
      else if Contains lowerRel ''slash'' \<and> (HasSuffix lowerRel ''.md'' \<or> HasSuffix lowerRel ''.json''
                 \<or> HasSuffix lowerRel ''.yaml'' \<or> HasSuffix lowerRel ''.yml'') then
        addArtifact (artifact ''slash_command'' rel ''portable'' ''slash command assets can become VIVARY prompt macros'') d
      else if Contains lowerRel ''/plugins/'' \<and> HasSuffix lowerRel ''.json'' then
        addArtifact (artifact ''plugin_manifest'' rel ''portable_with_review''
          ''plugin metadata is migratable even when plugin code is not'') d
      else d)"

text \<open>The walk; \<open>path\<close> is the path of the entry itself.\<close>

definition skipped_dir :: "string \<Rightarrow> bool" where
  "skipped_dir name \<longleftrightarrow> name = ''.git'' \<or> name = ''node_modules''"

fun entry_name :: "dir_tree \<Rightarrow> string" where
  "entry_name (File n) = n"
| "entry_name (Directory n es) = n"
| "entry_name (Unreadable n e) = n"

fun walk :: "string \<Rightarrow> string \<Rightarrow> dir_tree \<Rightarrow> Discovery \<Rightarrow> go_error + Discovery"
and walk_list :: "string \<Rightarrow> string \<Rightarrow> dir_tree list \<Rightarrow> Discovery \<Rightarrow> go_error + Discovery" where
  "walk source path (File name) d =
     (case Rel source path of Inl err \<Rightarrow> Inl err | Inr rel \<Rightarrow> Inr (inspect_file name rel d))"
| "walk source path (Directory name entries) d =
     (if skipped_dir name then Inr d else walk_list source path entries d)"
| "walk source path (Unreadable name err) d = (if skipped_dir name then Inr d else Inl err)"
| "walk_list source path [] d = Inr d"
| "walk_list source path (e # es) d =
     (case walk source (Join2 path (entry_name e)) e d of
        Inl err \<Rightarrow> Inl err
      | Inr d \<Rightarrow> walk_list source path es d)"

definition inspectFiles :: "migrate_os \<Rightarrow> Discovery \<Rightarrow> go_error + Discovery" where
  "inspectFiles os d =
     (case mo_tree os (di_Source d) of
        Inl err \<Rightarrow> Inl err
      | Inr tree \<Rightarrow> walk (di_Source d) (di_Source d) tree d)"

definition inspectConfig :: "migrate_os \<Rightarrow> Discovery \<Rightarrow> go_error + Discovery" where
  "inspectConfig os d =
     (let configPath = Join2 (di_Source d) ''openclaw.json'' in
      case mo_ReadFile os configPath of
        ReadNotExist \<Rightarrow> Inr d
      | ReadErr err \<Rightarrow> Inl (Wrap ''read openclaw.json: '' err)
      | ReadOk data \<Rightarrow>
          let d = d\<lparr>di_ConfigPath := configPath\<rparr>;
              d = addArtifact (artifact ''config'' (Base configPath) ''portable_with_review'' ''primary OpenClaw declarative config'') d
          in (case mo_Unmarshal os data of
                Some (JObject root) \<Rightarrow> Inr (inspect_root root d)
              | Some JNull \<Rightarrow> Inr (inspect_root [] d)
              | _ \<Rightarrow> Inr (d\<lparr>di_UnknownConfigFields := di_UnknownConfigFields d @ [''openclaw.json parse failed'']\<rparr>)))"

definition expandPath :: "migrate_os \<Rightarrow> string \<Rightarrow> go_error + string" where
  "expandPath os path =
     (if path = '''' then Inl (OtherError ''empty path'')
      else
        let expanded =
              (if path = ''~'' \<or> HasPrefix path ''~/'' then
                 (case mo_UserHomeDir os of
                    Inl err \<Rightarrow> Inl (Wrap ''resolve home dir: '' err)
                  | Inr home \<Rightarrow> if path = ''~'' then Inr home else Inr (Join2 home (drop 2 path)))
               else Inr path)
        in case expanded of
             Inl err \<Rightarrow> Inl err
           | Inr path \<Rightarrow>
               if IsAbs path then Inr (Clean path)
               else (case mo_Getwd os of Inl err \<Rightarrow> Inl err | Inr wd \<Rightarrow> Inr (Join2 wd path)))"

definition new_discovery :: "string \<Rightarrow> string \<Rightarrow> Discovery" where
  "new_discovery source now = \<lparr>di_Source = source, di_GeneratedAt = now, di_ConfigPath = '''', di_ConfigParsed = False,
     di_TopLevelKeys = [], di_Artifacts = [], di_Channels = [], di_Plugins = [], di_Credentials = [],
     di_PortabilityCounts = [], di_CategoryCounts = [], di_UnknownConfigFields = []\<rparr>"

definition sort_findings :: "Discovery \<Rightarrow> Discovery" where
  "sort_findings d = d\<lparr>di_Artifacts := sort_key af_Path (di_Artifacts d), di_Channels := sort_key chf_Name (di_Channels d),
     di_Plugins := sort_key pf_Name (di_Plugins d), di_Credentials := sort_key cf_RefPath (di_Credentials d),
     di_TopLevelKeys := sort (di_TopLevelKeys d), di_UnknownConfigFields := sort (di_UnknownConfigFields d)\<rparr>"

definition InspectOpenClaw :: "(string \<Rightarrow> string) \<Rightarrow> migrate_os \<Rightarrow> string \<Rightarrow> go_error + Discovery" where
  "InspectOpenClaw quote os source =
     (case expandPath os source of
        Inl err \<Rightarrow> Inl err
      | Inr resolved \<Rightarrow>
          (case mo_Stat os resolved of
             Inl err \<Rightarrow> Inl (Wrap ''inspect openclaw source: '' err)
           | Inr is_dir \<Rightarrow>
               if \<not> is_dir then Inl (OtherError (''inspect openclaw source: '' @ quote resolved @ '' is not a directory''))
               else (case inspectConfig os (new_discovery resolved (mo_Now os)) of
                   Inl err \<Rightarrow> Inl err
                 | Inr d \<Rightarrow>
                     (case inspectFiles os d of
                        Inl err \<Rightarrow> Inl err
                      | Inr d \<Rightarrow> Inr (sort_findings d)))))"


subsection \<open>The findings file\<close>

definition show_bool :: "bool \<Rightarrow> string" where
  "show_bool b = (if b then ''true'' else ''false'')"

definition writeCountNodes :: "(string \<Rightarrow> string) \<Rightarrow> string \<Rightarrow> counts \<Rightarrow> string" where
  "writeCountNodes quote name m =
     (let keys = sort (map fst (filter (\<lambda>e. 0 < snd e) m)) in
      concat (map (\<lambda>k. ''    '' @ name @ '' '' @ quote k @ '' count='' @ show_nat (count_of m k) @ nl) keys))"

definition render_artifact :: "(string \<Rightarrow> string) \<Rightarrow> ArtifactFinding \<Rightarrow> string" where
  "render_artifact quote a = ''    artifact '' @ quote (af_Kind a) @ '' path='' @ quote (af_Path a)
     @ '' portability='' @ quote (af_Portability a) @ '' reason='' @ quote (af_Reason a) @ nl"

definition render_channel :: "(string \<Rightarrow> string) \<Rightarrow> ChannelFinding \<Rightarrow> string" where
  "render_channel quote c = ''    channel '' @ quote (chf_Name c) @ '' path='' @ quote (chf_Path c)
     @ '' portability='' @ quote (chf_Portability c) @ '' reason='' @ quote (chf_Reason c) @ nl"

definition render_plugin :: "(string \<Rightarrow> string) \<Rightarrow> PluginFinding \<Rightarrow> string" where
  "render_plugin quote p = ''    plugin '' @ quote (pf_Name p) @ '' path='' @ quote (pf_Path p)
     @ '' category='' @ quote (pf_Category p) @ '' enabled='' @ show_bool (pf_Enabled p)
     @ '' portability='' @ quote (pf_Portability p) @ '' reason='' @ quote (pf_Reason p) @ nl"

definition render_credential :: "(string \<Rightarrow> string) \<Rightarrow> CredentialFinding \<Rightarrow> string" where
  "render_credential quote c = ''    credential '' @ quote (cf_RefPath c) @ '' owner='' @ quote (cf_Owner c)
     @ '' kind='' @ quote (cf_Kind c) @ '' storage='' @ quote (cf_Storage c) @ '' portability='' @ quote (cf_Portability c)
     @ '' locator='' @ quote (cf_Locator c) @ '' present='' @ show_bool (cf_ValuePresent c) @ nl"

definition renderKDL :: "(string \<Rightarrow> string) \<Rightarrow> Discovery \<Rightarrow> string" where
  "renderKDL quote d =
     ''// Generated by viv migrate openclaw inspect'' @ nl
     @ ''migration-discovery '' @ dquote # ''openclaw'' @ dquote # '' {'' @ nl
     @ ''    format-version 1'' @ nl
     @ ''    generated-at '' @ quote (di_GeneratedAt d) @ nl
     @ ''    source path='' @ quote (di_Source d) @ nl
     @ (if di_ConfigPath d \<noteq> ''''
        then ''    config path='' @ quote (di_ConfigPath d) @ '' parsed='' @ show_bool (di_ConfigParsed d) @ nl else '''')
     @ ''    summary artifacts='' @ show_nat (length (di_Artifacts d)) @ '' channels='' @ show_nat (length (di_Channels d))
     @ '' plugins='' @ show_nat (length (di_Plugins d)) @ '' credentials='' @ show_nat (length (di_Credentials d)) @ nl
     @ writeCountNodes quote ''portability'' (di_PortabilityCounts d)
     @ writeCountNodes quote ''plugin-category'' (di_CategoryCounts d)
     @ concat (map (\<lambda>key. ''    top-level-key '' @ quote key @ nl) (di_TopLevelKeys d))
     @ concat (map (\<lambda>key. ''    unknown-config-field '' @ quote key @ nl) (di_UnknownConfigFields d))
     @ concat (map (render_artifact quote) (di_Artifacts d))
     @ concat (map (render_channel quote) (di_Channels d))
     @ concat (map (render_plugin quote) (di_Plugins d))
     @ concat (map (render_credential quote) (di_Credentials d))
     @ ''}'' @ nl"

text \<open>\<open>os.MkdirAll\<close> and \<open>os.WriteFile\<close> change the machine; the second is given path and content.\<close>

definition WriteKDL ::
  "(string \<Rightarrow> string) \<Rightarrow> (string \<Rightarrow> 'h \<Rightarrow> go_error option \<times> 'h) \<Rightarrow> (string \<Rightarrow> string \<Rightarrow> 'h \<Rightarrow> go_error option \<times> 'h)
     \<Rightarrow> string \<Rightarrow> Discovery \<Rightarrow> 'h \<Rightarrow> go_error option \<times> 'h"
where
  "WriteKDL quote MkdirAll WriteFile path d h =
     (case MkdirAll (Dir path) h of
        (Some err, h) \<Rightarrow> (Some (Wrap ''mkdir findings dir: '' err), h)
      | (None, h) \<Rightarrow> WriteFile path (renderKDL quote d) h)"

subsection \<open>What every step keeps\<close>

lemma count_of_increment [simp]: "count_of (increment k m) j = count_of m j + (if j = k then 1 else 0)"
proof -
  have "map_of (filter (\<lambda>e. fst e \<noteq> k) m) j = (if j = k then None else map_of m j)"
    by (induction m) auto
  then show ?thesis by (simp add: count_of_def increment_def)
qed

locale finding_invariant =
  fixes P :: "Discovery \<Rightarrow> bool"
  assumes credential: "P d \<Longrightarrow> P (add_credential r i k v d)"
    and artifact: "P d \<Longrightarrow> P (addArtifact a d)"
    and pairing: "P d \<Longrightarrow> P (add_pairing rel lowerRel d)"
    and channel: "P d \<Longrightarrow> P (d\<lparr>di_Channels := cs\<rparr>)"
    and plugin: "P d \<Longrightarrow> P (d\<lparr>di_Plugins := di_Plugins d @ [p], di_CategoryCounts := increment (pf_Category p) (di_CategoryCounts d)\<rparr>)"
    and parsed: "P d \<Longrightarrow> P (d\<lparr>di_ConfigParsed := b, di_TopLevelKeys := ks\<rparr>)"
    and unknown: "P d \<Longrightarrow> P (d\<lparr>di_UnknownConfigFields := us\<rparr>)"
    and config_path: "P d \<Longrightarrow> P (d\<lparr>di_ConfigPath := s\<rparr>)"
    and start: "P (new_discovery source now)"
begin

lemma scan: "P d \<Longrightarrow> P (scanCredentialRefs v path i d)"
  and "P d \<Longrightarrow> P (scan_members kvs path i d)"
  and "P d \<Longrightarrow> P (scan_items j items path i d)"
proof (induction v path i d and kvs path i d and j items path i d
    rule: scanCredentialRefs_scan_members_scan_items.induct)
  case (8 k child kvs path i d)
  then show ?case
    by (cases "classifyCredentialKey k (member_path path k)") (simp_all add: Let_def credential)
qed simp_all

lemma fold_keeps: "(\<And>x d. P d \<Longrightarrow> P (f x d)) \<Longrightarrow> P d \<Longrightarrow> P (fold f xs d)"
  by (induction xs arbitrary: d) simp_all

lemma add_channel: "P d \<Longrightarrow> P (add_channel e d)"
  by (auto simp: add_channel_def intro!: scan channel split: prod.split)

lemma add_plugin: "P d \<Longrightarrow> P (add_plugin e d)"
proof -
  assume d: "P d"
  obtain name raw where e: "e = (name, raw)" by (cases e)
  obtain c q t where k: "classifyPlugin name = (c, q, t)" by (cases "classifyPlugin name")
  show "P (add_plugin e d)"
    unfolding add_plugin_def e k prod.case
    by (rule scan)
      (use plugin [OF d, of "\<lparr>pf_Name = name, pf_Path = ''plugins.entries.'' @ name, pf_Category = c,
          pf_Enabled = plugin_enabled raw, pf_Portability = q, pf_Reason = t\<rparr>"] in simp)
qed

lemma inspect_root: "P d \<Longrightarrow> P (inspect_root root d)"
  unfolding inspect_root_def Let_def
  by (intro fold_keeps)
    (auto simp: scan_section_def scan_provider_def split: prod.splits option.splits
      intro!: fold_keeps add_channel add_plugin scan unknown parsed)

lemma inspectConfig: "inspectConfig os d = Inr d' \<Longrightarrow> P d \<Longrightarrow> P d'"
  by (auto simp: inspectConfig_def Let_def intro!: inspect_root unknown artifact config_path
      split: read_result.splits option.splits json.splits)

lemma inspect_file: "P d \<Longrightarrow> P (inspect_file name rel d)"
  by (auto simp: inspect_file_def Let_def intro!: artifact pairing)

lemma walk: "walk source path t d = Inr d' \<Longrightarrow> P d \<Longrightarrow> P d'"
  and "walk_list source path ts d = Inr d' \<Longrightarrow> P d \<Longrightarrow> P d'"
proof (induction source path t d and source path ts d arbitrary: d' and d' rule: walk_walk_list.induct)
qed (auto split: sum.splits if_splits intro: inspect_file)

lemma InspectOpenClaw:
  assumes "InspectOpenClaw quote os source = Inr d'"
  obtains d where "d' = sort_findings d" "P d"
  using assms
  by (auto simp: InspectOpenClaw_def inspectFiles_def split: sum.splits if_splits
      dest!: walk(1) inspectConfig [OF _ start])

end


subsection \<open>Counts and redaction\<close>

definition counts_ok :: "Discovery \<Rightarrow> bool" where
  "counts_ok d \<longleftrightarrow>
     (\<forall>k. count_of (di_PortabilityCounts d) k
        = length (filter (\<lambda>a. af_Portability a = k) (di_Artifacts d)) + length (filter (\<lambda>c. cf_Portability c = k) (di_Credentials d)))
     \<and> (\<forall>k. count_of (di_CategoryCounts d) k = length (filter (\<lambda>p. pf_Category p = k) (di_Plugins d)))"

definition redacted :: "CredentialFinding \<Rightarrow> bool" where
  "redacted c \<longleftrightarrow> (cf_Storage c = ''inline'' \<longrightarrow> length (cf_Locator c) \<le> 9 \<and> (\<exists>s. cf_Locator c = redactValue s))
     \<and> (cf_Storage c = ''env_var'' \<longrightarrow> HasPrefix (cf_Locator c) ''$'')
     \<and> cf_Storage c \<in> {''inline'', ''env_var'', ''credential_file'', ''unknown''}
     \<and> (cf_ValuePresent c \<longleftrightarrow> cf_Storage c \<noteq> ''unknown'')"

lemma count_of_Nil [simp]: "count_of [] k = 0"
  by (simp add: count_of_def)

lemma length_redactValue: "length (redactValue s) \<le> 9"
  by (auto simp: redactValue_def)

lemma HasPrefix_dollar: "HasPrefix s ''${'' \<Longrightarrow> HasPrefix s ''$''"
  by (auto simp: HasPrefix_iff)

lemma redacted_credential:
  "classifyCredentialValue v = (storage, locator, present) \<Longrightarrow>
     redacted \<lparr>cf_RefPath = r, cf_Owner = i, cf_Kind = k, cf_Storage = storage, cf_Portability = q, cf_Locator = locator, cf_ValuePresent = present\<rparr>"
  using length_redactValue HasPrefix_dollar
  by (auto simp: classifyCredentialValue_def Let_def redacted_def split: if_splits)

interpretation counts: finding_invariant counts_ok
proof unfold_locales
  show "counts_ok (add_credential r i k v d)" if "counts_ok d" for r i k v d
    using that by (cases "classifyCredentialValue v") (simp add: counts_ok_def add_credential_def)
qed (simp_all add: counts_ok_def addArtifact_def add_pairing_def new_discovery_def)

interpretation redaction: finding_invariant "\<lambda>d. list_all redacted (di_Credentials d)"
proof unfold_locales
  show "list_all redacted (di_Credentials (add_credential r i k v d))" if "list_all redacted (di_Credentials d)" for r i k v d
    using that redacted_credential by (cases "classifyCredentialValue v") (simp add: add_credential_def)
qed (simp_all add: addArtifact_def add_pairing_def new_discovery_def redacted_def)

lemma length_filter_sort: "length (filter p (sort_key f xs)) = length (filter p xs)"
  by (simp add: filter_sort)

lemma counts_ok_sort: "counts_ok d \<Longrightarrow> counts_ok (sort_findings d)"
  by (simp add: counts_ok_def sort_findings_def length_filter_sort)

subsection \<open>Properties\<close>

text \<open>
  Whatever the installation holds, the summary of a finished inventory is the truth about its
  findings: each portability count is the number of artifacts and credentials with that
  portability, each category count the number of plugins of that category, and the artifacts
  and credentials are listed in the order of their paths.
\<close>

theorem summary_counts_findings:
  assumes "InspectOpenClaw quote os source = Inr d"
  shows "count_of (di_PortabilityCounts d) k
      = length (filter (\<lambda>a. af_Portability a = k) (di_Artifacts d)) + length (filter (\<lambda>c. cf_Portability c = k) (di_Credentials d))
    \<and> count_of (di_CategoryCounts d) k = length (filter (\<lambda>p. pf_Category p = k) (di_Plugins d))
    \<and> sorted (map af_Path (di_Artifacts d)) \<and> sorted (map cf_RefPath (di_Credentials d))"
proof -
  obtain d0 where d: "d = sort_findings d0" "counts_ok d0"
    using assms by (rule counts.InspectOpenClaw)
  have "counts_ok d"
    unfolding d(1) by (rule counts_ok_sort [OF d(2)])
  moreover have "sorted (map af_Path (di_Artifacts d))" "sorted (map cf_RefPath (di_Credentials d))"
    unfolding d(1) sort_findings_def by simp_all
  ultimately show ?thesis
    unfolding counts_ok_def by blast
qed


text \<open>An installation with a bot token in its configuration and one skill.\<close>

definition demo_install :: migrate_os where
  "demo_install = \<lparr>mo_UserHomeDir = Inr ''/h'', mo_Getwd = Inr ''/w'', mo_Stat = (\<lambda>_. Inr True),
     mo_ReadFile = (\<lambda>_. ReadOk ''config''),
     mo_tree = (\<lambda>_. Inr (Directory ''o'' [File ''SKILL.md''])),
     mo_Unmarshal = (\<lambda>_. Some (JObject [(''channels'', JObject [(''t'', JObject [(''token'', JString ''abcdefghij'')])])])),
     mo_Now = ''now''\<rparr>"

lemma demo_inspect:
  "case InspectOpenClaw id demo_install ''/o'' of
     Inr d \<Rightarrow> map cf_RefPath (di_Credentials d) = [''channels.t.token''] \<and> map cf_Storage (di_Credentials d) = [''inline'']
       \<and> map cf_Locator (di_Credentials d) = [''abcd...ij'']
   | Inl e \<Rightarrow> False"
  by code_simp

theorem summary_counts_findings_witness:
  "case InspectOpenClaw id demo_install ''/o'' of
     Inr d \<Rightarrow> count_of (di_PortabilityCounts d) ''portable''
       = length (filter (\<lambda>a. af_Portability a = ''portable'') (di_Artifacts d))
         + length (filter (\<lambda>c. cf_Portability c = ''portable'') (di_Credentials d))
   | Inl e \<Rightarrow> False"
  using summary_counts_findings [of id demo_install "''/o''"] demo_inspect by (auto split: sum.splits)


end
