(* ===== verification/Viv.thy ===== *)
theory Viv
  imports Migrate Ctl Router "HOL-Library.Signed_Division"
begin

text \<open>
  The operator's command line client (\<open>cmd/viv/main.go\<close>, \<open>cmd/viv/migrate.go\<close>).

  A client is its sequence counter, the bytes it has written to keeperd's socket, and its peer:
  what reading the next frame gives once those bytes have been written.  A command runs to the exit
  of the program.  \<open>usage\<close> is the text that the \<open>flag\<close> package prints for a command's flags, the
  connection attempt and the terminal interface are parameters of \<open>viv_main\<close>.
\<close>

subsection \<open>Client\<close>

record viv_client =
  vc_out :: writer
  vc_seq :: seq_counter
  vc_peer :: "bytes \<Rightarrow> (swarm_header \<times> bytes) outcome"

definition client_header :: "MsgType \<Rightarrow> u64 \<Rightarrow> swarm_header" where
  "client_header t n = \<lparr>h_Version = 0, h_Type = t, h_FromID = CtlIdentity, h_ToID = ''keeper'', h_SeqNo = n, h_PayloadLen = 0\<rparr>"

definition client_send :: "MsgType \<Rightarrow> bytes \<Rightarrow> viv_client \<Rightarrow> go_error option \<times> viv_client" where
  "client_send t payload c =
     (case SeqCounter_Next (vc_seq c) of (n, s) \<Rightarrow>
        (case WriteFrame (vc_out c) (client_header t n) payload of
           (err, w) \<Rightarrow> (err, c\<lparr>vc_seq := s, vc_out := w\<rparr>)))"

definition client_recv :: "viv_client \<Rightarrow> (swarm_header \<times> bytes) outcome" where
  "client_recv c = vc_peer c (w_out (vc_out c))"

definition viv_fatal :: "string \<Rightarrow> exit_state" where
  "viv_fatal msg = fail_with (''vivary: '' @ msg)"

text \<open>Send a request, wait for the answer, go on with it; \<open>what\<close> and \<open>who\<close> name the two steps in messages.\<close>

definition request_reply ::
  "string \<Rightarrow> string \<Rightarrow> MsgType \<Rightarrow> bytes \<Rightarrow> (swarm_header \<times> bytes \<Rightarrow> exit_state outcome) \<Rightarrow> viv_client \<Rightarrow> exit_state outcome"
where
  "request_reply what who t payload k c =
     (case client_send t payload c of
        (Some err, c) \<Rightarrow> Val (viv_fatal (what @ '': '' @ error_text err))
      | (None, c) \<Rightarrow>
          (case client_recv c of
             Panic m \<Rightarrow> Panic m
           | Err err \<Rightarrow> Val (viv_fatal (who @ '': '' @ error_text err))
           | Val frame \<Rightarrow> k frame))"

subsection \<open>Durations\<close>

definition second_ns :: int where
  "second_ns = 1000000000"

definition round_seconds :: "int \<Rightarrow> int" where
  "round_seconds d =
     (let r = d smod second_ns in
      if d < 0 then
        (let r = - r in
         if r + r < second_ns then d + r
         else if - (2 ^ 63) \<le> d - second_ns + r then d - second_ns + r else - (2 ^ 63))
      else if r + r < second_ns then d - r
      else if d + second_ns - r < 2 ^ 63 then d + second_ns - r else 2 ^ 63 - 1)"

definition fmtDuration :: "int \<Rightarrow> string" where
  "fmtDuration d =
     (let d = round_seconds d;
          h = d sdiv (3600 * second_ns);
          m = (d sdiv (60 * second_ns)) smod 60;
          s = (d sdiv second_ns) smod 60
      in if 0 < h then show_int h @ ''h'' @ show_int m @ ''m'' @ show_int s @ ''s''
         else if 0 < m then show_int m @ ''m'' @ show_int s @ ''s''
         else show_int s @ ''s'')"

text \<open>\<open>time.Duration(n) * time.Second\<close> on 64-bit integers.\<close>

definition duration_of_seconds :: "u64 \<Rightarrow> int" where
  "duration_of_seconds n = sint (n * 1000000000)"

subsection \<open>Commands\<close>

definition cmdPing :: "string \<Rightarrow> viv_client \<Rightarrow> exit_state outcome" where
  "cmdPing elapsed =
     request_reply ''send ping'' ''recv pong'' MsgType_Ping []
       (\<lambda>(hdr, payload).
          if h_Type hdr \<noteq> MsgType_Pong then Val (viv_fatal (''expected Pong, got '' @ MsgType_String (h_Type hdr)))
          else Val (exit_ok (''pong from '' @ h_FromID hdr @ '' in '' @ elapsed @ nl)))"

definition statusValue :: "string \<Rightarrow> string" where
  "statusValue v = (if TrimSpace v = '''' then ''-'' else v)"

definition formatTokenSummary :: "AgentStatus \<Rightarrow> string" where
  "formatTokenSummary a =
     (if as_InputTokens a = 0 \<and> as_OutputTokens a = 0 then ''-''
      else ''in='' @ show_nat (unat (as_InputTokens a)) @ '' out='' @ show_nat (unat (as_OutputTokens a)))"

definition status_row :: "AgentStatus \<Rightarrow> string list" where
  "status_row a = [as_ID a, as_State a, statusValue (as_Model a), show_nat (unat (as_LastPromptSeq a)),
     statusValue (as_LastOutcome a), formatTokenSummary a, statusValue (as_CostUSD a), show_nat (unat (as_ToolCalls a)),
     statusValue (as_LastEventAt a)]"

definition formatStatus :: "StatusPayload \<Rightarrow> string" where
  "formatStatus status =
     ''keeperd '' @ sp_DaemonVersion status @ ''  uptime '' @ fmtDuration (duration_of_seconds (sp_UptimeSeconds status)) @ nl @ nl
     @ (if sp_Agents status = [] then ''no agents provisioned'' @ nl
        else tabulate ([''AGENT'', ''STATE'', ''MODEL'', ''LAST PROMPT'', ''OUTCOME'', ''TOKENS'', ''COST'', ''TOOLS'', ''LAST EVENT'']
                       # map status_row (sp_Agents status)))"

definition cmdStatus :: "viv_client \<Rightarrow> exit_state outcome" where
  "cmdStatus =
     request_reply ''send'' ''recv'' MsgType_CtlStatus []
       (\<lambda>(hdr, payload).
          case fst (StatusPayload_UnmarshalMUS (bytes_NewReader payload)) of
            Panic m \<Rightarrow> Panic m
          | Err err \<Rightarrow> Val (viv_fatal (''decode: '' @ error_text err))
          | Val status \<Rightarrow> Val (exit_ok (formatStatus status)))"

definition cmdAgentList :: "viv_client \<Rightarrow> exit_state outcome" where
  "cmdAgentList =
     request_reply ''send'' ''recv'' MsgType_CtlAgentList []
       (\<lambda>(hdr, payload).
          case fst (AgentListPayload_UnmarshalMUS (bytes_NewReader payload)) of
            Panic m \<Rightarrow> Panic m
          | Err err \<Rightarrow> Val (viv_fatal (''decode: '' @ error_text err))
          | Val list \<Rightarrow>
              if alp_Agents list = [] then Val (exit_ok (''no agents'' @ nl))
              else Val (exit_ok (tabulate ([''AGENT'', ''STATE''] # map (\<lambda>a. [as_ID a, as_State a]) (alp_Agents list)))))"

definition expectOK :: "(string \<Rightarrow> string) \<Rightarrow> bytes \<Rightarrow> exit_state outcome" where
  "expectOK quote payload =
     (case payload of
        [] \<Rightarrow> Val (viv_fatal ''empty response from keeperd'')
      | b # rest \<Rightarrow>
          if b = 1 then Val (exit_ok (''ok'' @ nl))
          else (case fst (ReadString 4096 (bytes_NewReader rest)) of
              Panic m \<Rightarrow> Panic m
            | Err err \<Rightarrow> Val (viv_fatal (''failed to decode error: '' @ error_text err @ '' (raw: '' @ quote (string_of payload) @ '')''))
            | Val errStr \<Rightarrow> Val (viv_fatal (''error: '' @ errStr))))"

text \<open>A flag set that exits the program: code 2 for an error, 0 for a request for help.\<close>

definition flags_exit :: "string \<Rightarrow> flag_result \<Rightarrow> ((string \<times> string) list \<Rightarrow> string list \<Rightarrow> exit_state outcome) \<Rightarrow> exit_state outcome" where
  "flags_exit usage parsed k =
     (case parsed of
        FlagError e \<Rightarrow> Val \<lparr>ex_stdout = '''', ex_stderr = e @ nl @ usage, ex_code = 2\<rparr>
      | FlagHelp \<Rightarrow> Val \<lparr>ex_stdout = '''', ex_stderr = usage, ex_code = 0\<rparr>
      | Flags vs rest \<Rightarrow> k vs rest)"

definition cmdAgentCreate :: "(string \<Rightarrow> string) \<Rightarrow> string \<Rightarrow> string list \<Rightarrow> viv_client \<Rightarrow> exit_state outcome" where
  "cmdAgentCreate quote usage args c =
     flags_exit usage (parse_flags quote [(''id'', StringFlag), (''template'', StringFlag), (''provider'', StringFlag)] args [])
       (\<lambda>vs _.
          let agent_id = flag_value ''id'' '''' vs;
              template = flag_value ''template'' '''' vs;
              provider = flag_value ''provider'' '''' vs
          in if agent_id = '''' \<or> template = '''' then
               Val (fail_with ''viv agent create --id <id> --template <path> [--provider <name>]'')
             else
               request_reply ''send'' ''recv'' MsgType_CtlAgentCreate
                 (AgentCreatePayload_MarshalMUS \<lparr>acp_ID = agent_id, acp_Provider = provider, acp_Template = template,
                    acp_CPUShares = 0, acp_MemoryMaxBytes = 0\<rparr>)
                 (\<lambda>(hdr, resp). expectOK quote resp) c)"

definition cmdAgentDestroy :: "(string \<Rightarrow> string) \<Rightarrow> string \<Rightarrow> string list \<Rightarrow> viv_client \<Rightarrow> exit_state outcome" where
  "cmdAgentDestroy quote usage args c =
     flags_exit usage (parse_flags quote [(''id'', StringFlag)] args [])
       (\<lambda>vs _.
          let agent_id = flag_value ''id'' '''' vs in
          if agent_id = '''' then Val (fail_with ''viv agent destroy --id <id>'')
          else
            request_reply ''send'' ''recv'' MsgType_CtlAgentDestroy (AgentDestroyPayload_MarshalMUS \<lparr>adp_ID = agent_id\<rparr>)
              (\<lambda>(hdr, resp). expectOK quote resp) c)"

text \<open>\<open>num\<close> parses an unsigned number, or gives the reason why it cannot; \<open>millis\<close> is the clock.\<close>

definition cmdPrompt ::
  "(string \<Rightarrow> string) \<Rightarrow> (string \<Rightarrow> string + u64) \<Rightarrow> u64 \<Rightarrow> string \<Rightarrow> string list \<Rightarrow> viv_client \<Rightarrow> exit_state outcome"
where
  "cmdPrompt quote num millis usage args c =
     flags_exit usage
       (parse_flags quote [(''agent'', StringFlag),
          (''seq'', NumFlag (\<lambda>v. case num v of Inl e \<Rightarrow> Some e | Inr n \<Rightarrow> None))] args [])
       (\<lambda>vs rest.
          let promptText = strings_Join rest '' '';
              agentID = flag_value ''agent'' '''' vs;
              seq = (case map_of vs ''seq'' of None \<Rightarrow> 0 | Some v \<Rightarrow> (case num v of Inl e \<Rightarrow> 0 | Inr n \<Rightarrow> n))
          in if agentID = '''' \<or> promptText = '''' then
               Val (fail_with ''vivary prompt --agent <id> [--seq <n>] <text>'')
             else
               request_reply ''send'' ''recv'' MsgType_CtlPrompt
                 (PromptPayload_MarshalMUS \<lparr>pp_AgentID = agentID, pp_Seq = (if seq = 0 then millis else seq), pp_Text = promptText\<rparr>)
                 (\<lambda>(hdr, resp). expectOK quote resp) c)"

subsection \<open>viv migrate\<close>

text \<open>The files of the findings are written through \<open>WriteKDL\<close>'s operations; the result is the exit of the program.\<close>

definition migrate_usage :: string where
  "migrate_usage = ''usage: viv migrate openclaw inspect [--source <dir>] [--out <file>]''"

definition userHomeDir :: "migrate_os \<Rightarrow> string" where
  "userHomeDir os = (case mo_UserHomeDir os of Inl err \<Rightarrow> ''.'' | Inr home \<Rightarrow> home)"

definition migrate_report :: "string \<Rightarrow> Discovery \<Rightarrow> string" where
  "migrate_report out d =
     ''wrote OpenClaw discovery findings to '' @ out @ nl
     @ ''source: '' @ di_Source d @ nl
     @ ''artifacts='' @ show_nat (length (di_Artifacts d)) @ '' channels='' @ show_nat (length (di_Channels d))
     @ '' plugins='' @ show_nat (length (di_Plugins d)) @ '' credentials='' @ show_nat (length (di_Credentials d)) @ nl
     @ concat (map (\<lambda>tier. let n = count_of (di_PortabilityCounts d) tier in
                            if 0 < n then tier @ ''='' @ show_nat n @ nl else '''')
                   [''portable'', ''portable_with_review'', ''bridge_required'', ''unsupported''])"

definition runMigrate ::
  "(string \<Rightarrow> string) \<Rightarrow> migrate_os \<Rightarrow> (string \<Rightarrow> 'h \<Rightarrow> go_error option \<times> 'h) \<Rightarrow> (string \<Rightarrow> string \<Rightarrow> 'h \<Rightarrow> go_error option \<times> 'h)
     \<Rightarrow> string list \<Rightarrow> 'h \<Rightarrow> (go_error + string) \<times> 'h"
where
  "runMigrate quote os MkdirAll WriteFile args h =
     (if args = [] then (Inl (OtherError migrate_usage), h)
      else if hd args \<noteq> ''openclaw'' then (Inl (OtherError (''unknown migrate target: '' @ hd args)), h)
      else if length args < 2 \<or> args ! 1 \<noteq> ''inspect'' then (Inl (OtherError migrate_usage), h)
      else
        (case parse_flags quote [(''source'', StringFlag), (''out'', StringFlag)] (drop 2 args) [] of
           FlagError e \<Rightarrow> (Inl (OtherError e), h)
         | FlagHelp \<Rightarrow> (Inl (OtherError ''flag: help requested''), h)
         | Flags vs rest \<Rightarrow>
             let source = flag_value ''source'' (Join2 (userHomeDir os) ''.openclaw'') vs;
                 out = flag_value ''out'' (Join2 ''migrate'' ''findings.kdl'') vs
             in (case InspectOpenClaw quote os source of
                   Inl err \<Rightarrow> (Inl err, h)
                 | Inr d \<Rightarrow>
                     (case WriteKDL quote MkdirAll WriteFile out d h of
                        (Some err, h) \<Rightarrow> (Inl err, h)
                      | (None, h) \<Rightarrow> (Inr (migrate_report out d), h)))))"

subsection \<open>The program\<close>

definition cliVersion :: string where
  "cliVersion = ''0.1.0-dev''"

text \<open>U+2014, the dash of the usage text, in UTF-8.\<close>

definition usage_dash :: string where
  "usage_dash = [CHR 0xE2, CHR 0x80, CHR 0x94]"

definition usage_lines :: "string list" where
  "usage_lines =
     [''viv '' @ usage_dash @ '' VIVARY operator CLI'',
      '''',
      ''Usage:'',
      ''  viv [--socket <path>] <command> [args]'',
      '''',
      ''Commands:'',
      ''  tui                        Launch the BubbleTea operator TUI (default)'',
      ''  status                     Show daemon and agent status'',
      ''  agent list                 List provisioned agents'',
      ''  agent create --id <id> --template <path>'',
      ''                             Provision a new agent workspace'',
      ''  agent destroy --id <id>    Destroy an agent workspace'',
      ''  prompt --agent <id> --seq <n> <text>'',
      ''                             Dispatch a prompt to an agent'',
      ''  migrate openclaw inspect   Inspect an OpenClaw install and write KDL findings'',
      ''  ping                       Ping keeperd (liveness check)'',
      ''  version                    Print CLI version'']"

definition printUsage :: string where
  "printUsage = concat (map (\<lambda>l. l @ nl) usage_lines)"

definition mustDialClient ::
  "(string \<Rightarrow> string) \<Rightarrow> (string \<Rightarrow> go_error + viv_client) \<Rightarrow> string \<Rightarrow> (viv_client \<Rightarrow> exit_state outcome) \<Rightarrow> exit_state outcome"
where
  "mustDialClient quote dialKeeper socketPath k =
     (case dialKeeper socketPath of
        Inl err \<Rightarrow> Val \<lparr>ex_stdout = '''',
          ex_stderr = ''vivary: cannot connect to keeperd at '' @ quote socketPath @ '': '' @ error_text err @ nl
            @ ''  Is keeperd running?  Try: keeperd --workspace <path>'' @ nl,
          ex_code = 1\<rparr>
      | Inr c \<Rightarrow> k c)"

text \<open>What \<open>main\<close> is given by its surroundings.\<close>

record viv_env =
  vv_quote :: "string \<Rightarrow> string"
  vv_num :: "string \<Rightarrow> string + u64"
  vv_millis :: u64
  vv_elapsed :: string
  vv_usage :: "string \<Rightarrow> string"
  vv_dial :: "string \<Rightarrow> go_error + viv_client"
  vv_tui :: "string \<Rightarrow> exit_state outcome"

text \<open>The commands of \<open>viv agent\<close>; like the code, they connect before they look at the arguments.\<close>

definition agent_command :: "viv_env \<Rightarrow> string list \<Rightarrow> viv_client \<Rightarrow> exit_state outcome" where
  "agent_command v args c =
     (if length args < 2 then Val (fail_with ''viv agent <create|destroy|list> ...'')
      else if args ! 1 = ''list'' then cmdAgentList c
      else if args ! 1 = ''create'' then cmdAgentCreate (vv_quote v) (vv_usage v ''agent create'') (drop 2 args) c
      else if args ! 1 = ''destroy'' then cmdAgentDestroy (vv_quote v) (vv_usage v ''agent destroy'') (drop 2 args) c
      else Val (fail_with (''unknown agent subcommand: '' @ args ! 1)))"

definition viv_command ::
  "viv_env \<Rightarrow> migrate_os \<Rightarrow> (string \<Rightarrow> 'h \<Rightarrow> go_error option \<times> 'h) \<Rightarrow> (string \<Rightarrow> string \<Rightarrow> 'h \<Rightarrow> go_error option \<times> 'h)
     \<Rightarrow> string \<Rightarrow> string list \<Rightarrow> 'h \<Rightarrow> exit_state outcome \<times> 'h"
where
  "viv_command v os MkdirAll WriteFile socketPath args h =
     (let dial = mustDialClient (vv_quote v) (vv_dial v) socketPath in
      case args of
        [] \<Rightarrow> (vv_tui v socketPath, h)
      | cmd # rest \<Rightarrow>
          if cmd = ''tui'' then (vv_tui v socketPath, h)
          else if cmd = ''status'' then (dial cmdStatus, h)
          else if cmd = ''agent'' then (dial (agent_command v args), h)
          else if cmd = ''prompt'' then (dial (cmdPrompt (vv_quote v) (vv_num v) (vv_millis v) (vv_usage v ''prompt'') rest), h)
          else if cmd = ''ping'' then (dial (cmdPing (vv_elapsed v)), h)
          else if cmd = ''version'' then (Val (exit_ok (cliVersion @ nl)), h)
          else if cmd = ''migrate'' then
            (case runMigrate (vv_quote v) os MkdirAll WriteFile rest h of
               (Inl err, h) \<Rightarrow> (Val (fail_with (error_text err)), h)
             | (Inr out, h) \<Rightarrow> (Val (exit_ok out), h))
          else (Val \<lparr>ex_stdout = '''', ex_stderr = ''unknown command: '' @ cmd @ nl @ printUsage, ex_code = 1\<rparr>, h))"

definition viv_main ::
  "viv_env \<Rightarrow> migrate_os \<Rightarrow> (string \<Rightarrow> 'h \<Rightarrow> go_error option \<times> 'h) \<Rightarrow> (string \<Rightarrow> string \<Rightarrow> 'h \<Rightarrow> go_error option \<times> 'h)
     \<Rightarrow> string list \<Rightarrow> 'h \<Rightarrow> exit_state outcome \<times> 'h"
where
  "viv_main v os MkdirAll WriteFile argv h =
     (case parse_flags (vv_quote v) [(''socket'', StringFlag)] argv [] of
        FlagError e \<Rightarrow> (Val \<lparr>ex_stdout = '''', ex_stderr = e @ nl @ vv_usage v ''viv'', ex_code = 2\<rparr>, h)
      | FlagHelp \<Rightarrow> (Val \<lparr>ex_stdout = '''', ex_stderr = vv_usage v ''viv'', ex_code = 0\<rparr>, h)
      | Flags vs args \<Rightarrow> viv_command v os MkdirAll WriteFile (flag_value ''socket'' ''./keeper.sock'' vs) args h)"

end
