(* ===== verification/Operator.thy ===== *)
theory Operator
  imports Viv Keeperd
begin

text \<open>
  The operator's client against the daemon: \<open>viv\<close> (\<open>Viv\<close>) at one end of the control socket, a
  connection handler of keeperd (\<open>Keeperd\<close>) at the other.
\<close>

subsection \<open>A request and its answer\<close>

text \<open>The frame that a client reads after what it has sent, from a connection that is handled by the daemon.\<close>

definition keeperd_peer ::
  "'f env \<Rightarrow> 'h provision_ops \<Rightarrow> string list \<Rightarrow> instant \<Rightarrow> ctl_conn \<Rightarrow> ('h, 'f) daemon \<Rightarrow> bytes \<Rightarrow> (swarm_header \<times> bytes) outcome"
where
  "keeperd_peer env pv ids now c d sent =
     (case fst (ReadFrame (bytes_NewReader sent)) of
        Panic m \<Rightarrow> Panic m
      | Err e \<Rightarrow> Err e
      | Val (hdr, payload) \<Rightarrow>
          (case conn_frame env pv ids now hdr payload (c, d) of
             Val (mv, c', d') \<Rightarrow> fst (ReadFrame (bytes_NewReader (w_out (cn_out c'))))
           | Err e \<Rightarrow> Err e
           | Panic m \<Rightarrow> Err EOF))"

text \<open>One request on a fresh connection: the reply is what the dispatcher gave.\<close>

lemma ctl_exchange:
  assumes client: "w_out (vc_out c) = []" "w_room (vc_out c) = None" "vc_peer c = keeperd_peer env pv ids now k d"
    and conn: "w_out (cn_out k) = []" "w_room (cn_out k) = None"
    and req: "t \<noteq> MsgType_CtlSubscribe" "length payload \<le> MaxPayloadBytes"
    and hdr: "hdr = (client_header t (sc_n (vc_seq c) + 1))\<lparr>h_PayloadLen := of_nat (length payload)\<rparr>"
    and disp: "dispatchCtl env pv ids now hdr payload (audit_row now hdr (stored_payload payload) d) = Val ((t', resp), d')"
    and resp: "t' \<noteq> 0" "length resp \<le> MaxPayloadBytes"
  shows "request_reply what who t payload f c
    = f ((keeper_header t' CtlIdentity (sc_n (cn_seqOut k) + 1))\<lparr>h_PayloadLen := of_nat (length resp)\<rparr>, resp)"
proof -
  let ?h = "client_header t (sc_n (vc_seq c) + 1)"
  let ?k = "keeper_header t' CtlIdentity (sc_n (cn_seqOut k) + 1)"
  have ids: "length (h_FromID ?h) \<le> 256" "length (h_ToID ?h) \<le> 256" "length (h_FromID ?k) \<le> 256" "length (h_ToID ?k) \<le> 256"
    by (simp_all add: client_header_def keeper_header_def CtlIdentity_def)
  obtain c' where s: "client_send t payload c = (None, c')" "w_out (vc_out c') = frame_bytes ?h payload" "vc_peer c' = vc_peer c"
    using client(1,2) by (simp add: client_send_def SeqCounter_Next_def WriteFrame_ok)
  have h: "h_FromID hdr = CtlIdentity" "h_Type hdr = t"
    by (simp_all add: hdr client_header_def)
  have "\<exists>k' dd. conn_frame env pv ids now hdr payload (k, d) = Val (Continue, k', dd) \<and> w_out (cn_out k') = frame_bytes ?k resp"
    using disp req(1) resp(1) h conn_write_ok [OF conn(2), of t' resp] conn(1) by (simp add: conn_frame_def Let_def)
  then have "client_recv c' = Val (?k\<lparr>h_PayloadLen := of_nat (length resp)\<rparr>, resp)"
    unfolding client_recv_def s(2,3) client(3) keeperd_peer_def
    using ReadFrame_one [OF ids(1,2) req(2)] ReadFrame_one [OF ids(3,4) resp(2)] by (auto simp: hdr)
  with s(1) show ?thesis by (simp add: request_reply_def)
qed

lemma expectOK_reply_of:
  assumes "case err of None \<Rightarrow> True | Some e \<Rightarrow> length (error_text e) \<le> 4096"
  shows "expectOK quote (reply_of err)
    = Val (case err of None \<Rightarrow> exit_ok (''ok'' @ nl) | Some e \<Rightarrow> viv_fatal (''error: '' @ error_text e))"
proof (cases err)
  case (Some e)
  with assms have "ReadString 4096 (bytes_NewReader (enc_string (error_text e))) = (Val (error_text e), bytes_NewReader [])"
    using ReadString_enc [of "error_text e" 4096 "[]" "bytes_NewReader []"] by (simp add: bytes_NewReader_def)
  with Some show ?thesis by (simp add: reply_of_def errorPayload_def expectOK_def)
qed (simp add: reply_of_def expectOK_def)

lemma reply_of_length:
  "(case err of None \<Rightarrow> True | Some e \<Rightarrow> length (error_text e) \<le> 4096) \<Longrightarrow> length (reply_of err) \<le> MaxPayloadBytes"
proof (cases err)
  case (Some e)
  assume "case err of None \<Rightarrow> True | Some e \<Rightarrow> length (error_text e) \<le> 4096"
  with Some length_enc_string_le [of "error_text e"] show ?thesis
    by (simp add: reply_of_def errorPayload_def MaxPayloadBytes_def)
qed (simp add: reply_of_def MaxPayloadBytes_def)

lemma create_payload_length: "acp_wf p \<Longrightarrow> length (AgentCreatePayload_MarshalMUS p) \<le> MaxPayloadBytes"
  using length_enc_string_le [of "acp_ID p"] length_enc_string_le [of "acp_Provider p"] length_enc_string_le [of "acp_Template p"]
    length_enc_varint_le [of "ucast (acp_CPUShares p)"] length_enc_varint_le [of "acp_MemoryMaxBytes p"]
  by (simp add: AgentCreatePayload_MarshalMUS_def acp_wf_def MaxPayloadBytes_def)

subsection \<open>Properties\<close>




text \<open>A client and a connection at their start, and the command \<open>viv agent create --id a --template=t\<close>.\<close>

definition demo_writer :: writer where
  "demo_writer = \<lparr>w_out = [], w_room = None, w_err = EOF\<rparr>"

definition demo_client :: viv_client where
  "demo_client = \<lparr>vc_out = demo_writer, vc_seq = \<lparr>sc_n = 0\<rparr>,
     vc_peer = keeperd_peer demo_env (demo_ops True) [] 0 (new_ctl_conn 0 demo_writer) demo_daemon\<rparr>"

definition demo_template :: AgentCreatePayload where
  "demo_template = \<lparr>acp_ID = ''a'', acp_Provider = '''', acp_Template = ''t'', acp_CPUShares = 0, acp_MemoryMaxBytes = 0\<rparr>"

lemma demo_template_succeeds:
  "\<exists>d'. agentCreate demo_env (demo_ops True) 0 demo_template (audit_row 0 hdr b demo_daemon) = (None, d')"
  by (simp add: demo_create_defs demo_template_def audit_row_def split: prod.splits)



end
