(* ===== verification/Tui.thy ===== *)
theory Tui
  imports Viv AuditLog
begin

text \<open>
  The terminal interface of \<open>viv\<close> (\<open>cmd/viv/tui.go\<close>).

  The model is a record, \<open>Update\<close> a function from a message to a new model and a command, as in the
  code; commands are a datatype.  A snapshot is what \<open>agentMetrics\<close> points to, and looking into an
  absent one is a nil dereference, so \<open>View\<close> gives an outcome.  Terminal and event loop (bubbletea)
  are not modelled: keys arrive as their type and their text, the clock's readings with them.

  \<open>tui_world\<close> adds the queue of decoded frames and whether a command waits for the next one.
\<close>

subsection \<open>Messages\<close>

datatype key_type = KeyEsc | KeyEnter | KeyBackspace | KeyDelete | KeyRunes | KeySpace | KeyOther

datatype 'f tui_msg =
    WindowSizeMsg int int
  | KeyMsg key_type string
  | TickMsg
  | ErrMsg go_error
  | SubscribeAckMsg bool string
  | StatusMsg StatusPayload
  | CompletionMsg "'f CompletionEventPayload"
  | FailureMsg FailureEventPayload
  | PromptAckMsg bool string
  | PongMsg string

datatype tui_cmd =
    NoCmd
  | Quit
  | Tick
  | WaitForMessage
  | SendSubscribe
  | SendStatus
  | SendPing
  | SendPrompt string string u64
  | Batch "tui_cmd list"

definition decodeAckPayload :: "bytes \<Rightarrow> (bool \<times> string) outcome" where
  "decodeAckPayload payload =
     (case payload of
        [] \<Rightarrow> Err (OtherError ''empty ack payload'')
      | b # rest \<Rightarrow>
          if b = 1 then Val (True, '''')
          else (case fst (ReadString 1024 (bytes_NewReader rest)) of
              Panic m \<Rightarrow> Panic m
            | Err err \<Rightarrow> Err err
            | Val errText \<Rightarrow> Val (False, errText)))"

definition decode_or_err :: "string \<Rightarrow> ('a \<Rightarrow> 'f tui_msg) \<Rightarrow> 'a outcome \<Rightarrow> 'f tui_msg outcome" where
  "decode_or_err what f x =
     (case x of Panic m \<Rightarrow> Panic m | Err err \<Rightarrow> Val (ErrMsg (Wrap (''decode '' @ what @ '': '') err)) | Val v \<Rightarrow> Val (f v))"

text \<open>\<open>at\<close> is the RFC 3339 text of the time at which the frame is decoded.\<close>

definition decodeTUIFrame :: "(string \<Rightarrow> 'f) \<Rightarrow> string \<Rightarrow> swarm_header \<Rightarrow> bytes \<Rightarrow> 'f tui_msg outcome" where
  "decodeTUIFrame sscanf at hdr payload =
     (let t = h_Type hdr in
      if t = MsgType_CtlSubscribe then
        decode_or_err ''subscribe ack'' (\<lambda>(ok, e). SubscribeAckMsg ok e) (decodeAckPayload payload)
      else if t = MsgType_CtlStatus then
        decode_or_err ''status'' StatusMsg (fst (StatusPayload_UnmarshalMUS (bytes_NewReader payload)))
      else if t = MsgType_CtlPrompt then
        decode_or_err ''prompt ack'' (\<lambda>(ok, e). PromptAckMsg ok e) (decodeAckPayload payload)
      else if t = MsgType_Pong then Val (PongMsg at)
      else if t = MsgType_CompletionEvent then
        decode_or_err ''completion event'' CompletionMsg (UnmarshalCompletion sscanf payload)
      else if t = MsgType_FailureEvent then
        decode_or_err ''failure event'' FailureMsg (UnmarshalFailure payload)
      else Val (ErrMsg (OtherError (''unexpected frame type: '' @ MsgType_String t))))"

subsection \<open>The model\<close>

record 'f agent_snapshot =
  sn_Status :: AgentStatus
  sn_LastCompletion :: "'f CompletionEventPayload option"
  sn_LastFailure :: "FailureEventPayload option"

record 'f tui_model =
  tm_socketPath :: string
  tm_width :: int
  tm_height :: int
  tm_daemonVersion :: string
  tm_uptimeSeconds :: u64
  tm_uptimeFetched :: "instant option"
  tm_agents :: "AgentStatus list"
  tm_agentMetrics :: "string \<rightharpoonup> 'f agent_snapshot"
  tm_selected :: int
  tm_connected :: bool
  tm_promptMode :: bool
  tm_promptInput :: string
  tm_flash :: string
  tm_lastPing :: string
  tm_lastFrameError :: string
  tm_quitting :: bool

definition zero_status :: AgentStatus where
  "zero_status = \<lparr>as_ID = '''', as_State = '''', as_LastPromptSeq = 0, as_LastEventAt = '''', as_LastOutcome = '''',
     as_LastFailureDetail = '''', as_Model = '''', as_InputTokens = 0, as_OutputTokens = 0, as_CostUSD = '''', as_ToolCalls = 0\<rparr>"

definition zero_snapshot :: "'f agent_snapshot" where
  "zero_snapshot = \<lparr>sn_Status = zero_status, sn_LastCompletion = None, sn_LastFailure = None\<rparr>"

definition newTUIModel :: "string \<Rightarrow> 'f tui_model" where
  "newTUIModel socketPath = \<lparr>tm_socketPath = socketPath, tm_width = 0, tm_height = 0, tm_daemonVersion = '''',
     tm_uptimeSeconds = 0, tm_uptimeFetched = None, tm_agents = [], tm_agentMetrics = Map.empty, tm_selected = 0,
     tm_connected = False, tm_promptMode = False, tm_promptInput = '''', tm_flash = '''', tm_lastPing = '''',
     tm_lastFrameError = '''', tm_quitting = False\<rparr>"

definition Init :: tui_cmd where
  "Init = Batch [SendSubscribe, SendStatus, WaitForMessage, Tick]"

text \<open>\<open>ensureSnapshot\<close> and what the caller writes through the pointer it gets.\<close>

definition with_snapshot :: "string \<Rightarrow> ('f agent_snapshot \<Rightarrow> 'f agent_snapshot) \<Rightarrow> 'f tui_model \<Rightarrow> 'f tui_model" where
  "with_snapshot agentID f m =
     (let snap = (case tm_agentMetrics m agentID of None \<Rightarrow> zero_snapshot | Some s \<Rightarrow> s)
      in m\<lparr>tm_agentMetrics := (tm_agentMetrics m)(agentID \<mapsto> f snap)\<rparr>)"

definition in_list :: "int \<Rightarrow> 'a list \<Rightarrow> bool" where
  "in_list i xs \<longleftrightarrow> 0 \<le> i \<and> i < int (length xs)"

fun index_of :: "string \<Rightarrow> AgentStatus list \<Rightarrow> int option" where
  "index_of i [] = None"
| "index_of i (a # as) = (if as_ID a = i then Some 0 else map_option (\<lambda>n. n + 1) (index_of i as))"

definition syncSnapshots :: "'f tui_model \<Rightarrow> 'f tui_model" where
  "syncSnapshots m =
     (if tm_agents m = [] then m\<lparr>tm_selected := 0\<rparr>
      else
        let selectedID = (if in_list (tm_selected m) (tm_agents m) then as_ID (tm_agents m ! nat (tm_selected m)) else '''');
            m = fold (\<lambda>agent m. with_snapshot (as_ID agent) (\<lambda>snap. snap\<lparr>sn_Status := agent\<rparr>) m) (tm_agents m) m
        in if selectedID = '''' then m\<lparr>tm_selected := 0\<rparr>
           else (case index_of selectedID (tm_agents m) of
               Some i \<Rightarrow> m\<lparr>tm_selected := i\<rparr>
             | None \<Rightarrow> m\<lparr>tm_selected := 0\<rparr>))"

definition selectedAgent :: "'f tui_model \<Rightarrow> AgentStatus" where
  "selectedAgent m =
     (if in_list (tm_selected m) (tm_agents m) then tm_agents m ! nat (tm_selected m) else zero_status)"

subsection \<open>Keys\<close>

definition handlePromptKey :: "u64 \<Rightarrow> key_type \<Rightarrow> string \<Rightarrow> 'f tui_model \<Rightarrow> 'f tui_model \<times> tui_cmd" where
  "handlePromptKey millis k s m =
     (case k of
        KeyEsc \<Rightarrow> (m\<lparr>tm_promptMode := False, tm_promptInput := '''', tm_flash := ''prompt cancelled''\<rparr>, NoCmd)
      | KeyEnter \<Rightarrow>
          let agent = selectedAgent m in
          if as_ID agent = '''' \<or> TrimSpace (tm_promptInput m) = '''' then
            (m\<lparr>tm_flash := ''prompt requires a selected agent and non-empty text''\<rparr>, NoCmd)
          else
            (m\<lparr>tm_flash := ''sending prompt to '' @ as_ID agent\<rparr>,
             SendPrompt (as_ID agent) (TrimSpace (tm_promptInput m)) millis)
      | KeyBackspace \<Rightarrow> (m\<lparr>tm_promptInput := butlast (tm_promptInput m)\<rparr>, NoCmd)
      | KeyDelete \<Rightarrow> (m\<lparr>tm_promptInput := butlast (tm_promptInput m)\<rparr>, NoCmd)
      | KeyRunes \<Rightarrow> (m\<lparr>tm_promptInput := tm_promptInput m @ s\<rparr>, NoCmd)
      | KeySpace \<Rightarrow> (m\<lparr>tm_promptInput := tm_promptInput m @ s\<rparr>, NoCmd)
      | KeyOther \<Rightarrow> (m, NoCmd))"

definition handleKey :: "u64 \<Rightarrow> key_type \<Rightarrow> string \<Rightarrow> 'f tui_model \<Rightarrow> 'f tui_model \<times> tui_cmd" where
  "handleKey millis k s m =
     (if tm_promptMode m then handlePromptKey millis k s m
      else if s = ''q'' \<or> s = ''ctrl+c'' then (m\<lparr>tm_quitting := True\<rparr>, Quit)
      else if s = ''r'' then (m\<lparr>tm_flash := ''requesting fresh status''\<rparr>, SendStatus)
      else if s = ''g'' then (m\<lparr>tm_flash := ''pinging keeperd''\<rparr>, SendPing)
      else if s = ''p'' then
        (if tm_agents m = [] then (m\<lparr>tm_flash := ''no agent selected''\<rparr>, NoCmd)
         else (m\<lparr>tm_promptMode := True, tm_promptInput := '''', tm_flash := ''enter prompt text, press Enter to send''\<rparr>, NoCmd))
      else if s = ''j'' \<or> s = ''down'' then
        (if tm_agents m \<noteq> [] then m\<lparr>tm_selected := (tm_selected m + 1) smod int (length (tm_agents m))\<rparr> else m, NoCmd)
      else if s = ''k'' \<or> s = ''up'' then
        (if tm_agents m \<noteq> []
         then m\<lparr>tm_selected := (tm_selected m - 1 + int (length (tm_agents m))) smod int (length (tm_agents m))\<rparr> else m, NoCmd)
      else if s = ''a'' then (m\<lparr>tm_flash := ''approval workflow not yet implemented in keeperd''\<rparr>, NoCmd)
      else if s = ''d'' then (m\<lparr>tm_flash := ''debug tip: use vivlog for MUS/audit inspection''\<rparr>, NoCmd)
      else (m, NoCmd))"

subsection \<open>Update\<close>

text \<open>What \<open>Update\<close> reads of the clock and of \<open>fmt\<close>: now, its RFC 3339 text, milliseconds, floats.\<close>

record 'f tui_env =
  te_now :: instant
  te_now_text :: string
  te_millis :: u64
  te_sprintf6 :: "'f \<Rightarrow> string"
  te_sprintf4 :: "'f \<Rightarrow> string"

definition completed :: "'f tui_env \<Rightarrow> 'f CompletionEventPayload \<Rightarrow> 'f agent_snapshot \<Rightarrow> 'f agent_snapshot" where
  "completed e ev snap = snap\<lparr>sn_LastCompletion := Some ev, sn_LastFailure := None,
     sn_Status := (sn_Status snap)\<lparr>as_ID := cep_AgentID ev, as_LastPromptSeq := cep_PromptSeq ev, as_LastEventAt := te_now_text e,
       as_LastOutcome := cep_Outcome ev, as_Model := cep_Model ev, as_InputTokens := cep_InputTokens ev,
       as_OutputTokens := cep_OutputTokens ev, as_CostUSD := te_sprintf6 e (cep_CostUSD ev), as_ToolCalls := cep_ToolCalls ev,
       as_LastFailureDetail := ''''\<rparr>\<rparr>"

definition failed :: "'f tui_env \<Rightarrow> FailureEventPayload \<Rightarrow> 'f agent_snapshot \<Rightarrow> 'f agent_snapshot" where
  "failed e ev snap = snap\<lparr>sn_LastFailure := Some ev,
     sn_Status := (sn_Status snap)\<lparr>as_ID := fep_AgentID ev, as_LastPromptSeq := fep_PromptSeq ev, as_LastEventAt := te_now_text e,
       as_LastOutcome := fep_Kind ev, as_LastFailureDetail := fep_Detail ev\<rparr>\<rparr>"

definition Update :: "'f tui_env \<Rightarrow> 'f tui_msg \<Rightarrow> 'f tui_model \<Rightarrow> 'f tui_model \<times> tui_cmd" where
  "Update e msg m =
     (case msg of
        WindowSizeMsg w h \<Rightarrow> (m\<lparr>tm_width := w, tm_height := h\<rparr>, NoCmd)
      | KeyMsg k s \<Rightarrow> handleKey (te_millis e) k s m
      | TickMsg \<Rightarrow> (m, Tick)
      | ErrMsg err \<Rightarrow>
          (m\<lparr>tm_connected := False, tm_lastFrameError := error_text err, tm_flash := ''ctl connection lost''\<rparr>, NoCmd)
      | SubscribeAckMsg ok err \<Rightarrow>
          (m\<lparr>tm_connected := ok, tm_flash := (if ok then ''live event stream connected'' else ''subscribe failed: '' @ err)\<rparr>,
           WaitForMessage)
      | StatusMsg status \<Rightarrow>
          let m = m\<lparr>tm_connected := True, tm_daemonVersion := sp_DaemonVersion status, tm_uptimeSeconds := sp_UptimeSeconds status,
                    tm_uptimeFetched := Some (te_now e), tm_agents := sp_Agents status\<rparr>;
              m = syncSnapshots m
          in (m\<lparr>tm_flash := ''status refreshed: '' @ show_nat (length (sp_Agents status)) @ '' agent(s)''\<rparr>, WaitForMessage)
      | CompletionMsg ev \<Rightarrow>
          ((with_snapshot (cep_AgentID ev) (completed e ev) (m\<lparr>tm_connected := True\<rparr>))
             \<lparr>tm_flash := ''completion: '' @ cep_AgentID ev @ '' seq '' @ show_nat (unat (cep_PromptSeq ev))\<rparr>, WaitForMessage)
      | FailureMsg ev \<Rightarrow>
          ((with_snapshot (fep_AgentID ev) (failed e ev) (m\<lparr>tm_connected := True\<rparr>))
             \<lparr>tm_flash := ''failure: '' @ fep_AgentID ev @ '' '' @ fep_Kind ev\<rparr>, WaitForMessage)
      | PromptAckMsg ok err \<Rightarrow>
          (if ok then m\<lparr>tm_flash := ''prompt queued'', tm_promptInput := '''', tm_promptMode := False\<rparr>
           else m\<lparr>tm_flash := ''prompt rejected: '' @ err\<rparr>,
           WaitForMessage)
      | PongMsg at \<Rightarrow>
          (m\<lparr>tm_lastPing := at, tm_flash := ''keeperd pong received''\<rparr>, WaitForMessage))"


subsection \<open>View\<close>

definition yesNo :: "bool \<Rightarrow> string" where
  "yesNo v = (if v then ''yes'' else ''no'')"

definition orDefault :: "string \<Rightarrow> string \<Rightarrow> string" where
  "orDefault v fallback = (if v = '''' then fallback else v)"

definition maxUint64 :: "u64 \<Rightarrow> u64 \<Rightarrow> u64" where
  "maxUint64 a b = (if b < a then a else b)"

definition currentUptime :: "'f tui_env \<Rightarrow> 'f tui_model \<Rightarrow> string" where
  "currentUptime e m =
     (case tm_uptimeFetched m of
        None \<Rightarrow> ''unknown''
      | Some t \<Rightarrow> fmtDuration (sint (of_int (duration_of_seconds (tm_uptimeSeconds m) + (te_now e - t)) :: u64)))"

definition token_text :: "u32 \<Rightarrow> u32 \<Rightarrow> string" where
  "token_text i n = ''in='' @ show_nat (unat i) @ '' out='' @ show_nat (unat n)"

definition lastEventSummary :: "'f agent_snapshot \<Rightarrow> string" where
  "lastEventSummary snap =
     (case sn_LastFailure snap of
        Some f \<Rightarrow> fep_Kind f @ '': '' @ fep_Detail f
      | None \<Rightarrow>
          (case sn_LastCompletion snap of
             Some c \<Rightarrow> ''completion: '' @ cep_Outcome c
           | None \<Rightarrow> if as_LastEventAt (sn_Status snap) \<noteq> '''' then as_LastEventAt (sn_Status snap) else ''none''))"

definition lastCostSummary :: "'f tui_env \<Rightarrow> 'f agent_snapshot \<Rightarrow> string" where
  "lastCostSummary e snap =
     (if as_CostUSD (sn_Status snap) \<noteq> '''' then ''$'' @ as_CostUSD (sn_Status snap)
      else (case sn_LastCompletion snap of None \<Rightarrow> ''n/a'' | Some c \<Rightarrow> ''$'' @ te_sprintf4 e (cep_CostUSD c)))"

definition lastTokenSummary :: "'f agent_snapshot \<Rightarrow> string" where
  "lastTokenSummary snap =
     (if as_InputTokens (sn_Status snap) \<noteq> 0 \<or> as_OutputTokens (sn_Status snap) \<noteq> 0
      then token_text (as_InputTokens (sn_Status snap)) (as_OutputTokens (sn_Status snap))
      else (case sn_LastCompletion snap of None \<Rightarrow> ''n/a'' | Some c \<Rightarrow> token_text (cep_InputTokens c) (cep_OutputTokens c)))"

definition lastOutcomeSummary :: "'f agent_snapshot \<Rightarrow> string" where
  "lastOutcomeSummary snap = (if as_LastOutcome (sn_Status snap) = '''' then ''none'' else as_LastOutcome (sn_Status snap))"

definition lastToolCallSummary :: "'f agent_snapshot \<Rightarrow> string" where
  "lastToolCallSummary snap = show_nat (unat (as_ToolCalls (sn_Status snap)))"

definition labelled :: "string \<Rightarrow> string \<Rightarrow> string" where
  "labelled label v = label @ v @ nl"

definition agent_lines :: "'f tui_model \<Rightarrow> string" where
  "agent_lines m = concat (map2 (\<lambda>i a. '' '' @ (if int i = tm_selected m then ''>'' else '' '') @ '' '' @ as_ID a @ '' ('' @ as_State a @ '')'' @ nl)
     [0..<length (tm_agents m)] (tm_agents m))"

definition agent_view :: "'f tui_env \<Rightarrow> 'f tui_model \<Rightarrow> AgentStatus \<Rightarrow> 'f agent_snapshot \<Rightarrow> string" where
  "agent_view e m agent snap =
     labelled ''agent:       '' (as_ID agent)
     @ labelled ''state:       '' (orDefault (as_State agent) (as_State (sn_Status snap)))
     @ (if as_Model (sn_Status snap) \<noteq> '''' then labelled ''model:       '' (as_Model (sn_Status snap)) else '''')
     @ labelled ''prompt seq:  '' (show_nat (unat (maxUint64 (as_LastPromptSeq agent) (as_LastPromptSeq (sn_Status snap)))))
     @ labelled ''last event:  '' (lastEventSummary snap)
     @ labelled ''outcome:     '' (lastOutcomeSummary snap)
     @ (if as_LastFailureDetail (sn_Status snap) \<noteq> '''' then labelled ''error:       '' (as_LastFailureDetail (sn_Status snap)) else '''')
     @ labelled ''last cost:   '' (lastCostSummary e snap)
     @ labelled ''last tokens: '' (lastTokenSummary snap)
     @ labelled ''tool calls:  '' (lastToolCallSummary snap)
     @ nl
     @ (if tm_promptMode m then ''prompt> '' @ tm_promptInput m @ nl @ nl
        else ''Press p to queue a prompt for the selected agent.'' @ nl @ nl)
     @ (if 1 < length (tm_agents m) then ''agents:'' @ nl @ agent_lines m @ nl else '''')"

definition View :: "'f tui_env \<Rightarrow> 'f tui_model \<Rightarrow> string outcome" where
  "View e m =
     (let top = ''VIVARY'' @ nl @ ''single-agent detail view'' @ nl @ nl
            @ labelled ''socket:      '' (tm_socketPath m)
            @ labelled ''connected:   '' (yesNo (tm_connected m))
            @ labelled ''daemon:      '' (orDefault (tm_daemonVersion m) ''unknown'')
            @ labelled ''uptime:      '' (currentUptime e m)
            @ (if tm_lastPing m \<noteq> '''' then labelled ''last ping:   '' (tm_lastPing m) else '''')
            @ nl;
          bottom = ''Shortcuts: [r]efresh [g] ping [p] prompt [j/k] select [a] approvals [d] debug [q] quit'' @ nl
            @ (if tm_flash m \<noteq> '''' then nl @ tm_flash m @ nl else '''')
            @ (if tm_lastFrameError m \<noteq> '''' then labelled ''last error: '' (tm_lastFrameError m) else '''')
      in if tm_agents m = [] then Val (top @ ''No agents provisioned yet.'' @ nl @ bottom)
         else (case tm_agentMetrics m (as_ID (selectedAgent m)) of
             None \<Rightarrow> Panic ''runtime error: invalid memory address or nil pointer dereference''
           | Some snap \<Rightarrow> Val (top @ agent_view e m (selectedAgent m) snap @ bottom)))"

subsection \<open>Transport\<close>

text \<open>
  What a command sends through \<open>liveTransport\<close>, whose connection and sequence counter are those of
  a client; the other commands send nothing.
\<close>

fun transport_run :: "tui_cmd \<Rightarrow> viv_client \<Rightarrow> go_error option \<times> viv_client" where
  "transport_run SendSubscribe c = client_send MsgType_CtlSubscribe [] c"
| "transport_run SendStatus c = client_send MsgType_CtlStatus [] c"
| "transport_run SendPing c = client_send MsgType_Ping [] c"
| "transport_run (SendPrompt agentID txt n) c =
     client_send MsgType_CtlPrompt (PromptPayload_MarshalMUS \<lparr>pp_AgentID = agentID, pp_Seq = n, pp_Text = txt\<rparr>) c"
| "transport_run _ c = (None, c)"

text \<open>One round of \<open>readLoop\<close>: the message for the next frame; an error is the last one.\<close>

definition read_frame_msg :: "(string \<Rightarrow> 'f) \<Rightarrow> string \<Rightarrow> reader \<Rightarrow> ('f tui_msg \<times> bool) outcome" where
  "read_frame_msg sscanf at r =
     (case fst (ReadFrame r) of
        Panic m \<Rightarrow> Panic m
      | Err err \<Rightarrow> Val (ErrMsg err, False)
      | Val (hdr, payload) \<Rightarrow>
          (case decodeTUIFrame sscanf at hdr payload of
             Panic m \<Rightarrow> Panic m | Err err \<Rightarrow> Err err | Val msg \<Rightarrow> Val (msg, True)))"

subsection \<open>The event loop\<close>

text \<open>
  The decoded frames that wait in the transport's channel, and whether a \<open>waitForMessage\<close> is
  pending.  A frame is taken from the queue only by a pending wait; keys, ticks and failed sends
  arrive at any time.
\<close>

record 'f tui_world =
  tw_model :: "'f tui_model"
  tw_waiting :: bool
  tw_queue :: "'f tui_msg list"

inductive tui_step :: "'f tui_world \<Rightarrow> 'f tui_world \<Rightarrow> bool" where
  arrive: "tui_step W (W\<lparr>tw_queue := tw_queue W @ [msg]\<rparr>)"
| deliver: "tw_waiting W \<Longrightarrow> tw_queue W = msg # rest \<Longrightarrow> Update e msg (tw_model W) = (m, c) \<Longrightarrow>
    tui_step W (W\<lparr>tw_model := m, tw_waiting := (c = WaitForMessage), tw_queue := rest\<rparr>)"
| input: "msg \<in> {TickMsg, KeyMsg k s, WindowSizeMsg w h, ErrMsg err} \<Longrightarrow> Update e msg (tw_model W) = (m, c) \<Longrightarrow>
    tui_step W (W\<lparr>tw_model := m\<rparr>)"

inductive tui_steps :: "'f tui_world \<Rightarrow> 'f tui_world \<Rightarrow> bool" for W where
  here: "tui_steps W W"
| more: "tui_steps W W' \<Longrightarrow> tui_step W' W'' \<Longrightarrow> tui_steps W W''"

definition tui_start :: "string \<Rightarrow> 'f tui_world" where
  "tui_start socketPath = \<lparr>tw_model = newTUIModel socketPath, tw_waiting = True, tw_queue = []\<rparr>"

subsection \<open>Every listed agent has a snapshot\<close>

definition tui_ok :: "'f tui_model \<Rightarrow> bool" where
  "tui_ok m \<longleftrightarrow> (tm_agents m = [] \<or> in_list (tm_selected m) (tm_agents m))
     \<and> (\<forall>a\<in>set (tm_agents m). tm_agentMetrics m (as_ID a) \<noteq> None)"

lemma with_snapshot_simps [simp]:
  "tm_agents (with_snapshot i f m) = tm_agents m" "tm_selected (with_snapshot i f m) = tm_selected m"
  by (simp_all add: with_snapshot_def Let_def)

lemma with_snapshot_metrics:
  "tm_agentMetrics (with_snapshot i f m) j = None \<longleftrightarrow> tm_agentMetrics m j = None \<and> j \<noteq> i"
  by (simp add: with_snapshot_def Let_def)

lemma fold_snapshots:
  "tm_agents (fold (\<lambda>agent m. with_snapshot (as_ID agent) (f agent) m) as m) = tm_agents m
   \<and> (tm_agentMetrics (fold (\<lambda>agent m. with_snapshot (as_ID agent) (f agent) m) as m) j = None
        \<longleftrightarrow> tm_agentMetrics m j = None \<and> j \<notin> as_ID ` set as)"
proof (induction as arbitrary: m)
  case (Cons a as)
  from Cons.IH [of "with_snapshot (as_ID a) (f a) m"] show ?case
    by (auto simp: with_snapshot_metrics)
qed simp

lemma index_of_in: "index_of i as = Some n \<Longrightarrow> in_list n as"
  by (induction as arbitrary: n) (auto simp: in_list_def split: if_splits)

lemma syncSnapshots_ok: "tui_ok (syncSnapshots m)"
proof (cases "tm_agents m = []")
  case False
  then have pos: "in_list 0 (tm_agents m)"
    by (simp add: in_list_def)
  define F where "F = fold (\<lambda>agent m. with_snapshot (as_ID agent) (\<lambda>snap. snap\<lparr>sn_Status := agent\<rparr>) m) (tm_agents m) m"
  note fs = fold_snapshots [where f = "\<lambda>agent snap. snap\<lparr>sn_Status := agent\<rparr>" and as = "tm_agents m" and m = m, folded F_def]
  from fs have ags: "tm_agents F = tm_agents m"
    by blast
  from fs have met: "\<forall>a\<in>set (tm_agents m). tm_agentMetrics F (as_ID a) \<noteq> None"
    by blast
  have "tui_ok (F\<lparr>tm_selected := i\<rparr>)" if "in_list i (tm_agents m)" for i
    using that met by (simp add: tui_ok_def ags)
  moreover have "\<exists>i. in_list i (tm_agents m) \<and> syncSnapshots m = F\<lparr>tm_selected := i\<rparr>"
    using False pos index_of_in
    by (auto simp: syncSnapshots_def Let_def F_def [symmetric] ags split: option.split)
  ultimately show ?thesis
    by fastforce
qed (simp add: syncSnapshots_def tui_ok_def)

lemma index_of_nth: "distinct (map as_ID as) \<Longrightarrow> n < length as \<Longrightarrow> index_of (as_ID (as ! n)) as = Some (int n)"
proof (induction as arbitrary: n)
  case (Cons a as)
  show ?case
  proof (cases n)
    case (Suc k)
    with Cons.prems have k: "k < length as" by simp
    then have "as_ID (as ! k) \<in> as_ID ` set as" by simp
    with Cons.prems have "as_ID a \<noteq> as_ID (as ! k)" by force
    with Suc Cons.IH [OF _ k] Cons.prems show ?thesis by simp
  qed simp
qed simp

lemma tui_ok_fields [simp]:
  "tui_ok (m\<lparr>tm_flash := x\<rparr>) = tui_ok m" "tui_ok (m\<lparr>tm_connected := b\<rparr>) = tui_ok m"
  "tui_ok (m\<lparr>tm_lastFrameError := x\<rparr>) = tui_ok m" "tui_ok (m\<lparr>tm_promptInput := x\<rparr>) = tui_ok m"
  "tui_ok (m\<lparr>tm_promptMode := b\<rparr>) = tui_ok m" "tui_ok (m\<lparr>tm_lastPing := x\<rparr>) = tui_ok m"
  "tui_ok (m\<lparr>tm_quitting := b\<rparr>) = tui_ok m" "tui_ok (m\<lparr>tm_width := w\<rparr>) = tui_ok m" "tui_ok (m\<lparr>tm_height := w\<rparr>) = tui_ok m"
  by (simp_all add: tui_ok_def)

lemma tui_ok_snapshot: "tui_ok m \<Longrightarrow> tui_ok (with_snapshot i f m)"
  by (simp add: tui_ok_def with_snapshot_metrics)

lemma smod_in_list: "xs \<noteq> [] \<Longrightarrow> 0 \<le> i \<Longrightarrow> in_list (i smod int (length xs)) xs"
  by (simp add: in_list_def smod_mod_positive)

lemma handleKey_ok: "tui_ok m \<Longrightarrow> tui_ok (fst (handleKey t k s m))"
proof -
  assume ok: "tui_ok m"
  then have "tm_agents m \<noteq> [] \<Longrightarrow> tui_ok (m\<lparr>tm_selected := i smod int (length (tm_agents m))\<rparr>)" if "0 \<le> i" for i
    using smod_in_list [OF _ that, of "tm_agents m"] by (simp add: tui_ok_def)
  moreover have "tm_agents m \<noteq> [] \<Longrightarrow> 0 \<le> tm_selected m + 1 \<and> 0 \<le> tm_selected m - 1 + int (length (tm_agents m))"
    using ok by (cases "tm_agents m") (auto simp: tui_ok_def in_list_def)
  moreover have "tui_ok (fst (handlePromptKey t k s m))"
    using ok by (simp add: handlePromptKey_def Let_def split: key_type.splits)
  ultimately show ?thesis
    using ok by (auto simp: handleKey_def)
qed

lemma Update_ok: "tui_ok m \<Longrightarrow> tui_ok (fst (Update e msg m))"
  by (cases msg) (simp_all add: Update_def handleKey_ok tui_ok_snapshot syncSnapshots_ok Let_def)

lemma tui_step_ok: "tui_step W W' \<Longrightarrow> tui_ok (tw_model W) \<Longrightarrow> tui_ok (tw_model W')"
proof (induction rule: tui_step.induct)
  case (deliver W msg rest e m c)
  then show ?case using Update_ok [of "tw_model W" e msg] by simp
next
  case (input msg k s w h err e W m c)
  then show ?case using Update_ok [of "tw_model W" e msg] by simp
qed simp

lemma tui_steps_ok: "tui_steps W W' \<Longrightarrow> tui_ok (tw_model W) \<Longrightarrow> tui_ok (tw_model W')"
  by (induction rule: tui_steps.induct) (auto intro: tui_step_ok)

lemma TrimSpace_length: "length (TrimSpace s) \<le> length s"
proof -
  have "length (TrimSpace s) \<le> length (dropWhile is_space s)"
    unfolding TrimSpace_def by (metis length_dropWhile_le length_rev)
  then show ?thesis
    using length_dropWhile_le [of is_space s] by linarith
qed

subsection \<open>Properties\<close>

text \<open>
  C21: The interface never dies while it draws: from the empty model, whatever frames arrive and
  whatever keys are pressed in whatever order, the selection lies in the list and the selected agent
  has a snapshot, so \<open>View\<close> returns a screen.
\<close>

theorem view_never_panics:
  assumes "tui_steps (tui_start socketPath) W"
  shows "\<exists>screen. View e (tw_model W) = Val screen"
proof -
  have "tui_ok (tw_model (tui_start socketPath :: 'a tui_world))"
    by (simp add: tui_start_def newTUIModel_def tui_ok_def)
  with tui_steps_ok [OF assms] have ok: "tui_ok (tw_model W)"
    by blast
  show ?thesis
  proof (cases "tm_agents (tw_model W) = []")
    case False
    with ok have "selectedAgent (tw_model W) \<in> set (tm_agents (tw_model W))"
      by (auto simp: tui_ok_def selectedAgent_def in_list_def)
    with ok obtain snap where "tm_agentMetrics (tw_model W) (as_ID (selectedAgent (tw_model W))) = Some snap"
      by (auto simp: tui_ok_def)
    with False show ?thesis
      by (simp add: View_def)
  qed (simp add: View_def)
qed


text \<open>
  A status refresh keeps the selected index, not the selected agent: keeperd lists its agents in
  map order, and after a refresh the marker stands on whichever agent now has the old index.
\<close>

theorem refresh_keeps_index:
  assumes "distinct (map as_ID (sp_Agents st))" and "'''' \<notin> as_ID ` set (sp_Agents st)"
    and "in_list (tm_selected m) (sp_Agents st)" and "Update e (StatusMsg st) m = (m', c)"
  shows "tm_selected m' = tm_selected m \<and> selectedAgent m' = sp_Agents st ! nat (tm_selected m)"
proof -
  let ?as = "sp_Agents st"
  from assms(3) have n: "nat (tm_selected m) < length ?as" "int (nat (tm_selected m)) = tm_selected m"
    by (auto simp: in_list_def)
  then have "?as ! nat (tm_selected m) \<in> set ?as"
    by simp
  with assms(2) have named: "as_ID (?as ! nat (tm_selected m)) \<noteq> ''''"
    by (metis imageI)
  have idx: "index_of (as_ID (?as ! nat (tm_selected m))) ?as = Some (tm_selected m)"
    using index_of_nth [OF assms(1) n(1)] n(2) by simp
  have "tm_selected m' = tm_selected m" "tm_agents m' = ?as"
    using assms(3,4) n(1) named idx by (auto simp: Update_def syncSnapshots_def Let_def fold_snapshots)
  then show ?thesis
    using assms(3) by (simp add: selectedAgent_def)
qed

text \<open>Agents \<open>a\<close> and \<open>b\<close>, listed in one order and then in the other.\<close>

definition demo_tui_agent :: "string \<Rightarrow> AgentStatus" where
  "demo_tui_agent i = zero_status\<lparr>as_ID := i, as_State := ''running''\<rparr>"

definition demo_tui_status :: "string list \<Rightarrow> StatusPayload" where
  "demo_tui_status ids = \<lparr>sp_DaemonVersion = ''v'', sp_UptimeSeconds = 5, sp_Agents = map demo_tui_agent ids\<rparr>"

definition demo_tui_env :: "nat tui_env" where
  "demo_tui_env = \<lparr>te_now = 0, te_now_text = ''now'', te_millis = 9, te_sprintf6 = show_nat, te_sprintf4 = show_nat\<rparr>"

definition demo_tui_model :: "nat tui_model" where
  "demo_tui_model = fst (Update demo_tui_env (StatusMsg (demo_tui_status [''a'', ''b''])) (newTUIModel ''sock''))"

lemma demo_tui_simps:
  "tm_agents demo_tui_model = map demo_tui_agent [''a'', ''b'']" "tm_selected demo_tui_model = 0"
  "tm_promptMode demo_tui_model = False" "as_ID (demo_tui_agent i) = i"
  by (simp_all add: demo_tui_model_def Update_def syncSnapshots_def newTUIModel_def demo_tui_status_def demo_tui_agent_def
      with_snapshot_def in_list_def Let_def)

theorem view_never_panics_witness:
  "\<exists>W. tui_steps (tui_start ''sock'') W \<and> tm_agents (tw_model W) \<noteq> [] \<and> (\<exists>screen. View demo_tui_env (tw_model W) = Val screen)"
proof -
  let ?msg = "StatusMsg (demo_tui_status [''a'', ''b''])"
  let ?W0 = "tui_start ''sock'' :: nat tui_world"
  let ?W1 = "?W0\<lparr>tw_queue := tw_queue ?W0 @ [?msg]\<rparr>"
  obtain c where u: "Update demo_tui_env ?msg (tw_model ?W1) = (demo_tui_model, c)"
    by (cases "Update demo_tui_env ?msg (tw_model ?W1)") (simp add: demo_tui_model_def tui_start_def)
  have "tui_step ?W1 (?W1\<lparr>tw_model := demo_tui_model, tw_waiting := (c = WaitForMessage), tw_queue := []\<rparr>)"
    by (rule tui_step.deliver [OF _ _ u]) (simp_all add: tui_start_def)
  then have "tui_steps ?W0 (?W1\<lparr>tw_model := demo_tui_model, tw_waiting := (c = WaitForMessage), tw_queue := []\<rparr>)"
    using tui_steps.more [OF tui_steps.more [OF tui_steps.here tui_step.arrive]] by blast
  from view_never_panics [OF this, of demo_tui_env] this show ?thesis
    by (intro exI [of _ "?W1\<lparr>tw_model := demo_tui_model, tw_waiting := (c = WaitForMessage), tw_queue := []\<rparr>"])
      (simp add: demo_tui_simps)
qed


theorem refresh_keeps_index_witness:
  "\<exists>m' c. Update demo_tui_env (StatusMsg (demo_tui_status [''b'', ''a''])) demo_tui_model = (m', c)
    \<and> as_ID (selectedAgent demo_tui_model) = ''a'' \<and> as_ID (selectedAgent m') = ''b''"
proof -
  obtain m' c where u: "Update demo_tui_env (StatusMsg (demo_tui_status [''b'', ''a''])) demo_tui_model = (m', c)" by force
  have "selectedAgent m' = demo_tui_agent ''b''"
    using refresh_keeps_index [OF _ _ _ u] by (simp add: demo_tui_simps demo_tui_status_def in_list_def)
  then show ?thesis
    using u by (simp add: demo_tui_simps in_list_def selectedAgent_def)
qed

end
