(* ===== verification/Vivgen.thy ===== *)
theory Vivgen
  imports Generated Strconv "HOL-Library.List_Lexorder" "HOL-Library.Char_ord" "HOL-Library.AList"
begin

text \<open>
  The generator that writes \<open>internal/capabilities/generated.go\<close> (\<open>cmd/vivgen/main.go\<close>).

  It reads the capability definitions from a KDL document, whose parser is a parameter, and emits
  Go code.  The code is modelled by what it declares: the registry entries, the schema of each
  capability, and for each field of a struct the Go name, Go type and tag it is given and the
  pattern by which it is encoded and decoded (the meaning of the patterns is in \<open>Schema\<close>).
  \<open>go/format\<close> and the file that the text goes to are not modelled.
\<close>

subsection \<open>Documents\<close>

text \<open>A node of the parsed document.  \<open>ValueString\<close> of a value belongs to the parser and is a parameter.\<close>

datatype 'f doc_value = StringValue string | IntValue int | FloatValue 'f | BoolValue bool | NullValue

datatype 'f doc_node =
  DocNode (dn_Name: string) (dn_Arguments: "'f doc_value list") (dn_Properties: "(string \<times> 'f doc_value) list")
    (dn_Children: "'f doc_node list")

record 'f kdl_ops =
  ko_ValueString :: "'f doc_value \<Rightarrow> string"
  ko_float64 :: "int \<Rightarrow> 'f"
  ko_Sprint_float :: "'f \<Rightarrow> string"

definition gen_firstArg :: "'f kdl_ops \<Rightarrow> 'f doc_node \<Rightarrow> string" where
  "gen_firstArg k node = (case dn_Arguments node of [] \<Rightarrow> '''' | v # _ \<Rightarrow> ko_ValueString k v)"

definition propValue :: "'f kdl_ops \<Rightarrow> 'f doc_node \<Rightarrow> string \<Rightarrow> string" where
  "propValue k node key =
     (case map_of (dn_Properties node) key of None \<Rightarrow> '''' | Some v \<Rightarrow> ko_ValueString k v)"

definition propValueBool :: "'f doc_node \<Rightarrow> string \<Rightarrow> bool" where
  "propValueBool node key =
     (case map_of (dn_Properties node) key of Some (BoolValue b) \<Rightarrow> b | _ \<Rightarrow> False)"

definition childValue :: "'f kdl_ops \<Rightarrow> 'f doc_node \<Rightarrow> string \<Rightarrow> string" where
  "childValue k node childName =
     (case find (\<lambda>child. dn_Name child = childName) (dn_Children node) of
        None \<Rightarrow> '''' | Some child \<Rightarrow> gen_firstArg k child)"

subsection \<open>Capabilities\<close>

record 'f kdlField =
  kf_Name :: string
  kf_Type :: string
  kf_Required :: bool
  kf_Description :: string
  kf_Example :: string
  kf_Enum :: "string list"
  kf_Default :: "'f doc_value option"
  kf_Min :: "'f option"
  kf_Max :: "'f option"

record 'f kdlCapability =
  kc_Name :: string
  kc_Category :: string
  kc_Description :: string
  kc_Risk :: string
  kc_Reads :: "string list"
  kc_Writes :: "string list"
  kc_Fields :: "'f kdlField list"
  kc_Returns :: string
  kc_ReturnDesc :: string
  kc_ReturnFields :: "'f kdlField list"

text \<open>An absent or null default is \<open>nil\<close>; a bound is read from a property that holds a number.\<close>

definition field_default :: "'f doc_node \<Rightarrow> 'f doc_value option" where
  "field_default node =
     (case map_of (dn_Properties node) ''default'' of
        None \<Rightarrow> None | Some NullValue \<Rightarrow> None | Some v \<Rightarrow> Some v)"

definition field_bound :: "'f kdl_ops \<Rightarrow> 'f doc_node \<Rightarrow> string \<Rightarrow> 'f option" where
  "field_bound k node key =
     (case map_of (dn_Properties node) key of
        Some (FloatValue x) \<Rightarrow> Some x
      | Some (IntValue i) \<Rightarrow> Some (ko_float64 k i)
      | _ \<Rightarrow> None)"

definition field_child :: "'f kdl_ops \<Rightarrow> 'f doc_node \<Rightarrow> 'f kdlField \<Rightarrow> 'f kdlField" where
  "field_child k gc f =
     (if dn_Name gc = ''example'' then f\<lparr>kf_Example := gen_firstArg k gc\<rparr>
      else if dn_Name gc = ''enum'' then f\<lparr>kf_Enum := kf_Enum f @ map (ko_ValueString k) (dn_Arguments gc)\<rparr>
      else f)"

definition argument_node :: "'f kdl_ops \<Rightarrow> 'f doc_node \<Rightarrow> 'f kdlField" where
  "argument_node k child =
     fold (field_child k) (dn_Children child)
       \<lparr>kf_Name = gen_firstArg k child, kf_Type = propValue k child ''type'', kf_Required = propValueBool child ''required'',
        kf_Description = childValue k child ''description'', kf_Example = '''', kf_Enum = [],
        kf_Default = field_default child, kf_Min = field_bound k child ''min'', kf_Max = field_bound k child ''max''\<rparr>"

definition return_node :: "'f kdl_ops \<Rightarrow> 'f doc_node \<Rightarrow> 'f kdlField" where
  "return_node k gc =
     fold (field_child k) (dn_Children gc)
       \<lparr>kf_Name = gen_firstArg k gc, kf_Type = propValue k gc ''type'', kf_Required = True,
        kf_Description = childValue k gc ''description'', kf_Example = '''', kf_Enum = [],
        kf_Default = None, kf_Min = None, kf_Max = None\<rparr>"

definition capability_child :: "'f kdl_ops \<Rightarrow> 'f doc_node \<Rightarrow> 'f kdlCapability \<Rightarrow> 'f kdlCapability" where
  "capability_child k child c =
     (let n = dn_Name child in
      if n = ''category'' then c\<lparr>kc_Category := gen_firstArg k child\<rparr>
      else if n = ''description'' then c\<lparr>kc_Description := gen_firstArg k child\<rparr>
      else if n = ''risk'' then c\<lparr>kc_Risk := gen_firstArg k child\<rparr>
      else if n = ''reads'' then c\<lparr>kc_Reads := kc_Reads c @ [propValue k child ''entity'']\<rparr>
      else if n = ''writes'' then c\<lparr>kc_Writes := kc_Writes c @ [propValue k child ''entity'']\<rparr>
      else if n = ''field'' then c\<lparr>kc_Fields := kc_Fields c @ [argument_node k child]\<rparr>
      else if n = ''returns'' then
        c\<lparr>kc_Returns := gen_firstArg k child, kc_ReturnDesc := propValue k child ''description'',
          kc_ReturnFields := kc_ReturnFields c @ map (return_node k) (filter (\<lambda>gc. dn_Name gc = ''field'') (dn_Children child))\<rparr>
      else c)"

definition capability_of_node :: "'f kdl_ops \<Rightarrow> 'f doc_node \<Rightarrow> 'f kdlCapability" where
  "capability_of_node k node =
     fold (capability_child k) (dn_Children node)
       \<lparr>kc_Name = gen_firstArg k node, kc_Category = '''', kc_Description = '''', kc_Risk = '''', kc_Reads = [], kc_Writes = [],
        kc_Fields = [], kc_Returns = '''', kc_ReturnDesc = '''', kc_ReturnFields = []\<rparr>"

definition capabilities_of_doc :: "'f kdl_ops \<Rightarrow> 'f doc_node list \<Rightarrow> 'f kdlCapability list" where
  "capabilities_of_doc k nodes =
     sort_key kc_Name (map (capability_of_node k) (filter (\<lambda>node. dn_Name node = ''capability'') nodes))"

subsection \<open>Generic types in the source text\<close>

text \<open>
  The two regular expressions.  A generic type is an identifier, then \<open><\<close>, then characters other
  than white space and braces up to the last \<open>>\<close> among them, at least one before it.
\<close>

definition re_space :: "char \<Rightarrow> bool" where
  "re_space c \<longleftrightarrow> c \<in> {CHR '' '', CHR 0x09, CHR 0x0A, CHR 0x0C, CHR 0x0D}"

definition ident_char :: "char \<Rightarrow> bool" where
  "ident_char c \<longleftrightarrow> is_upper c \<or> is_lower c \<or> is_digit c \<or> c = CHR ''_''"

definition match_generic :: "string \<Rightarrow> (string \<times> string) option" where
  "match_generic s =
     (let ident = takeWhile ident_char s;
          run = takeWhile (\<lambda>c. \<not> re_space c \<and> c \<noteq> CHR ''{'' \<and> c \<noteq> CHR ''}'') (drop (length ident + 1) s);
          inner = rev (tl (dropWhile (\<lambda>c. c \<noteq> CHR ''>'') (rev run)));
          n = length ident + length inner + 2
      in if ident = [] \<or> is_digit (hd ident) then None
         else if \<not> HasPrefix (drop (length ident) s) ''<'' then None
         else if CHR ''>'' \<notin> set run \<or> inner = [] then None
         else Some (take n s, drop n s))"

definition match_type :: "string \<Rightarrow> (string \<times> string) option" where
  "match_type s =
     (if HasPrefix s ''type='' then
        (case match_generic (drop 5 s) of
           None \<Rightarrow> None | Some (g, rest) \<Rightarrow> Some (''type='' @ [CHR 0x22] @ g @ [CHR 0x22], rest))
      else None)"

definition match_returns :: "string \<Rightarrow> (string \<times> string) option" where
  "match_returns s =
     (if HasPrefix s ''returns'' \<and> drop 7 s \<noteq> [] \<and> re_space (hd (drop 7 s)) then
        (case match_generic (dropWhile re_space (drop 7 s)) of
           None \<Rightarrow> None | Some (g, rest) \<Rightarrow> Some (''returns '' @ [CHR 0x22] @ g @ [CHR 0x22], rest))
      else None)"

text \<open>\<open>ReplaceAllString\<close>: every match consumes something, so the guard is always true.\<close>

function replace_all :: "(string \<Rightarrow> (string \<times> string) option) \<Rightarrow> string \<Rightarrow> string" where
  "replace_all m s =
     (case m s of
        Some (out, rest) \<Rightarrow> if length rest < length s then out @ replace_all m rest else out
      | None \<Rightarrow> (case s of [] \<Rightarrow> [] | c # cs \<Rightarrow> c # replace_all m cs))"
  by pat_completeness auto

termination replace_all
  by (relation "measure (\<lambda>(m, s). length s)") auto

declare replace_all.simps [simp del]

definition normalizeKDLGenerics :: "string \<Rightarrow> string" where
  "normalizeKDLGenerics src = replace_all match_returns (replace_all match_type src)"

text \<open>The file, or the error of opening or reading it, and the parser are parameters.\<close>

definition loadCapabilities ::
  "'f kdl_ops \<Rightarrow> (string \<Rightarrow> go_error + string) \<Rightarrow> (string \<Rightarrow> go_error + 'f doc_node list) \<Rightarrow> string
   \<Rightarrow> go_error + 'f kdlCapability list"
where
  "loadCapabilities k read parse dir =
     (case read (Join2 dir ''capabilities.kdl'') of
        Inl err \<Rightarrow> Inl err
      | Inr raw \<Rightarrow>
          (case parse (normalizeKDLGenerics raw) of
             Inl err \<Rightarrow> Inl err
           | Inr doc \<Rightarrow> Inr (capabilities_of_doc k doc)))"

subsection \<open>Types and names\<close>

definition kdlTypeToJSONType :: "string \<Rightarrow> string" where
  "kdlTypeToJSONType t =
     (if HasPrefix t ''list<'' then ''array''
      else if t = ''string'' then ''string''
      else if t \<in> {''int'', ''integer''} then ''integer''
      else if t \<in> {''float'', ''number''} then ''number''
      else if t \<in> {''bool'', ''boolean''} then ''boolean''
      else if t = ''object'' then ''object''
      else ''string'')"

text \<open>The type between the brackets; slicing \<open>t[5 : len(t)-1]\<close> panics if \<open>t\<close> ends after the first.\<close>

definition gen_inner_type :: "string \<Rightarrow> string outcome" where
  "gen_inner_type t = (if length t \<le> 5 then Panic ''slice bounds out of range'' else Val (butlast (drop 5 t)))"

function kdlTypeToGoType :: "string \<Rightarrow> string outcome" where
  "kdlTypeToGoType t =
     (if HasPrefix t ''list<'' then
        (case gen_inner_type t of
           Val inner \<Rightarrow>
             (case kdlTypeToGoType inner of Val g \<Rightarrow> Val (''[]'' @ g) | Err err \<Rightarrow> Err err | Panic m \<Rightarrow> Panic m)
         | Err err \<Rightarrow> Err err
         | Panic m \<Rightarrow> Panic m)
      else if t = ''string'' then Val ''string''
      else if t \<in> {''int'', ''integer''} then Val ''int''
      else if t \<in> {''float'', ''number''} then Val ''float64''
      else if t \<in> {''bool'', ''boolean''} then Val ''bool''
      else if t = ''object'' then Val ''json.RawMessage''
      else Val ''string'')"
  by pat_completeness auto

termination kdlTypeToGoType
  by (relation "measure length") (auto simp: gen_inner_type_def split: if_splits)

declare kdlTypeToGoType.simps [simp del]

definition upper_first :: "string \<Rightarrow> string" where
  "upper_first p =
     (case p of
        [] \<Rightarrow> []
      | c # cs \<Rightarrow> (if is_lower c then [char_of (of_char c - 32 :: nat)]
                  else if byte_in 0 0x7F c then [c] else replacement_char) @ cs)"

definition snakeToPascal :: "string \<Rightarrow> string" where
  "snakeToPascal s =
     (if s = ''url'' then ''URL''
      else strings_Join (map (\<lambda>p. if p = ''url'' then ''URL'' else upper_first p) (split_on CHR ''_'' s)) '''')"

subsection \<open>Schemas\<close>

datatype 'f JSONSchema = JSONSchema
  (js_Schema: string) (js_Title: string) (js_Description: string) (js_Type: string)
  (js_Properties: "(string \<times> 'f JSONSchema) list") (js_Required: "string list") (js_AdditionalProperties: bool)
  (js_Enum: "string list") (js_Default: "'f doc_value option") (js_Minimum: "'f option") (js_Maximum: "'f option")
  (js_Examples: "string list")

definition field_schema :: "'f kdlField \<Rightarrow> 'f JSONSchema" where
  "field_schema f = JSONSchema '''' '''' (kf_Description f) (kdlTypeToJSONType (kf_Type f)) [] [] False
     (kf_Enum f) (kf_Default f) (kf_Min f) (kf_Max f) (if kf_Example f \<noteq> '''' then [kf_Example f] else [])"

definition generateSchemaForCapability :: "'f kdlCapability \<Rightarrow> 'f JSONSchema" where
  "generateSchemaForCapability c =
     JSONSchema ''http://json-schema.org/draft-07/schema#'' (kc_Name c) (kc_Description c) ''object''
       (fold (\<lambda>f props. AList.update (kf_Name f) (field_schema f) props) (kc_Fields c) [])
       (map kf_Name (filter kf_Required (kc_Fields c))) False [] None None None []"

text \<open>
  The JSON of a schema: members in the order of the struct's tags, empty ones left out, the members
  of \<open>properties\<close> by key.  Numbers are given by their text.
\<close>

fun default_json :: "'f kdl_ops \<Rightarrow> 'f doc_value \<Rightarrow> json" where
  "default_json k (StringValue s) = JString s"
| "default_json k (IntValue i) = JNumber (show_int i)"
| "default_json k (FloatValue x) = JNumber (ko_Sprint_float k x)"
| "default_json k (BoolValue b) = JBool b"
| "default_json k NullValue = JNull"

definition json_text_member :: "string \<Rightarrow> string \<Rightarrow> (string \<times> json) list" where
  "json_text_member key s = (if s = '''' then [] else [(key, JString s)])"

definition json_texts_member :: "string \<Rightarrow> string list \<Rightarrow> (string \<times> json) list" where
  "json_texts_member key xs = (if xs = [] then [] else [(key, JArray (map JString xs))])"

definition json_option_member :: "string \<Rightarrow> json option \<Rightarrow> (string \<times> json) list" where
  "json_option_member key v = (case v of None \<Rightarrow> [] | Some j \<Rightarrow> [(key, j)])"

fun schema_json :: "'f kdl_ops \<Rightarrow> 'f JSONSchema \<Rightarrow> json" where
  "schema_json k (JSONSchema sch title desc typ props req addl enum deflt mn mx exs) = JObject
     (json_text_member ''$schema'' sch
      @ json_text_member ''title'' title
      @ json_text_member ''description'' desc
      @ json_text_member ''type'' typ
      @ (if props = [] then [] else [(''properties'', JObject (sort_key fst (map (\<lambda>(n, s). (n, schema_json k s)) props)))])
      @ json_texts_member ''required'' req
      @ [(''additionalProperties'', JBool addl)]
      @ json_texts_member ''enum'' enum
      @ json_option_member ''default'' (map_option (default_json k) deflt)
      @ json_option_member ''minimum'' (map_option (JNumber \<circ> ko_Sprint_float k) mn)
      @ json_option_member ''maximum'' (map_option (JNumber \<circ> ko_Sprint_float k) mx)
      @ json_texts_member ''examples'' exs)"

subsection \<open>Struct types\<close>

text \<open>The patterns for one field, and for one element of a list.\<close>

datatype elem_stmt = ElemString | ElemObject | ElemStrings | ElemTodo

datatype codec_stmt = StmtString | StmtVarint | StmtBool | StmtObject | StmtList elem_stmt | StmtTodo

definition marshal_elem :: "string \<Rightarrow> elem_stmt" where
  "marshal_elem innerType =
     (if innerType = ''string'' then ElemString
      else if innerType = ''object'' then ElemObject
      else if innerType = ''list<string>'' then ElemStrings
      else ElemTodo)"

definition marshal_stmt :: "string \<Rightarrow> codec_stmt outcome" where
  "marshal_stmt t =
     (if t = ''string'' then Val StmtString
      else if t = ''int'' \<or> t = ''integer'' then Val StmtVarint
      else if t = ''bool'' \<or> t = ''boolean'' then Val StmtBool
      else if t = ''object'' then Val StmtObject
      else if HasPrefix t ''list<'' then
        (case gen_inner_type t of
           Val innerType \<Rightarrow> Val (StmtList (marshal_elem innerType)) | Err err \<Rightarrow> Err err | Panic m \<Rightarrow> Panic m)
      else Val StmtTodo)"

text \<open>The decoder also names the Go type of a list's elements, in the slice that it makes.\<close>

definition unmarshal_elem :: "string \<Rightarrow> elem_stmt" where
  "unmarshal_elem innerType =
     (if innerType = ''string'' then ElemString
      else if innerType = ''object'' then ElemObject
      else if innerType = ''list<string>'' then ElemStrings
      else ElemTodo)"

definition unmarshal_stmt :: "string \<Rightarrow> codec_stmt outcome" where
  "unmarshal_stmt t =
     (if t = ''string'' then Val StmtString
      else if t = ''int'' \<or> t = ''integer'' then Val StmtVarint
      else if t = ''bool'' \<or> t = ''boolean'' then Val StmtBool
      else if t = ''object'' then Val StmtObject
      else if HasPrefix t ''list<'' then
        (case gen_inner_type t of
           Val innerType \<Rightarrow>
             (case kdlTypeToGoType innerType of
                Val g \<Rightarrow> Val (StmtList (unmarshal_elem innerType)) | Err err \<Rightarrow> Err err | Panic m \<Rightarrow> Panic m)
         | Err err \<Rightarrow> Err err
         | Panic m \<Rightarrow> Panic m)
      else Val StmtTodo)"

text \<open>Fields of results: other types are passed over without a word.\<close>

definition emitMarshalForField :: "string \<Rightarrow> codec_stmt" where
  "emitMarshalForField typ =
     (if typ = ''string'' then StmtString
      else if typ = ''int'' \<or> typ = ''integer'' then StmtVarint
      else if typ = ''bool'' \<or> typ = ''boolean'' then StmtBool
      else StmtTodo)"

definition emitUnmarshalForField :: "string \<Rightarrow> codec_stmt" where
  "emitUnmarshalForField typ =
     (if typ = ''string'' then StmtString
      else if typ = ''int'' \<or> typ = ''integer'' then StmtVarint
      else if typ = ''bool'' \<or> typ = ''boolean'' then StmtBool
      else StmtTodo)"

record struct_field =
  sf_KdlName :: string
  sf_GoName :: string
  sf_GoType :: string
  sf_JsonTag :: string
  sf_Marshal :: codec_stmt
  sf_Unmarshal :: codec_stmt

definition argument_field :: "'f kdlField \<Rightarrow> struct_field outcome" where
  "argument_field f =
     (case (kdlTypeToGoType (kf_Type f), marshal_stmt (kf_Type f), unmarshal_stmt (kf_Type f)) of
        (Val goType, Val ms, Val us) \<Rightarrow>
          Val \<lparr>sf_KdlName = kf_Name f, sf_GoName = snakeToPascal (kf_Name f), sf_GoType = goType,
               sf_JsonTag = (if kf_Required f then kf_Name f else kf_Name f @ '',omitempty''),
               sf_Marshal = ms, sf_Unmarshal = us\<rparr>
      | _ \<Rightarrow> Panic ''slice bounds out of range'')"

definition result_field :: "'f kdlField \<Rightarrow> struct_field outcome" where
  "result_field f =
     (case kdlTypeToGoType (kf_Type f) of
        Val goType \<Rightarrow>
          Val \<lparr>sf_KdlName = kf_Name f, sf_GoName = snakeToPascal (kf_Name f), sf_GoType = goType, sf_JsonTag = kf_Name f,
               sf_Marshal = emitMarshalForField (kf_Type f), sf_Unmarshal = emitUnmarshalForField (kf_Type f)\<rparr>
      | _ \<Rightarrow> Panic ''slice bounds out of range'')"

fun map_outcome :: "('a \<Rightarrow> 'b outcome) \<Rightarrow> 'a list \<Rightarrow> 'b list outcome" where
  "map_outcome f [] = Val []"
| "map_outcome f (x # xs) =
     (case f x of
        Val y \<Rightarrow> (case map_outcome f xs of Val ys \<Rightarrow> Val (y # ys) | Err err \<Rightarrow> Err err | Panic m \<Rightarrow> Panic m)
      | Err err \<Rightarrow> Err err
      | Panic m \<Rightarrow> Panic m)"

definition generatedResultSupported :: "'f kdlCapability \<Rightarrow> bool" where
  "generatedResultSupported c =
     (if kc_Returns c \<in> {''object'', ''list<object>''} then 0 < length (kc_ReturnFields c) else False)"

text \<open>A result is one struct or, otherwise, a list of them.\<close>

record result_type =
  rt_IsList :: bool
  rt_Fields :: "struct_field list"

definition emitResultTypes :: "'f kdlCapability \<Rightarrow> result_type outcome" where
  "emitResultTypes c =
     (case map_outcome result_field (kc_ReturnFields c) of
        Val fs \<Rightarrow> Val \<lparr>rt_IsList = (kc_Returns c \<noteq> ''object''), rt_Fields = fs\<rparr>
      | Err err \<Rightarrow> Err err
      | Panic m \<Rightarrow> Panic m)"

subsection \<open>The generated file\<close>

record 'f generated =
  ge_Package :: string
  ge_Infos :: "(string \<times> GeneratedCapabilityInfo) list"
  ge_Schemas :: "(string \<times> 'f JSONSchema) list"
  ge_Arguments :: "(string \<times> struct_field list) list"
  ge_Results :: "(string \<times> result_type) list"

definition generated_info :: "'f kdlCapability \<Rightarrow> GeneratedCapabilityInfo" where
  "generated_info c =
     \<lparr>gi_Fields = map (\<lambda>f. \<lparr>gf_Name = kf_Name f, gf_Type = kf_Type f, gf_Required = kf_Required f, gf_Enum = kf_Enum f\<rparr>) (kc_Fields c),
      gi_ReturnType = kc_Returns c\<rparr>"

definition generate :: "string \<Rightarrow> 'f kdlCapability list \<Rightarrow> 'f generated outcome" where
  "generate pkgName caps =
     (case (map_outcome (\<lambda>c. map_outcome argument_field (kc_Fields c)) caps,
            map_outcome emitResultTypes (filter generatedResultSupported caps)) of
        (Val args, Val results) \<Rightarrow>
          Val \<lparr>ge_Package = pkgName,
               ge_Infos = map (\<lambda>c. (kc_Name c, generated_info c)) caps,
               ge_Schemas = map (\<lambda>c. (kc_Name c, generateSchemaForCapability c)) caps,
               ge_Arguments = zip (map kc_Name caps) args,
               ge_Results = zip (map kc_Name (filter generatedResultSupported caps)) results\<rparr>
      | _ \<Rightarrow> Panic ''slice bounds out of range'')"

definition vivgen_main ::
  "'f kdl_ops \<Rightarrow> (string \<Rightarrow> go_error + string) \<Rightarrow> (string \<Rightarrow> go_error + 'f doc_node list) \<Rightarrow> string \<Rightarrow> string
   \<Rightarrow> 'f generated outcome"
where
  "vivgen_main k read parse dir pkgName =
     (case loadCapabilities k read parse dir of
        Inl err \<Rightarrow> Err err
      | Inr caps \<Rightarrow> generate pkgName caps)"

subsection \<open>What the file means\<close>

text \<open>A struct's field, with the codec patterns read as in \<open>Schema\<close>.\<close>

definition field_of :: "struct_field \<Rightarrow> field option" where
  "field_of f =
     map_option (\<lambda>t. \<lparr>fd_name = sf_KdlName f, fd_type = t, fd_coded = (sf_Marshal f \<noteq> StmtTodo)\<rparr>)
       (map_of [(''string'', TString), (''int'', TInt), (''bool'', TBool), (''[]string'', TStrings),
                (''[]json.RawMessage'', TRawList), (''[][]string'', TMatrix)] (sf_GoType f))"

definition shape_of :: "result_type \<Rightarrow> shape option" where
  "shape_of r = map_option (if rt_IsList r then Items else Struct) (those (map field_of (rt_Fields r)))"

lemma codecs_agree: "unmarshal_stmt t = Val s \<Longrightarrow> marshal_stmt t = Val s"
  by (auto simp: marshal_stmt_def unmarshal_stmt_def marshal_elem_def unmarshal_elem_def split: if_splits outcome.splits)

lemma argument_field_codecs: "argument_field f = Val sf \<Longrightarrow> sf_Marshal sf = sf_Unmarshal sf"
  using codecs_agree [of "kf_Type f"] by (auto simp: argument_field_def split: outcome.splits)

subsection \<open>Evaluation rules\<close>

text \<open>What the parser must do with plain values.\<close>

definition plain_values :: "'f kdl_ops \<Rightarrow> bool" where
  "plain_values k \<longleftrightarrow> (\<forall>s. ko_ValueString k (StringValue s) = s) \<and> (\<forall>i. ko_ValueString k (IntValue i) = show_int i)"

lemma plain_valuesD:
  "plain_values k \<Longrightarrow> ko_ValueString k (StringValue s) = s"
  "plain_values k \<Longrightarrow> ko_ValueString k (IntValue i) = show_int i"
  by (simp_all add: plain_values_def)

lemma capability_child_simps:
  "capability_child k (DocNode ''category'' vs ps ch) c = c\<lparr>kc_Category := gen_firstArg k (DocNode ''category'' vs ps ch)\<rparr>"
  "capability_child k (DocNode ''description'' vs ps ch) c = c\<lparr>kc_Description := gen_firstArg k (DocNode ''description'' vs ps ch)\<rparr>"
  "capability_child k (DocNode ''risk'' vs ps ch) c = c\<lparr>kc_Risk := gen_firstArg k (DocNode ''risk'' vs ps ch)\<rparr>"
  "capability_child k (DocNode ''reads'' vs ps ch) c = c\<lparr>kc_Reads := kc_Reads c @ [propValue k (DocNode ''reads'' vs ps ch) ''entity'']\<rparr>"
  "capability_child k (DocNode ''writes'' vs ps ch) c = c\<lparr>kc_Writes := kc_Writes c @ [propValue k (DocNode ''writes'' vs ps ch) ''entity'']\<rparr>"
  "capability_child k (DocNode ''field'' vs ps ch) c = c\<lparr>kc_Fields := kc_Fields c @ [argument_node k (DocNode ''field'' vs ps ch)]\<rparr>"
  "capability_child k (DocNode ''returns'' vs ps ch) c =
     c\<lparr>kc_Returns := gen_firstArg k (DocNode ''returns'' vs ps ch), kc_ReturnDesc := propValue k (DocNode ''returns'' vs ps ch) ''description'',
       kc_ReturnFields := kc_ReturnFields c @ map (return_node k) (filter (\<lambda>gc. dn_Name gc = ''field'') ch)\<rparr>"
  by (simp_all add: capability_child_def Let_def)

lemma node_value_simps:
  "propValue k (DocNode n vs ps ch) key = (case map_of ps key of None \<Rightarrow> [] | Some v \<Rightarrow> ko_ValueString k v)"
  "propValueBool (DocNode n vs ps ch) key = (case map_of ps key of Some (BoolValue b) \<Rightarrow> b | _ \<Rightarrow> False)"
  "childValue k (DocNode n vs ps ch) key = (case find (\<lambda>child. dn_Name child = key) ch of None \<Rightarrow> [] | Some child \<Rightarrow> gen_firstArg k child)"
  "gen_firstArg k (DocNode n [] ps ch) = []" "gen_firstArg k (DocNode n (v # vs) ps ch) = ko_ValueString k v"
  by (simp_all add: propValue_def propValueBool_def childValue_def gen_firstArg_def)

lemma kdl_type_simps:
  "kdlTypeToJSONType ''string'' = ''string''" "kdlTypeToJSONType ''int'' = ''integer''" "kdlTypeToJSONType ''bool'' = ''boolean''"
  "kdlTypeToJSONType ''list<string>'' = ''array''" "kdlTypeToJSONType ''list<object>'' = ''array''"
  "kdlTypeToJSONType ''list<list<string>>'' = ''array''"
  by (simp_all add: kdlTypeToJSONType_def HasPrefix_def)

lemma go_type_simps:
  "kdlTypeToGoType ''string'' = Val ''string''" "kdlTypeToGoType ''int'' = Val ''int''" "kdlTypeToGoType ''bool'' = Val ''bool''"
  "kdlTypeToGoType ''object'' = Val ''json.RawMessage''"
  "kdlTypeToGoType ''list<string>'' = Val ''[]string''" "kdlTypeToGoType ''list<object>'' = Val ''[]json.RawMessage''"
  "kdlTypeToGoType ''list<list<string>>'' = Val ''[][]string''"
  by (simp_all add: kdlTypeToGoType.simps HasPrefix_def gen_inner_type_def)

lemma marshal_stmt_simps:
  "marshal_stmt ''string'' = Val StmtString" "marshal_stmt ''int'' = Val StmtVarint" "marshal_stmt ''bool'' = Val StmtBool"
  "marshal_stmt ''list<string>'' = Val (StmtList ElemString)" "marshal_stmt ''list<object>'' = Val (StmtList ElemObject)"
  "marshal_stmt ''list<list<string>>'' = Val (StmtList ElemStrings)"
  by (simp_all add: marshal_stmt_def marshal_elem_def HasPrefix_def gen_inner_type_def)

lemma unmarshal_stmt_simps:
  "unmarshal_stmt ''string'' = Val StmtString" "unmarshal_stmt ''int'' = Val StmtVarint" "unmarshal_stmt ''bool'' = Val StmtBool"
  "unmarshal_stmt ''list<string>'' = Val (StmtList ElemString)" "unmarshal_stmt ''list<object>'' = Val (StmtList ElemObject)"
  "unmarshal_stmt ''list<list<string>>'' = Val (StmtList ElemStrings)"
  by (simp_all add: unmarshal_stmt_def unmarshal_elem_def HasPrefix_def gen_inner_type_def go_type_simps)

lemmas load_simps = capability_of_node_def capability_child_simps argument_node_def return_node_def field_child_def
  node_value_simps field_default_def field_bound_def

lemmas schema_simps = generateSchemaForCapability_def field_schema_def kdl_type_simps json_text_member_def json_texts_member_def
  json_option_member_def

lemmas struct_simps = argument_field_def result_field_def go_type_simps marshal_stmt_simps unmarshal_stmt_simps
  emitMarshalForField_def emitUnmarshalForField_def field_of_def

lemma fold_capability_child_name: "kc_Name (fold (capability_child k) ch c) = kc_Name c"
  by (induction ch arbitrary: c) (simp_all add: capability_child_def Let_def)

lemma capability_name: "kc_Name (capability_of_node k node) = gen_firstArg k node"
  by (simp add: capability_of_node_def fold_capability_child_name)

end
