(* ===== verification/Catalogue.thy ===== *)
theory Catalogue
  imports Vivgen
begin

text \<open>
  The capability definitions (\<open>capabilities/capabilities.kdl\<close>), one document node each, in the order
  of the file.
\<close>

definition Browser_Page_Read_node :: "'f doc_node" where
  "Browser_Page_Read_node = DocNode ''capability'' [StringValue ''Browser_Page_Read''] [] [
    DocNode ''category'' [StringValue ''Browser''] [] [],
    DocNode ''description'' [StringValue ''Fetch the readable text content of a web page, stripped of markup, scripts, and boilerplate''] [] [],
    DocNode ''risk'' [StringValue ''low''] [] [],
    DocNode ''reads'' [] [(''entity'', StringValue ''Link'')] [],
    DocNode ''field'' [StringValue ''url''] [(''type'', StringValue ''string''), (''required'', BoolValue True)] [
      DocNode ''description'' [StringValue ''Fully-qualified URL of the page to fetch''] [] [],
      DocNode ''example'' [StringValue ''https://en.wikipedia.org/wiki/Go_(programming_language)''] [] []],
    DocNode ''field'' [StringValue ''timeout''] [(''type'', StringValue ''int''), (''required'', BoolValue False), (''default'', IntValue 30)] [
      DocNode ''description'' [StringValue ''Maximum seconds to wait for page load before aborting''] [] [],
      DocNode ''min'' [IntValue 1] [] [],
      DocNode ''max'' [IntValue 120] [] []],
    DocNode ''field'' [StringValue ''wait_for''] [(''type'', StringValue ''string''), (''required'', BoolValue False), (''default'', StringValue ''networkidle'')] [
      DocNode ''description'' [StringValue ''Page load event to wait for before extracting content''] [] [],
      DocNode ''enum'' [StringValue ''load'', StringValue ''domcontentloaded'', StringValue ''networkidle''] [] []],
    DocNode ''returns'' [StringValue ''string''] [(''description'', StringValue ''Readable page text in markdown format'')] []]"

definition Browser_Page_Screenshot_node :: "'f doc_node" where
  "Browser_Page_Screenshot_node = DocNode ''capability'' [StringValue ''Browser_Page_Screenshot''] [] [
    DocNode ''category'' [StringValue ''Browser''] [] [],
    DocNode ''description'' [StringValue ''Capture a screenshot of a web page or a specific element''] [] [],
    DocNode ''risk'' [StringValue ''low''] [] [],
    DocNode ''reads'' [] [(''entity'', StringValue ''Link'')] [],
    DocNode ''writes'' [] [(''entity'', StringValue ''ImageFile'')] [],
    DocNode ''field'' [StringValue ''url''] [(''type'', StringValue ''string''), (''required'', BoolValue True)] [
      DocNode ''description'' [StringValue ''Fully-qualified URL to navigate to before capturing''] [] [],
      DocNode ''example'' [StringValue ''https://example.com/dashboard''] [] []],
    DocNode ''field'' [StringValue ''selector''] [(''type'', StringValue ''string''), (''required'', BoolValue False)] [
      DocNode ''description'' [StringValue ''CSS selector of the element to capture; omit for full page''] [] [],
      DocNode ''example'' [StringValue ''#main-chart''] [] []],
    DocNode ''field'' [StringValue ''full_page''] [(''type'', StringValue ''bool''), (''required'', BoolValue False), (''default'', BoolValue False)] [
      DocNode ''description'' [StringValue ''Capture the full scrollable page, not just the visible viewport''] [] []],
    DocNode ''returns'' [StringValue ''bytes''] [(''description'', StringValue ''PNG image data'')] []]"

definition Browser_Page_GetTitle_node :: "'f doc_node" where
  "Browser_Page_GetTitle_node = DocNode ''capability'' [StringValue ''Browser_Page_GetTitle''] [] [
    DocNode ''category'' [StringValue ''Browser''] [] [],
    DocNode ''description'' [StringValue ''Return the page title, meta description, and canonical URL without full content extraction''] [] [],
    DocNode ''risk'' [StringValue ''low''] [] [],
    DocNode ''reads'' [] [(''entity'', StringValue ''Link'')] [],
    DocNode ''field'' [StringValue ''url''] [(''type'', StringValue ''string''), (''required'', BoolValue True)] [
      DocNode ''description'' [StringValue ''Fully-qualified URL to inspect''] [] [],
      DocNode ''example'' [StringValue ''https://example.com''] [] []],
    DocNode ''returns'' [StringValue ''object''] [(''description'', StringValue ''Object with fields: title, description, canonical_url, status_code'')] [
      DocNode ''field'' [StringValue ''title''] [(''type'', StringValue ''string''), (''required'', BoolValue True)] [],
      DocNode ''field'' [StringValue ''description''] [(''type'', StringValue ''string''), (''required'', BoolValue True)] [],
      DocNode ''field'' [StringValue ''canonical_url''] [(''type'', StringValue ''string''), (''required'', BoolValue True)] [],
      DocNode ''field'' [StringValue ''status_code''] [(''type'', StringValue ''int''), (''required'', BoolValue True)] []]]"

definition Browser_Form_Submit_node :: "'f doc_node" where
  "Browser_Form_Submit_node = DocNode ''capability'' [StringValue ''Browser_Form_Submit''] [] [
    DocNode ''category'' [StringValue ''Browser''] [] [],
    DocNode ''description'' [StringValue ''Fill fields in an HTML form and submit it''] [] [],
    DocNode ''risk'' [StringValue ''high''] [] [],
    DocNode ''reads'' [] [(''entity'', StringValue ''Link'')] [],
    DocNode ''field'' [StringValue ''url''] [(''type'', StringValue ''string''), (''required'', BoolValue True)] [
      DocNode ''description'' [StringValue ''URL of the page containing the form''] [] [],
      DocNode ''example'' [StringValue ''https://example.com/login''] [] []],
    DocNode ''field'' [StringValue ''fields''] [(''type'', StringValue ''list<object>''), (''required'', BoolValue True)] [
      DocNode ''description'' [StringValue ''List of {selector, value} pairs to fill before submitting''] [] [],
      DocNode ''example'' [StringValue ''[{\"selector\": \"#email\", \"value\": \"user@example.com\"}]''] [] []],
    DocNode ''field'' [StringValue ''submit_selector''] [(''type'', StringValue ''string''), (''required'', BoolValue False)] [
      DocNode ''description'' [StringValue ''CSS selector of the submit button; omits native form submit if absent''] [] [],
      DocNode ''example'' [StringValue ''button[type=submit]''] [] []],
    DocNode ''returns'' [StringValue ''object''] [(''description'', StringValue ''Object with fields: final_url, status_code, page_text'')] [
      DocNode ''field'' [StringValue ''final_url''] [(''type'', StringValue ''string''), (''required'', BoolValue True)] [],
      DocNode ''field'' [StringValue ''status_code''] [(''type'', StringValue ''int''), (''required'', BoolValue True)] [],
      DocNode ''field'' [StringValue ''page_text''] [(''type'', StringValue ''string''), (''required'', BoolValue True)] []]]"

definition Browser_Link_List_node :: "'f doc_node" where
  "Browser_Link_List_node = DocNode ''capability'' [StringValue ''Browser_Link_List''] [] [
    DocNode ''category'' [StringValue ''Browser''] [] [],
    DocNode ''description'' [StringValue ''Extract all hyperlinks from the current page or a specified URL''] [] [],
    DocNode ''risk'' [StringValue ''low''] [] [],
    DocNode ''reads'' [] [(''entity'', StringValue ''Link'')] [],
    DocNode ''field'' [StringValue ''url''] [(''type'', StringValue ''string''), (''required'', BoolValue True)] [
      DocNode ''description'' [StringValue ''Fully-qualified URL to extract links from''] [] [],
      DocNode ''example'' [StringValue ''https://example.com/blog''] [] []],
    DocNode ''field'' [StringValue ''same_domain_only''] [(''type'', StringValue ''bool''), (''required'', BoolValue False), (''default'', BoolValue True)] [
      DocNode ''description'' [StringValue ''Filter results to links sharing the same domain as the source URL''] [] []],
    DocNode ''returns'' [StringValue ''list<object>''] [(''description'', StringValue ''List of {text, href, rel} objects'')] [
      DocNode ''field'' [StringValue ''text''] [(''type'', StringValue ''string''), (''required'', BoolValue True)] [],
      DocNode ''field'' [StringValue ''href''] [(''type'', StringValue ''string''), (''required'', BoolValue True)] [],
      DocNode ''field'' [StringValue ''rel''] [(''type'', StringValue ''string''), (''required'', BoolValue True)] []]]"

definition Search_Web_Query_node :: "'f doc_node" where
  "Search_Web_Query_node = DocNode ''capability'' [StringValue ''Search_Web_Query''] [] [
    DocNode ''category'' [StringValue ''Search''] [] [],
    DocNode ''description'' [StringValue ''Execute a web search and return ranked result summaries; does not load full pages''] [] [],
    DocNode ''risk'' [StringValue ''low''] [] [],
    DocNode ''reads'' [] [(''entity'', StringValue ''Link'')] [],
    DocNode ''field'' [StringValue ''query''] [(''type'', StringValue ''string''), (''required'', BoolValue True)] [
      DocNode ''description'' [StringValue ''Natural language or keyword search query''] [] [],
      DocNode ''example'' [StringValue ''systemd-nspawn user namespacing security''] [] []],
    DocNode ''field'' [StringValue ''max_results''] [(''type'', StringValue ''int''), (''required'', BoolValue False), (''default'', IntValue 10)] [
      DocNode ''description'' [StringValue ''Maximum number of results to return''] [] [],
      DocNode ''min'' [IntValue 1] [] [],
      DocNode ''max'' [IntValue 50] [] []],
    DocNode ''field'' [StringValue ''date_after''] [(''type'', StringValue ''string''), (''required'', BoolValue False)] [
      DocNode ''description'' [StringValue ''Restrict results to pages published after this date (ISO8601)''] [] [],
      DocNode ''example'' [StringValue ''2025-01-01''] [] []],
    DocNode ''returns'' [StringValue ''list<object>''] [(''description'', StringValue ''List of {title, url, snippet, published_date} objects'')] [
      DocNode ''field'' [StringValue ''title''] [(''type'', StringValue ''string''), (''required'', BoolValue True)] [],
      DocNode ''field'' [StringValue ''url''] [(''type'', StringValue ''string''), (''required'', BoolValue True)] [],
      DocNode ''field'' [StringValue ''snippet''] [(''type'', StringValue ''string''), (''required'', BoolValue True)] [],
      DocNode ''field'' [StringValue ''published_date''] [(''type'', StringValue ''string''), (''required'', BoolValue True)] []]]"

definition Search_Corpus_Query_node :: "'f doc_node" where
  "Search_Corpus_Query_node = DocNode ''capability'' [StringValue ''Search_Corpus_Query''] [] [
    DocNode ''category'' [StringValue ''Search''] [] [],
    DocNode ''description'' [StringValue ''Semantic similarity search over an indexed document corpus''] [] [],
    DocNode ''risk'' [StringValue ''low''] [] [],
    DocNode ''reads'' [] [(''entity'', StringValue ''Document'')] [],
    DocNode ''field'' [StringValue ''query''] [(''type'', StringValue ''string''), (''required'', BoolValue True)] [
      DocNode ''description'' [StringValue ''Natural language query to search for semantically similar content''] [] [],
      DocNode ''example'' [StringValue ''agent credential isolation patterns''] [] []],
    DocNode ''field'' [StringValue ''corpus_id''] [(''type'', StringValue ''string''), (''required'', BoolValue True)] [
      DocNode ''description'' [StringValue ''Identifier of the indexed corpus to search''] [] [],
      DocNode ''example'' [StringValue ''internal-docs-2025''] [] []],
    DocNode ''field'' [StringValue ''max_results''] [(''type'', StringValue ''int''), (''required'', BoolValue False), (''default'', IntValue 5)] [
      DocNode ''description'' [StringValue ''Maximum number of results to return''] [] [],
      DocNode ''min'' [IntValue 1] [] [],
      DocNode ''max'' [IntValue 20] [] []],
    DocNode ''returns'' [StringValue ''list<object>''] [(''description'', StringValue ''List of {content, source, score} objects'')] [
      DocNode ''field'' [StringValue ''content''] [(''type'', StringValue ''string''), (''required'', BoolValue True)] [],
      DocNode ''field'' [StringValue ''source''] [(''type'', StringValue ''string''), (''required'', BoolValue True)] [],
      DocNode ''field'' [StringValue ''score''] [(''type'', StringValue ''int''), (''required'', BoolValue True)] []]]"

definition Filesystem_File_Read_node :: "'f doc_node" where
  "Filesystem_File_Read_node = DocNode ''capability'' [StringValue ''Filesystem_File_Read''] [] [
    DocNode ''category'' [StringValue ''Filesystem''] [] [],
    DocNode ''description'' [StringValue ''Read the contents of a file in the agent workspace''] [] [],
    DocNode ''risk'' [StringValue ''low''] [] [],
    DocNode ''reads'' [] [(''entity'', StringValue ''File'')] [],
    DocNode ''field'' [StringValue ''path''] [(''type'', StringValue ''string''), (''required'', BoolValue True)] [
      DocNode ''description'' [StringValue ''Workspace-relative path to the file''] [] [],
      DocNode ''example'' [StringValue ''output/report.md''] [] []],
    DocNode ''field'' [StringValue ''encoding''] [(''type'', StringValue ''string''), (''required'', BoolValue False), (''default'', StringValue ''utf-8'')] [
      DocNode ''description'' [StringValue (''Text encoding; use '' @ [CHR 0x27] @ ''base64'' @ [CHR 0x27] @ '' for binary files'')] [] [],
      DocNode ''enum'' [StringValue ''utf-8'', StringValue ''base64''] [] []],
    DocNode ''returns'' [StringValue ''string''] [(''description'', StringValue ''File contents'')] []]"

definition Filesystem_File_Write_node :: "'f doc_node" where
  "Filesystem_File_Write_node = DocNode ''capability'' [StringValue ''Filesystem_File_Write''] [] [
    DocNode ''category'' [StringValue ''Filesystem''] [] [],
    DocNode ''description'' [StringValue ''Write or overwrite a file in the agent workspace''] [] [],
    DocNode ''risk'' [StringValue ''medium''] [] [],
    DocNode ''writes'' [] [(''entity'', StringValue ''File'')] [],
    DocNode ''field'' [StringValue ''path''] [(''type'', StringValue ''string''), (''required'', BoolValue True)] [
      DocNode ''description'' [StringValue ''Workspace-relative path; intermediate directories are created if absent''] [] [],
      DocNode ''example'' [StringValue ''output/report.md''] [] []],
    DocNode ''field'' [StringValue ''content''] [(''type'', StringValue ''string''), (''required'', BoolValue True)] [
      DocNode ''description'' [StringValue ''Content to write; use base64 encoding for binary data''] [] []],
    DocNode ''field'' [StringValue ''append''] [(''type'', StringValue ''bool''), (''required'', BoolValue False), (''default'', BoolValue False)] [
      DocNode ''description'' [StringValue ''If true, append to the file instead of overwriting''] [] []],
    DocNode ''field'' [StringValue ''encoding''] [(''type'', StringValue ''string''), (''required'', BoolValue False), (''default'', StringValue ''utf-8'')] [
      DocNode ''enum'' [StringValue ''utf-8'', StringValue ''base64''] [] []],
    DocNode ''returns'' [StringValue ''object''] [(''description'', StringValue ''Object with fields: path, bytes_written'')] [
      DocNode ''field'' [StringValue ''path''] [(''type'', StringValue ''string''), (''required'', BoolValue True)] [],
      DocNode ''field'' [StringValue ''bytes_written''] [(''type'', StringValue ''int''), (''required'', BoolValue True)] []]]"

definition Filesystem_File_Delete_node :: "'f doc_node" where
  "Filesystem_File_Delete_node = DocNode ''capability'' [StringValue ''Filesystem_File_Delete''] [] [
    DocNode ''category'' [StringValue ''Filesystem''] [] [],
    DocNode ''description'' [StringValue ''Delete a file from the agent workspace''] [] [],
    DocNode ''risk'' [StringValue ''medium''] [] [],
    DocNode ''writes'' [] [(''entity'', StringValue ''File'')] [],
    DocNode ''field'' [StringValue ''path''] [(''type'', StringValue ''string''), (''required'', BoolValue True)] [
      DocNode ''description'' [StringValue ''Workspace-relative path of the file to delete''] [] [],
      DocNode ''example'' [StringValue ''tmp/scratch.txt''] [] []],
    DocNode ''returns'' [StringValue ''bool''] [(''description'', StringValue ''true if the file was deleted'')] []]"

definition Filesystem_File_Move_node :: "'f doc_node" where
  "Filesystem_File_Move_node = DocNode ''capability'' [StringValue ''Filesystem_File_Move''] [] [
    DocNode ''category'' [StringValue ''Filesystem''] [] [],
    DocNode ''description'' [StringValue ''Move or rename a file within the agent workspace''] [] [],
    DocNode ''risk'' [StringValue ''medium''] [] [],
    DocNode ''writes'' [] [(''entity'', StringValue ''File'')] [],
    DocNode ''field'' [StringValue ''src''] [(''type'', StringValue ''string''), (''required'', BoolValue True)] [
      DocNode ''description'' [StringValue ''Workspace-relative source path''] [] [],
      DocNode ''example'' [StringValue ''draft/report.md''] [] []],
    DocNode ''field'' [StringValue ''dst''] [(''type'', StringValue ''string''), (''required'', BoolValue True)] [
      DocNode ''description'' [StringValue ''Workspace-relative destination path''] [] [],
      DocNode ''example'' [StringValue ''output/report.md''] [] []],
    DocNode ''returns'' [StringValue ''bool''] [(''description'', StringValue ''true if the move succeeded'')] []]"

definition Filesystem_Dir_List_node :: "'f doc_node" where
  "Filesystem_Dir_List_node = DocNode ''capability'' [StringValue ''Filesystem_Dir_List''] [] [
    DocNode ''category'' [StringValue ''Filesystem''] [] [],
    DocNode ''description'' [StringValue ''List the contents of a directory in the agent workspace''] [] [],
    DocNode ''risk'' [StringValue ''low''] [] [],
    DocNode ''reads'' [] [(''entity'', StringValue ''Folder'')] [],
    DocNode ''field'' [StringValue ''path''] [(''type'', StringValue ''string''), (''required'', BoolValue False), (''default'', StringValue ''.'')] [
      DocNode ''description'' [StringValue ''Workspace-relative directory path to list''] [] [],
      DocNode ''example'' [StringValue ''output''] [] []],
    DocNode ''field'' [StringValue ''recursive''] [(''type'', StringValue ''bool''), (''required'', BoolValue False), (''default'', BoolValue False)] [
      DocNode ''description'' [StringValue ''Recurse into subdirectories''] [] []],
    DocNode ''returns'' [StringValue ''list<object>''] [(''description'', StringValue ''List of {name, type, size_bytes, modified_at} objects'')] [
      DocNode ''field'' [StringValue ''name''] [(''type'', StringValue ''string''), (''required'', BoolValue True)] [],
      DocNode ''field'' [StringValue ''type''] [(''type'', StringValue ''string''), (''required'', BoolValue True)] [],
      DocNode ''field'' [StringValue ''size_bytes''] [(''type'', StringValue ''int''), (''required'', BoolValue True)] [],
      DocNode ''field'' [StringValue ''modified_at''] [(''type'', StringValue ''string''), (''required'', BoolValue True)] []]]"

definition Filesystem_Dir_Create_node :: "'f doc_node" where
  "Filesystem_Dir_Create_node = DocNode ''capability'' [StringValue ''Filesystem_Dir_Create''] [] [
    DocNode ''category'' [StringValue ''Filesystem''] [] [],
    DocNode ''description'' [StringValue ''Create a directory (and any missing parents) in the agent workspace''] [] [],
    DocNode ''risk'' [StringValue ''low''] [] [],
    DocNode ''writes'' [] [(''entity'', StringValue ''Folder'')] [],
    DocNode ''field'' [StringValue ''path''] [(''type'', StringValue ''string''), (''required'', BoolValue True)] [
      DocNode ''description'' [StringValue ''Workspace-relative directory path to create''] [] [],
      DocNode ''example'' [StringValue ''output/charts''] [] []],
    DocNode ''returns'' [StringValue ''bool''] [(''description'', StringValue ''true if the directory was created or already existed'')] []]"

definition Code_Script_Exec_node :: "'f doc_node" where
  "Code_Script_Exec_node = DocNode ''capability'' [StringValue ''Code_Script_Exec''] [] [
    DocNode ''category'' [StringValue ''Execution''] [] [],
    DocNode ''description'' [StringValue ''Execute a script or shell command inside the agent jail and return its output''] [] [],
    DocNode ''risk'' [StringValue ''high''] [] [],
    DocNode ''writes'' [] [(''entity'', StringValue ''Process'')] [],
    DocNode ''field'' [StringValue ''interpreter''] [(''type'', StringValue ''string''), (''required'', BoolValue True)] [
      DocNode ''description'' [StringValue ''The interpreter to use''] [] [],
      DocNode ''enum'' [StringValue ''bash'', StringValue ''python3'', StringValue ''node'', StringValue ''ruby''] [] []],
    DocNode ''field'' [StringValue ''script''] [(''type'', StringValue ''string''), (''required'', BoolValue True)] [
      DocNode ''description'' [StringValue ''The script body to execute''] [] [],
      DocNode ''example'' [StringValue ''echo hello && ls -la''] [] []],
    DocNode ''field'' [StringValue ''timeout''] [(''type'', StringValue ''int''), (''required'', BoolValue False), (''default'', IntValue 30)] [
      DocNode ''description'' [StringValue ''Maximum execution time in seconds''] [] [],
      DocNode ''min'' [IntValue 1] [] [],
      DocNode ''max'' [IntValue 300] [] []],
    DocNode ''returns'' [StringValue ''object''] [(''description'', StringValue ''Object with fields: stdout, stderr, exit_code, duration_ms'')] [
      DocNode ''field'' [StringValue ''stdout''] [(''type'', StringValue ''string''), (''required'', BoolValue True)] [],
      DocNode ''field'' [StringValue ''stderr''] [(''type'', StringValue ''string''), (''required'', BoolValue True)] [],
      DocNode ''field'' [StringValue ''exit_code''] [(''type'', StringValue ''int''), (''required'', BoolValue True)] [],
      DocNode ''field'' [StringValue ''duration_ms''] [(''type'', StringValue ''string''), (''required'', BoolValue True)] []]]"

definition Code_Test_Run_node :: "'f doc_node" where
  "Code_Test_Run_node = DocNode ''capability'' [StringValue ''Code_Test_Run''] [] [
    DocNode ''category'' [StringValue ''Execution''] [] [],
    DocNode ''description'' [StringValue (''Run a project'' @ [CHR 0x27] @ ''s test suite and return results'')] [] [],
    DocNode ''risk'' [StringValue ''high''] [] [],
    DocNode ''reads'' [] [(''entity'', StringValue ''File'')] [],
    DocNode ''writes'' [] [(''entity'', StringValue ''Process'')] [],
    DocNode ''field'' [StringValue ''framework''] [(''type'', StringValue ''string''), (''required'', BoolValue True)] [
      DocNode ''description'' [StringValue ''Test framework to invoke''] [] [],
      DocNode ''enum'' [StringValue ''go-test'', StringValue ''pytest'', StringValue ''jest'', StringValue ''rspec'', StringValue ''cargo-test''] [] []],
    DocNode ''field'' [StringValue ''path''] [(''type'', StringValue ''string''), (''required'', BoolValue False), (''default'', StringValue ''.'')] [
      DocNode ''description'' [StringValue ''Workspace-relative path to run tests from''] [] []],
    DocNode ''field'' [StringValue ''filter''] [(''type'', StringValue ''string''), (''required'', BoolValue False)] [
      DocNode ''description'' [StringValue ''Pattern to filter which tests run''] [] [],
      DocNode ''example'' [StringValue ''TestSwitchboard''] [] []],
    DocNode ''returns'' [StringValue ''object''] [(''description'', StringValue ''Object with fields: passed, failed, skipped, output'')] [
      DocNode ''field'' [StringValue ''passed''] [(''type'', StringValue ''int''), (''required'', BoolValue True)] [],
      DocNode ''field'' [StringValue ''failed''] [(''type'', StringValue ''int''), (''required'', BoolValue True)] [],
      DocNode ''field'' [StringValue ''skipped''] [(''type'', StringValue ''int''), (''required'', BoolValue True)] [],
      DocNode ''field'' [StringValue ''output''] [(''type'', StringValue ''string''), (''required'', BoolValue True)] []]]"

definition Code_Lint_Run_node :: "'f doc_node" where
  "Code_Lint_Run_node = DocNode ''capability'' [StringValue ''Code_Lint_Run''] [] [
    DocNode ''category'' [StringValue ''Execution''] [] [],
    DocNode ''description'' [StringValue ''Run a linter and return findings''] [] [],
    DocNode ''risk'' [StringValue ''low''] [] [],
    DocNode ''reads'' [] [(''entity'', StringValue ''File'')] [],
    DocNode ''field'' [StringValue ''linter''] [(''type'', StringValue ''string''), (''required'', BoolValue True)] [
      DocNode ''description'' [StringValue ''Linter to invoke''] [] [],
      DocNode ''enum'' [StringValue ''golangci-lint'', StringValue ''ruff'', StringValue ''eslint'', StringValue ''rubocop'', StringValue ''clippy''] [] []],
    DocNode ''field'' [StringValue ''path''] [(''type'', StringValue ''string''), (''required'', BoolValue False), (''default'', StringValue ''.'')] [
      DocNode ''description'' [StringValue ''Workspace-relative path to lint''] [] []],
    DocNode ''returns'' [StringValue ''list<object>''] [(''description'', StringValue ''List of {file, line, severity, message, rule} objects'')] [
      DocNode ''field'' [StringValue ''file''] [(''type'', StringValue ''string''), (''required'', BoolValue True)] [],
      DocNode ''field'' [StringValue ''line''] [(''type'', StringValue ''string''), (''required'', BoolValue True)] [],
      DocNode ''field'' [StringValue ''severity''] [(''type'', StringValue ''string''), (''required'', BoolValue True)] [],
      DocNode ''field'' [StringValue ''message''] [(''type'', StringValue ''string''), (''required'', BoolValue True)] [],
      DocNode ''field'' [StringValue ''rule''] [(''type'', StringValue ''string''), (''required'', BoolValue True)] []]]"

definition Email_Message_List_node :: "'f doc_node" where
  "Email_Message_List_node = DocNode ''capability'' [StringValue ''Email_Message_List''] [] [
    DocNode ''category'' [StringValue ''Email''] [] [],
    DocNode ''description'' [StringValue ''List email messages matching a filter; returns metadata only, not bodies''] [] [],
    DocNode ''risk'' [StringValue ''low''] [] [],
    DocNode ''reads'' [] [(''entity'', StringValue ''EmailMessage'')] [],
    DocNode ''field'' [StringValue ''folder''] [(''type'', StringValue ''string''), (''required'', BoolValue False), (''default'', StringValue ''inbox'')] [
      DocNode ''description'' [StringValue ''Folder to list messages from''] [] [],
      DocNode ''example'' [StringValue ''inbox''] [] []],
    DocNode ''field'' [StringValue ''unread_only''] [(''type'', StringValue ''bool''), (''required'', BoolValue False), (''default'', BoolValue False)] [
      DocNode ''description'' [StringValue ''Return only unread messages''] [] []],
    DocNode ''field'' [StringValue ''max_results''] [(''type'', StringValue ''int''), (''required'', BoolValue False), (''default'', IntValue 20)] [
      DocNode ''description'' [StringValue ''Maximum messages to return''] [] [],
      DocNode ''min'' [IntValue 1] [] [],
      DocNode ''max'' [IntValue 100] [] []],
    DocNode ''field'' [StringValue ''query''] [(''type'', StringValue ''string''), (''required'', BoolValue False)] [
      DocNode ''description'' [StringValue ''Provider search query to filter results''] [] [],
      DocNode ''example'' [StringValue ''from:boss@example.com subject:urgent''] [] []],
    DocNode ''returns'' [StringValue ''list<object>''] [(''description'', StringValue ''List of {id, from, subject, date, unread, has_attachments} objects'')] [
      DocNode ''field'' [StringValue ''id''] [(''type'', StringValue ''string''), (''required'', BoolValue True)] [],
      DocNode ''field'' [StringValue ''from''] [(''type'', StringValue ''string''), (''required'', BoolValue True)] [],
      DocNode ''field'' [StringValue ''subject''] [(''type'', StringValue ''string''), (''required'', BoolValue True)] [],
      DocNode ''field'' [StringValue ''date''] [(''type'', StringValue ''string''), (''required'', BoolValue True)] [],
      DocNode ''field'' [StringValue ''unread''] [(''type'', StringValue ''bool''), (''required'', BoolValue True)] [],
      DocNode ''field'' [StringValue ''has_attachments''] [(''type'', StringValue ''bool''), (''required'', BoolValue True)] []]]"

definition Email_Message_Read_node :: "'f doc_node" where
  "Email_Message_Read_node = DocNode ''capability'' [StringValue ''Email_Message_Read''] [] [
    DocNode ''category'' [StringValue ''Email''] [] [],
    DocNode ''description'' [StringValue ''Read the body and headers of a specific email message''] [] [],
    DocNode ''risk'' [StringValue ''low''] [] [],
    DocNode ''reads'' [] [(''entity'', StringValue ''EmailMessage'')] [],
    DocNode ''field'' [StringValue ''message_id''] [(''type'', StringValue ''string''), (''required'', BoolValue True)] [
      DocNode ''description'' [StringValue ''Provider message ID from Mail_Message_List''] [] []],
    DocNode ''field'' [StringValue ''strip_tracking''] [(''type'', StringValue ''bool''), (''required'', BoolValue False), (''default'', BoolValue True)] [
      DocNode ''description'' [StringValue ''Remove tracking pixels and link redirects from the body''] [] []],
    DocNode ''returns'' [StringValue ''object''] [(''description'', StringValue ''Object with fields: from, to, cc, subject, date, body_markdown, attachments'')] [
      DocNode ''field'' [StringValue ''from''] [(''type'', StringValue ''string''), (''required'', BoolValue True)] [],
      DocNode ''field'' [StringValue ''to''] [(''type'', StringValue ''string''), (''required'', BoolValue True)] [],
      DocNode ''field'' [StringValue ''cc''] [(''type'', StringValue ''string''), (''required'', BoolValue True)] [],
      DocNode ''field'' [StringValue ''subject''] [(''type'', StringValue ''string''), (''required'', BoolValue True)] [],
      DocNode ''field'' [StringValue ''date''] [(''type'', StringValue ''string''), (''required'', BoolValue True)] [],
      DocNode ''field'' [StringValue ''body_markdown''] [(''type'', StringValue ''string''), (''required'', BoolValue True)] [],
      DocNode ''field'' [StringValue ''attachments''] [(''type'', StringValue ''string''), (''required'', BoolValue True)] []]]"

definition Email_Message_Create_node :: "'f doc_node" where
  "Email_Message_Create_node = DocNode ''capability'' [StringValue ''Email_Message_Create''] [] [
    DocNode ''category'' [StringValue ''Email''] [] [],
    DocNode ''description'' [StringValue ''Create an email draft without sending it''] [] [],
    DocNode ''risk'' [StringValue ''medium''] [] [],
    DocNode ''writes'' [] [(''entity'', StringValue ''EmailDraft'')] [],
    DocNode ''field'' [StringValue ''to''] [(''type'', StringValue ''list<string>''), (''required'', BoolValue True)] [
      DocNode ''description'' [StringValue ''Recipient email addresses''] [] [],
      DocNode ''example'' [StringValue ''[\"colleague@example.com\"]''] [] []],
    DocNode ''field'' [StringValue ''subject''] [(''type'', StringValue ''string''), (''required'', BoolValue True)] [
      DocNode ''description'' [StringValue ''Email subject line''] [] []],
    DocNode ''field'' [StringValue ''body''] [(''type'', StringValue ''string''), (''required'', BoolValue True)] [
      DocNode ''description'' [StringValue ''Email body in plain text or markdown''] [] []],
    DocNode ''field'' [StringValue ''cc''] [(''type'', StringValue ''list<string>''), (''required'', BoolValue False)] [
      DocNode ''description'' [StringValue ''CC recipient addresses''] [] []],
    DocNode ''returns'' [StringValue ''object''] [(''description'', StringValue ''Object with fields: draft_id, created_at'')] [
      DocNode ''field'' [StringValue ''draft_id''] [(''type'', StringValue ''string''), (''required'', BoolValue True)] [],
      DocNode ''field'' [StringValue ''created_at''] [(''type'', StringValue ''string''), (''required'', BoolValue True)] []]]"

definition Email_Message_Send_node :: "'f doc_node" where
  "Email_Message_Send_node = DocNode ''capability'' [StringValue ''Email_Message_Send''] [] [
    DocNode ''category'' [StringValue ''Email''] [] [],
    DocNode ''description'' [StringValue ''Send an existing draft message''] [] [],
    DocNode ''risk'' [StringValue ''critical''] [] [],
    DocNode ''reads'' [] [(''entity'', StringValue ''EmailDraft'')] [],
    DocNode ''writes'' [] [(''entity'', StringValue ''EmailMessage'')] [],
    DocNode ''field'' [StringValue ''draft_id''] [(''type'', StringValue ''string''), (''required'', BoolValue True)] [
      DocNode ''description'' [StringValue ''Draft ID from Mail_Message_Create''] [] []],
    DocNode ''returns'' [StringValue ''object''] [(''description'', StringValue ''Object with fields: message_id, sent_at'')] [
      DocNode ''field'' [StringValue ''message_id''] [(''type'', StringValue ''string''), (''required'', BoolValue True)] [],
      DocNode ''field'' [StringValue ''sent_at''] [(''type'', StringValue ''string''), (''required'', BoolValue True)] []]]"

definition Calendar_Event_List_node :: "'f doc_node" where
  "Calendar_Event_List_node = DocNode ''capability'' [StringValue ''Calendar_Event_List''] [] [
    DocNode ''category'' [StringValue ''Calendar''] [] [],
    DocNode ''description'' [StringValue ''List calendar events within a time range''] [] [],
    DocNode ''risk'' [StringValue ''low''] [] [],
    DocNode ''reads'' [] [(''entity'', StringValue ''CalendarEvent'')] [],
    DocNode ''field'' [StringValue ''start''] [(''type'', StringValue ''string''), (''required'', BoolValue True)] [
      DocNode ''description'' [StringValue ''Range start datetime in ISO8601 format''] [] [],
      DocNode ''example'' [StringValue ''2026-03-20T09:00:00Z''] [] []],
    DocNode ''field'' [StringValue ''end''] [(''type'', StringValue ''string''), (''required'', BoolValue True)] [
      DocNode ''description'' [StringValue ''Range end datetime in ISO8601 format''] [] [],
      DocNode ''example'' [StringValue ''2026-03-27T17:00:00Z''] [] []],
    DocNode ''field'' [StringValue ''calendar_id''] [(''type'', StringValue ''string''), (''required'', BoolValue False), (''default'', StringValue ''primary'')] [
      DocNode ''description'' [StringValue ''Calendar identifier; defaults to the primary calendar''] [] []],
    DocNode ''returns'' [StringValue ''list<object>''] [(''description'', StringValue ''List of {id, title, start, end, location, attendees, organizer} objects'')] [
      DocNode ''field'' [StringValue ''id''] [(''type'', StringValue ''string''), (''required'', BoolValue True)] [],
      DocNode ''field'' [StringValue ''title''] [(''type'', StringValue ''string''), (''required'', BoolValue True)] [],
      DocNode ''field'' [StringValue ''start''] [(''type'', StringValue ''string''), (''required'', BoolValue True)] [],
      DocNode ''field'' [StringValue ''end''] [(''type'', StringValue ''string''), (''required'', BoolValue True)] [],
      DocNode ''field'' [StringValue ''location''] [(''type'', StringValue ''string''), (''required'', BoolValue True)] [],
      DocNode ''field'' [StringValue ''attendees''] [(''type'', StringValue ''list<string>''), (''required'', BoolValue True)] [],
      DocNode ''field'' [StringValue ''organizer''] [(''type'', StringValue ''string''), (''required'', BoolValue True)] []]]"

definition Calendar_Event_Read_node :: "'f doc_node" where
  "Calendar_Event_Read_node = DocNode ''capability'' [StringValue ''Calendar_Event_Read''] [] [
    DocNode ''category'' [StringValue ''Calendar''] [] [],
    DocNode ''description'' [StringValue ''Read full details of a single calendar event''] [] [],
    DocNode ''risk'' [StringValue ''low''] [] [],
    DocNode ''reads'' [] [(''entity'', StringValue ''CalendarEvent'')] [],
    DocNode ''field'' [StringValue ''event_id''] [(''type'', StringValue ''string''), (''required'', BoolValue True)] [
      DocNode ''description'' [StringValue ''Event ID from Calendar_Event_List''] [] []],
    DocNode ''returns'' [StringValue ''object''] [(''description'', StringValue ''Object with fields: id, title, start, end, location, description, attendees, status'')] [
      DocNode ''field'' [StringValue ''id''] [(''type'', StringValue ''string''), (''required'', BoolValue True)] [],
      DocNode ''field'' [StringValue ''title''] [(''type'', StringValue ''string''), (''required'', BoolValue True)] [],
      DocNode ''field'' [StringValue ''start''] [(''type'', StringValue ''string''), (''required'', BoolValue True)] [],
      DocNode ''field'' [StringValue ''end''] [(''type'', StringValue ''string''), (''required'', BoolValue True)] [],
      DocNode ''field'' [StringValue ''location''] [(''type'', StringValue ''string''), (''required'', BoolValue True)] [],
      DocNode ''field'' [StringValue ''description''] [(''type'', StringValue ''string''), (''required'', BoolValue True)] [],
      DocNode ''field'' [StringValue ''attendees''] [(''type'', StringValue ''list<string>''), (''required'', BoolValue True)] [],
      DocNode ''field'' [StringValue ''status''] [(''type'', StringValue ''string''), (''required'', BoolValue True)] []]]"

definition Calendar_Event_Create_node :: "'f doc_node" where
  "Calendar_Event_Create_node = DocNode ''capability'' [StringValue ''Calendar_Event_Create''] [] [
    DocNode ''category'' [StringValue ''Calendar''] [] [],
    DocNode ''description'' [StringValue ''Create a new calendar event''] [] [],
    DocNode ''risk'' [StringValue ''high''] [] [],
    DocNode ''writes'' [] [(''entity'', StringValue ''CalendarEvent'')] [],
    DocNode ''field'' [StringValue ''title''] [(''type'', StringValue ''string''), (''required'', BoolValue True)] [
      DocNode ''description'' [StringValue ''Event title''] [] [],
      DocNode ''example'' [StringValue ''Sprint planning''] [] []],
    DocNode ''field'' [StringValue ''start''] [(''type'', StringValue ''string''), (''required'', BoolValue True)] [
      DocNode ''description'' [StringValue ''Start datetime in ISO8601 format with timezone''] [] [],
      DocNode ''example'' [StringValue ''2026-03-25T10:00:00+01:00''] [] []],
    DocNode ''field'' [StringValue ''end''] [(''type'', StringValue ''string''), (''required'', BoolValue True)] [
      DocNode ''description'' [StringValue ''End datetime in ISO8601 format with timezone''] [] [],
      DocNode ''example'' [StringValue ''2026-03-25T11:00:00+01:00''] [] []],
    DocNode ''field'' [StringValue ''attendees''] [(''type'', StringValue ''list<string>''), (''required'', BoolValue False)] [
      DocNode ''description'' [StringValue ''Email addresses of attendees to invite''] [] []],
    DocNode ''field'' [StringValue ''location''] [(''type'', StringValue ''string''), (''required'', BoolValue False)] [
      DocNode ''description'' [StringValue ''Location or video call link''] [] []],
    DocNode ''field'' [StringValue ''description''] [(''type'', StringValue ''string''), (''required'', BoolValue False)] [
      DocNode ''description'' [StringValue ''Event body / agenda''] [] []],
    DocNode ''returns'' [StringValue ''object''] [(''description'', StringValue ''Object with fields: event_id, html_link'')] [
      DocNode ''field'' [StringValue ''event_id''] [(''type'', StringValue ''string''), (''required'', BoolValue True)] [],
      DocNode ''field'' [StringValue ''html_link''] [(''type'', StringValue ''string''), (''required'', BoolValue True)] []]]"

definition Calendar_Slot_Find_node :: "'f doc_node" where
  "Calendar_Slot_Find_node = DocNode ''capability'' [StringValue ''Calendar_Slot_Find''] [] [
    DocNode ''category'' [StringValue ''Calendar''] [] [],
    DocNode ''description'' [StringValue (''Find free time slots across one or more attendees'' @ [CHR 0x27] @ '' calendars'')] [] [],
    DocNode ''risk'' [StringValue ''low''] [] [],
    DocNode ''reads'' [] [(''entity'', StringValue ''CalendarEvent'')] [],
    DocNode ''field'' [StringValue ''attendees''] [(''type'', StringValue ''list<string>''), (''required'', BoolValue True)] [
      DocNode ''description'' [StringValue ''Email addresses to check availability for''] [] []],
    DocNode ''field'' [StringValue ''duration_minutes''] [(''type'', StringValue ''int''), (''required'', BoolValue True)] [
      DocNode ''description'' [StringValue ''Required meeting duration in minutes''] [] [],
      DocNode ''example'' [IntValue 60] [] []],
    DocNode ''field'' [StringValue ''window_start''] [(''type'', StringValue ''string''), (''required'', BoolValue True)] [
      DocNode ''description'' [StringValue ''Start of the search window in ISO8601''] [] [],
      DocNode ''example'' [StringValue ''2026-03-24T00:00:00Z''] [] []],
    DocNode ''field'' [StringValue ''window_end''] [(''type'', StringValue ''string''), (''required'', BoolValue True)] [
      DocNode ''description'' [StringValue ''End of the search window in ISO8601''] [] [],
      DocNode ''example'' [StringValue ''2026-03-28T00:00:00Z''] [] []],
    DocNode ''field'' [StringValue ''working_hours_only''] [(''type'', StringValue ''bool''), (''required'', BoolValue False), (''default'', BoolValue True)] [
      DocNode ''description'' [StringValue (''Restrict results to 09:00'' @ [CHR 0xE2] @ [CHR 0x80] @ [CHR 0x93] @ ''18:00 local time of the organiser'')] [] []],
    DocNode ''returns'' [StringValue ''list<object>''] [(''description'', StringValue ''List of {start, end} free slot objects, sorted by start time'')] [
      DocNode ''field'' [StringValue ''start''] [(''type'', StringValue ''string''), (''required'', BoolValue True)] [],
      DocNode ''field'' [StringValue ''end''] [(''type'', StringValue ''string''), (''required'', BoolValue True)] []]]"

definition Spreadsheet_Range_Read_node :: "'f doc_node" where
  "Spreadsheet_Range_Read_node = DocNode ''capability'' [StringValue ''Spreadsheet_Range_Read''] [] [
    DocNode ''category'' [StringValue ''Spreadsheet''] [] [],
    DocNode ''description'' [StringValue ''Read a cell range from a spreadsheet; returns raw values only, no formatting''] [] [],
    DocNode ''risk'' [StringValue ''low''] [] [],
    DocNode ''reads'' [] [(''entity'', StringValue ''SpreadsheetRange'')] [],
    DocNode ''field'' [StringValue ''spreadsheet_id''] [(''type'', StringValue ''string''), (''required'', BoolValue True)] [
      DocNode ''description'' [StringValue ''Provider spreadsheet identifier''] [] [],
      DocNode ''example'' [StringValue ''1BxiMVs0XRA5nFMdKvBdBZjgmUUqptlbs74OgVE2upms''] [] []],
    DocNode ''field'' [StringValue ''range''] [(''type'', StringValue ''string''), (''required'', BoolValue True)] [
      DocNode ''description'' [StringValue ''A1 notation range to read''] [] [],
      DocNode ''example'' [StringValue ''Sheet1!A1:D20''] [] []],
    DocNode ''returns'' [StringValue ''list<list<string>>''] [(''description'', StringValue ''2D array of cell values as strings'')] []]"

definition Spreadsheet_Range_Update_node :: "'f doc_node" where
  "Spreadsheet_Range_Update_node = DocNode ''capability'' [StringValue ''Spreadsheet_Range_Update''] [] [
    DocNode ''category'' [StringValue ''Spreadsheet''] [] [],
    DocNode ''description'' [StringValue ''Write values to a cell range in a spreadsheet''] [] [],
    DocNode ''risk'' [StringValue ''high''] [] [],
    DocNode ''writes'' [] [(''entity'', StringValue ''SpreadsheetRange'')] [],
    DocNode ''field'' [StringValue ''spreadsheet_id''] [(''type'', StringValue ''string''), (''required'', BoolValue True)] [
      DocNode ''description'' [StringValue ''Provider spreadsheet identifier''] [] []],
    DocNode ''field'' [StringValue ''range''] [(''type'', StringValue ''string''), (''required'', BoolValue True)] [
      DocNode ''description'' [StringValue ''A1 notation range to update''] [] [],
      DocNode ''example'' [StringValue ''Sheet1!A2:C2''] [] []],
    DocNode ''field'' [StringValue ''values''] [(''type'', StringValue ''list<list<string>>''), (''required'', BoolValue True)] [
      DocNode ''description'' [StringValue ''2D array of values to write''] [] []],
    DocNode ''returns'' [StringValue ''object''] [(''description'', StringValue ''Object with fields: updated_range, updated_cells'')] [
      DocNode ''field'' [StringValue ''updated_range''] [(''type'', StringValue ''string''), (''required'', BoolValue True)] [],
      DocNode ''field'' [StringValue ''updated_cells''] [(''type'', StringValue ''int''), (''required'', BoolValue True)] []]]"

definition Spreadsheet_Row_Create_node :: "'f doc_node" where
  "Spreadsheet_Row_Create_node = DocNode ''capability'' [StringValue ''Spreadsheet_Row_Create''] [] [
    DocNode ''category'' [StringValue ''Spreadsheet''] [] [],
    DocNode ''description'' [StringValue ''Append a row to the end of a sheet''] [] [],
    DocNode ''risk'' [StringValue ''high''] [] [],
    DocNode ''writes'' [] [(''entity'', StringValue ''SpreadsheetRange'')] [],
    DocNode ''field'' [StringValue ''spreadsheet_id''] [(''type'', StringValue ''string''), (''required'', BoolValue True)] [
      DocNode ''description'' [StringValue ''Provider spreadsheet identifier''] [] []],
    DocNode ''field'' [StringValue ''sheet_name''] [(''type'', StringValue ''string''), (''required'', BoolValue True)] [
      DocNode ''description'' [StringValue ''Name of the sheet tab to append to''] [] [],
      DocNode ''example'' [StringValue ''Leads''] [] []],
    DocNode ''field'' [StringValue ''values''] [(''type'', StringValue ''list<string>''), (''required'', BoolValue True)] [
      DocNode ''description'' [StringValue ''Ordered list of cell values for the new row''] [] []],
    DocNode ''returns'' [StringValue ''object''] [(''description'', StringValue ''Object with fields: range, updated_rows'')] [
      DocNode ''field'' [StringValue ''range''] [(''type'', StringValue ''string''), (''required'', BoolValue True)] [],
      DocNode ''field'' [StringValue ''updated_rows''] [(''type'', StringValue ''int''), (''required'', BoolValue True)] []]]"

definition Spreadsheet_Sheet_List_node :: "'f doc_node" where
  "Spreadsheet_Sheet_List_node = DocNode ''capability'' [StringValue ''Spreadsheet_Sheet_List''] [] [
    DocNode ''category'' [StringValue ''Spreadsheet''] [] [],
    DocNode ''description'' [StringValue ''List all sheet tabs within a spreadsheet''] [] [],
    DocNode ''risk'' [StringValue ''low''] [] [],
    DocNode ''reads'' [] [(''entity'', StringValue ''Spreadsheet'')] [],
    DocNode ''field'' [StringValue ''spreadsheet_id''] [(''type'', StringValue ''string''), (''required'', BoolValue True)] [
      DocNode ''description'' [StringValue ''Provider spreadsheet identifier''] [] []],
    DocNode ''returns'' [StringValue ''list<object>''] [(''description'', StringValue ''List of {sheet_id, title, row_count, col_count} objects'')] [
      DocNode ''field'' [StringValue ''sheet_id''] [(''type'', StringValue ''string''), (''required'', BoolValue True)] [],
      DocNode ''field'' [StringValue ''title''] [(''type'', StringValue ''string''), (''required'', BoolValue True)] [],
      DocNode ''field'' [StringValue ''row_count''] [(''type'', StringValue ''int''), (''required'', BoolValue True)] [],
      DocNode ''field'' [StringValue ''col_count''] [(''type'', StringValue ''int''), (''required'', BoolValue True)] []]]"

definition Document_Content_Read_node :: "'f doc_node" where
  "Document_Content_Read_node = DocNode ''capability'' [StringValue ''Document_Content_Read''] [] [
    DocNode ''category'' [StringValue ''Document''] [] [],
    DocNode ''description'' [StringValue (''Read a document'' @ [CHR 0x27] @ ''s full content as clean markdown; strips comments and change history'')] [] [],
    DocNode ''risk'' [StringValue ''low''] [] [],
    DocNode ''reads'' [] [(''entity'', StringValue ''Document'')] [],
    DocNode ''field'' [StringValue ''document_id''] [(''type'', StringValue ''string''), (''required'', BoolValue True)] [
      DocNode ''description'' [StringValue ''Provider document identifier''] [] []],
    DocNode ''returns'' [StringValue ''string''] [(''description'', StringValue ''Document content in markdown format'')] []]"

definition Document_Content_Append_node :: "'f doc_node" where
  "Document_Content_Append_node = DocNode ''capability'' [StringValue ''Document_Content_Append''] [] [
    DocNode ''category'' [StringValue ''Document''] [] [],
    DocNode ''description'' [StringValue ''Append text to the end of a document''] [] [],
    DocNode ''risk'' [StringValue ''high''] [] [],
    DocNode ''writes'' [] [(''entity'', StringValue ''Document'')] [],
    DocNode ''field'' [StringValue ''document_id''] [(''type'', StringValue ''string''), (''required'', BoolValue True)] [
      DocNode ''description'' [StringValue ''Provider document identifier''] [] []],
    DocNode ''field'' [StringValue ''content''] [(''type'', StringValue ''string''), (''required'', BoolValue True)] [
      DocNode ''description'' [StringValue ''Markdown text to append''] [] []],
    DocNode ''returns'' [StringValue ''object''] [(''description'', StringValue ''Object with fields: document_id, revision_id'')] [
      DocNode ''field'' [StringValue ''document_id''] [(''type'', StringValue ''string''), (''required'', BoolValue True)] [],
      DocNode ''field'' [StringValue ''revision_id''] [(''type'', StringValue ''string''), (''required'', BoolValue True)] []]]"

definition Document_Content_Replace_node :: "'f doc_node" where
  "Document_Content_Replace_node = DocNode ''capability'' [StringValue ''Document_Content_Replace''] [] [
    DocNode ''category'' [StringValue ''Document''] [] [],
    DocNode ''description'' [StringValue ''Replace a specific section of a document identified by a heading''] [] [],
    DocNode ''risk'' [StringValue ''high''] [] [],
    DocNode ''writes'' [] [(''entity'', StringValue ''Document'')] [],
    DocNode ''field'' [StringValue ''document_id''] [(''type'', StringValue ''string''), (''required'', BoolValue True)] [
      DocNode ''description'' [StringValue ''Provider document identifier''] [] []],
    DocNode ''field'' [StringValue ''heading''] [(''type'', StringValue ''string''), (''required'', BoolValue True)] [
      DocNode ''description'' [StringValue ''Exact text of the heading whose section should be replaced''] [] [],
      DocNode ''example'' [StringValue ''## Summary''] [] []],
    DocNode ''field'' [StringValue ''content''] [(''type'', StringValue ''string''), (''required'', BoolValue True)] [
      DocNode ''description'' [StringValue ''Replacement markdown content''] [] []],
    DocNode ''returns'' [StringValue ''object''] [(''description'', StringValue ''Object with fields: document_id, revision_id, replaced_chars'')] [
      DocNode ''field'' [StringValue ''document_id''] [(''type'', StringValue ''string''), (''required'', BoolValue True)] [],
      DocNode ''field'' [StringValue ''revision_id''] [(''type'', StringValue ''string''), (''required'', BoolValue True)] [],
      DocNode ''field'' [StringValue ''replaced_chars''] [(''type'', StringValue ''int''), (''required'', BoolValue True)] []]]"

definition Document_Doc_List_node :: "'f doc_node" where
  "Document_Doc_List_node = DocNode ''capability'' [StringValue ''Document_Doc_List''] [] [
    DocNode ''category'' [StringValue ''Document''] [] [],
    DocNode ''description'' [StringValue (''List documents accessible to the agent'' @ [CHR 0x27] @ ''s credential'')] [] [],
    DocNode ''risk'' [StringValue ''low''] [] [],
    DocNode ''reads'' [] [(''entity'', StringValue ''Document'')] [],
    DocNode ''field'' [StringValue ''query''] [(''type'', StringValue ''string''), (''required'', BoolValue False)] [
      DocNode ''description'' [StringValue ''Title or full-text search filter''] [] [],
      DocNode ''example'' [StringValue ''Q1 report''] [] []],
    DocNode ''field'' [StringValue ''max_results''] [(''type'', StringValue ''int''), (''required'', BoolValue False), (''default'', IntValue 20)] [
      DocNode ''min'' [IntValue 1] [] [],
      DocNode ''max'' [IntValue 100] [] []],
    DocNode ''returns'' [StringValue ''list<object>''] [(''description'', StringValue ''List of {id, title, modified_at, owner} objects'')] [
      DocNode ''field'' [StringValue ''id''] [(''type'', StringValue ''string''), (''required'', BoolValue True)] [],
      DocNode ''field'' [StringValue ''title''] [(''type'', StringValue ''string''), (''required'', BoolValue True)] [],
      DocNode ''field'' [StringValue ''modified_at''] [(''type'', StringValue ''string''), (''required'', BoolValue True)] [],
      DocNode ''field'' [StringValue ''owner''] [(''type'', StringValue ''string''), (''required'', BoolValue True)] []]]"

definition Memory_Fact_Store_node :: "'f doc_node" where
  "Memory_Fact_Store_node = DocNode ''capability'' [StringValue ''Memory_Fact_Store''] [] [
    DocNode ''category'' [StringValue ''Memory''] [] [],
    DocNode ''description'' [StringValue (''Store a fact or note in the agent'' @ [CHR 0x27] @ ''s persistent memory'')] [] [],
    DocNode ''risk'' [StringValue ''low''] [] [],
    DocNode ''writes'' [] [(''entity'', StringValue ''Memory'')] [],
    DocNode ''field'' [StringValue ''key''] [(''type'', StringValue ''string''), (''required'', BoolValue True)] [
      DocNode ''description'' [StringValue ''Unique key for retrieval; use a descriptive slug''] [] [],
      DocNode ''example'' [StringValue ''user-preferred-language''] [] []],
    DocNode ''field'' [StringValue ''value''] [(''type'', StringValue ''string''), (''required'', BoolValue True)] [
      DocNode ''description'' [StringValue ''The fact or content to remember''] [] []],
    DocNode ''field'' [StringValue ''tags''] [(''type'', StringValue ''list<string>''), (''required'', BoolValue False)] [
      DocNode ''description'' [StringValue ''Categorical tags for filtered retrieval''] [] [],
      DocNode ''example'' [StringValue ''[\"preference\", \"user\"]''] [] []],
    DocNode ''returns'' [StringValue ''object''] [(''description'', StringValue ''Object with fields: key, stored_at'')] [
      DocNode ''field'' [StringValue ''key''] [(''type'', StringValue ''string''), (''required'', BoolValue True)] [],
      DocNode ''field'' [StringValue ''stored_at''] [(''type'', StringValue ''string''), (''required'', BoolValue True)] []]]"

definition Memory_Fact_Search_node :: "'f doc_node" where
  "Memory_Fact_Search_node = DocNode ''capability'' [StringValue ''Memory_Fact_Search''] [] [
    DocNode ''category'' [StringValue ''Memory''] [] [],
    DocNode ''description'' [StringValue (''Semantic search over the agent'' @ [CHR 0x27] @ ''s stored memories'')] [] [],
    DocNode ''risk'' [StringValue ''low''] [] [],
    DocNode ''reads'' [] [(''entity'', StringValue ''Memory'')] [],
    DocNode ''field'' [StringValue ''query''] [(''type'', StringValue ''string''), (''required'', BoolValue True)] [
      DocNode ''description'' [StringValue ''Natural language query to find relevant memories''] [] [],
      DocNode ''example'' [StringValue ''what does the user prefer for code style?''] [] []],
    DocNode ''field'' [StringValue ''max_results''] [(''type'', StringValue ''int''), (''required'', BoolValue False), (''default'', IntValue 5)] [
      DocNode ''min'' [IntValue 1] [] [],
      DocNode ''max'' [IntValue 20] [] []],
    DocNode ''returns'' [StringValue ''list<object>''] [(''description'', StringValue ''List of {key, value, tags, score, stored_at} objects'')] [
      DocNode ''field'' [StringValue ''key''] [(''type'', StringValue ''string''), (''required'', BoolValue True)] [],
      DocNode ''field'' [StringValue ''value''] [(''type'', StringValue ''string''), (''required'', BoolValue True)] [],
      DocNode ''field'' [StringValue ''tags''] [(''type'', StringValue ''list<string>''), (''required'', BoolValue True)] [],
      DocNode ''field'' [StringValue ''score''] [(''type'', StringValue ''int''), (''required'', BoolValue True)] [],
      DocNode ''field'' [StringValue ''stored_at''] [(''type'', StringValue ''string''), (''required'', BoolValue True)] []]]"

definition Memory_Fact_Delete_node :: "'f doc_node" where
  "Memory_Fact_Delete_node = DocNode ''capability'' [StringValue ''Memory_Fact_Delete''] [] [
    DocNode ''category'' [StringValue ''Memory''] [] [],
    DocNode ''description'' [StringValue ''Delete a stored memory by key''] [] [],
    DocNode ''risk'' [StringValue ''low''] [] [],
    DocNode ''writes'' [] [(''entity'', StringValue ''Memory'')] [],
    DocNode ''field'' [StringValue ''key''] [(''type'', StringValue ''string''), (''required'', BoolValue True)] [
      DocNode ''description'' [StringValue ''Key of the memory to delete''] [] []],
    DocNode ''returns'' [StringValue ''bool''] [(''description'', StringValue ''true if the memory existed and was deleted'')] []]"

definition Memory_Fact_List_node :: "'f doc_node" where
  "Memory_Fact_List_node = DocNode ''capability'' [StringValue ''Memory_Fact_List''] [] [
    DocNode ''category'' [StringValue ''Memory''] [] [],
    DocNode ''description'' [StringValue ''List all stored memories, optionally filtered by tag''] [] [],
    DocNode ''risk'' [StringValue ''low''] [] [],
    DocNode ''reads'' [] [(''entity'', StringValue ''Memory'')] [],
    DocNode ''field'' [StringValue ''tag''] [(''type'', StringValue ''string''), (''required'', BoolValue False)] [
      DocNode ''description'' [StringValue ''Filter by this tag; omit to list all''] [] []],
    DocNode ''field'' [StringValue ''max_results''] [(''type'', StringValue ''int''), (''required'', BoolValue False), (''default'', IntValue 50)] [
      DocNode ''min'' [IntValue 1] [] [],
      DocNode ''max'' [IntValue 200] [] []],
    DocNode ''returns'' [StringValue ''list<object>''] [(''description'', StringValue ''List of {key, value, tags, stored_at} objects'')] [
      DocNode ''field'' [StringValue ''key''] [(''type'', StringValue ''string''), (''required'', BoolValue True)] [],
      DocNode ''field'' [StringValue ''value''] [(''type'', StringValue ''string''), (''required'', BoolValue True)] [],
      DocNode ''field'' [StringValue ''tags''] [(''type'', StringValue ''list<string>''), (''required'', BoolValue True)] [],
      DocNode ''field'' [StringValue ''stored_at''] [(''type'', StringValue ''string''), (''required'', BoolValue True)] []]]"

definition VersionControl_Status_Read_node :: "'f doc_node" where
  "VersionControl_Status_Read_node = DocNode ''capability'' [StringValue ''VersionControl_Status_Read''] [] [
    DocNode ''category'' [StringValue ''VersionControl''] [] [],
    DocNode ''description'' [StringValue ''Read the working tree status of a repository in the agent workspace''] [] [],
    DocNode ''risk'' [StringValue ''low''] [] [],
    DocNode ''reads'' [] [(''entity'', StringValue ''Repository'')] [],
    DocNode ''field'' [StringValue ''path''] [(''type'', StringValue ''string''), (''required'', BoolValue False), (''default'', StringValue ''.'')] [
      DocNode ''description'' [StringValue ''Workspace-relative path to the repository root''] [] []],
    DocNode ''returns'' [StringValue ''object''] [(''description'', StringValue ''Object with fields: branch, staged, unstaged, untracked'')] [
      DocNode ''field'' [StringValue ''branch''] [(''type'', StringValue ''string''), (''required'', BoolValue True)] [],
      DocNode ''field'' [StringValue ''staged''] [(''type'', StringValue ''string''), (''required'', BoolValue True)] [],
      DocNode ''field'' [StringValue ''unstaged''] [(''type'', StringValue ''string''), (''required'', BoolValue True)] [],
      DocNode ''field'' [StringValue ''untracked''] [(''type'', StringValue ''string''), (''required'', BoolValue True)] []]]"

definition VersionControl_Diff_Read_node :: "'f doc_node" where
  "VersionControl_Diff_Read_node = DocNode ''capability'' [StringValue ''VersionControl_Diff_Read''] [] [
    DocNode ''category'' [StringValue ''VersionControl''] [] [],
    DocNode ''description'' [StringValue ''Read the diff for staged changes, unstaged changes, or between refs''] [] [],
    DocNode ''risk'' [StringValue ''low''] [] [],
    DocNode ''reads'' [] [(''entity'', StringValue ''Repository'')] [],
    DocNode ''field'' [StringValue ''path''] [(''type'', StringValue ''string''), (''required'', BoolValue False), (''default'', StringValue ''.'')] [
      DocNode ''description'' [StringValue ''Workspace-relative repository root''] [] []],
    DocNode ''field'' [StringValue ''base''] [(''type'', StringValue ''string''), (''required'', BoolValue False)] [
      DocNode ''description'' [StringValue ''Base ref for comparison; omit for working-tree diff''] [] [],
      DocNode ''example'' [StringValue ''main''] [] []],
    DocNode ''field'' [StringValue ''head''] [(''type'', StringValue ''string''), (''required'', BoolValue False)] [
      DocNode ''description'' [StringValue ''Head ref for comparison; omit for working-tree diff''] [] [],
      DocNode ''example'' [StringValue ''feature/my-branch''] [] []],
    DocNode ''returns'' [StringValue ''string''] [(''description'', StringValue ''Unified diff output'')] []]"

definition VersionControl_Log_List_node :: "'f doc_node" where
  "VersionControl_Log_List_node = DocNode ''capability'' [StringValue ''VersionControl_Log_List''] [] [
    DocNode ''category'' [StringValue ''VersionControl''] [] [],
    DocNode ''description'' [StringValue ''List recent commits on the current or specified branch''] [] [],
    DocNode ''risk'' [StringValue ''low''] [] [],
    DocNode ''reads'' [] [(''entity'', StringValue ''Commit'')] [],
    DocNode ''field'' [StringValue ''path''] [(''type'', StringValue ''string''), (''required'', BoolValue False), (''default'', StringValue ''.'')] [
      DocNode ''description'' [StringValue ''Workspace-relative repository root''] [] []],
    DocNode ''field'' [StringValue ''max_results''] [(''type'', StringValue ''int''), (''required'', BoolValue False), (''default'', IntValue 20)] [
      DocNode ''min'' [IntValue 1] [] [],
      DocNode ''max'' [IntValue 200] [] []],
    DocNode ''field'' [StringValue ''branch''] [(''type'', StringValue ''string''), (''required'', BoolValue False)] [
      DocNode ''description'' [StringValue ''Branch to list commits from; defaults to current branch''] [] []],
    DocNode ''returns'' [StringValue ''list<object>''] [(''description'', StringValue ''List of {hash, author, date, subject} objects'')] [
      DocNode ''field'' [StringValue ''hash''] [(''type'', StringValue ''string''), (''required'', BoolValue True)] [],
      DocNode ''field'' [StringValue ''author''] [(''type'', StringValue ''string''), (''required'', BoolValue True)] [],
      DocNode ''field'' [StringValue ''date''] [(''type'', StringValue ''string''), (''required'', BoolValue True)] [],
      DocNode ''field'' [StringValue ''subject''] [(''type'', StringValue ''string''), (''required'', BoolValue True)] []]]"

definition VersionControl_Branch_List_node :: "'f doc_node" where
  "VersionControl_Branch_List_node = DocNode ''capability'' [StringValue ''VersionControl_Branch_List''] [] [
    DocNode ''category'' [StringValue ''VersionControl''] [] [],
    DocNode ''description'' [StringValue ''List branches in a repository''] [] [],
    DocNode ''risk'' [StringValue ''low''] [] [],
    DocNode ''reads'' [] [(''entity'', StringValue ''Branch'')] [],
    DocNode ''field'' [StringValue ''path''] [(''type'', StringValue ''string''), (''required'', BoolValue False), (''default'', StringValue ''.'')] [
      DocNode ''description'' [StringValue ''Workspace-relative repository root''] [] []],
    DocNode ''field'' [StringValue ''remote''] [(''type'', StringValue ''bool''), (''required'', BoolValue False), (''default'', BoolValue False)] [
      DocNode ''description'' [StringValue ''Include remote-tracking branches''] [] []],
    DocNode ''returns'' [StringValue ''list<object>''] [(''description'', StringValue ''List of {name, is_current, last_commit_hash, last_commit_date} objects'')] [
      DocNode ''field'' [StringValue ''name''] [(''type'', StringValue ''string''), (''required'', BoolValue True)] [],
      DocNode ''field'' [StringValue ''is_current''] [(''type'', StringValue ''bool''), (''required'', BoolValue True)] [],
      DocNode ''field'' [StringValue ''last_commit_hash''] [(''type'', StringValue ''string''), (''required'', BoolValue True)] [],
      DocNode ''field'' [StringValue ''last_commit_date''] [(''type'', StringValue ''string''), (''required'', BoolValue True)] []]]"

definition VersionControl_Branch_Create_node :: "'f doc_node" where
  "VersionControl_Branch_Create_node = DocNode ''capability'' [StringValue ''VersionControl_Branch_Create''] [] [
    DocNode ''category'' [StringValue ''VersionControl''] [] [],
    DocNode ''description'' [StringValue ''Create and check out a new branch''] [] [],
    DocNode ''risk'' [StringValue ''medium''] [] [],
    DocNode ''writes'' [] [(''entity'', StringValue ''Branch'')] [],
    DocNode ''field'' [StringValue ''path''] [(''type'', StringValue ''string''), (''required'', BoolValue False), (''default'', StringValue ''.'')] [
      DocNode ''description'' [StringValue ''Workspace-relative repository root''] [] []],
    DocNode ''field'' [StringValue ''name''] [(''type'', StringValue ''string''), (''required'', BoolValue True)] [
      DocNode ''description'' [StringValue ''Name of the new branch''] [] [],
      DocNode ''example'' [StringValue ''feature/add-oauth''] [] []],
    DocNode ''field'' [StringValue ''from''] [(''type'', StringValue ''string''), (''required'', BoolValue False), (''default'', StringValue ''HEAD'')] [
      DocNode ''description'' [StringValue ''Ref to branch from''] [] []],
    DocNode ''returns'' [StringValue ''object''] [(''description'', StringValue ''Object with fields: name, from_hash'')] [
      DocNode ''field'' [StringValue ''name''] [(''type'', StringValue ''string''), (''required'', BoolValue True)] [],
      DocNode ''field'' [StringValue ''from_hash''] [(''type'', StringValue ''string''), (''required'', BoolValue True)] []]]"

definition VersionControl_Commit_Create_node :: "'f doc_node" where
  "VersionControl_Commit_Create_node = DocNode ''capability'' [StringValue ''VersionControl_Commit_Create''] [] [
    DocNode ''category'' [StringValue ''VersionControl''] [] [],
    DocNode ''description'' [StringValue ''Stage specified files and create a commit''] [] [],
    DocNode ''risk'' [StringValue ''medium''] [] [],
    DocNode ''writes'' [] [(''entity'', StringValue ''Commit'')] [],
    DocNode ''field'' [StringValue ''path''] [(''type'', StringValue ''string''), (''required'', BoolValue False), (''default'', StringValue ''.'')] [
      DocNode ''description'' [StringValue ''Workspace-relative repository root''] [] []],
    DocNode ''field'' [StringValue ''message''] [(''type'', StringValue ''string''), (''required'', BoolValue True)] [
      DocNode ''description'' [StringValue ''Commit message''] [] [],
      DocNode ''example'' [StringValue ''feat: add OAuth token refresh''] [] []],
    DocNode ''field'' [StringValue ''files''] [(''type'', StringValue ''list<string>''), (''required'', BoolValue True)] [
      DocNode ''description'' [StringValue ''Workspace-relative file paths to stage; use [\".\"] to stage all changes''] [] []],
    DocNode ''returns'' [StringValue ''object''] [(''description'', StringValue ''Object with fields: hash, branch, files_changed'')] [
      DocNode ''field'' [StringValue ''hash''] [(''type'', StringValue ''string''), (''required'', BoolValue True)] [],
      DocNode ''field'' [StringValue ''branch''] [(''type'', StringValue ''string''), (''required'', BoolValue True)] [],
      DocNode ''field'' [StringValue ''files_changed''] [(''type'', StringValue ''int''), (''required'', BoolValue True)] []]]"

definition VersionControl_Remote_Push_node :: "'f doc_node" where
  "VersionControl_Remote_Push_node = DocNode ''capability'' [StringValue ''VersionControl_Remote_Push''] [] [
    DocNode ''category'' [StringValue ''VersionControl''] [] [],
    DocNode ''description'' [StringValue ''Push the current branch to a permitted remote''] [] [],
    DocNode ''risk'' [StringValue ''high''] [] [],
    DocNode ''writes'' [] [(''entity'', StringValue ''Repository'')] [],
    DocNode ''field'' [StringValue ''path''] [(''type'', StringValue ''string''), (''required'', BoolValue False), (''default'', StringValue ''.'')] [
      DocNode ''description'' [StringValue ''Workspace-relative repository root''] [] []],
    DocNode ''field'' [StringValue ''remote''] [(''type'', StringValue ''string''), (''required'', BoolValue False), (''default'', StringValue ''origin'')] [
      DocNode ''description'' [StringValue ''Remote name to push to''] [] []],
    DocNode ''field'' [StringValue ''force''] [(''type'', StringValue ''bool''), (''required'', BoolValue False), (''default'', BoolValue False)] [
      DocNode ''description'' [StringValue ''Force push; only permitted if agent.kdl explicitly allows it''] [] []],
    DocNode ''returns'' [StringValue ''object''] [(''description'', StringValue ''Object with fields: remote, branch, commits_pushed'')] [
      DocNode ''field'' [StringValue ''remote''] [(''type'', StringValue ''bool''), (''required'', BoolValue True)] [],
      DocNode ''field'' [StringValue ''branch''] [(''type'', StringValue ''string''), (''required'', BoolValue True)] [],
      DocNode ''field'' [StringValue ''commits_pushed''] [(''type'', StringValue ''int''), (''required'', BoolValue True)] []]]"

definition Database_Query_Exec_node :: "'f doc_node" where
  "Database_Query_Exec_node = DocNode ''capability'' [StringValue ''Database_Query_Exec''] [] [
    DocNode ''category'' [StringValue ''Database''] [] [],
    DocNode ''description'' [StringValue ''Execute a read-only SQL query against a permitted data source''] [] [],
    DocNode ''risk'' [StringValue ''medium''] [] [],
    DocNode ''reads'' [] [(''entity'', StringValue ''DatabaseTable'')] [],
    DocNode ''field'' [StringValue ''source_id''] [(''type'', StringValue ''string''), (''required'', BoolValue True)] [
      DocNode ''description'' [StringValue ''Data source identifier from agent.kdl data.sources''] [] [],
      DocNode ''example'' [StringValue ''analytics-db''] [] []],
    DocNode ''field'' [StringValue ''query''] [(''type'', StringValue ''string''), (''required'', BoolValue True)] [
      DocNode ''description'' [StringValue ''SQL SELECT statement to execute; INSERT/UPDATE/DELETE are rejected''] [] [],
      DocNode ''example'' [StringValue ''SELECT user_id, count(*) FROM events GROUP BY user_id LIMIT 100''] [] []],
    DocNode ''field'' [StringValue ''max_rows''] [(''type'', StringValue ''int''), (''required'', BoolValue False), (''default'', IntValue 100)] [
      DocNode ''description'' [StringValue ''Maximum rows to return''] [] [],
      DocNode ''min'' [IntValue 1] [] [],
      DocNode ''max'' [IntValue 5000] [] []],
    DocNode ''returns'' [StringValue ''object''] [(''description'', StringValue ''Object with fields: columns, rows, row_count, truncated'')] [
      DocNode ''field'' [StringValue ''columns''] [(''type'', StringValue ''list<string>''), (''required'', BoolValue True)] [],
      DocNode ''field'' [StringValue ''rows''] [(''type'', StringValue ''list<list<string>>''), (''required'', BoolValue True)] [],
      DocNode ''field'' [StringValue ''row_count''] [(''type'', StringValue ''int''), (''required'', BoolValue True)] [],
      DocNode ''field'' [StringValue ''truncated''] [(''type'', StringValue ''bool''), (''required'', BoolValue True)] []]]"

definition Database_Table_List_node :: "'f doc_node" where
  "Database_Table_List_node = DocNode ''capability'' [StringValue ''Database_Table_List''] [] [
    DocNode ''category'' [StringValue ''Database''] [] [],
    DocNode ''description'' [StringValue ''List tables or collections in a data source''] [] [],
    DocNode ''risk'' [StringValue ''low''] [] [],
    DocNode ''reads'' [] [(''entity'', StringValue ''DatabaseTable'')] [],
    DocNode ''field'' [StringValue ''source_id''] [(''type'', StringValue ''string''), (''required'', BoolValue True)] [
      DocNode ''description'' [StringValue ''Data source identifier from agent.kdl data.sources''] [] []],
    DocNode ''returns'' [StringValue ''list<object>''] [(''description'', StringValue ''List of {name, row_count, size_bytes} objects'')] [
      DocNode ''field'' [StringValue ''name''] [(''type'', StringValue ''string''), (''required'', BoolValue True)] [],
      DocNode ''field'' [StringValue ''row_count''] [(''type'', StringValue ''int''), (''required'', BoolValue True)] [],
      DocNode ''field'' [StringValue ''size_bytes''] [(''type'', StringValue ''int''), (''required'', BoolValue True)] []]]"

definition Database_Schema_Read_node :: "'f doc_node" where
  "Database_Schema_Read_node = DocNode ''capability'' [StringValue ''Database_Schema_Read''] [] [
    DocNode ''category'' [StringValue ''Database''] [] [],
    DocNode ''description'' [StringValue ''Read the schema of a specific table or collection''] [] [],
    DocNode ''risk'' [StringValue ''low''] [] [],
    DocNode ''reads'' [] [(''entity'', StringValue ''DatabaseTable'')] [],
    DocNode ''field'' [StringValue ''source_id''] [(''type'', StringValue ''string''), (''required'', BoolValue True)] [
      DocNode ''description'' [StringValue ''Data source identifier from agent.kdl data.sources''] [] []],
    DocNode ''field'' [StringValue ''table''] [(''type'', StringValue ''string''), (''required'', BoolValue True)] [
      DocNode ''description'' [StringValue ''Table or collection name''] [] [],
      DocNode ''example'' [StringValue ''events''] [] []],
    DocNode ''returns'' [StringValue ''list<object>''] [(''description'', StringValue ''List of {column, type, nullable, default} objects'')] [
      DocNode ''field'' [StringValue ''column''] [(''type'', StringValue ''string''), (''required'', BoolValue True)] [],
      DocNode ''field'' [StringValue ''type''] [(''type'', StringValue ''string''), (''required'', BoolValue True)] [],
      DocNode ''field'' [StringValue ''nullable''] [(''type'', StringValue ''bool''), (''required'', BoolValue True)] [],
      DocNode ''field'' [StringValue ''default''] [(''type'', StringValue ''string''), (''required'', BoolValue True)] []]]"

definition System_Process_Exec_node :: "'f doc_node" where
  "System_Process_Exec_node = DocNode ''capability'' [StringValue ''System_Process_Exec''] [] [
    DocNode ''category'' [StringValue ''System''] [] [],
    DocNode ''description'' [StringValue ''Execute a process in the agent jail and capture its output''] [] [],
    DocNode ''risk'' [StringValue ''high''] [] [],
    DocNode ''writes'' [] [(''entity'', StringValue ''Process'')] [],
    DocNode ''field'' [StringValue ''command''] [(''type'', StringValue ''string''), (''required'', BoolValue True)] [
      DocNode ''description'' [StringValue ''Command and arguments as a single string''] [] [],
      DocNode ''example'' [StringValue ''go build ./...''] [] []],
    DocNode ''field'' [StringValue ''workdir''] [(''type'', StringValue ''string''), (''required'', BoolValue False), (''default'', StringValue ''.'')] [
      DocNode ''description'' [StringValue ''Workspace-relative working directory for the process''] [] []],
    DocNode ''field'' [StringValue ''timeout''] [(''type'', StringValue ''int''), (''required'', BoolValue False), (''default'', IntValue 60)] [
      DocNode ''description'' [StringValue ''Maximum execution time in seconds''] [] [],
      DocNode ''min'' [IntValue 1] [] [],
      DocNode ''max'' [IntValue 600] [] []],
    DocNode ''field'' [StringValue ''env''] [(''type'', StringValue ''list<object>''), (''required'', BoolValue False)] [
      DocNode ''description'' [StringValue ''Additional environment variables as {key, value} objects''] [] []],
    DocNode ''returns'' [StringValue ''object''] [(''description'', StringValue ''Object with fields: stdout, stderr, exit_code, duration_ms'')] [
      DocNode ''field'' [StringValue ''stdout''] [(''type'', StringValue ''string''), (''required'', BoolValue True)] [],
      DocNode ''field'' [StringValue ''stderr''] [(''type'', StringValue ''string''), (''required'', BoolValue True)] [],
      DocNode ''field'' [StringValue ''exit_code''] [(''type'', StringValue ''int''), (''required'', BoolValue True)] [],
      DocNode ''field'' [StringValue ''duration_ms''] [(''type'', StringValue ''string''), (''required'', BoolValue True)] []]]"

definition System_Process_List_node :: "'f doc_node" where
  "System_Process_List_node = DocNode ''capability'' [StringValue ''System_Process_List''] [] [
    DocNode ''category'' [StringValue ''System''] [] [],
    DocNode ''description'' [StringValue ''List running processes in the agent jail''] [] [],
    DocNode ''risk'' [StringValue ''low''] [] [],
    DocNode ''reads'' [] [(''entity'', StringValue ''Process'')] [],
    DocNode ''returns'' [StringValue ''list<object>''] [(''description'', StringValue ''List of {pid, name, cpu_pct, mem_mb, started_at} objects'')] [
      DocNode ''field'' [StringValue ''pid''] [(''type'', StringValue ''int''), (''required'', BoolValue True)] [],
      DocNode ''field'' [StringValue ''name''] [(''type'', StringValue ''string''), (''required'', BoolValue True)] [],
      DocNode ''field'' [StringValue ''cpu_pct''] [(''type'', StringValue ''int''), (''required'', BoolValue True)] [],
      DocNode ''field'' [StringValue ''mem_mb''] [(''type'', StringValue ''int''), (''required'', BoolValue True)] [],
      DocNode ''field'' [StringValue ''started_at''] [(''type'', StringValue ''string''), (''required'', BoolValue True)] []]]"

definition System_Process_Kill_node :: "'f doc_node" where
  "System_Process_Kill_node = DocNode ''capability'' [StringValue ''System_Process_Kill''] [] [
    DocNode ''category'' [StringValue ''System''] [] [],
    DocNode ''description'' [StringValue ''Send a signal to a process in the agent jail''] [] [],
    DocNode ''risk'' [StringValue ''high''] [] [],
    DocNode ''writes'' [] [(''entity'', StringValue ''Process'')] [],
    DocNode ''field'' [StringValue ''pid''] [(''type'', StringValue ''int''), (''required'', BoolValue True)] [
      DocNode ''description'' [StringValue ''PID of the process to signal''] [] []],
    DocNode ''field'' [StringValue ''signal''] [(''type'', StringValue ''string''), (''required'', BoolValue False), (''default'', StringValue ''SIGTERM'')] [
      DocNode ''description'' [StringValue ''Signal to send''] [] [],
      DocNode ''enum'' [StringValue ''SIGTERM'', StringValue ''SIGKILL'', StringValue ''SIGINT'', StringValue ''SIGHUP''] [] []],
    DocNode ''returns'' [StringValue ''bool''] [(''description'', StringValue ''true if the signal was delivered'')] []]"

definition Media_Image_Analyze_node :: "'f doc_node" where
  "Media_Image_Analyze_node = DocNode ''capability'' [StringValue ''Media_Image_Analyze''] [] [
    DocNode ''category'' [StringValue ''Media''] [] [],
    DocNode ''description'' [StringValue ''Describe or answer questions about an image using a vision model''] [] [],
    DocNode ''risk'' [StringValue ''low''] [] [],
    DocNode ''reads'' [] [(''entity'', StringValue ''ImageFile'')] [],
    DocNode ''field'' [StringValue ''source''] [(''type'', StringValue ''string''), (''required'', BoolValue True)] [
      DocNode ''description'' [StringValue ''Workspace-relative file path or a data URI (base64 PNG/JPEG)''] [] [],
      DocNode ''example'' [StringValue ''output/chart.png''] [] []],
    DocNode ''field'' [StringValue ''prompt''] [(''type'', StringValue ''string''), (''required'', BoolValue False), (''default'', StringValue ''Describe this image in detail'')] [
      DocNode ''description'' [StringValue ''Instruction to the vision model''] [] [],
      DocNode ''example'' [StringValue ''What is the trend shown in this chart?''] [] []],
    DocNode ''returns'' [StringValue ''string''] [(''description'', StringValue ''Vision model response text'')] []]"

definition Media_Audio_Transcribe_node :: "'f doc_node" where
  "Media_Audio_Transcribe_node = DocNode ''capability'' [StringValue ''Media_Audio_Transcribe''] [] [
    DocNode ''category'' [StringValue ''Media''] [] [],
    DocNode ''description'' [StringValue ''Transcribe an audio file to text''] [] [],
    DocNode ''risk'' [StringValue ''low''] [] [],
    DocNode ''reads'' [] [(''entity'', StringValue ''AudioFile'')] [],
    DocNode ''field'' [StringValue ''path''] [(''type'', StringValue ''string''), (''required'', BoolValue True)] [
      DocNode ''description'' [StringValue ''Workspace-relative path to the audio file (mp3, wav, m4a)''] [] [],
      DocNode ''example'' [StringValue ''recordings/meeting.mp3''] [] []],
    DocNode ''field'' [StringValue ''language''] [(''type'', StringValue ''string''), (''required'', BoolValue False)] [
      DocNode ''description'' [StringValue ''BCP-47 language code hint; omit for auto-detection''] [] [],
      DocNode ''example'' [StringValue ''en-US''] [] []],
    DocNode ''returns'' [StringValue ''object''] [(''description'', StringValue ''Object with fields: text, language, duration_seconds'')] [
      DocNode ''field'' [StringValue ''text''] [(''type'', StringValue ''string''), (''required'', BoolValue True)] [],
      DocNode ''field'' [StringValue ''language''] [(''type'', StringValue ''string''), (''required'', BoolValue True)] [],
      DocNode ''field'' [StringValue ''duration_seconds''] [(''type'', StringValue ''int''), (''required'', BoolValue True)] []]]"

definition Swarm_Message_Send_node :: "'f doc_node" where
  "Swarm_Message_Send_node = DocNode ''capability'' [StringValue ''Swarm_Message_Send''] [] [
    DocNode ''category'' [StringValue ''Swarm''] [] [],
    DocNode ''description'' [StringValue ''Send a unicast MUS message to a specific agent via the keeperd switchboard''] [] [],
    DocNode ''risk'' [StringValue ''medium''] [] [],
    DocNode ''writes'' [] [(''entity'', StringValue ''AgentMessage'')] [],
    DocNode ''field'' [StringValue ''to_id''] [(''type'', StringValue ''string''), (''required'', BoolValue True)] [
      DocNode ''description'' [StringValue ''Target agent ID as registered in keeperd''] [] [],
      DocNode ''example'' [StringValue ''researcher-02''] [] []],
    DocNode ''field'' [StringValue ''payload''] [(''type'', StringValue ''string''), (''required'', BoolValue True)] [
      DocNode ''description'' [StringValue ''Message body; typically a JSON task description or result''] [] []],
    DocNode ''field'' [StringValue ''msg_type''] [(''type'', StringValue ''string''), (''required'', BoolValue False), (''default'', StringValue ''task'')] [
      DocNode ''description'' [StringValue ''Semantic message type for the receiver to route on''] [] [],
      DocNode ''enum'' [StringValue ''task'', StringValue ''result'', StringValue ''query'', StringValue ''ack'', StringValue ''error''] [] []],
    DocNode ''returns'' [StringValue ''object''] [(''description'', StringValue ''Object with fields: seq_no, delivered_at'')] [
      DocNode ''field'' [StringValue ''seq_no''] [(''type'', StringValue ''int''), (''required'', BoolValue True)] [],
      DocNode ''field'' [StringValue ''delivered_at''] [(''type'', StringValue ''string''), (''required'', BoolValue True)] []]]"

definition Swarm_Group_Send_node :: "'f doc_node" where
  "Swarm_Group_Send_node = DocNode ''capability'' [StringValue ''Swarm_Group_Send''] [] [
    DocNode ''category'' [StringValue ''Swarm''] [] [],
    DocNode ''description'' [StringValue ''Send a multicast MUS message to all agents in a named group''] [] [],
    DocNode ''risk'' [StringValue ''medium''] [] [],
    DocNode ''writes'' [] [(''entity'', StringValue ''AgentMessage'')] [],
    DocNode ''field'' [StringValue ''group''] [(''type'', StringValue ''string''), (''required'', BoolValue True)] [
      DocNode ''description'' [StringValue ''Group name as defined in orchestrator.kdl swarm.groups''] [] [],
      DocNode ''example'' [StringValue ''researchers''] [] []],
    DocNode ''field'' [StringValue ''payload''] [(''type'', StringValue ''string''), (''required'', BoolValue True)] [
      DocNode ''description'' [StringValue ''Message body to deliver to all group members''] [] []],
    DocNode ''field'' [StringValue ''msg_type''] [(''type'', StringValue ''string''), (''required'', BoolValue False), (''default'', StringValue ''task'')] [
      DocNode ''enum'' [StringValue ''task'', StringValue ''result'', StringValue ''query'', StringValue ''ack'', StringValue ''error''] [] []],
    DocNode ''returns'' [StringValue ''object''] [(''description'', StringValue ''Object with fields: seq_no, delivered_to_count'')] [
      DocNode ''field'' [StringValue ''seq_no''] [(''type'', StringValue ''int''), (''required'', BoolValue True)] [],
      DocNode ''field'' [StringValue ''delivered_to_count''] [(''type'', StringValue ''int''), (''required'', BoolValue True)] []]]"

definition Swarm_Agent_List_node :: "'f doc_node" where
  "Swarm_Agent_List_node = DocNode ''capability'' [StringValue ''Swarm_Agent_List''] [] [
    DocNode ''category'' [StringValue ''Swarm''] [] [],
    DocNode ''description'' [StringValue ''List agents currently registered with keeperd''] [] [],
    DocNode ''risk'' [StringValue ''low''] [] [],
    DocNode ''reads'' [] [(''entity'', StringValue ''Agent'')] [],
    DocNode ''returns'' [StringValue ''list<object>''] [(''description'', StringValue ''List of {id, status, groups, last_seen} objects'')] [
      DocNode ''field'' [StringValue ''id''] [(''type'', StringValue ''string''), (''required'', BoolValue True)] [],
      DocNode ''field'' [StringValue ''status''] [(''type'', StringValue ''string''), (''required'', BoolValue True)] [],
      DocNode ''field'' [StringValue ''groups''] [(''type'', StringValue ''list<string>''), (''required'', BoolValue True)] [],
      DocNode ''field'' [StringValue ''last_seen''] [(''type'', StringValue ''string''), (''required'', BoolValue True)] []]]"

definition capability_nodes :: "'f doc_node list" where
  "capability_nodes = [
     Browser_Page_Read_node,
     Browser_Page_Screenshot_node,
     Browser_Page_GetTitle_node,
     Browser_Form_Submit_node,
     Browser_Link_List_node,
     Search_Web_Query_node,
     Search_Corpus_Query_node,
     Filesystem_File_Read_node,
     Filesystem_File_Write_node,
     Filesystem_File_Delete_node,
     Filesystem_File_Move_node,
     Filesystem_Dir_List_node,
     Filesystem_Dir_Create_node,
     Code_Script_Exec_node,
     Code_Test_Run_node,
     Code_Lint_Run_node,
     Email_Message_List_node,
     Email_Message_Read_node,
     Email_Message_Create_node,
     Email_Message_Send_node,
     Calendar_Event_List_node,
     Calendar_Event_Read_node,
     Calendar_Event_Create_node,
     Calendar_Slot_Find_node,
     Spreadsheet_Range_Read_node,
     Spreadsheet_Range_Update_node,
     Spreadsheet_Row_Create_node,
     Spreadsheet_Sheet_List_node,
     Document_Content_Read_node,
     Document_Content_Append_node,
     Document_Content_Replace_node,
     Document_Doc_List_node,
     Memory_Fact_Store_node,
     Memory_Fact_Search_node,
     Memory_Fact_Delete_node,
     Memory_Fact_List_node,
     VersionControl_Status_Read_node,
     VersionControl_Diff_Read_node,
     VersionControl_Log_List_node,
     VersionControl_Branch_List_node,
     VersionControl_Branch_Create_node,
     VersionControl_Commit_Create_node,
     VersionControl_Remote_Push_node,
     Database_Query_Exec_node,
     Database_Table_List_node,
     Database_Schema_Read_node,
     System_Process_Exec_node,
     System_Process_List_node,
     System_Process_Kill_node,
     Media_Image_Analyze_node,
     Media_Audio_Transcribe_node,
     Swarm_Message_Send_node,
     Swarm_Group_Send_node,
     Swarm_Agent_List_node]"

lemmas node_defs =
  Browser_Page_Read_node_def Browser_Page_Screenshot_node_def Browser_Page_GetTitle_node_def
  Browser_Form_Submit_node_def Browser_Link_List_node_def Search_Web_Query_node_def
  Search_Corpus_Query_node_def Filesystem_File_Read_node_def Filesystem_File_Write_node_def
  Filesystem_File_Delete_node_def Filesystem_File_Move_node_def Filesystem_Dir_List_node_def
  Filesystem_Dir_Create_node_def Code_Script_Exec_node_def Code_Test_Run_node_def Code_Lint_Run_node_def
  Email_Message_List_node_def Email_Message_Read_node_def Email_Message_Create_node_def
  Email_Message_Send_node_def Calendar_Event_List_node_def Calendar_Event_Read_node_def
  Calendar_Event_Create_node_def Calendar_Slot_Find_node_def Spreadsheet_Range_Read_node_def
  Spreadsheet_Range_Update_node_def Spreadsheet_Row_Create_node_def Spreadsheet_Sheet_List_node_def
  Document_Content_Read_node_def Document_Content_Append_node_def Document_Content_Replace_node_def
  Document_Doc_List_node_def Memory_Fact_Store_node_def Memory_Fact_Search_node_def
  Memory_Fact_Delete_node_def Memory_Fact_List_node_def VersionControl_Status_Read_node_def
  VersionControl_Diff_Read_node_def VersionControl_Log_List_node_def VersionControl_Branch_List_node_def
  VersionControl_Branch_Create_node_def VersionControl_Commit_Create_node_def
  VersionControl_Remote_Push_node_def Database_Query_Exec_node_def Database_Table_List_node_def
  Database_Schema_Read_node_def System_Process_Exec_node_def System_Process_List_node_def
  System_Process_Kill_node_def Media_Image_Analyze_node_def Media_Audio_Transcribe_node_def
  Swarm_Message_Send_node_def Swarm_Group_Send_node_def Swarm_Agent_List_node_def

end
