(* ===== verification/Schemas.thy ===== *)
theory Schemas
  imports Catalogue
begin

text \<open>
  The schemas in \<open>internal/capabilities/generated.go\<close>, each as the JSON value that its text denotes,
  with the members in the order of the text.
\<close>

definition Browser_Form_SubmitSchema :: json where
  "Browser_Form_SubmitSchema = JObject [
    (''$schema'', JString ''http://json-schema.org/draft-07/schema#''),
    (''title'', JString ''Browser_Form_Submit''),
    (''description'', JString ''Fill fields in an HTML form and submit it''),
    (''type'', JString ''object''),
    (''properties'', JObject [
      (''fields'', JObject [
        (''description'', JString ''List of {selector, value} pairs to fill before submitting''),
        (''type'', JString ''array''),
        (''additionalProperties'', JBool False),
        (''examples'', JArray [JString ''[{\"selector\": \"#email\", \"value\": \"user@example.com\"}]''])]),
      (''submit_selector'', JObject [
        (''description'', JString ''CSS selector of the submit button; omits native form submit if absent''),
        (''type'', JString ''string''),
        (''additionalProperties'', JBool False),
        (''examples'', JArray [JString ''button[type=submit]''])]),
      (''url'', JObject [
        (''description'', JString ''URL of the page containing the form''),
        (''type'', JString ''string''),
        (''additionalProperties'', JBool False),
        (''examples'', JArray [JString ''https://example.com/login''])])]),
    (''required'', JArray [JString ''url'', JString ''fields'']),
    (''additionalProperties'', JBool False)]"

definition Browser_Link_ListSchema :: json where
  "Browser_Link_ListSchema = JObject [
    (''$schema'', JString ''http://json-schema.org/draft-07/schema#''),
    (''title'', JString ''Browser_Link_List''),
    (''description'', JString ''Extract all hyperlinks from the current page or a specified URL''),
    (''type'', JString ''object''),
    (''properties'', JObject [
      (''same_domain_only'', JObject [
        (''description'', JString ''Filter results to links sharing the same domain as the source URL''),
        (''type'', JString ''boolean''),
        (''additionalProperties'', JBool False),
        (''default'', JBool True)]),
      (''url'', JObject [
        (''description'', JString ''Fully-qualified URL to extract links from''),
        (''type'', JString ''string''),
        (''additionalProperties'', JBool False),
        (''examples'', JArray [JString ''https://example.com/blog''])])]),
    (''required'', JArray [JString ''url'']),
    (''additionalProperties'', JBool False)]"

definition Browser_Page_GetTitleSchema :: json where
  "Browser_Page_GetTitleSchema = JObject [
    (''$schema'', JString ''http://json-schema.org/draft-07/schema#''),
    (''title'', JString ''Browser_Page_GetTitle''),
    (''description'', JString ''Return the page title, meta description, and canonical URL without full content extraction''),
    (''type'', JString ''object''),
    (''properties'', JObject [
      (''url'', JObject [
        (''description'', JString ''Fully-qualified URL to inspect''),
        (''type'', JString ''string''),
        (''additionalProperties'', JBool False),
        (''examples'', JArray [JString ''https://example.com''])])]),
    (''required'', JArray [JString ''url'']),
    (''additionalProperties'', JBool False)]"

definition Browser_Page_ReadSchema :: json where
  "Browser_Page_ReadSchema = JObject [
    (''$schema'', JString ''http://json-schema.org/draft-07/schema#''),
    (''title'', JString ''Browser_Page_Read''),
    (''description'', JString ''Fetch the readable text content of a web page, stripped of markup, scripts, and boilerplate''),
    (''type'', JString ''object''),
    (''properties'', JObject [
      (''timeout'', JObject [
        (''description'', JString ''Maximum seconds to wait for page load before aborting''),
        (''type'', JString ''integer''),
        (''additionalProperties'', JBool False),
        (''default'', JNumber ''30'')]),
      (''url'', JObject [
        (''description'', JString ''Fully-qualified URL of the page to fetch''),
        (''type'', JString ''string''),
        (''additionalProperties'', JBool False),
        (''examples'', JArray [JString ''https://en.wikipedia.org/wiki/Go_(programming_language)''])]),
      (''wait_for'', JObject [
        (''description'', JString ''Page load event to wait for before extracting content''),
        (''type'', JString ''string''),
        (''additionalProperties'', JBool False),
        (''enum'', JArray [JString ''load'', JString ''domcontentloaded'', JString ''networkidle'']),
        (''default'', JString ''networkidle'')])]),
    (''required'', JArray [JString ''url'']),
    (''additionalProperties'', JBool False)]"

definition Browser_Page_ScreenshotSchema :: json where
  "Browser_Page_ScreenshotSchema = JObject [
    (''$schema'', JString ''http://json-schema.org/draft-07/schema#''),
    (''title'', JString ''Browser_Page_Screenshot''),
    (''description'', JString ''Capture a screenshot of a web page or a specific element''),
    (''type'', JString ''object''),
    (''properties'', JObject [
      (''full_page'', JObject [
        (''description'', JString ''Capture the full scrollable page, not just the visible viewport''),
        (''type'', JString ''boolean''),
        (''additionalProperties'', JBool False),
        (''default'', JBool False)]),
      (''selector'', JObject [
        (''description'', JString ''CSS selector of the element to capture; omit for full page''),
        (''type'', JString ''string''),
        (''additionalProperties'', JBool False),
        (''examples'', JArray [JString ''#main-chart''])]),
      (''url'', JObject [
        (''description'', JString ''Fully-qualified URL to navigate to before capturing''),
        (''type'', JString ''string''),
        (''additionalProperties'', JBool False),
        (''examples'', JArray [JString ''https://example.com/dashboard''])])]),
    (''required'', JArray [JString ''url'']),
    (''additionalProperties'', JBool False)]"

definition Calendar_Event_CreateSchema :: json where
  "Calendar_Event_CreateSchema = JObject [
    (''$schema'', JString ''http://json-schema.org/draft-07/schema#''),
    (''title'', JString ''Calendar_Event_Create''),
    (''description'', JString ''Create a new calendar event''),
    (''type'', JString ''object''),
    (''properties'', JObject [
      (''attendees'', JObject [
        (''description'', JString ''Email addresses of attendees to invite''),
        (''type'', JString ''array''),
        (''additionalProperties'', JBool False)]),
      (''description'', JObject [
        (''description'', JString ''Event body / agenda''),
        (''type'', JString ''string''),
        (''additionalProperties'', JBool False)]),
      (''end'', JObject [
        (''description'', JString ''End datetime in ISO8601 format with timezone''),
        (''type'', JString ''string''),
        (''additionalProperties'', JBool False),
        (''examples'', JArray [JString ''2026-03-25T11:00:00+01:00''])]),
      (''location'', JObject [
        (''description'', JString ''Location or video call link''),
        (''type'', JString ''string''),
        (''additionalProperties'', JBool False)]),
      (''start'', JObject [
        (''description'', JString ''Start datetime in ISO8601 format with timezone''),
        (''type'', JString ''string''),
        (''additionalProperties'', JBool False),
        (''examples'', JArray [JString ''2026-03-25T10:00:00+01:00''])]),
      (''title'', JObject [
        (''description'', JString ''Event title''),
        (''type'', JString ''string''),
        (''additionalProperties'', JBool False),
        (''examples'', JArray [JString ''Sprint planning''])])]),
    (''required'', JArray [JString ''title'', JString ''start'', JString ''end'']),
    (''additionalProperties'', JBool False)]"

definition Calendar_Event_ListSchema :: json where
  "Calendar_Event_ListSchema = JObject [
    (''$schema'', JString ''http://json-schema.org/draft-07/schema#''),
    (''title'', JString ''Calendar_Event_List''),
    (''description'', JString ''List calendar events within a time range''),
    (''type'', JString ''object''),
    (''properties'', JObject [
      (''calendar_id'', JObject [
        (''description'', JString ''Calendar identifier; defaults to the primary calendar''),
        (''type'', JString ''string''),
        (''additionalProperties'', JBool False),
        (''default'', JString ''primary'')]),
      (''end'', JObject [
        (''description'', JString ''Range end datetime in ISO8601 format''),
        (''type'', JString ''string''),
        (''additionalProperties'', JBool False),
        (''examples'', JArray [JString ''2026-03-27T17:00:00Z''])]),
      (''start'', JObject [
        (''description'', JString ''Range start datetime in ISO8601 format''),
        (''type'', JString ''string''),
        (''additionalProperties'', JBool False),
        (''examples'', JArray [JString ''2026-03-20T09:00:00Z''])])]),
    (''required'', JArray [JString ''start'', JString ''end'']),
    (''additionalProperties'', JBool False)]"

definition Calendar_Event_ReadSchema :: json where
  "Calendar_Event_ReadSchema = JObject [
    (''$schema'', JString ''http://json-schema.org/draft-07/schema#''),
    (''title'', JString ''Calendar_Event_Read''),
    (''description'', JString ''Read full details of a single calendar event''),
    (''type'', JString ''object''),
    (''properties'', JObject [
      (''event_id'', JObject [
        (''description'', JString ''Event ID from Calendar_Event_List''),
        (''type'', JString ''string''),
        (''additionalProperties'', JBool False)])]),
    (''required'', JArray [JString ''event_id'']),
    (''additionalProperties'', JBool False)]"

definition Calendar_Slot_FindSchema :: json where
  "Calendar_Slot_FindSchema = JObject [
    (''$schema'', JString ''http://json-schema.org/draft-07/schema#''),
    (''title'', JString ''Calendar_Slot_Find''),
    (''description'', JString (''Find free time slots across one or more attendees'' @ [CHR 0x27] @ '' calendars'')),
    (''type'', JString ''object''),
    (''properties'', JObject [
      (''attendees'', JObject [
        (''description'', JString ''Email addresses to check availability for''),
        (''type'', JString ''array''),
        (''additionalProperties'', JBool False)]),
      (''duration_minutes'', JObject [
        (''description'', JString ''Required meeting duration in minutes''),
        (''type'', JString ''integer''),
        (''additionalProperties'', JBool False),
        (''examples'', JArray [JString ''60''])]),
      (''window_end'', JObject [
        (''description'', JString ''End of the search window in ISO8601''),
        (''type'', JString ''string''),
        (''additionalProperties'', JBool False),
        (''examples'', JArray [JString ''2026-03-28T00:00:00Z''])]),
      (''window_start'', JObject [
        (''description'', JString ''Start of the search window in ISO8601''),
        (''type'', JString ''string''),
        (''additionalProperties'', JBool False),
        (''examples'', JArray [JString ''2026-03-24T00:00:00Z''])]),
      (''working_hours_only'', JObject [
        (''description'', JString (''Restrict results to 09:00'' @ [CHR 0xE2] @ [CHR 0x80] @ [CHR 0x93] @ ''18:00 local time of the organiser'')),
        (''type'', JString ''boolean''),
        (''additionalProperties'', JBool False),
        (''default'', JBool True)])]),
    (''required'', JArray [JString ''attendees'', JString ''duration_minutes'', JString ''window_start'', JString ''window_end'']),
    (''additionalProperties'', JBool False)]"

definition Code_Lint_RunSchema :: json where
  "Code_Lint_RunSchema = JObject [
    (''$schema'', JString ''http://json-schema.org/draft-07/schema#''),
    (''title'', JString ''Code_Lint_Run''),
    (''description'', JString ''Run a linter and return findings''),
    (''type'', JString ''object''),
    (''properties'', JObject [
      (''linter'', JObject [
        (''description'', JString ''Linter to invoke''),
        (''type'', JString ''string''),
        (''additionalProperties'', JBool False),
        (''enum'', JArray [JString ''golangci-lint'', JString ''ruff'', JString ''eslint'', JString ''rubocop'', JString ''clippy''])]),
      (''path'', JObject [
        (''description'', JString ''Workspace-relative path to lint''),
        (''type'', JString ''string''),
        (''additionalProperties'', JBool False),
        (''default'', JString ''.'')])]),
    (''required'', JArray [JString ''linter'']),
    (''additionalProperties'', JBool False)]"

definition Code_Script_ExecSchema :: json where
  "Code_Script_ExecSchema = JObject [
    (''$schema'', JString ''http://json-schema.org/draft-07/schema#''),
    (''title'', JString ''Code_Script_Exec''),
    (''description'', JString ''Execute a script or shell command inside the agent jail and return its output''),
    (''type'', JString ''object''),
    (''properties'', JObject [
      (''interpreter'', JObject [
        (''description'', JString ''The interpreter to use''),
        (''type'', JString ''string''),
        (''additionalProperties'', JBool False),
        (''enum'', JArray [JString ''bash'', JString ''python3'', JString ''node'', JString ''ruby''])]),
      (''script'', JObject [
        (''description'', JString ''The script body to execute''),
        (''type'', JString ''string''),
        (''additionalProperties'', JBool False),
        (''examples'', JArray [JString ''echo hello && ls -la''])]),
      (''timeout'', JObject [
        (''description'', JString ''Maximum execution time in seconds''),
        (''type'', JString ''integer''),
        (''additionalProperties'', JBool False),
        (''default'', JNumber ''30'')])]),
    (''required'', JArray [JString ''interpreter'', JString ''script'']),
    (''additionalProperties'', JBool False)]"

definition Code_Test_RunSchema :: json where
  "Code_Test_RunSchema = JObject [
    (''$schema'', JString ''http://json-schema.org/draft-07/schema#''),
    (''title'', JString ''Code_Test_Run''),
    (''description'', JString (''Run a project'' @ [CHR 0x27] @ ''s test suite and return results'')),
    (''type'', JString ''object''),
    (''properties'', JObject [
      (''filter'', JObject [
        (''description'', JString ''Pattern to filter which tests run''),
        (''type'', JString ''string''),
        (''additionalProperties'', JBool False),
        (''examples'', JArray [JString ''TestSwitchboard''])]),
      (''framework'', JObject [
        (''description'', JString ''Test framework to invoke''),
        (''type'', JString ''string''),
        (''additionalProperties'', JBool False),
        (''enum'', JArray [JString ''go-test'', JString ''pytest'', JString ''jest'', JString ''rspec'', JString ''cargo-test''])]),
      (''path'', JObject [
        (''description'', JString ''Workspace-relative path to run tests from''),
        (''type'', JString ''string''),
        (''additionalProperties'', JBool False),
        (''default'', JString ''.'')])]),
    (''required'', JArray [JString ''framework'']),
    (''additionalProperties'', JBool False)]"

definition Database_Query_ExecSchema :: json where
  "Database_Query_ExecSchema = JObject [
    (''$schema'', JString ''http://json-schema.org/draft-07/schema#''),
    (''title'', JString ''Database_Query_Exec''),
    (''description'', JString ''Execute a read-only SQL query against a permitted data source''),
    (''type'', JString ''object''),
    (''properties'', JObject [
      (''max_rows'', JObject [
        (''description'', JString ''Maximum rows to return''),
        (''type'', JString ''integer''),
        (''additionalProperties'', JBool False),
        (''default'', JNumber ''100'')]),
      (''query'', JObject [
        (''description'', JString ''SQL SELECT statement to execute; INSERT/UPDATE/DELETE are rejected''),
        (''type'', JString ''string''),
        (''additionalProperties'', JBool False),
        (''examples'', JArray [JString ''SELECT user_id, count(*) FROM events GROUP BY user_id LIMIT 100''])]),
      (''source_id'', JObject [
        (''description'', JString ''Data source identifier from agent.kdl data.sources''),
        (''type'', JString ''string''),
        (''additionalProperties'', JBool False),
        (''examples'', JArray [JString ''analytics-db''])])]),
    (''required'', JArray [JString ''source_id'', JString ''query'']),
    (''additionalProperties'', JBool False)]"

definition Database_Schema_ReadSchema :: json where
  "Database_Schema_ReadSchema = JObject [
    (''$schema'', JString ''http://json-schema.org/draft-07/schema#''),
    (''title'', JString ''Database_Schema_Read''),
    (''description'', JString ''Read the schema of a specific table or collection''),
    (''type'', JString ''object''),
    (''properties'', JObject [
      (''source_id'', JObject [
        (''description'', JString ''Data source identifier from agent.kdl data.sources''),
        (''type'', JString ''string''),
        (''additionalProperties'', JBool False)]),
      (''table'', JObject [
        (''description'', JString ''Table or collection name''),
        (''type'', JString ''string''),
        (''additionalProperties'', JBool False),
        (''examples'', JArray [JString ''events''])])]),
    (''required'', JArray [JString ''source_id'', JString ''table'']),
    (''additionalProperties'', JBool False)]"

definition Database_Table_ListSchema :: json where
  "Database_Table_ListSchema = JObject [
    (''$schema'', JString ''http://json-schema.org/draft-07/schema#''),
    (''title'', JString ''Database_Table_List''),
    (''description'', JString ''List tables or collections in a data source''),
    (''type'', JString ''object''),
    (''properties'', JObject [
      (''source_id'', JObject [
        (''description'', JString ''Data source identifier from agent.kdl data.sources''),
        (''type'', JString ''string''),
        (''additionalProperties'', JBool False)])]),
    (''required'', JArray [JString ''source_id'']),
    (''additionalProperties'', JBool False)]"

definition Document_Content_AppendSchema :: json where
  "Document_Content_AppendSchema = JObject [
    (''$schema'', JString ''http://json-schema.org/draft-07/schema#''),
    (''title'', JString ''Document_Content_Append''),
    (''description'', JString ''Append text to the end of a document''),
    (''type'', JString ''object''),
    (''properties'', JObject [
      (''content'', JObject [
        (''description'', JString ''Markdown text to append''),
        (''type'', JString ''string''),
        (''additionalProperties'', JBool False)]),
      (''document_id'', JObject [
        (''description'', JString ''Provider document identifier''),
        (''type'', JString ''string''),
        (''additionalProperties'', JBool False)])]),
    (''required'', JArray [JString ''document_id'', JString ''content'']),
    (''additionalProperties'', JBool False)]"

definition Document_Content_ReadSchema :: json where
  "Document_Content_ReadSchema = JObject [
    (''$schema'', JString ''http://json-schema.org/draft-07/schema#''),
    (''title'', JString ''Document_Content_Read''),
    (''description'', JString (''Read a document'' @ [CHR 0x27] @ ''s full content as clean markdown; strips comments and change history'')),
    (''type'', JString ''object''),
    (''properties'', JObject [
      (''document_id'', JObject [
        (''description'', JString ''Provider document identifier''),
        (''type'', JString ''string''),
        (''additionalProperties'', JBool False)])]),
    (''required'', JArray [JString ''document_id'']),
    (''additionalProperties'', JBool False)]"

definition Document_Content_ReplaceSchema :: json where
  "Document_Content_ReplaceSchema = JObject [
    (''$schema'', JString ''http://json-schema.org/draft-07/schema#''),
    (''title'', JString ''Document_Content_Replace''),
    (''description'', JString ''Replace a specific section of a document identified by a heading''),
    (''type'', JString ''object''),
    (''properties'', JObject [
      (''content'', JObject [
        (''description'', JString ''Replacement markdown content''),
        (''type'', JString ''string''),
        (''additionalProperties'', JBool False)]),
      (''document_id'', JObject [
        (''description'', JString ''Provider document identifier''),
        (''type'', JString ''string''),
        (''additionalProperties'', JBool False)]),
      (''heading'', JObject [
        (''description'', JString ''Exact text of the heading whose section should be replaced''),
        (''type'', JString ''string''),
        (''additionalProperties'', JBool False),
        (''examples'', JArray [JString ''## Summary''])])]),
    (''required'', JArray [JString ''document_id'', JString ''heading'', JString ''content'']),
    (''additionalProperties'', JBool False)]"

definition Document_Doc_ListSchema :: json where
  "Document_Doc_ListSchema = JObject [
    (''$schema'', JString ''http://json-schema.org/draft-07/schema#''),
    (''title'', JString ''Document_Doc_List''),
    (''description'', JString (''List documents accessible to the agent'' @ [CHR 0x27] @ ''s credential'')),
    (''type'', JString ''object''),
    (''properties'', JObject [
      (''max_results'', JObject [
        (''type'', JString ''integer''),
        (''additionalProperties'', JBool False),
        (''default'', JNumber ''20'')]),
      (''query'', JObject [
        (''description'', JString ''Title or full-text search filter''),
        (''type'', JString ''string''),
        (''additionalProperties'', JBool False),
        (''examples'', JArray [JString ''Q1 report''])])]),
    (''additionalProperties'', JBool False)]"

definition Email_Message_CreateSchema :: json where
  "Email_Message_CreateSchema = JObject [
    (''$schema'', JString ''http://json-schema.org/draft-07/schema#''),
    (''title'', JString ''Email_Message_Create''),
    (''description'', JString ''Create an email draft without sending it''),
    (''type'', JString ''object''),
    (''properties'', JObject [
      (''body'', JObject [
        (''description'', JString ''Email body in plain text or markdown''),
        (''type'', JString ''string''),
        (''additionalProperties'', JBool False)]),
      (''cc'', JObject [
        (''description'', JString ''CC recipient addresses''),
        (''type'', JString ''array''),
        (''additionalProperties'', JBool False)]),
      (''subject'', JObject [
        (''description'', JString ''Email subject line''),
        (''type'', JString ''string''),
        (''additionalProperties'', JBool False)]),
      (''to'', JObject [
        (''description'', JString ''Recipient email addresses''),
        (''type'', JString ''array''),
        (''additionalProperties'', JBool False),
        (''examples'', JArray [JString ''[\"colleague@example.com\"]''])])]),
    (''required'', JArray [JString ''to'', JString ''subject'', JString ''body'']),
    (''additionalProperties'', JBool False)]"

definition Email_Message_ListSchema :: json where
  "Email_Message_ListSchema = JObject [
    (''$schema'', JString ''http://json-schema.org/draft-07/schema#''),
    (''title'', JString ''Email_Message_List''),
    (''description'', JString ''List email messages matching a filter; returns metadata only, not bodies''),
    (''type'', JString ''object''),
    (''properties'', JObject [
      (''folder'', JObject [
        (''description'', JString ''Folder to list messages from''),
        (''type'', JString ''string''),
        (''additionalProperties'', JBool False),
        (''default'', JString ''inbox''),
        (''examples'', JArray [JString ''inbox''])]),
      (''max_results'', JObject [
        (''description'', JString ''Maximum messages to return''),
        (''type'', JString ''integer''),
        (''additionalProperties'', JBool False),
        (''default'', JNumber ''20'')]),
      (''query'', JObject [
        (''description'', JString ''Provider search query to filter results''),
        (''type'', JString ''string''),
        (''additionalProperties'', JBool False),
        (''examples'', JArray [JString ''from:boss@example.com subject:urgent''])]),
      (''unread_only'', JObject [
        (''description'', JString ''Return only unread messages''),
        (''type'', JString ''boolean''),
        (''additionalProperties'', JBool False),
        (''default'', JBool False)])]),
    (''additionalProperties'', JBool False)]"

definition Email_Message_ReadSchema :: json where
  "Email_Message_ReadSchema = JObject [
    (''$schema'', JString ''http://json-schema.org/draft-07/schema#''),
    (''title'', JString ''Email_Message_Read''),
    (''description'', JString ''Read the body and headers of a specific email message''),
    (''type'', JString ''object''),
    (''properties'', JObject [
      (''message_id'', JObject [
        (''description'', JString ''Provider message ID from Mail_Message_List''),
        (''type'', JString ''string''),
        (''additionalProperties'', JBool False)]),
      (''strip_tracking'', JObject [
        (''description'', JString ''Remove tracking pixels and link redirects from the body''),
        (''type'', JString ''boolean''),
        (''additionalProperties'', JBool False),
        (''default'', JBool True)])]),
    (''required'', JArray [JString ''message_id'']),
    (''additionalProperties'', JBool False)]"

definition Email_Message_SendSchema :: json where
  "Email_Message_SendSchema = JObject [
    (''$schema'', JString ''http://json-schema.org/draft-07/schema#''),
    (''title'', JString ''Email_Message_Send''),
    (''description'', JString ''Send an existing draft message''),
    (''type'', JString ''object''),
    (''properties'', JObject [
      (''draft_id'', JObject [
        (''description'', JString ''Draft ID from Mail_Message_Create''),
        (''type'', JString ''string''),
        (''additionalProperties'', JBool False)])]),
    (''required'', JArray [JString ''draft_id'']),
    (''additionalProperties'', JBool False)]"

definition Filesystem_Dir_CreateSchema :: json where
  "Filesystem_Dir_CreateSchema = JObject [
    (''$schema'', JString ''http://json-schema.org/draft-07/schema#''),
    (''title'', JString ''Filesystem_Dir_Create''),
    (''description'', JString ''Create a directory (and any missing parents) in the agent workspace''),
    (''type'', JString ''object''),
    (''properties'', JObject [
      (''path'', JObject [
        (''description'', JString ''Workspace-relative directory path to create''),
        (''type'', JString ''string''),
        (''additionalProperties'', JBool False),
        (''examples'', JArray [JString ''output/charts''])])]),
    (''required'', JArray [JString ''path'']),
    (''additionalProperties'', JBool False)]"

definition Filesystem_Dir_ListSchema :: json where
  "Filesystem_Dir_ListSchema = JObject [
    (''$schema'', JString ''http://json-schema.org/draft-07/schema#''),
    (''title'', JString ''Filesystem_Dir_List''),
    (''description'', JString ''List the contents of a directory in the agent workspace''),
    (''type'', JString ''object''),
    (''properties'', JObject [
      (''path'', JObject [
        (''description'', JString ''Workspace-relative directory path to list''),
        (''type'', JString ''string''),
        (''additionalProperties'', JBool False),
        (''default'', JString ''.''),
        (''examples'', JArray [JString ''output''])]),
      (''recursive'', JObject [
        (''description'', JString ''Recurse into subdirectories''),
        (''type'', JString ''boolean''),
        (''additionalProperties'', JBool False),
        (''default'', JBool False)])]),
    (''additionalProperties'', JBool False)]"

definition Filesystem_File_DeleteSchema :: json where
  "Filesystem_File_DeleteSchema = JObject [
    (''$schema'', JString ''http://json-schema.org/draft-07/schema#''),
    (''title'', JString ''Filesystem_File_Delete''),
    (''description'', JString ''Delete a file from the agent workspace''),
    (''type'', JString ''object''),
    (''properties'', JObject [
      (''path'', JObject [
        (''description'', JString ''Workspace-relative path of the file to delete''),
        (''type'', JString ''string''),
        (''additionalProperties'', JBool False),
        (''examples'', JArray [JString ''tmp/scratch.txt''])])]),
    (''required'', JArray [JString ''path'']),
    (''additionalProperties'', JBool False)]"

definition Filesystem_File_MoveSchema :: json where
  "Filesystem_File_MoveSchema = JObject [
    (''$schema'', JString ''http://json-schema.org/draft-07/schema#''),
    (''title'', JString ''Filesystem_File_Move''),
    (''description'', JString ''Move or rename a file within the agent workspace''),
    (''type'', JString ''object''),
    (''properties'', JObject [
      (''dst'', JObject [
        (''description'', JString ''Workspace-relative destination path''),
        (''type'', JString ''string''),
        (''additionalProperties'', JBool False),
        (''examples'', JArray [JString ''output/report.md''])]),
      (''src'', JObject [
        (''description'', JString ''Workspace-relative source path''),
        (''type'', JString ''string''),
        (''additionalProperties'', JBool False),
        (''examples'', JArray [JString ''draft/report.md''])])]),
    (''required'', JArray [JString ''src'', JString ''dst'']),
    (''additionalProperties'', JBool False)]"

definition Filesystem_File_ReadSchema :: json where
  "Filesystem_File_ReadSchema = JObject [
    (''$schema'', JString ''http://json-schema.org/draft-07/schema#''),
    (''title'', JString ''Filesystem_File_Read''),
    (''description'', JString ''Read the contents of a file in the agent workspace''),
    (''type'', JString ''object''),
    (''properties'', JObject [
      (''encoding'', JObject [
        (''description'', JString (''Text encoding; use '' @ [CHR 0x27] @ ''base64'' @ [CHR 0x27] @ '' for binary files'')),
        (''type'', JString ''string''),
        (''additionalProperties'', JBool False),
        (''enum'', JArray [JString ''utf-8'', JString ''base64'']),
        (''default'', JString ''utf-8'')]),
      (''path'', JObject [
        (''description'', JString ''Workspace-relative path to the file''),
        (''type'', JString ''string''),
        (''additionalProperties'', JBool False),
        (''examples'', JArray [JString ''output/report.md''])])]),
    (''required'', JArray [JString ''path'']),
    (''additionalProperties'', JBool False)]"

definition Filesystem_File_WriteSchema :: json where
  "Filesystem_File_WriteSchema = JObject [
    (''$schema'', JString ''http://json-schema.org/draft-07/schema#''),
    (''title'', JString ''Filesystem_File_Write''),
    (''description'', JString ''Write or overwrite a file in the agent workspace''),
    (''type'', JString ''object''),
    (''properties'', JObject [
      (''append'', JObject [
        (''description'', JString ''If true, append to the file instead of overwriting''),
        (''type'', JString ''boolean''),
        (''additionalProperties'', JBool False),
        (''default'', JBool False)]),
      (''content'', JObject [
        (''description'', JString ''Content to write; use base64 encoding for binary data''),
        (''type'', JString ''string''),
        (''additionalProperties'', JBool False)]),
      (''encoding'', JObject [
        (''type'', JString ''string''),
        (''additionalProperties'', JBool False),
        (''enum'', JArray [JString ''utf-8'', JString ''base64'']),
        (''default'', JString ''utf-8'')]),
      (''path'', JObject [
        (''description'', JString ''Workspace-relative path; intermediate directories are created if absent''),
        (''type'', JString ''string''),
        (''additionalProperties'', JBool False),
        (''examples'', JArray [JString ''output/report.md''])])]),
    (''required'', JArray [JString ''path'', JString ''content'']),
    (''additionalProperties'', JBool False)]"

definition Media_Audio_TranscribeSchema :: json where
  "Media_Audio_TranscribeSchema = JObject [
    (''$schema'', JString ''http://json-schema.org/draft-07/schema#''),
    (''title'', JString ''Media_Audio_Transcribe''),
    (''description'', JString ''Transcribe an audio file to text''),
    (''type'', JString ''object''),
    (''properties'', JObject [
      (''language'', JObject [
        (''description'', JString ''BCP-47 language code hint; omit for auto-detection''),
        (''type'', JString ''string''),
        (''additionalProperties'', JBool False),
        (''examples'', JArray [JString ''en-US''])]),
      (''path'', JObject [
        (''description'', JString ''Workspace-relative path to the audio file (mp3, wav, m4a)''),
        (''type'', JString ''string''),
        (''additionalProperties'', JBool False),
        (''examples'', JArray [JString ''recordings/meeting.mp3''])])]),
    (''required'', JArray [JString ''path'']),
    (''additionalProperties'', JBool False)]"

definition Media_Image_AnalyzeSchema :: json where
  "Media_Image_AnalyzeSchema = JObject [
    (''$schema'', JString ''http://json-schema.org/draft-07/schema#''),
    (''title'', JString ''Media_Image_Analyze''),
    (''description'', JString ''Describe or answer questions about an image using a vision model''),
    (''type'', JString ''object''),
    (''properties'', JObject [
      (''prompt'', JObject [
        (''description'', JString ''Instruction to the vision model''),
        (''type'', JString ''string''),
        (''additionalProperties'', JBool False),
        (''default'', JString ''Describe this image in detail''),
        (''examples'', JArray [JString ''What is the trend shown in this chart?''])]),
      (''source'', JObject [
        (''description'', JString ''Workspace-relative file path or a data URI (base64 PNG/JPEG)''),
        (''type'', JString ''string''),
        (''additionalProperties'', JBool False),
        (''examples'', JArray [JString ''output/chart.png''])])]),
    (''required'', JArray [JString ''source'']),
    (''additionalProperties'', JBool False)]"

definition Memory_Fact_DeleteSchema :: json where
  "Memory_Fact_DeleteSchema = JObject [
    (''$schema'', JString ''http://json-schema.org/draft-07/schema#''),
    (''title'', JString ''Memory_Fact_Delete''),
    (''description'', JString ''Delete a stored memory by key''),
    (''type'', JString ''object''),
    (''properties'', JObject [
      (''key'', JObject [
        (''description'', JString ''Key of the memory to delete''),
        (''type'', JString ''string''),
        (''additionalProperties'', JBool False)])]),
    (''required'', JArray [JString ''key'']),
    (''additionalProperties'', JBool False)]"

definition Memory_Fact_ListSchema :: json where
  "Memory_Fact_ListSchema = JObject [
    (''$schema'', JString ''http://json-schema.org/draft-07/schema#''),
    (''title'', JString ''Memory_Fact_List''),
    (''description'', JString ''List all stored memories, optionally filtered by tag''),
    (''type'', JString ''object''),
    (''properties'', JObject [
      (''max_results'', JObject [
        (''type'', JString ''integer''),
        (''additionalProperties'', JBool False),
        (''default'', JNumber ''50'')]),
      (''tag'', JObject [
        (''description'', JString ''Filter by this tag; omit to list all''),
        (''type'', JString ''string''),
        (''additionalProperties'', JBool False)])]),
    (''additionalProperties'', JBool False)]"

definition Memory_Fact_SearchSchema :: json where
  "Memory_Fact_SearchSchema = JObject [
    (''$schema'', JString ''http://json-schema.org/draft-07/schema#''),
    (''title'', JString ''Memory_Fact_Search''),
    (''description'', JString (''Semantic search over the agent'' @ [CHR 0x27] @ ''s stored memories'')),
    (''type'', JString ''object''),
    (''properties'', JObject [
      (''max_results'', JObject [
        (''type'', JString ''integer''),
        (''additionalProperties'', JBool False),
        (''default'', JNumber ''5'')]),
      (''query'', JObject [
        (''description'', JString ''Natural language query to find relevant memories''),
        (''type'', JString ''string''),
        (''additionalProperties'', JBool False),
        (''examples'', JArray [JString ''what does the user prefer for code style?''])])]),
    (''required'', JArray [JString ''query'']),
    (''additionalProperties'', JBool False)]"

definition Memory_Fact_StoreSchema :: json where
  "Memory_Fact_StoreSchema = JObject [
    (''$schema'', JString ''http://json-schema.org/draft-07/schema#''),
    (''title'', JString ''Memory_Fact_Store''),
    (''description'', JString (''Store a fact or note in the agent'' @ [CHR 0x27] @ ''s persistent memory'')),
    (''type'', JString ''object''),
    (''properties'', JObject [
      (''key'', JObject [
        (''description'', JString ''Unique key for retrieval; use a descriptive slug''),
        (''type'', JString ''string''),
        (''additionalProperties'', JBool False),
        (''examples'', JArray [JString ''user-preferred-language''])]),
      (''tags'', JObject [
        (''description'', JString ''Categorical tags for filtered retrieval''),
        (''type'', JString ''array''),
        (''additionalProperties'', JBool False),
        (''examples'', JArray [JString ''[\"preference\", \"user\"]''])]),
      (''value'', JObject [
        (''description'', JString ''The fact or content to remember''),
        (''type'', JString ''string''),
        (''additionalProperties'', JBool False)])]),
    (''required'', JArray [JString ''key'', JString ''value'']),
    (''additionalProperties'', JBool False)]"

definition Search_Corpus_QuerySchema :: json where
  "Search_Corpus_QuerySchema = JObject [
    (''$schema'', JString ''http://json-schema.org/draft-07/schema#''),
    (''title'', JString ''Search_Corpus_Query''),
    (''description'', JString ''Semantic similarity search over an indexed document corpus''),
    (''type'', JString ''object''),
    (''properties'', JObject [
      (''corpus_id'', JObject [
        (''description'', JString ''Identifier of the indexed corpus to search''),
        (''type'', JString ''string''),
        (''additionalProperties'', JBool False),
        (''examples'', JArray [JString ''internal-docs-2025''])]),
      (''max_results'', JObject [
        (''description'', JString ''Maximum number of results to return''),
        (''type'', JString ''integer''),
        (''additionalProperties'', JBool False),
        (''default'', JNumber ''5'')]),
      (''query'', JObject [
        (''description'', JString ''Natural language query to search for semantically similar content''),
        (''type'', JString ''string''),
        (''additionalProperties'', JBool False),
        (''examples'', JArray [JString ''agent credential isolation patterns''])])]),
    (''required'', JArray [JString ''query'', JString ''corpus_id'']),
    (''additionalProperties'', JBool False)]"

definition Search_Web_QuerySchema :: json where
  "Search_Web_QuerySchema = JObject [
    (''$schema'', JString ''http://json-schema.org/draft-07/schema#''),
    (''title'', JString ''Search_Web_Query''),
    (''description'', JString ''Execute a web search and return ranked result summaries; does not load full pages''),
    (''type'', JString ''object''),
    (''properties'', JObject [
      (''date_after'', JObject [
        (''description'', JString ''Restrict results to pages published after this date (ISO8601)''),
        (''type'', JString ''string''),
        (''additionalProperties'', JBool False),
        (''examples'', JArray [JString ''2025-01-01''])]),
      (''max_results'', JObject [
        (''description'', JString ''Maximum number of results to return''),
        (''type'', JString ''integer''),
        (''additionalProperties'', JBool False),
        (''default'', JNumber ''10'')]),
      (''query'', JObject [
        (''description'', JString ''Natural language or keyword search query''),
        (''type'', JString ''string''),
        (''additionalProperties'', JBool False),
        (''examples'', JArray [JString ''systemd-nspawn user namespacing security''])])]),
    (''required'', JArray [JString ''query'']),
    (''additionalProperties'', JBool False)]"

definition Spreadsheet_Range_ReadSchema :: json where
  "Spreadsheet_Range_ReadSchema = JObject [
    (''$schema'', JString ''http://json-schema.org/draft-07/schema#''),
    (''title'', JString ''Spreadsheet_Range_Read''),
    (''description'', JString ''Read a cell range from a spreadsheet; returns raw values only, no formatting''),
    (''type'', JString ''object''),
    (''properties'', JObject [
      (''range'', JObject [
        (''description'', JString ''A1 notation range to read''),
        (''type'', JString ''string''),
        (''additionalProperties'', JBool False),
        (''examples'', JArray [JString ''Sheet1!A1:D20''])]),
      (''spreadsheet_id'', JObject [
        (''description'', JString ''Provider spreadsheet identifier''),
        (''type'', JString ''string''),
        (''additionalProperties'', JBool False),
        (''examples'', JArray [JString ''1BxiMVs0XRA5nFMdKvBdBZjgmUUqptlbs74OgVE2upms''])])]),
    (''required'', JArray [JString ''spreadsheet_id'', JString ''range'']),
    (''additionalProperties'', JBool False)]"

definition Spreadsheet_Range_UpdateSchema :: json where
  "Spreadsheet_Range_UpdateSchema = JObject [
    (''$schema'', JString ''http://json-schema.org/draft-07/schema#''),
    (''title'', JString ''Spreadsheet_Range_Update''),
    (''description'', JString ''Write values to a cell range in a spreadsheet''),
    (''type'', JString ''object''),
    (''properties'', JObject [
      (''range'', JObject [
        (''description'', JString ''A1 notation range to update''),
        (''type'', JString ''string''),
        (''additionalProperties'', JBool False),
        (''examples'', JArray [JString ''Sheet1!A2:C2''])]),
      (''spreadsheet_id'', JObject [
        (''description'', JString ''Provider spreadsheet identifier''),
        (''type'', JString ''string''),
        (''additionalProperties'', JBool False)]),
      (''values'', JObject [
        (''description'', JString ''2D array of values to write''),
        (''type'', JString ''array''),
        (''additionalProperties'', JBool False)])]),
    (''required'', JArray [JString ''spreadsheet_id'', JString ''range'', JString ''values'']),
    (''additionalProperties'', JBool False)]"

definition Spreadsheet_Row_CreateSchema :: json where
  "Spreadsheet_Row_CreateSchema = JObject [
    (''$schema'', JString ''http://json-schema.org/draft-07/schema#''),
    (''title'', JString ''Spreadsheet_Row_Create''),
    (''description'', JString ''Append a row to the end of a sheet''),
    (''type'', JString ''object''),
    (''properties'', JObject [
      (''sheet_name'', JObject [
        (''description'', JString ''Name of the sheet tab to append to''),
        (''type'', JString ''string''),
        (''additionalProperties'', JBool False),
        (''examples'', JArray [JString ''Leads''])]),
      (''spreadsheet_id'', JObject [
        (''description'', JString ''Provider spreadsheet identifier''),
        (''type'', JString ''string''),
        (''additionalProperties'', JBool False)]),
      (''values'', JObject [
        (''description'', JString ''Ordered list of cell values for the new row''),
        (''type'', JString ''array''),
        (''additionalProperties'', JBool False)])]),
    (''required'', JArray [JString ''spreadsheet_id'', JString ''sheet_name'', JString ''values'']),
    (''additionalProperties'', JBool False)]"

definition Spreadsheet_Sheet_ListSchema :: json where
  "Spreadsheet_Sheet_ListSchema = JObject [
    (''$schema'', JString ''http://json-schema.org/draft-07/schema#''),
    (''title'', JString ''Spreadsheet_Sheet_List''),
    (''description'', JString ''List all sheet tabs within a spreadsheet''),
    (''type'', JString ''object''),
    (''properties'', JObject [
      (''spreadsheet_id'', JObject [
        (''description'', JString ''Provider spreadsheet identifier''),
        (''type'', JString ''string''),
        (''additionalProperties'', JBool False)])]),
    (''required'', JArray [JString ''spreadsheet_id'']),
    (''additionalProperties'', JBool False)]"

definition Swarm_Agent_ListSchema :: json where
  "Swarm_Agent_ListSchema = JObject [
    (''$schema'', JString ''http://json-schema.org/draft-07/schema#''),
    (''title'', JString ''Swarm_Agent_List''),
    (''description'', JString ''List agents currently registered with keeperd''),
    (''type'', JString ''object''),
    (''additionalProperties'', JBool False)]"

definition Swarm_Group_SendSchema :: json where
  "Swarm_Group_SendSchema = JObject [
    (''$schema'', JString ''http://json-schema.org/draft-07/schema#''),
    (''title'', JString ''Swarm_Group_Send''),
    (''description'', JString ''Send a multicast MUS message to all agents in a named group''),
    (''type'', JString ''object''),
    (''properties'', JObject [
      (''group'', JObject [
        (''description'', JString ''Group name as defined in orchestrator.kdl swarm.groups''),
        (''type'', JString ''string''),
        (''additionalProperties'', JBool False),
        (''examples'', JArray [JString ''researchers''])]),
      (''msg_type'', JObject [
        (''type'', JString ''string''),
        (''additionalProperties'', JBool False),
        (''enum'', JArray [JString ''task'', JString ''result'', JString ''query'', JString ''ack'', JString ''error'']),
        (''default'', JString ''task'')]),
      (''payload'', JObject [
        (''description'', JString ''Message body to deliver to all group members''),
        (''type'', JString ''string''),
        (''additionalProperties'', JBool False)])]),
    (''required'', JArray [JString ''group'', JString ''payload'']),
    (''additionalProperties'', JBool False)]"

definition Swarm_Message_SendSchema :: json where
  "Swarm_Message_SendSchema = JObject [
    (''$schema'', JString ''http://json-schema.org/draft-07/schema#''),
    (''title'', JString ''Swarm_Message_Send''),
    (''description'', JString ''Send a unicast MUS message to a specific agent via the keeperd switchboard''),
    (''type'', JString ''object''),
    (''properties'', JObject [
      (''msg_type'', JObject [
        (''description'', JString ''Semantic message type for the receiver to route on''),
        (''type'', JString ''string''),
        (''additionalProperties'', JBool False),
        (''enum'', JArray [JString ''task'', JString ''result'', JString ''query'', JString ''ack'', JString ''error'']),
        (''default'', JString ''task'')]),
      (''payload'', JObject [
        (''description'', JString ''Message body; typically a JSON task description or result''),
        (''type'', JString ''string''),
        (''additionalProperties'', JBool False)]),
      (''to_id'', JObject [
        (''description'', JString ''Target agent ID as registered in keeperd''),
        (''type'', JString ''string''),
        (''additionalProperties'', JBool False),
        (''examples'', JArray [JString ''researcher-02''])])]),
    (''required'', JArray [JString ''to_id'', JString ''payload'']),
    (''additionalProperties'', JBool False)]"

definition System_Process_ExecSchema :: json where
  "System_Process_ExecSchema = JObject [
    (''$schema'', JString ''http://json-schema.org/draft-07/schema#''),
    (''title'', JString ''System_Process_Exec''),
    (''description'', JString ''Execute a process in the agent jail and capture its output''),
    (''type'', JString ''object''),
    (''properties'', JObject [
      (''command'', JObject [
        (''description'', JString ''Command and arguments as a single string''),
        (''type'', JString ''string''),
        (''additionalProperties'', JBool False),
        (''examples'', JArray [JString ''go build ./...''])]),
      (''env'', JObject [
        (''description'', JString ''Additional environment variables as {key, value} objects''),
        (''type'', JString ''array''),
        (''additionalProperties'', JBool False)]),
      (''timeout'', JObject [
        (''description'', JString ''Maximum execution time in seconds''),
        (''type'', JString ''integer''),
        (''additionalProperties'', JBool False),
        (''default'', JNumber ''60'')]),
      (''workdir'', JObject [
        (''description'', JString ''Workspace-relative working directory for the process''),
        (''type'', JString ''string''),
        (''additionalProperties'', JBool False),
        (''default'', JString ''.'')])]),
    (''required'', JArray [JString ''command'']),
    (''additionalProperties'', JBool False)]"

definition System_Process_KillSchema :: json where
  "System_Process_KillSchema = JObject [
    (''$schema'', JString ''http://json-schema.org/draft-07/schema#''),
    (''title'', JString ''System_Process_Kill''),
    (''description'', JString ''Send a signal to a process in the agent jail''),
    (''type'', JString ''object''),
    (''properties'', JObject [
      (''pid'', JObject [
        (''description'', JString ''PID of the process to signal''),
        (''type'', JString ''integer''),
        (''additionalProperties'', JBool False)]),
      (''signal'', JObject [
        (''description'', JString ''Signal to send''),
        (''type'', JString ''string''),
        (''additionalProperties'', JBool False),
        (''enum'', JArray [JString ''SIGTERM'', JString ''SIGKILL'', JString ''SIGINT'', JString ''SIGHUP'']),
        (''default'', JString ''SIGTERM'')])]),
    (''required'', JArray [JString ''pid'']),
    (''additionalProperties'', JBool False)]"

definition System_Process_ListSchema :: json where
  "System_Process_ListSchema = JObject [
    (''$schema'', JString ''http://json-schema.org/draft-07/schema#''),
    (''title'', JString ''System_Process_List''),
    (''description'', JString ''List running processes in the agent jail''),
    (''type'', JString ''object''),
    (''additionalProperties'', JBool False)]"

definition VersionControl_Branch_CreateSchema :: json where
  "VersionControl_Branch_CreateSchema = JObject [
    (''$schema'', JString ''http://json-schema.org/draft-07/schema#''),
    (''title'', JString ''VersionControl_Branch_Create''),
    (''description'', JString ''Create and check out a new branch''),
    (''type'', JString ''object''),
    (''properties'', JObject [
      (''from'', JObject [
        (''description'', JString ''Ref to branch from''),
        (''type'', JString ''string''),
        (''additionalProperties'', JBool False),
        (''default'', JString ''HEAD'')]),
      (''name'', JObject [
        (''description'', JString ''Name of the new branch''),
        (''type'', JString ''string''),
        (''additionalProperties'', JBool False),
        (''examples'', JArray [JString ''feature/add-oauth''])]),
      (''path'', JObject [
        (''description'', JString ''Workspace-relative repository root''),
        (''type'', JString ''string''),
        (''additionalProperties'', JBool False),
        (''default'', JString ''.'')])]),
    (''required'', JArray [JString ''name'']),
    (''additionalProperties'', JBool False)]"

definition VersionControl_Branch_ListSchema :: json where
  "VersionControl_Branch_ListSchema = JObject [
    (''$schema'', JString ''http://json-schema.org/draft-07/schema#''),
    (''title'', JString ''VersionControl_Branch_List''),
    (''description'', JString ''List branches in a repository''),
    (''type'', JString ''object''),
    (''properties'', JObject [
      (''path'', JObject [
        (''description'', JString ''Workspace-relative repository root''),
        (''type'', JString ''string''),
        (''additionalProperties'', JBool False),
        (''default'', JString ''.'')]),
      (''remote'', JObject [
        (''description'', JString ''Include remote-tracking branches''),
        (''type'', JString ''boolean''),
        (''additionalProperties'', JBool False),
        (''default'', JBool False)])]),
    (''additionalProperties'', JBool False)]"

definition VersionControl_Commit_CreateSchema :: json where
  "VersionControl_Commit_CreateSchema = JObject [
    (''$schema'', JString ''http://json-schema.org/draft-07/schema#''),
    (''title'', JString ''VersionControl_Commit_Create''),
    (''description'', JString ''Stage specified files and create a commit''),
    (''type'', JString ''object''),
    (''properties'', JObject [
      (''files'', JObject [
        (''description'', JString ''Workspace-relative file paths to stage; use [\".\"] to stage all changes''),
        (''type'', JString ''array''),
        (''additionalProperties'', JBool False)]),
      (''message'', JObject [
        (''description'', JString ''Commit message''),
        (''type'', JString ''string''),
        (''additionalProperties'', JBool False),
        (''examples'', JArray [JString ''feat: add OAuth token refresh''])]),
      (''path'', JObject [
        (''description'', JString ''Workspace-relative repository root''),
        (''type'', JString ''string''),
        (''additionalProperties'', JBool False),
        (''default'', JString ''.'')])]),
    (''required'', JArray [JString ''message'', JString ''files'']),
    (''additionalProperties'', JBool False)]"

definition VersionControl_Diff_ReadSchema :: json where
  "VersionControl_Diff_ReadSchema = JObject [
    (''$schema'', JString ''http://json-schema.org/draft-07/schema#''),
    (''title'', JString ''VersionControl_Diff_Read''),
    (''description'', JString ''Read the diff for staged changes, unstaged changes, or between refs''),
    (''type'', JString ''object''),
    (''properties'', JObject [
      (''base'', JObject [
        (''description'', JString ''Base ref for comparison; omit for working-tree diff''),
        (''type'', JString ''string''),
        (''additionalProperties'', JBool False),
        (''examples'', JArray [JString ''main''])]),
      (''head'', JObject [
        (''description'', JString ''Head ref for comparison; omit for working-tree diff''),
        (''type'', JString ''string''),
        (''additionalProperties'', JBool False),
        (''examples'', JArray [JString ''feature/my-branch''])]),
      (''path'', JObject [
        (''description'', JString ''Workspace-relative repository root''),
        (''type'', JString ''string''),
        (''additionalProperties'', JBool False),
        (''default'', JString ''.'')])]),
    (''additionalProperties'', JBool False)]"

definition VersionControl_Log_ListSchema :: json where
  "VersionControl_Log_ListSchema = JObject [
    (''$schema'', JString ''http://json-schema.org/draft-07/schema#''),
    (''title'', JString ''VersionControl_Log_List''),
    (''description'', JString ''List recent commits on the current or specified branch''),
    (''type'', JString ''object''),
    (''properties'', JObject [
      (''branch'', JObject [
        (''description'', JString ''Branch to list commits from; defaults to current branch''),
        (''type'', JString ''string''),
        (''additionalProperties'', JBool False)]),
      (''max_results'', JObject [
        (''type'', JString ''integer''),
        (''additionalProperties'', JBool False),
        (''default'', JNumber ''20'')]),
      (''path'', JObject [
        (''description'', JString ''Workspace-relative repository root''),
        (''type'', JString ''string''),
        (''additionalProperties'', JBool False),
        (''default'', JString ''.'')])]),
    (''additionalProperties'', JBool False)]"

definition VersionControl_Remote_PushSchema :: json where
  "VersionControl_Remote_PushSchema = JObject [
    (''$schema'', JString ''http://json-schema.org/draft-07/schema#''),
    (''title'', JString ''VersionControl_Remote_Push''),
    (''description'', JString ''Push the current branch to a permitted remote''),
    (''type'', JString ''object''),
    (''properties'', JObject [
      (''force'', JObject [
        (''description'', JString ''Force push; only permitted if agent.kdl explicitly allows it''),
        (''type'', JString ''boolean''),
        (''additionalProperties'', JBool False),
        (''default'', JBool False)]),
      (''path'', JObject [
        (''description'', JString ''Workspace-relative repository root''),
        (''type'', JString ''string''),
        (''additionalProperties'', JBool False),
        (''default'', JString ''.'')]),
      (''remote'', JObject [
        (''description'', JString ''Remote name to push to''),
        (''type'', JString ''string''),
        (''additionalProperties'', JBool False),
        (''default'', JString ''origin'')])]),
    (''additionalProperties'', JBool False)]"

definition VersionControl_Status_ReadSchema :: json where
  "VersionControl_Status_ReadSchema = JObject [
    (''$schema'', JString ''http://json-schema.org/draft-07/schema#''),
    (''title'', JString ''VersionControl_Status_Read''),
    (''description'', JString ''Read the working tree status of a repository in the agent workspace''),
    (''type'', JString ''object''),
    (''properties'', JObject [
      (''path'', JObject [
        (''description'', JString ''Workspace-relative path to the repository root''),
        (''type'', JString ''string''),
        (''additionalProperties'', JBool False),
        (''default'', JString ''.'')])]),
    (''additionalProperties'', JBool False)]"

definition schema_table :: "(string \<times> json) list" where
  "schema_table = [
     (''Browser_Form_Submit'', Browser_Form_SubmitSchema),
     (''Browser_Link_List'', Browser_Link_ListSchema),
     (''Browser_Page_GetTitle'', Browser_Page_GetTitleSchema),
     (''Browser_Page_Read'', Browser_Page_ReadSchema),
     (''Browser_Page_Screenshot'', Browser_Page_ScreenshotSchema),
     (''Calendar_Event_Create'', Calendar_Event_CreateSchema),
     (''Calendar_Event_List'', Calendar_Event_ListSchema),
     (''Calendar_Event_Read'', Calendar_Event_ReadSchema),
     (''Calendar_Slot_Find'', Calendar_Slot_FindSchema),
     (''Code_Lint_Run'', Code_Lint_RunSchema),
     (''Code_Script_Exec'', Code_Script_ExecSchema),
     (''Code_Test_Run'', Code_Test_RunSchema),
     (''Database_Query_Exec'', Database_Query_ExecSchema),
     (''Database_Schema_Read'', Database_Schema_ReadSchema),
     (''Database_Table_List'', Database_Table_ListSchema),
     (''Document_Content_Append'', Document_Content_AppendSchema),
     (''Document_Content_Read'', Document_Content_ReadSchema),
     (''Document_Content_Replace'', Document_Content_ReplaceSchema),
     (''Document_Doc_List'', Document_Doc_ListSchema),
     (''Email_Message_Create'', Email_Message_CreateSchema),
     (''Email_Message_List'', Email_Message_ListSchema),
     (''Email_Message_Read'', Email_Message_ReadSchema),
     (''Email_Message_Send'', Email_Message_SendSchema),
     (''Filesystem_Dir_Create'', Filesystem_Dir_CreateSchema),
     (''Filesystem_Dir_List'', Filesystem_Dir_ListSchema),
     (''Filesystem_File_Delete'', Filesystem_File_DeleteSchema),
     (''Filesystem_File_Move'', Filesystem_File_MoveSchema),
     (''Filesystem_File_Read'', Filesystem_File_ReadSchema),
     (''Filesystem_File_Write'', Filesystem_File_WriteSchema),
     (''Media_Audio_Transcribe'', Media_Audio_TranscribeSchema),
     (''Media_Image_Analyze'', Media_Image_AnalyzeSchema),
     (''Memory_Fact_Delete'', Memory_Fact_DeleteSchema),
     (''Memory_Fact_List'', Memory_Fact_ListSchema),
     (''Memory_Fact_Search'', Memory_Fact_SearchSchema),
     (''Memory_Fact_Store'', Memory_Fact_StoreSchema),
     (''Search_Corpus_Query'', Search_Corpus_QuerySchema),
     (''Search_Web_Query'', Search_Web_QuerySchema),
     (''Spreadsheet_Range_Read'', Spreadsheet_Range_ReadSchema),
     (''Spreadsheet_Range_Update'', Spreadsheet_Range_UpdateSchema),
     (''Spreadsheet_Row_Create'', Spreadsheet_Row_CreateSchema),
     (''Spreadsheet_Sheet_List'', Spreadsheet_Sheet_ListSchema),
     (''Swarm_Agent_List'', Swarm_Agent_ListSchema),
     (''Swarm_Group_Send'', Swarm_Group_SendSchema),
     (''Swarm_Message_Send'', Swarm_Message_SendSchema),
     (''System_Process_Exec'', System_Process_ExecSchema),
     (''System_Process_Kill'', System_Process_KillSchema),
     (''System_Process_List'', System_Process_ListSchema),
     (''VersionControl_Branch_Create'', VersionControl_Branch_CreateSchema),
     (''VersionControl_Branch_List'', VersionControl_Branch_ListSchema),
     (''VersionControl_Commit_Create'', VersionControl_Commit_CreateSchema),
     (''VersionControl_Diff_Read'', VersionControl_Diff_ReadSchema),
     (''VersionControl_Log_List'', VersionControl_Log_ListSchema),
     (''VersionControl_Remote_Push'', VersionControl_Remote_PushSchema),
     (''VersionControl_Status_Read'', VersionControl_Status_ReadSchema)]"

lemmas schema_defs =
  Browser_Form_SubmitSchema_def Browser_Link_ListSchema_def Browser_Page_GetTitleSchema_def
  Browser_Page_ReadSchema_def Browser_Page_ScreenshotSchema_def Calendar_Event_CreateSchema_def
  Calendar_Event_ListSchema_def Calendar_Event_ReadSchema_def Calendar_Slot_FindSchema_def
  Code_Lint_RunSchema_def Code_Script_ExecSchema_def Code_Test_RunSchema_def Database_Query_ExecSchema_def
  Database_Schema_ReadSchema_def Database_Table_ListSchema_def Document_Content_AppendSchema_def
  Document_Content_ReadSchema_def Document_Content_ReplaceSchema_def Document_Doc_ListSchema_def
  Email_Message_CreateSchema_def Email_Message_ListSchema_def Email_Message_ReadSchema_def
  Email_Message_SendSchema_def Filesystem_Dir_CreateSchema_def Filesystem_Dir_ListSchema_def
  Filesystem_File_DeleteSchema_def Filesystem_File_MoveSchema_def Filesystem_File_ReadSchema_def
  Filesystem_File_WriteSchema_def Media_Audio_TranscribeSchema_def Media_Image_AnalyzeSchema_def
  Memory_Fact_DeleteSchema_def Memory_Fact_ListSchema_def Memory_Fact_SearchSchema_def
  Memory_Fact_StoreSchema_def Search_Corpus_QuerySchema_def Search_Web_QuerySchema_def
  Spreadsheet_Range_ReadSchema_def Spreadsheet_Range_UpdateSchema_def Spreadsheet_Row_CreateSchema_def
  Spreadsheet_Sheet_ListSchema_def Swarm_Agent_ListSchema_def Swarm_Group_SendSchema_def
  Swarm_Message_SendSchema_def System_Process_ExecSchema_def System_Process_KillSchema_def
  System_Process_ListSchema_def VersionControl_Branch_CreateSchema_def VersionControl_Branch_ListSchema_def
  VersionControl_Commit_CreateSchema_def VersionControl_Diff_ReadSchema_def
  VersionControl_Log_ListSchema_def VersionControl_Remote_PushSchema_def
  VersionControl_Status_ReadSchema_def

end
