(* ===== verification/Generation.thy ===== *)
theory Generation
  imports Schemas "HOL-Library.Multiset"
begin

text \<open>
  The generated file against its source: what the generator makes of the definitions in
  \<open>capabilities/capabilities.kdl\<close> (\<open>Catalogue\<close>) is what \<open>internal/capabilities/generated.go\<close>
  declares (\<open>Generated\<close>, \<open>Schemas\<close>).

  The tables are compared entry by entry: after \<open>list.rel_intros\<close> every capability is a goal of its
  own, which the evaluation rules of \<open>Vivgen\<close> decide.
\<close>

subsection \<open>Loading\<close>

text \<open>The definitions in the order of their names.\<close>

definition sorted_nodes :: "'f doc_node list" where
  "sorted_nodes = [
     Browser_Form_Submit_node,
     Browser_Link_List_node,
     Browser_Page_GetTitle_node,
     Browser_Page_Read_node,
     Browser_Page_Screenshot_node,
     Calendar_Event_Create_node,
     Calendar_Event_List_node,
     Calendar_Event_Read_node,
     Calendar_Slot_Find_node,
     Code_Lint_Run_node,
     Code_Script_Exec_node,
     Code_Test_Run_node,
     Database_Query_Exec_node,
     Database_Schema_Read_node,
     Database_Table_List_node,
     Document_Content_Append_node,
     Document_Content_Read_node,
     Document_Content_Replace_node,
     Document_Doc_List_node,
     Email_Message_Create_node,
     Email_Message_List_node,
     Email_Message_Read_node,
     Email_Message_Send_node,
     Filesystem_Dir_Create_node,
     Filesystem_Dir_List_node,
     Filesystem_File_Delete_node,
     Filesystem_File_Move_node,
     Filesystem_File_Read_node,
     Filesystem_File_Write_node,
     Media_Audio_Transcribe_node,
     Media_Image_Analyze_node,
     Memory_Fact_Delete_node,
     Memory_Fact_List_node,
     Memory_Fact_Search_node,
     Memory_Fact_Store_node,
     Search_Corpus_Query_node,
     Search_Web_Query_node,
     Spreadsheet_Range_Read_node,
     Spreadsheet_Range_Update_node,
     Spreadsheet_Row_Create_node,
     Spreadsheet_Sheet_List_node,
     Swarm_Agent_List_node,
     Swarm_Group_Send_node,
     Swarm_Message_Send_node,
     System_Process_Exec_node,
     System_Process_Kill_node,
     System_Process_List_node,
     VersionControl_Branch_Create_node,
     VersionControl_Branch_List_node,
     VersionControl_Commit_Create_node,
     VersionControl_Diff_Read_node,
     VersionControl_Log_List_node,
     VersionControl_Remote_Push_node,
     VersionControl_Status_Read_node]"

lemma nodes_perm: "mset capability_nodes = mset (sorted_nodes :: 'f doc_node list)"
  unfolding capability_nodes_def sorted_nodes_def
  by (simp add: add_mset_commute)

lemma node_names: "plain_values k \<Longrightarrow> map (gen_firstArg k) sorted_nodes = map fst schema_table"
  unfolding sorted_nodes_def schema_table_def
  by (simp add: node_defs gen_firstArg_def plain_valuesD)

lemma names_sorted: "sorted_wrt (<) (map fst schema_table)"
  unfolding schema_table_def
  by (simp add: sorted_wrt2_simps del: sorted_wrt.simps)

lemma only_capabilities: "list_all (\<lambda>n. dn_Name n = ''capability'') (capability_nodes :: 'f doc_node list)"
  unfolding capability_nodes_def
  by (simp add: node_defs)

lemma load_capabilities:
  fixes k :: "'f kdl_ops"
  assumes "plain_values k"
  shows "capabilities_of_doc k capability_nodes = map (capability_of_node k) sorted_nodes"
proof -
  let ?c = "map (capability_of_node k)"
  have keys: "map kc_Name (?c sorted_nodes) = map fst schema_table"
    using node_names [OF assms] by (simp add: capability_name o_def)
  then have sd: "sorted (map kc_Name (?c sorted_nodes))" "distinct (map kc_Name (?c sorted_nodes))"
    using names_sorted by (simp_all only: strict_sorted_iff)
  have m: "mset (?c capability_nodes) = mset (?c sorted_nodes)"
    by (simp add: nodes_perm)
  have "inj_on kc_Name (set (?c capability_nodes))"
    using sd(2) unfolding mset_eq_setD [OF m] distinct_map by blast
  then have "sort_key kc_Name (?c capability_nodes) = ?c sorted_nodes"
    by (intro sort_key_inj_key_eq [OF m] sd(1))
  moreover have "filter (\<lambda>n. dn_Name n = ''capability'') capability_nodes = (capability_nodes :: 'f doc_node list)"
    using only_capabilities by (auto simp: filter_id_conv list_all_iff)
  ultimately show ?thesis
    by (simp add: capabilities_of_doc_def)
qed

subsection \<open>The tables, entry by entry\<close>

lemma default_numbers:
  "show_int 5 = ''5''" "show_int 10 = ''10''" "show_int 20 = ''20''" "show_int 30 = ''30''" "show_int 50 = ''50''"
  "show_int 60 = ''60''" "show_int 100 = ''100''"
  by code_simp+

lemma schemas_generated:
  assumes "plain_values k"
  shows "list_all2 (\<lambda>n (name, j). schema_json k (generateSchemaForCapability (capability_of_node k n)) = j) sorted_nodes schema_table"
  unfolding sorted_nodes_def schema_table_def
  by (intro list.rel_intros; simp only: prod.case)
    (simp_all add: node_defs schema_defs load_simps schema_simps plain_valuesD default_numbers assms)

lemma infos_generated:
  assumes "plain_values k"
  shows "list_all2 (\<lambda>n (name, i). generated_info (capability_of_node k n) = i) sorted_nodes info_table"
  unfolding sorted_nodes_def info_table_def
  by (intro list.rel_intros; simp only: prod.case)
    (simp_all add: node_defs load_simps generated_info_def plain_valuesD assms)

definition arguments_of :: "'f kdlCapability \<Rightarrow> field list option" where
  "arguments_of c =
     (case map_outcome argument_field (kc_Fields c) of Val sfs \<Rightarrow> those (map field_of sfs) | _ \<Rightarrow> None)"

lemma arguments_generated:
  assumes "plain_values k"
  shows "list_all2 (\<lambda>n (name, fs). arguments_of (capability_of_node k n) = Some fs) sorted_nodes argument_table"
  unfolding sorted_nodes_def argument_table_def
  by (intro list.rel_intros; simp only: prod.case)
    (simp_all add: node_defs struct_defs load_simps struct_simps arguments_of_def plain_valuesD assms)

text \<open>What a capability contributes to the result types: nothing, or its name and the shape of its result.\<close>

definition result_entry :: "'f kdlCapability \<Rightarrow> (string \<times> shape option) list" where
  "result_entry c =
     (if generatedResultSupported c
      then [(kc_Name c, case emitResultTypes c of Val r \<Rightarrow> shape_of r | _ \<Rightarrow> None)]
      else [])"

definition result_column :: "(string \<times> shape option) list list" where
  "result_column = [
     [(''Browser_Form_Submit'', Some (Struct Browser_Form_Submit_Result_fields))],
     [(''Browser_Link_List'', Some Browser_Link_List_Result_shape)],
     [(''Browser_Page_GetTitle'', Some (Struct Browser_Page_GetTitle_Result_fields))], [], [],
     [(''Calendar_Event_Create'', Some (Struct Calendar_Event_Create_Result_fields))],
     [(''Calendar_Event_List'', Some Calendar_Event_List_Result_shape)],
     [(''Calendar_Event_Read'', Some (Struct Calendar_Event_Read_Result_fields))],
     [(''Calendar_Slot_Find'', Some Calendar_Slot_Find_Result_shape)],
     [(''Code_Lint_Run'', Some Code_Lint_Run_Result_shape)],
     [(''Code_Script_Exec'', Some (Struct Code_Script_Exec_Result_fields))],
     [(''Code_Test_Run'', Some (Struct Code_Test_Run_Result_fields))],
     [(''Database_Query_Exec'', Some (Struct Database_Query_Exec_Result_fields))],
     [(''Database_Schema_Read'', Some Database_Schema_Read_Result_shape)],
     [(''Database_Table_List'', Some Database_Table_List_Result_shape)],
     [(''Document_Content_Append'', Some (Struct Document_Content_Append_Result_fields))], [],
     [(''Document_Content_Replace'', Some (Struct Document_Content_Replace_Result_fields))],
     [(''Document_Doc_List'', Some Document_Doc_List_Result_shape)],
     [(''Email_Message_Create'', Some (Struct Email_Message_Create_Result_fields))],
     [(''Email_Message_List'', Some Email_Message_List_Result_shape)],
     [(''Email_Message_Read'', Some (Struct Email_Message_Read_Result_fields))],
     [(''Email_Message_Send'', Some (Struct Email_Message_Send_Result_fields))], [],
     [(''Filesystem_Dir_List'', Some Filesystem_Dir_List_Result_shape)], [], [], [],
     [(''Filesystem_File_Write'', Some (Struct Filesystem_File_Write_Result_fields))],
     [(''Media_Audio_Transcribe'', Some (Struct Media_Audio_Transcribe_Result_fields))], [], [],
     [(''Memory_Fact_List'', Some Memory_Fact_List_Result_shape)],
     [(''Memory_Fact_Search'', Some Memory_Fact_Search_Result_shape)],
     [(''Memory_Fact_Store'', Some (Struct Memory_Fact_Store_Result_fields))],
     [(''Search_Corpus_Query'', Some Search_Corpus_Query_Result_shape)],
     [(''Search_Web_Query'', Some Search_Web_Query_Result_shape)], [],
     [(''Spreadsheet_Range_Update'', Some (Struct Spreadsheet_Range_Update_Result_fields))],
     [(''Spreadsheet_Row_Create'', Some (Struct Spreadsheet_Row_Create_Result_fields))],
     [(''Spreadsheet_Sheet_List'', Some Spreadsheet_Sheet_List_Result_shape)],
     [(''Swarm_Agent_List'', Some Swarm_Agent_List_Result_shape)],
     [(''Swarm_Group_Send'', Some (Struct Swarm_Group_Send_Result_fields))],
     [(''Swarm_Message_Send'', Some (Struct Swarm_Message_Send_Result_fields))],
     [(''System_Process_Exec'', Some (Struct System_Process_Exec_Result_fields))], [],
     [(''System_Process_List'', Some System_Process_List_Result_shape)],
     [(''VersionControl_Branch_Create'', Some (Struct VersionControl_Branch_Create_Result_fields))],
     [(''VersionControl_Branch_List'', Some VersionControl_Branch_List_Result_shape)],
     [(''VersionControl_Commit_Create'', Some (Struct VersionControl_Commit_Create_Result_fields))], [],
     [(''VersionControl_Log_List'', Some VersionControl_Log_List_Result_shape)],
     [(''VersionControl_Remote_Push'', Some (Struct VersionControl_Remote_Push_Result_fields))],
     [(''VersionControl_Status_Read'', Some (Struct VersionControl_Status_Read_Result_fields))]]"

lemma results_generated:
  assumes "plain_values k"
  shows "list_all2 (\<lambda>n e. result_entry (capability_of_node k n) = e) sorted_nodes result_column"
  unfolding sorted_nodes_def result_column_def
  by (intro list.rel_intros)
    (simp_all add: node_defs struct_defs shape_defs load_simps struct_simps result_entry_def generatedResultSupported_def
      emitResultTypes_def shape_of_def plain_valuesD assms)

lemma result_entries: "concat result_column = map (\<lambda>(n, s). (n, Some s)) result_table"
  unfolding result_column_def result_table_def
  by simp

subsection \<open>The whole file\<close>

lemma table_columns: "list_all2 (\<lambda>x (n, y). f x = y) xs t \<Longrightarrow> map f xs = map snd t"
  by (induction rule: list_all2_induct) auto

lemma column: "list_all2 (\<lambda>x y. f x = y) xs ys \<Longrightarrow> map f xs = ys"
  by (induction rule: list_all2_induct) auto

lemma named_column: "map f xs = map fst t \<Longrightarrow> map g xs = map snd t \<Longrightarrow> map (\<lambda>x. (f x, g x)) xs = t"
proof (induction xs arbitrary: t)
  case (Cons x xs)
  then show ?case by (cases t) auto
qed simp

lemma table_names: "map fst info_table = map fst schema_table" "map fst argument_table = map fst schema_table"
  by (simp_all add: info_table_def schema_table_def argument_table_def)

lemma arguments_emitted:
  "map arguments_of caps = map Some fss \<Longrightarrow>
   \<exists>as. map_outcome (\<lambda>c. map_outcome argument_field (kc_Fields c)) caps = Val as \<and> map (\<lambda>fs. those (map field_of fs)) as = map Some fss"
proof (induction caps arbitrary: fss)
  case (Cons c caps)
  then obtain fs fss' where f: "fss = fs # fss'" "arguments_of c = Some fs" "map arguments_of caps = map Some fss'"
    by (cases fss) auto
  from f(2) obtain sfs where "map_outcome argument_field (kc_Fields c) = Val sfs" "those (map field_of sfs) = Some fs"
    by (auto simp: arguments_of_def split: outcome.splits)
  with Cons.IH [OF f(3)] f(1) show ?case by auto
qed simp

lemma results_emitted:
  "concat (map result_entry caps) = map (\<lambda>(n, s). (n, Some s)) t \<Longrightarrow>
   \<exists>rs. map_outcome emitResultTypes (filter generatedResultSupported caps) = Val rs
     \<and> map (\<lambda>(n, r). (n, shape_of r)) (zip (map kc_Name (filter generatedResultSupported caps)) rs) = map (\<lambda>(n, s). (n, Some s)) t"
proof (induction caps arbitrary: t)
  case (Cons c caps)
  show ?case
  proof (cases "generatedResultSupported c")
    case True
    then have "result_entry c = [(kc_Name c, case emitResultTypes c of Val r \<Rightarrow> shape_of r | _ \<Rightarrow> None)]"
      by (simp add: result_entry_def)
    with Cons.prems obtain s t' where t: "t = (kc_Name c, s) # t'" "concat (map result_entry caps) = map (\<lambda>(n, s). (n, Some s)) t'"
        "(case emitResultTypes c of Val r \<Rightarrow> shape_of r | _ \<Rightarrow> None) = Some s"
      by (cases t) auto
    from t(3) obtain r where "emitResultTypes c = Val r" "shape_of r = Some s"
      by (auto split: outcome.splits)
    with Cons.IH [OF t(2)] t(1) True show ?thesis by auto
  next
    case False
    with Cons.prems Cons.IH [of t] show ?thesis by (simp add: result_entry_def)
  qed
qed simp

lemma zip_map_snd: "length xs = length ys \<Longrightarrow> map (\<lambda>(n, y). (n, f y)) (zip xs ys) = zip xs (map f ys)"
  by (induction xs ys rule: list_induct2) auto

text \<open>
  C25: The committed Go file is what the generator makes of the committed definitions: run on
  \<open>capabilities.kdl\<close> it succeeds, and its registry entries, its schemas, the fields of its argument
  structs (names, types, order, which of them are encoded) and the shapes of its results are those
  of \<open>generated.go\<close>, for all 54 capabilities.
\<close>

theorem generated_file_in_sync:
  assumes "plain_values k" and "read (Join2 dir ''capabilities.kdl'') = Inr raw"
    and "parse (normalizeKDLGenerics raw) = Inr capability_nodes"
  shows "\<exists>g. vivgen_main k read parse dir pkgName = Val g \<and> ge_Package g = pkgName
    \<and> ge_Infos g = info_table
    \<and> map (\<lambda>(name, s). (name, schema_json k s)) (ge_Schemas g) = schema_table
    \<and> map (\<lambda>(name, fs). (name, those (map field_of fs))) (ge_Arguments g) = map (\<lambda>(name, fs). (name, Some fs)) argument_table
    \<and> map (\<lambda>(name, r). (name, shape_of r)) (ge_Results g) = map (\<lambda>(name, s). (name, Some s)) result_table"
proof -
  let ?caps = "map (capability_of_node k) sorted_nodes"
  have names: "map kc_Name ?caps = map fst schema_table"
    using node_names [OF assms(1)] by (simp add: capability_name o_def)
  have cols: "map generated_info ?caps = map snd info_table"
      "map (\<lambda>c. schema_json k (generateSchemaForCapability c)) ?caps = map snd schema_table"
      "map arguments_of ?caps = map Some (map snd argument_table)"
    using table_columns [OF infos_generated [OF assms(1)]] table_columns [OF schemas_generated [OF assms(1)]]
      arguments_generated [OF assms(1)] by (simp_all add: o_def list_all2_conv_all_nth list_eq_iff_nth_eq split_beta)
  have res: "concat (map result_entry ?caps) = map (\<lambda>(n, s). (n, Some s)) result_table"
    using column [OF results_generated [OF assms(1)]] by (simp add: result_entries [symmetric] o_def)
  obtain as rs where as: "map_outcome (\<lambda>c. map_outcome argument_field (kc_Fields c)) ?caps = Val as"
      "map (\<lambda>fs. those (map field_of fs)) as = map Some (map snd argument_table)"
    and rs: "map_outcome emitResultTypes (filter generatedResultSupported ?caps) = Val rs"
      "map (\<lambda>(n, r). (n, shape_of r)) (zip (map kc_Name (filter generatedResultSupported ?caps)) rs) = map (\<lambda>(n, s). (n, Some s)) result_table"
    using arguments_emitted [OF cols(3)] results_emitted [OF res] by blast
  have "zip (map fst schema_table) (map Some (map snd argument_table)) = map (\<lambda>(name, fs). (name, Some fs)) argument_table"
    by (simp add: table_names(2) [symmetric] zip_map_map zip_same_conv_map split_beta)
  moreover have "length (map kc_Name ?caps) = length as"
    using arg_cong [OF as(2), of length] arg_cong [OF cols(3), of length] by simp
  ultimately have "map (\<lambda>(name, fs). (name, those (map field_of fs))) (zip (map kc_Name ?caps) as) = map (\<lambda>(name, fs). (name, Some fs)) argument_table"
    by (simp only: zip_map_snd as(2) names)
  moreover have "vivgen_main k read parse dir pkgName = generate pkgName ?caps"
    using assms(2,3) by (simp add: vivgen_main_def loadCapabilities_def load_capabilities [OF assms(1)])
  moreover have "map (\<lambda>c. (kc_Name c, generated_info c)) ?caps = info_table"
    by (rule named_column) (simp_all only: names table_names cols)
  moreover have "map (\<lambda>c. (kc_Name c, schema_json k (generateSchemaForCapability c))) ?caps = schema_table"
    by (rule named_column) (simp_all only: names cols)
  ultimately show ?thesis
    using as(1) rs by (simp add: generate_def o_def)
qed

definition demo_kdl :: "nat kdl_ops" where
  "demo_kdl = \<lparr>ko_ValueString = (\<lambda>v. case v of StringValue s \<Rightarrow> s | IntValue i \<Rightarrow> show_int i | _ \<Rightarrow> ''''),
     ko_float64 = nat, ko_Sprint_float = show_nat\<rparr>"

theorem generated_file_in_sync_witness:
  "\<exists>g. vivgen_main demo_kdl (\<lambda>path. Inr ''text'') (\<lambda>text. Inr capability_nodes) ''capabilities'' ''capabilities'' = Val g
    \<and> ge_Infos g = info_table"
proof -
  have "plain_values demo_kdl"
    by (simp add: plain_values_def demo_kdl_def)
  from generated_file_in_sync [OF this, where read = "\<lambda>path. Inr ''text''" and raw = "''text''"
      and parse = "\<lambda>text. Inr capability_nodes" and pkgName = "''capabilities''" and dir = "''capabilities''"]
  show ?thesis by auto
qed

subsection \<open>Schemas and arguments\<close>

lemma update_new: "k \<notin> fst ` set props \<Longrightarrow> AList.update k v props = props @ [(k, v)]"
  by (induction props) auto

lemma field_schemas:
  "distinct (map kf_Name fs) \<Longrightarrow> kf_Name ` set fs \<inter> fst ` set props = {} \<Longrightarrow>
   fold (\<lambda>f props. AList.update (kf_Name f) (field_schema f) props) fs props = props @ map (\<lambda>f. (kf_Name f, field_schema f)) fs"
proof (induction fs arbitrary: props)
  case (Cons f fs)
  then have "AList.update (kf_Name f) (field_schema f) props = props @ [(kf_Name f, field_schema f)]"
    by (simp add: update_new)
  moreover have "kf_Name ` set fs \<inter> fst ` set (props @ [(kf_Name f, field_schema f)]) = {}" "distinct (map kf_Name fs)"
    using Cons.prems by auto
  ultimately show ?case
    using Cons.IH [of "props @ [(kf_Name f, field_schema f)]"] by simp
qed simp



end
