(* ===== verification/Vivlog.thy ===== *)
theory Vivlog
  imports Viv Provisioning
begin

text \<open>
  The audit trail inspector (\<open>cmd/vivlog/main.go\<close>).

  A command is a query of \<open>AuditLog\<close> and the text that is made of its result, to the exit of the
  program.  \<open>encoding/json\<close> is modelled as far as it writes the records; how it shows a decoded
  payload (by reflection on the struct), how it checks a raw message, the parsers of times and
  numbers and \<open>%q\<close> are the record \<open>vivlog_env\<close>.
\<close>

subsection \<open>JSON text\<close>

definition hex_digit :: "nat \<Rightarrow> char" where
  "hex_digit n = ''0123456789abcdef'' ! n"

definition json_u :: "nat \<Rightarrow> string" where
  "json_u n = [CHR 0x5C] @ ''u00'' @ [hex_digit (n div 16), hex_digit (n mod 16)]"

definition json_char :: "char \<Rightarrow> string" where
  "json_char c =
     (if c = CHR 0x22 \<or> c = CHR 0x5C then [CHR 0x5C, c]
      else if c = CHR 0x08 then [CHR 0x5C, CHR ''b'']
      else if c = CHR 0x0C then [CHR 0x5C, CHR ''f'']
      else if c = CHR 0x0A then [CHR 0x5C, CHR ''n'']
      else if c = CHR 0x0D then [CHR 0x5C, CHR ''r'']
      else if c = CHR 0x09 then [CHR 0x5C, CHR ''t'']
      else if byte_in 0 0x1F c \<or> c = CHR ''<'' \<or> c = CHR ''>'' \<or> c = CHR ''&'' then json_u (of_char c)
      else [c])"

function json_chars :: "string \<Rightarrow> string" where
  "json_chars s =
     (if s = [] then []
      else if utf8_len s = 0 then [CHR 0x5C] @ ''ufffd'' @ json_chars (tl s)
      else if utf8_len s = 1 then json_char (hd s) @ json_chars (tl s)
      else if HasPrefix s [CHR 0xE2, CHR 0x80, CHR 0xA8] then [CHR 0x5C] @ ''u2028'' @ json_chars (drop 3 s)
      else if HasPrefix s [CHR 0xE2, CHR 0x80, CHR 0xA9] then [CHR 0x5C] @ ''u2029'' @ json_chars (drop 3 s)
      else take (utf8_len s) s @ json_chars (drop (utf8_len s) s))"
  by pat_completeness auto

termination json_chars
  by (relation "measure length") auto

declare json_chars.simps [simp del]

definition json_string :: "string \<Rightarrow> string" where
  "json_string s = [CHR 0x22] @ json_chars s @ [CHR 0x22]"

definition json_line :: "(string \<times> string) list \<Rightarrow> string" where
  "json_line kvs = ''{'' @ strings_Join (map (\<lambda>(k, v). json_string k @ '':'' @ v) kvs) '','' @ ''}'' @ nl"

subsection \<open>Decoding a stored payload\<close>

datatype 'f decoded_payload =
    DStatus StatusPayload
  | DAgentList AgentListPayload
  | DAgentCreate AgentCreatePayload
  | DAgentDestroy AgentDestroyPayload
  | DPrompt PromptPayload
  | DApproval ApprovalPayload
  | DCapabilityRequest CapabilityRequestPayload
  | DCapabilityResponse CapabilityResponsePayload
  | DCompletion "'f CompletionEventPayload"
  | DFailure FailureEventPayload

definition decoded :: "('a \<Rightarrow> 'b) \<Rightarrow> 'a outcome \<times> reader \<Rightarrow> 'b outcome" where
  "decoded f x = (case fst x of Val p \<Rightarrow> Val (f p) | Err err \<Rightarrow> Err err | Panic m \<Rightarrow> Panic m)"

definition decodePayload :: "(string \<Rightarrow> 'f) \<Rightarrow> string \<Rightarrow> bytes \<Rightarrow> 'f decoded_payload outcome" where
  "decodePayload sscanf msgType payload =
     (let r = bytes_NewReader payload in
      if msgType = ''CtlStatus'' then decoded DStatus (StatusPayload_UnmarshalMUS r)
      else if msgType = ''CtlAgentList'' then decoded DAgentList (AgentListPayload_UnmarshalMUS r)
      else if msgType = ''CtlAgentCreate'' then decoded DAgentCreate (AgentCreatePayload_UnmarshalMUS r)
      else if msgType = ''CtlAgentDestroy'' then decoded DAgentDestroy (AgentDestroyPayload_UnmarshalMUS r)
      else if msgType = ''CtlPrompt'' then decoded DPrompt (PromptPayload_UnmarshalMUS r)
      else if msgType = ''CtlApproval'' then decoded DApproval (ApprovalPayload_UnmarshalMUS r)
      else if msgType = ''CapabilityRequest'' then decoded DCapabilityRequest (CapabilityRequestPayload_UnmarshalMUS r)
      else if msgType = ''CapabilityResponse'' then decoded DCapabilityResponse (CapabilityResponsePayload_UnmarshalMUS r)
      else if msgType = ''CompletionEvent'' then decoded DCompletion (CompletionEventPayload_UnmarshalMUS sscanf r)
      else if msgType = ''FailureEvent'' then decoded DFailure (FailureEventPayload_UnmarshalMUS r)
      else Err (OtherError (''unsupported msg_type for decoding: '' @ msgType)))"

subsection \<open>Output\<close>

record 'f vivlog_env =
  ve_quote :: "string \<Rightarrow> string"
  ve_parse_time :: "string \<Rightarrow> go_error + instant"
  ve_sscanf :: "string \<Rightarrow> 'f"
  ve_int :: "string \<Rightarrow> string + int"
  ve_uint64 :: "string \<Rightarrow> string + u64"
  ve_compact :: "bytes \<Rightarrow> string option"
  ve_indent :: "'f decoded_payload \<Rightarrow> string"
  ve_usage :: "string \<Rightarrow> string"
  ve_open :: "string \<Rightarrow> go_error + audit_db"

text \<open>
  One line for one record, or nothing: \<open>Encode\<close> fails on a raw message that is not JSON, and the
  error is not looked at.
\<close>

definition record_json :: "'f vivlog_env \<Rightarrow> FrameRecord \<Rightarrow> string" where
  "record_json v r =
     (let head = [(''id'', show_nat (FrameRecord_ID r)), (''ts'', json_string (format_nano (FrameRecord_Ts r))),
                  (''msg_type'', json_string (FrameRecord_MsgType r)), (''from_id'', json_string (FrameRecord_FromID r)),
                  (''to_id'', json_string (FrameRecord_ToID r)), (''seq_no'', show_nat (unat (FrameRecord_SeqNo r)))]
      in case FrameRecord_Payload r of
           None \<Rightarrow> json_line head
         | Some payload \<Rightarrow>
             if payload = [] then json_line head
             else (case ve_compact v payload of
                 None \<Rightarrow> ''''
               | Some j \<Rightarrow> json_line (head @ [(''payload'', j)])))"

definition printRecords :: "'f vivlog_env \<Rightarrow> FrameRecord list \<Rightarrow> bool \<Rightarrow> string" where
  "printRecords v records jsonOut =
     (if jsonOut then concat (map (record_json v) records)
      else tabulate ([''ID'', ''TS'', ''TYPE'', ''FROM'', ''TO'', ''SEQ'']
        # map (\<lambda>r. [show_nat (FrameRecord_ID r), format_seconds (FrameRecord_Ts r div 1000000000) @ ''Z'', FrameRecord_MsgType r,
             FrameRecord_FromID r, FrameRecord_ToID r, show_nat (unat (FrameRecord_SeqNo r))]) records))"

definition event_json :: "SecurityEventRecord \<Rightarrow> string" where
  "event_json e = json_line [(''ID'', show_nat (ser_ID e)), (''Ts'', json_string (format_nano (ser_Ts e))),
     (''Agent'', json_string (ser_Agent e)), (''Kind'', json_string (ser_Kind e)), (''Detail'', json_string (ser_Detail e))]"

definition vivlog_fatal :: "string \<Rightarrow> exit_state" where
  "vivlog_fatal msg = fail_with (''vivlog: '' @ msg)"

subsection \<open>Commands\<close>

definition json_flag :: "(string \<times> string) list \<Rightarrow> bool" where
  "json_flag vs = (ParseBool (flag_value ''json'' ''false'' vs) = Some True)"

definition int_flag :: "'f vivlog_env \<Rightarrow> flag_kind" where
  "int_flag v = NumFlag (\<lambda>s. case ve_int v s of Inl e \<Rightarrow> Some e | Inr n \<Rightarrow> None)"

definition uint64_flag :: "'f vivlog_env \<Rightarrow> flag_kind" where
  "uint64_flag v = NumFlag (\<lambda>s. case ve_uint64 v s of Inl e \<Rightarrow> Some e | Inr n \<Rightarrow> None)"

definition cmdSecurity :: "'f vivlog_env \<Rightarrow> string list \<Rightarrow> audit_db \<Rightarrow> exit_state outcome" where
  "cmdSecurity v args db =
     flags_exit (ve_usage v ''security'') (parse_flags (ve_quote v) [(''agent'', StringFlag), (''json'', BoolFlag)] args [])
       (\<lambda>vs _.
          case QuerySecurityEvents (ve_quote v) (ve_parse_time v)
                 \<lparr>sef_Agent = flag_value ''agent'' '''' vs, sef_Kind = '''', sef_Limit = 0\<rparr> db of
            Inl err \<Rightarrow> Val (vivlog_fatal (''security: '' @ error_text err))
          | Inr events \<Rightarrow>
              Val (exit_ok
                (if json_flag vs then concat (map event_json events)
                 else tabulate ([''ID'', ''TS'', ''AGENT'', ''KIND'', ''DETAIL'']
                   # map (\<lambda>e. [show_nat (ser_ID e), format_seconds (ser_Ts e div 1000000000) @ ''Z'', ser_Agent e, ser_Kind e, ser_Detail e])
                       events))))"

definition cmdTail :: "'f vivlog_env \<Rightarrow> string list \<Rightarrow> audit_db \<Rightarrow> exit_state outcome" where
  "cmdTail v args db =
     flags_exit (ve_usage v ''tail'') (parse_flags (ve_quote v) [(''n'', int_flag v), (''json'', BoolFlag)] args [])
       (\<lambda>vs _.
          let n = (case map_of vs ''n'' of None \<Rightarrow> 20 | Some s \<Rightarrow> (case ve_int v s of Inl e \<Rightarrow> 20 | Inr n \<Rightarrow> n)) in
          case Tail (ve_quote v) (ve_parse_time v) n db of
            Inl err \<Rightarrow> Val (vivlog_fatal (''tail: '' @ error_text err))
          | Inr records \<Rightarrow> Val (exit_ok (printRecords v records (json_flag vs))))"

definition no_filter :: FrameFilter where
  "no_filter = \<lparr>ff_AgentID = '''', ff_MsgType = '''', ff_Since = zero_time, ff_Until = zero_time, ff_SeqNo = 0, ff_Limit = 0\<rparr>"

definition cmdShow :: "'f vivlog_env \<Rightarrow> string list \<Rightarrow> audit_db \<Rightarrow> exit_state outcome" where
  "cmdShow v args db =
     flags_exit (ve_usage v ''show'') (parse_flags (ve_quote v) [(''agent'', StringFlag), (''json'', BoolFlag)] args [])
       (\<lambda>vs _.
          let agentID = flag_value ''agent'' '''' vs in
          if agentID = '''' then Val (fail_with ''vivlog show --agent <id>'')
          else (case QueryFrames (ve_quote v) (ve_parse_time v) (no_filter\<lparr>ff_AgentID := agentID\<rparr>) db of
              Inl err \<Rightarrow> Val (vivlog_fatal (''show: '' @ error_text err))
            | Inr records \<Rightarrow> Val (exit_ok (printRecords v records (json_flag vs)))))"

definition cmdGrep :: "'f vivlog_env \<Rightarrow> string list \<Rightarrow> audit_db \<Rightarrow> exit_state outcome" where
  "cmdGrep v args db =
     flags_exit (ve_usage v ''grep'')
       (parse_flags (ve_quote v) [(''msg-type'', StringFlag), (''agent'', StringFlag), (''json'', BoolFlag)] args [])
       (\<lambda>vs _.
          let msgType = flag_value ''msg-type'' '''' vs; agentID = flag_value ''agent'' '''' vs in
          if msgType = '''' then Val (fail_with ''vivlog grep --msg-type <type>'')
          else (case QueryFrames (ve_quote v) (ve_parse_time v) (no_filter\<lparr>ff_MsgType := msgType, ff_AgentID := agentID\<rparr>) db of
              Inl err \<Rightarrow> Val (vivlog_fatal (''grep: '' @ error_text err))
            | Inr records \<Rightarrow> Val (exit_ok (printRecords v records (json_flag vs)))))"

text \<open>One record of \<open>vivlog decode\<close>.\<close>

definition payload_text :: "'f vivlog_env \<Rightarrow> FrameRecord \<Rightarrow> string outcome" where
  "payload_text v r =
     (case FrameRecord_Payload r of
        None \<Rightarrow> Val (''payload:  (not stored)'' @ nl)
      | Some payload \<Rightarrow>
          (case decodePayload (ve_sscanf v) (FrameRecord_MsgType r) payload of
             Val p \<Rightarrow> Val (''payload:'' @ nl @ ''  '' @ ve_indent v p @ nl)
           | Err err \<Rightarrow> Val (''payload:'' @ nl @ ''  (raw) '' @ ve_quote v (string_of payload) @ nl
                             @ ''  (decode error: '' @ error_text err @ '')'' @ nl)
           | Panic m \<Rightarrow> Panic m))"

definition decode_text :: "'f vivlog_env \<Rightarrow> FrameRecord \<Rightarrow> string outcome" where
  "decode_text v r =
     (case payload_text v r of
        Val t \<Rightarrow> Val (''id:       '' @ show_nat (FrameRecord_ID r) @ nl
          @ ''ts:       '' @ format_nano (FrameRecord_Ts r) @ nl
          @ ''msg_type: '' @ FrameRecord_MsgType r @ nl
          @ ''from_id:  '' @ FrameRecord_FromID r @ nl
          @ ''to_id:    '' @ FrameRecord_ToID r @ nl
          @ ''seq_no:   '' @ show_nat (unat (FrameRecord_SeqNo r)) @ nl
          @ t @ nl)
      | Err err \<Rightarrow> Err err
      | Panic m \<Rightarrow> Panic m)"

fun decode_texts :: "'f vivlog_env \<Rightarrow> FrameRecord list \<Rightarrow> string outcome" where
  "decode_texts v [] = Val ''''"
| "decode_texts v (r # rs) =
     (case decode_text v r of
        Val t \<Rightarrow> (case decode_texts v rs of Val ts \<Rightarrow> Val (t @ ts) | Err err \<Rightarrow> Err err | Panic m \<Rightarrow> Panic m)
      | Err err \<Rightarrow> Err err
      | Panic m \<Rightarrow> Panic m)"

definition cmdDecode :: "'f vivlog_env \<Rightarrow> string list \<Rightarrow> audit_db \<Rightarrow> exit_state outcome" where
  "cmdDecode v args db =
     flags_exit (ve_usage v ''decode'') (parse_flags (ve_quote v) [(''seq'', uint64_flag v)] args [])
       (\<lambda>vs _.
          let seqNo = (case map_of vs ''seq'' of None \<Rightarrow> 0 | Some s \<Rightarrow> (case ve_uint64 v s of Inl e \<Rightarrow> 0 | Inr n \<Rightarrow> n)) in
          if seqNo = 0 then Val (fail_with ''vivlog decode --seq <n>'')
          else (case QueryFrames (ve_quote v) (ve_parse_time v) (no_filter\<lparr>ff_SeqNo := seqNo\<rparr>) db of
              Inl err \<Rightarrow> Val (vivlog_fatal (''decode: '' @ error_text err))
            | Inr records \<Rightarrow>
                if records = [] then Val (fail_with (''no frame found with seq_no='' @ show_nat (unat seqNo)))
                else (case decode_texts v records of
                    Val out \<Rightarrow> Val (exit_ok out) | Err err \<Rightarrow> Err err | Panic m \<Rightarrow> Panic m)))"

definition vivlog_usage_lines :: "string list" where
  "vivlog_usage_lines =
     [''vivlog '' @ usage_dash @ '' VIVARY audit trail inspector'',
      '''',
      ''Usage:'',
      ''  vivlog [--db <path>] <command> [args]'',
      '''',
      ''Commands:'',
      ''  tail [--n <count>]              Show the most recent N frames (default 20)'',
      ''  show --agent <id>               Show all frames for an agent'',
      ''  grep --msg-type <type>          Filter by MsgType name'',
      ''  decode --seq <n>                Decode a specific frame by SeqNo'',
      ''  security [--agent <id>]         Show security events'']"

definition vivlog_printUsage :: string where
  "vivlog_printUsage = concat (map (\<lambda>l. l @ nl) vivlog_usage_lines)"

definition vivlog_command :: "'f vivlog_env \<Rightarrow> string list \<Rightarrow> audit_db \<Rightarrow> exit_state outcome" where
  "vivlog_command v args db =
     (let cmd = hd args; rest = tl args in
      if cmd = ''tail'' then cmdTail v rest db
      else if cmd = ''show'' then cmdShow v rest db
      else if cmd = ''grep'' then cmdGrep v rest db
      else if cmd = ''decode'' then cmdDecode v rest db
      else if cmd = ''security'' then cmdSecurity v rest db
      else Val \<lparr>ex_stdout = '''', ex_stderr = ''unknown subcommand: '' @ cmd @ nl @ vivlog_printUsage, ex_code = 1\<rparr>)"

definition vivlog_main :: "'f vivlog_env \<Rightarrow> string list \<Rightarrow> exit_state outcome" where
  "vivlog_main v argv =
     flags_exit (ve_usage v ''vivlog'') (parse_flags (ve_quote v) [(''db'', StringFlag)] argv [])
       (\<lambda>vs args.
          let dbPath = flag_value ''db'' ''./audit.db'' vs in
          if args = [] then Val \<lparr>ex_stdout = '''', ex_stderr = vivlog_printUsage, ex_code = 1\<rparr>
          else (case ve_open v dbPath of
              Inl err \<Rightarrow> Val (vivlog_fatal (''open '' @ ve_quote v dbPath @ '': '' @ error_text err))
            | Inr db \<Rightarrow> vivlog_command v args db))"

subsection \<open>Properties\<close>

text \<open>The frames that the JSON output shows: those whose payload is absent, empty or itself JSON.\<close>

lemma json_output_skips_payloads:
  "printRecords v records True
     = concat (map (record_json v) (filter (\<lambda>r. case FrameRecord_Payload r of
         None \<Rightarrow> True | Some payload \<Rightarrow> payload = [] \<or> ve_compact v payload \<noteq> None) records))"
  by (induction records) (auto simp: printRecords_def record_json_def Let_def split: option.splits)

lemma decode_flag:
  "ve_uint64 v s = Inr n \<Longrightarrow> parse_flags (ve_quote v) [(''seq'', uint64_flag v)] [''--seq'', s] [] = Flags [(''seq'', s)] []"
  by (simp add: flag_syntax_def split_at_def is_bool_flag_def flag_refuses_def uint64_flag_def)

lemma query_new_frame:
  assumes "db_fail db = None" and "\<forall>row\<in>set (db_frames db). fr_seq_no row \<noteq> n" and "n \<noteq> 0" and "unat n < 2 ^ 63"
    and "parse_time (format_nano now) = Inr now"
  shows "QueryFrames quote parse_time (no_filter\<lparr>ff_SeqNo := n\<rparr>) (snd (WriteFrame_db now t from_id to_id n b db))
    = Inr [\<lparr>FrameRecord_ID = Suc (length (db_frames db)), FrameRecord_Ts = now, FrameRecord_MsgType = t, FrameRecord_FromID = from_id,
            FrameRecord_ToID = to_id, FrameRecord_SeqNo = n, FrameRecord_Payload = b\<rparr>]"
proof -
  have f: "sql_uint64 n = None"
    using assms(4) by (simp add: sql_uint64_def)
  have "filter (frame_matches (no_filter\<lparr>ff_SeqNo := n\<rparr>)) (db_frames db) = []"
    using assms(2,3) by (auto simp: filter_empty_conv frame_matches_def no_filter_def)
  then show ?thesis
    using assms(1,3,5) f
    by (simp add: QueryFrames_def WriteFrame_db_def go_limit_def no_filter_def frame_matches_def)
qed


definition demo_vivlog :: "nat vivlog_env" where
  "demo_vivlog = \<lparr>ve_quote = id, ve_parse_time = (\<lambda>s. Inr 0), ve_sscanf = length, ve_int = (\<lambda>s. Inr 20), ve_uint64 = (\<lambda>s. Inr 7),
     ve_compact = (\<lambda>b. None), ve_indent = (\<lambda>p. case p of DPrompt q \<Rightarrow> pp_AgentID q @ '' '' @ pp_Text q | _ \<Rightarrow> ''?''),
     ve_usage = (\<lambda>c. ''usage''), ve_open = (\<lambda>p. Inr Open_db)\<rparr>"


end
