(* ===== verification/ChromedHost.thy ===== *)
theory ChromedHost
  imports Chromed Strconv "HOL-Library.List_Lexorder" "HOL-Library.Char_ord"
begin

text \<open>
  The rest of the browser host service (\<open>chromed/service.go\<close>, \<open>chromed/main.go\<close>): the functions that
  the instance manager is given for its machine, the server that runs around it, and the program.

  \<open>host_net\<close> holds the calls into Go's \<open>net\<close>, \<open>os\<close> and \<open>os/exec\<close> packages; \<open>chromed_os_of\<close> makes of them
  the operations that \<open>Chromed\<close> works on.  A goroutine that forwards connections is a call
  (\<open>hn_Forward\<close>) that records it.  The server is a step relation whose steps are an accepted
  connection, a served one, the launch of a browser and, apart from it, its entry in the manager's
  table, a process that was reaped, a look at the container, a cancelled context and a failed
  \<open>Accept\<close>.  A connection that was accepted may still be served when \<open>Run\<close> has returned.
\<close>

subsection \<open>Processes and connections\<close>

text \<open>The local address of a probe socket: none, or an IP with its dotted form if it is IPv4.\<close>

datatype local_addr = NoLocalIP | LocalIP "string option"

record 'h host_net =
  hn_MkdirAll :: "string \<Rightarrow> 'h \<Rightarrow> go_error option \<times> 'h"
  hn_Remove :: "string \<Rightarrow> 'h \<Rightarrow> remove_result \<times> 'h"
  hn_Chmod :: "string \<Rightarrow> 'h \<Rightarrow> go_error option \<times> 'h"
  hn_Listen :: "string \<Rightarrow> string \<Rightarrow> 'h \<Rightarrow> (go_error + nat) \<times> 'h"
  hn_Addr :: "nat \<Rightarrow> 'h \<Rightarrow> string"
  hn_Close :: "nat \<Rightarrow> 'h \<Rightarrow> 'h"
  hn_Forward :: "nat \<Rightarrow> string \<Rightarrow> 'h \<Rightarrow> 'h"
  hn_Hostname :: "string \<Rightarrow> go_error + string"
  hn_Dial :: "string \<Rightarrow> string \<Rightarrow> 'h \<Rightarrow> (go_error + nat) \<times> 'h"
  hn_LocalAddr :: "nat \<Rightarrow> 'h \<Rightarrow> local_addr"
  hn_Copy :: "nat \<Rightarrow> nat \<Rightarrow> 'h \<Rightarrow> 'h"
  hn_SplitHostPort :: "string \<Rightarrow> go_error + string \<times> string"
  hn_Start :: "string \<Rightarrow> string list \<Rightarrow> 'h \<Rightarrow> (go_error + nat) \<times> 'h"
  hn_Kill :: "nat \<Rightarrow> 'h \<Rightarrow> go_error option \<times> 'h"
  hn_Wait :: "nat \<Rightarrow> 'h \<Rightarrow> 'h"
  hn_ready :: "nat \<Rightarrow> string \<Rightarrow> 'h \<Rightarrow> go_error option \<times> 'h"

record execProcess =
  ep_Process :: "nat option"

definition execProcess_Kill :: "'h host_net \<Rightarrow> execProcess \<Rightarrow> 'h \<Rightarrow> go_error option \<times> 'h" where
  "execProcess_Kill n p h = (case ep_Process p of None \<Rightarrow> (None, h) | Some pid \<Rightarrow> hn_Kill n pid h)"

definition execProcess_Pid :: "execProcess \<Rightarrow> nat" where
  "execProcess_Pid p = (case ep_Process p of None \<Rightarrow> 0 | Some pid \<Rightarrow> pid)"

definition JoinHostPort :: "string \<Rightarrow> string \<Rightarrow> string" where
  "JoinHostPort host port =
     (if CHR '':'' \<in> set host then ''['' @ host @ '']:'' @ port else host @ '':'' @ port)"

definition allocateDebugAddr :: "'h host_net \<Rightarrow> string \<Rightarrow> 'h \<Rightarrow> (go_error + string) \<times> 'h" where
  "allocateDebugAddr n proxyServer h =
     (case hn_Listen n ''tcp'' ''127.0.0.1:0'' h of
        (Inl err, h) \<Rightarrow> (Inl err, h)
      | (Inr ln, h) \<Rightarrow> (Inr (hn_Addr n ln h), hn_Close n ln h))"

definition detectReachableHost :: "'h host_net \<Rightarrow> string \<Rightarrow> 'h \<Rightarrow> (go_error + string) \<times> 'h" where
  "detectReachableHost n proxyServer h =
     (if TrimSpace proxyServer = '''' then (Inl (OtherError ''proxy server is required''), h)
      else case hn_Hostname n proxyServer of
          Inl err \<Rightarrow> (Inl (Wrap ''parse proxy server: '' err), h)
        | Inr targetHost \<Rightarrow>
            if targetHost = '''' then (Inl (OtherError ''proxy server host is empty''), h)
            else (case hn_Dial n ''udp4'' (JoinHostPort targetHost ''9'') h of
                (Inl err, h) \<Rightarrow> (Inl (Wrap ''probe route to proxy server: '' err), h)
              | (Inr conn, h) \<Rightarrow>
                  ((case hn_LocalAddr n conn h of
                      NoLocalIP \<Rightarrow> Inl (OtherError ''probe route returned no local IP'')
                    | LocalIP None \<Rightarrow> Inl (OtherError ''probe route returned non-routable local IP'')
                    | LocalIP (Some ip) \<Rightarrow>
                        if HasPrefix ip ''127.'' then Inl (OtherError ''probe route returned non-routable local IP'')
                        else Inr ip),
                   hn_Close n conn h)))"

definition startDebugForwarder :: "'h host_net \<Rightarrow> string \<Rightarrow> string \<Rightarrow> 'h \<Rightarrow> (go_error + nat \<times> string) \<times> 'h" where
  "startDebugForwarder n proxyServer targetAddr h =
     (case detectReachableHost n proxyServer h of
        (Inl err, h) \<Rightarrow> (Inl err, h)
      | (Inr host, h) \<Rightarrow>
          (case hn_Listen n ''tcp'' (JoinHostPort host ''0'') h of
             (Inl err, h) \<Rightarrow> (Inl err, h)
           | (Inr ln, h) \<Rightarrow> let h = hn_Forward n ln targetAddr h in (Inr (ln, hn_Addr n ln h), h)))"

definition startUnixDebugForwarder :: "'h host_net \<Rightarrow> string \<Rightarrow> string \<Rightarrow> 'h \<Rightarrow> (go_error + nat) \<times> 'h" where
  "startUnixDebugForwarder n socketPath targetAddr h =
     (case hn_MkdirAll n (Dir socketPath) h of
        (Some err, h) \<Rightarrow> (Inl err, h)
      | (None, h) \<Rightarrow>
          (case hn_Listen n ''unix'' socketPath h of
             (Inl err, h) \<Rightarrow> (Inl err, h)
           | (Inr ln, h) \<Rightarrow> (Inr ln, hn_Forward n ln targetAddr h)))"

text \<open>One direction of a forwarded connection, to its end; then both ends are closed.\<close>

definition proxyConn :: "'h host_net \<Rightarrow> nat \<Rightarrow> nat \<Rightarrow> 'h \<Rightarrow> 'h" where
  "proxyConn n dst src h = hn_Close n dst (hn_Close n src (hn_Copy n dst src h))"

text \<open>The connection that is opened for an accepted one, and the two directions to copy.\<close>

definition proxyDebugConn :: "'h host_net \<Rightarrow> nat \<Rightarrow> string \<Rightarrow> 'h \<Rightarrow> (nat \<times> nat) list \<times> 'h" where
  "proxyDebugConn n conn targetAddr h =
     (case hn_Dial n ''tcp'' targetAddr h of
        (Inl err, h) \<Rightarrow> ([], hn_Close n conn h)
      | (Inr upstream, h) \<Rightarrow> ([(upstream, conn), (conn, upstream)], h))"

definition startChromeProcess :: "'h host_net \<Rightarrow> launchSpec \<Rightarrow> 'h \<Rightarrow> (go_error + nat) \<times> 'h" where
  "startChromeProcess n spec h =
     (case hn_SplitHostPort n (ls_DebugAddr spec) of
        Inl err \<Rightarrow> (Inl (Wrap ''split debug addr: '' err), h)
      | Inr (host, port) \<Rightarrow>
          (case hn_Start n (ls_ChromeBinaryPath spec) (chrome_args spec host port) h of
             (Inl err, h) \<Rightarrow> (Inl (Wrap ''start chrome: '' err), h)
           | (Inr proc, h) \<Rightarrow> (Inr proc, h)))"

subsection \<open>Waiting for the browser\<close>

text \<open>What the polls of the version endpoint give until the context ends, which it does with \<open>ctxErr\<close>.\<close>

datatype ready_poll = PollError | PollStatus nat

fun waitForChromeReady :: "go_error \<Rightarrow> ready_poll list \<Rightarrow> go_error option" where
  "waitForChromeReady ctxErr [] = Some ctxErr"
| "waitForChromeReady ctxErr (p # ps) =
     (if p = PollStatus 200 then None else waitForChromeReady ctxErr ps)"

lemma waitForChromeReady_iff: "waitForChromeReady ctxErr ps = None \<longleftrightarrow> PollStatus 200 \<in> set ps"
  by (induction ps) auto

definition chromed_os_of :: "'h host_net \<Rightarrow> 'h chromed_os" where
  "chromed_os_of n = \<lparr>co_MkdirAll = hn_MkdirAll n, co_allocDebug = allocateDebugAddr n,
     co_startDebugForwarder = startDebugForwarder n, co_Remove = hn_Remove n,
     co_startUnixDebugForwarder = startUnixDebugForwarder n, co_Close = hn_Close n, co_start = startChromeProcess n,
     co_waitReady = hn_ready n, co_Kill = (\<lambda>pid. execProcess_Kill n \<lparr>ep_Process = Some pid\<rparr>), co_Wait = hn_Wait n\<rparr>"

subsection \<open>The server\<close>

record 'h chromed_server =
  cs_socketPath :: string
  cs_containerName :: string
  cs_checkContainer :: "(string \<Rightarrow> 'h \<Rightarrow> (go_error + bool) \<times> 'h) option"

text \<open>
  \<open>ss_conns\<close> counts the accepted connections that are not served, \<open>ss_launched\<close> holds the browsers that
  \<open>Acquire\<close> has launched and not entered; \<open>ss_done\<close> is what \<open>Run\<close> has returned, once it has, and
  \<open>ss_left\<close> the number of connections it left behind.
\<close>

record 'h server_state =
  ss_manager :: chrome_manager
  ss_host :: 'h
  ss_listener :: nat
  ss_conns :: nat
  ss_launched :: "chrome_instance list"
  ss_left :: nat
  ss_cancelled :: bool
  ss_done :: "go_error option option"

text \<open>The deferred calls of \<open>Run\<close>; \<open>order\<close> is the order in which Go visits the instances.\<close>

definition server_cleanup ::
  "'h host_net \<Rightarrow> 'h chromed_server \<Rightarrow> (chrome_manager \<Rightarrow> string list) \<Rightarrow> nat \<Rightarrow> chrome_manager \<times> 'h \<Rightarrow> chrome_manager \<times> 'h"
where
  "server_cleanup n srv order ln = (\<lambda>(m, h).
     ReleaseAll (chromed_os_of n) (order m) (m, snd (hn_Remove n (cs_socketPath srv) (hn_Close n ln h))))"

definition server_Run_start ::
  "'h host_net \<Rightarrow> 'h chromed_server \<Rightarrow> (chrome_manager \<Rightarrow> string list) \<Rightarrow> chrome_manager \<times> 'h \<Rightarrow> 'h server_state"
where
  "server_Run_start n srv order = (\<lambda>(m, h).
     let state = (\<lambda>m h ln r. \<lparr>ss_manager = m, ss_host = h, ss_listener = ln, ss_conns = 0, ss_launched = [], ss_left = 0,
                               ss_cancelled = False, ss_done = r\<rparr>) in
     case hn_MkdirAll n (Dir (cs_socketPath srv)) h of
       (Some err, h) \<Rightarrow> state m h 0 (Some (Some (Wrap ''mkdir socket dir: '' err)))
     | (None, h) \<Rightarrow>
         (case hn_Listen n ''unix'' (cs_socketPath srv) (snd (hn_Remove n (cs_socketPath srv) h)) of
            (Inl err, h) \<Rightarrow> state m h 0 (Some (Some (Wrap (''listen '' @ cs_socketPath srv @ '': '') err)))
          | (Inr ln, h) \<Rightarrow>
              (case hn_Chmod n (cs_socketPath srv) h of
                 (Some err, h) \<Rightarrow>
                   (case server_cleanup n srv order ln (m, h) of
                      (m, h) \<Rightarrow> state m h ln (Some (Some (Wrap ''chmod socket: '' err))))
               | (None, h) \<Rightarrow> state m h ln None)))"

text \<open>A look at the container: a failed one is logged and passed over.\<close>

definition monitorContainer :: "go_error + bool \<Rightarrow> bool" where
  "monitorContainer r = (case r of Inl err \<Rightarrow> False | Inr running \<Rightarrow> \<not> running)"

text \<open>A failed \<open>Accept\<close> ends \<open>Run\<close>, without an error if the context was cancelled.\<close>

definition accept_failed ::
  "'h host_net \<Rightarrow> 'h chromed_server \<Rightarrow> (chrome_manager \<Rightarrow> string list) \<Rightarrow> go_error \<Rightarrow> 'h server_state \<Rightarrow> 'h server_state"
where
  "accept_failed n srv order err S =
     (case server_cleanup n srv order (ss_listener S) (ss_manager S, ss_host S) of
        (m, h) \<Rightarrow> S\<lparr>ss_manager := m, ss_host := h, ss_left := ss_conns S + length (ss_launched S),
                    ss_done := Some (if ss_cancelled S then None else Some (Wrap ''accept: '' err))\<rparr>)"

inductive server_step ::
  "'h host_net \<Rightarrow> 'h chromed_server \<Rightarrow> (chrome_manager \<Rightarrow> string list) \<Rightarrow> 'h server_state \<Rightarrow> 'h server_state \<Rightarrow> bool"
  for n srv order
where
  accepted: "ss_done S = None \<Longrightarrow> server_step n srv order S (S\<lparr>ss_conns := Suc (ss_conns S)\<rparr>)"
| connection: "ss_conns S = Suc k \<Longrightarrow> handleConn (chromed_os_of n) input (ss_manager S, ss_host S) = (out, m, h) \<Longrightarrow>
    server_step n srv order S (S\<lparr>ss_manager := m, ss_host := h, ss_conns := k\<rparr>)"
| launch: "ss_conns S = Suc k \<Longrightarrow> TrimSpace (aq_AgentID req) \<noteq> '''' \<Longrightarrow> Acquire_lookup (ss_manager S) req = None \<Longrightarrow>
    Acquire_launch (chromed_os_of n) (ss_manager S) req (ss_host S) = (Inr inst, h) \<Longrightarrow>
    server_step n srv order S (S\<lparr>ss_host := h, ss_conns := k, ss_launched := inst # ss_launched S\<rparr>)"
| publish: "inst \<in> set (ss_launched S) \<Longrightarrow>
    server_step n srv order S (S\<lparr>ss_manager := Acquire_publish inst (ss_manager S), ss_launched := remove1 inst (ss_launched S)\<rparr>)"
| exited: "server_step n srv order S (S\<lparr>ss_manager := chrome_reap agentID proc (ss_manager S)\<rparr>)"
| monitor: "ss_done S = None \<Longrightarrow> cs_containerName srv \<noteq> '''' \<Longrightarrow> cs_checkContainer srv = Some check \<Longrightarrow>
    check (cs_containerName srv) (ss_host S) = (r, h) \<Longrightarrow>
    server_step n srv order S (S\<lparr>ss_host := h, ss_cancelled := (ss_cancelled S \<or> monitorContainer r)\<rparr>)"
| signal: "server_step n srv order S (S\<lparr>ss_cancelled := True\<rparr>)"
| no_accept: "ss_done S = None \<Longrightarrow> server_step n srv order S (accept_failed n srv order err S)"

inductive server_reachable ::
  "'h host_net \<Rightarrow> 'h chromed_server \<Rightarrow> (chrome_manager \<Rightarrow> string list) \<Rightarrow> 'h server_state \<Rightarrow> 'h server_state \<Rightarrow> bool"
  for n srv order S0
where
  start: "server_reachable n srv order S0 S0"
| step: "server_reachable n srv order S0 S \<Longrightarrow> server_step n srv order S S' \<Longrightarrow> server_reachable n srv order S0 S'"

text \<open>\<open>lxc list\<close>, whose output \<open>entries\<close> decodes to the names and states that it lists.\<close>

definition containerRunning ::
  "(string list \<Rightarrow> 'h \<Rightarrow> (go_error + string) \<times> 'h) \<Rightarrow> (string \<Rightarrow> go_error + (string \<times> string) list) \<Rightarrow> string \<Rightarrow> 'h
   \<Rightarrow> (go_error + bool) \<times> 'h"
where
  "containerRunning lxc entries containerName h =
     (case lxc [''list'', containerName, ''--format'', ''json''] h of
        (Inl err, h) \<Rightarrow> (Inl err, h)
      | (Inr out, h) \<Rightarrow>
          (case entries out of
             Inl err \<Rightarrow> (Inl err, h)
           | Inr [] \<Rightarrow> (Inr False, h)
           | Inr ((name, status) # _) \<Rightarrow> (Inr (ToLower status = ''running''), h)))"

text \<open>The program: its flags, the manager and the server that \<open>main\<close> makes of them.\<close>

definition chromed_setup ::
  "(string \<Rightarrow> 'h \<Rightarrow> (go_error + bool) \<times> 'h) \<Rightarrow> (string \<times> string) list \<Rightarrow> chrome_manager \<times> 'h chromed_server"
where
  "chromed_setup check vs =
     (let socketPath = flag_value ''socket'' ''/run/chromed.sock'' vs;
          profileRoot = flag_value ''profile-root'' ''/var/lib/vivary/chromed/profiles'' vs;
          chromeBinary = flag_value ''chrome-binary'' ''/usr/bin/google-chrome-beta'' vs
      in (newManager profileRoot chromeBinary (Dir socketPath),
          \<lparr>cs_socketPath = socketPath, cs_containerName = flag_value ''container-name'' '''' vs, cs_checkContainer = Some check\<rparr>))"

definition chromed_exit_code :: "go_error option \<Rightarrow> int" where
  "chromed_exit_code r = (case r of None \<Rightarrow> 0 | Some err \<Rightarrow> 1)"

subsection \<open>Nothing outlives the server\<close>

definition named_instances :: "chrome_manager \<Rightarrow> bool" where
  "named_instances m \<longleftrightarrow> finite (dom (m_instances m)) \<and> (\<forall>a\<in>dom (m_instances m). TrimSpace a \<noteq> '''')"

lemma Acquire_named:
  assumes a: "Acquire os req (m, h) = (r, m', h')" and m: "named_instances m"
  shows "named_instances m'"
proof (cases "TrimSpace (aq_AgentID req) = ''''")
  case True
  with a m show ?thesis by (simp add: Acquire_def)
next
  case False
  show ?thesis
    using a
  proof (cases rule: Acquire_cases)
    case (launched inst)
    from launch_agent [OF launched(2)] False m launched(4) show ?thesis
      by (auto simp: named_instances_def Acquire_publish_def)
  qed (use m in auto)
qed

lemma Release_named: "Release os a (m, h) = (r, m', h') \<Longrightarrow> named_instances m \<Longrightarrow> named_instances m'"
  by (auto simp: Release_def remove_instance_def named_instances_def Let_def split: if_splits option.splits prod.splits)

lemma reap_named: "named_instances m \<Longrightarrow> named_instances (chrome_reap a p m)"
  by (auto simp: chrome_reap_def named_instances_def split: option.splits)

lemma reap_none: "m_instances m = Map.empty \<Longrightarrow> m_instances (chrome_reap a p m) = Map.empty"
  by (simp add: chrome_reap_def)

text \<open>A connection leaves the manager alone, or makes one of the two calls that change it.\<close>

lemma handleConn_calls:
  "snd (handleConn os input s) = s \<or> (\<exists>req. snd (handleConn os input s) = snd (Acquire os req s))
   \<or> (\<exists>a. snd (handleConn os input s) = snd (Release os a s))"
proof (cases "fst (ReadFrame (conn_reader input))")
  case (Val f)
  then obtain hdr payload where f: "fst (ReadFrame (conn_reader input)) = Val (hdr, payload)"
    by (cases f) simp
  show ?thesis
  proof (cases "ResponseTypeFor (h_Type hdr)")
    case (Inr t)
    consider (a) "h_Type hdr = MsgTypeAcquire" | (r) "h_Type hdr \<noteq> MsgTypeAcquire" "h_Type hdr = MsgTypeRelease"
      | (s) "h_Type hdr \<noteq> MsgTypeAcquire" "h_Type hdr \<noteq> MsgTypeRelease" by blast
    then show ?thesis
    proof cases
      case a
      show ?thesis
      proof (cases "fst (AcquireRequest_UnmarshalMUS (bytes_NewReader payload))")
        case (Val req)
        then have "snd (handleConn os input s) = snd (Acquire os req s)"
          using f Inr a by (simp add: handleConn_def Let_def split: prod.split sum.split)
        then show ?thesis by blast
      qed (use f Inr a in \<open>simp_all add: handleConn_def Let_def\<close>)
    next
      case r
      show ?thesis
      proof (cases "fst (ReleaseRequest_UnmarshalMUS (bytes_NewReader payload))")
        case (Val req)
        then have "snd (handleConn os input s) = snd (Release os (rr_AgentID req) s)"
          using f Inr r by (simp add: handleConn_def Let_def split: prod.split sum.split)
        then show ?thesis by blast
      qed (use f Inr r in \<open>simp_all add: handleConn_def Let_def\<close>)
    next
      case s
      with f Inr show ?thesis
        by (simp add: handleConn_def Let_def split: outcome.split sum.split)
    qed
  qed (use f in \<open>simp add: handleConn_def\<close>)
qed (simp_all add: handleConn_def)

lemma handleConn_named:
  assumes "handleConn os input (m, h) = (out, m', h')" and "named_instances m"
  shows "named_instances m'"
proof -
  consider "(m', h') = (m, h)" | req where "snd (Acquire os req (m, h)) = (m', h')" | a where "snd (Release os a (m, h)) = (m', h')"
    using handleConn_calls [of os input "(m, h)"] assms(1) by auto
  then show ?thesis
  proof cases
    case (2 req)
    with assms(2) show ?thesis
      by (cases "Acquire os req (m, h)") (auto dest: Acquire_named)
  next
    case (3 a)
    with assms(2) show ?thesis
      by (cases "Release os a (m, h)") (auto dest: Release_named)
  qed (use assms(2) in simp)
qed

lemma cleanup_empties:
  assumes "named_instances m" and "set (order m) = dom (m_instances m)" and "server_cleanup n srv order ln (m, h) = (m', h')"
  shows "m_instances m' = Map.empty"
proof
  fix a
  have "\<forall>a\<in>set (order m). TrimSpace a \<noteq> ''''"
    using assms(1,2) by (simp add: named_instances_def)
  note removes = ReleaseAll_removes [OF this]
  obtain h1 where "ReleaseAll (chromed_os_of n) (order m) (m, h1) = (m', h')"
    using assms(3) by (simp add: server_cleanup_def)
  with removes [of "chromed_os_of n" m h1 a] have "m_instances m' a = (if a \<in> set (order m) then None else m_instances m a)"
    by simp
  then show "m_instances m' a = None"
    using assms(2) by (cases "m_instances m a") auto
qed

definition server_ok :: "'h server_state \<Rightarrow> bool" where
  "server_ok S \<longleftrightarrow> named_instances (ss_manager S) \<and> (\<forall>inst\<in>set (ss_launched S). TrimSpace (in_agentID inst) \<noteq> '''')
    \<and> (ss_done S \<noteq> None \<and> ss_left S = 0 \<longrightarrow>
         ss_conns S = 0 \<and> ss_launched S = [] \<and> m_instances (ss_manager S) = Map.empty)"

lemma server_step_ok:
  assumes "server_step n srv order S S'" and "\<forall>m. finite (dom (m_instances m)) \<longrightarrow> set (order m) = dom (m_instances m)"
    and "server_ok S"
  shows "server_ok S'"
  using assms
proof cases
  case (connection k input out m h)
  with assms(3) show ?thesis
    by (auto simp: server_ok_def dest: handleConn_named)
next
  case (launch k req inst h)
  with assms(3) launch_agent [OF launch(5)] show ?thesis
    by (auto simp: server_ok_def)
next
  case (publish inst)
  with assms(3) show ?thesis
    by (auto simp: server_ok_def Acquire_publish_def named_instances_def dest: notin_set_remove1)
next
  case (exited agentID proc)
  with assms(3) show ?thesis
    by (auto simp: server_ok_def reap_named reap_none)
next
  case (no_accept err)
  obtain m h where c: "server_cleanup n srv order (ss_listener S) (ss_manager S, ss_host S) = (m, h)"
    by force
  have "m_instances m = Map.empty"
    using cleanup_empties [OF _ _ c] assms(2,3) by (simp add: server_ok_def named_instances_def)
  with no_accept c assms(3) show ?thesis
    by (simp add: server_ok_def accept_failed_def named_instances_def)
qed (auto simp: server_ok_def)

text \<open>
  C23: However connections, launches and exits of browsers, looks at the container and signals were
  interleaved, once \<open>Run\<close> has returned the manager knows no instance, unless it returned while a
  connection was being served.
\<close>

theorem stopped_server_has_no_browser:
  assumes "server_reachable n srv order S0 S"
    and "\<forall>m. finite (dom (m_instances m)) \<longrightarrow> set (order m) = dom (m_instances m)"
    and "S0 = server_Run_start n srv order (newManager root binary fwd, h)" and "ss_done S \<noteq> None" and "ss_left S = 0"
  shows "m_instances (ss_manager S) = Map.empty"
proof -
  have new: "named_instances (newManager root binary fwd)" "m_instances (newManager root binary fwd) = Map.empty"
    by (simp_all add: newManager_def named_instances_def)
  have "m_instances m = Map.empty" if "server_cleanup n srv order ln (newManager root binary fwd, h1) = (m, h2)" for ln h1 m h2
    using cleanup_empties [OF new(1) _ that] assms(2) new(2) by simp
  with new have "server_ok S0"
    unfolding assms(3) server_Run_start_def server_ok_def
    by (auto simp: named_instances_def Let_def split: prod.splits option.splits sum.splits)
  from assms(1) this have "server_ok S"
    by (induction rule: server_reachable.induct) (auto intro: server_step_ok [OF _ assms(2)])
  with assms(4,5) show ?thesis by (simp add: server_ok_def)
qed

definition demo_host_net :: "nat host_net" where
  "demo_host_net = \<lparr>hn_MkdirAll = (\<lambda>p h. (None, h)), hn_Remove = (\<lambda>p h. (RemoveNotExist, h)), hn_Chmod = (\<lambda>p h. (None, h)),
     hn_Listen = (\<lambda>k a h. (Inr h, Suc h)), hn_Addr = (\<lambda>l h. ''127.0.0.1:9222''), hn_Close = (\<lambda>l h. h),
     hn_Forward = (\<lambda>l a h. h), hn_Hostname = (\<lambda>u. Inr u), hn_Dial = (\<lambda>k a h. (Inl EOF, h)), hn_LocalAddr = (\<lambda>c h. NoLocalIP),
     hn_Copy = (\<lambda>d s h. h), hn_SplitHostPort = (\<lambda>a. Inr (''127.0.0.1'', ''9222'')), hn_Start = (\<lambda>b as h. (Inr h, Suc h)),
     hn_Kill = (\<lambda>p h. (None, h)), hn_Wait = (\<lambda>p h. h), hn_ready = (\<lambda>t a h. (None, h))\<rparr>"

definition demo_server :: "nat chromed_server" where
  "demo_server = \<lparr>cs_socketPath = ''/run/chromed.sock'', cs_containerName = ''c'', cs_checkContainer = Some (\<lambda>c h. (Inr False, h))\<rparr>"

text \<open>The container is found stopped, the context is cancelled, and \<open>Run\<close> returns without an error.\<close>

theorem stopped_server_has_no_browser_witness:
  "\<exists>S. server_reachable demo_host_net demo_server (\<lambda>m. sorted_list_of_set (dom (m_instances m)))
        (server_Run_start demo_host_net demo_server (\<lambda>m. sorted_list_of_set (dom (m_instances m))) (newManager ''/p'' ''chrome'' ''/run'', 0)) S
    \<and> ss_done S = Some None \<and> m_instances (ss_manager S) = Map.empty"
proof -
  let ?order = "\<lambda>m. sorted_list_of_set (dom (m_instances m))"
  let ?m = "newManager ''/p'' ''chrome'' ''/run''"
  let ?S0 = "server_Run_start demo_host_net demo_server ?order (?m, 0)"
  have s0: "?S0 = \<lparr>ss_manager = ?m, ss_host = 1, ss_listener = 0, ss_conns = 0, ss_launched = [], ss_left = 0,
      ss_cancelled = False, ss_done = None\<rparr>"
    by (simp add: server_Run_start_def demo_host_net_def Let_def)
  let ?S1 = "?S0\<lparr>ss_host := 1, ss_cancelled := (ss_cancelled ?S0 \<or> monitorContainer (Inr False))\<rparr>"
  have srv: "cs_containerName demo_server \<noteq> ''''" "cs_checkContainer demo_server = Some (\<lambda>c h. (Inr False, h))"
    by (simp_all add: demo_server_def)
  have "server_step demo_host_net demo_server ?order ?S0 ?S1"
    by (rule server_step.monitor [where check = "\<lambda>c h. (Inr False, h)"]) (simp_all add: s0 srv)
  moreover have "server_step demo_host_net demo_server ?order ?S1 (accept_failed demo_host_net demo_server ?order EOF ?S1)"
    by (rule server_step.no_accept) (simp add: s0)
  ultimately have reach: "server_reachable demo_host_net demo_server ?order ?S0 (accept_failed demo_host_net demo_server ?order EOF ?S1)"
    by (blast intro: server_reachable.intros)
  have d: "ss_done (accept_failed demo_host_net demo_server ?order EOF ?S1) = Some None"
    by (simp add: accept_failed_def monitorContainer_def split: prod.split)
  have ord: "\<forall>m. finite (dom (m_instances m)) \<longrightarrow> set (?order m) = dom (m_instances m)"
    by simp
  have "ss_done (accept_failed demo_host_net demo_server ?order EOF ?S1) \<noteq> None"
    unfolding d by (rule option.simps)
  moreover have "ss_left (accept_failed demo_host_net demo_server ?order EOF ?S1) = 0"
    by (simp add: accept_failed_def s0 split: prod.split)
  ultimately show ?thesis
    using stopped_server_has_no_browser [OF reach ord refl] reach d by blast
qed

end
