(* ===== verification/Spec2Isabelle.thy ===== *)
theory Spec2Isabelle
  imports KeeperdMain AgentProxy PageSession ToolServer Toolpath Operator Tui Generation Vivlog ChromedHost
begin

text \<open>
  A verification library for Vivary, a governed runtime for language model agents (Go).

  \<^bold>\<open>The program.\<close>  An operator talks with \<open>viv\<close> (command line and terminal interface) over a Unix socket
  to the daemon \<open>keeperd\<close>.  The daemon creates agents, each a container with a process \<open>ward\<close> in it that
  runs the language model, and talks to each Ward over a pipe of framed messages ("switchboard").  In the
  container every capability is a command (\<open>capwrap\<close> under many names) that hands a request to the Ward;
  the Ward checks it, numbers it and sends it to keeperd; keeperd audits it, decides by the agent's access
  list, runs the capability (a file write, the reading of a web page) and answers.  Pages are read through
  a Chrome that the host service \<open>chromed\<close> starts per agent, behind an HTTP proxy per agent.
  \<open>vivlog\<close> inspects the audit log, \<open>viv migrate\<close> takes the inventory of an OpenClaw installation, and
  \<open>vivgen\<close> generates the payload types from \<open>capabilities/capabilities.kdl\<close>.

  \<^bold>\<open>The theories\<close>, from the wire upwards (sources under \<open>src/\<close>):
    \<^item> \<open>Prelude\<close>: Go values, outcomes, readers; the interfaces \<open>codec\<close> (decoding inverts encoding whatever
      follows) and \<open>keyed_store\<close> (a table entered and left by key); \<open>Path\<close>: \<open>path/filepath\<close> and parts of
      \<open>strings\<close>; \<open>Strconv\<close>: \<open>strconv\<close>, UTF-8 repair, flags, tables, JSON values.
    \<^item> \<open>Mus\<close> (\<open>pkg/mus\<close>), \<open>Codec\<close> (\<open>switchboard/codec.go\<close>, \<open>msgtype.go\<close>), \<open>Router\<close> (\<open>router.go\<close>, \<open>seq.go\<close>),
      \<open>Ctl\<close> (\<open>ctl/protocol.go\<close>), \<open>Capability\<close> (\<open>capabilities/capability.go\<close>, \<open>toolproto.go\<close>).
    \<^item> \<open>Filesystem\<close>, \<open>Browser\<close>: the two capabilities.  \<open>Schema\<close>, \<open>Generated\<close>: the generated payload types;
      \<open>Vivgen\<close>, \<open>Catalogue\<close>, \<open>Schemas\<close>, \<open>Generation\<close>: their generator, its input and the JSON schemas in its
      output as data, and the comparison of the two.
    \<^item> \<open>Chromproxy\<close>, \<open>PageSession\<close> (\<open>chromproxy/proxy.go\<close>), \<open>Chromed\<close>, \<open>ChromedHost\<close> (\<open>chromed\<close>),
      \<open>BrowserManager\<close> (\<open>keeperd/chromed.go\<close>, \<open>browser_proxy.go\<close>), \<open>AgentProxy\<close> (\<open>browser_proxy.go\<close>).
    \<^item> \<open>Config\<close> (\<open>config/config.go\<close>), \<open>Runtime\<close> (\<open>runtime/runtime.go\<close>), \<open>AuditLog\<close> (\<open>audit/audit.go\<close>).
    \<^item> \<open>Daemon\<close> (\<open>keeperd/dispatch.go\<close> and the daemon's state), \<open>Provisioning\<close> (\<open>provisioning.go\<close>), \<open>Keeperd\<close>
      (\<open>main.go\<close>: control socket), \<open>Running\<close> (its reachable states), \<open>KeeperdMain\<close> (start and end).
    \<^item> \<open>Ward\<close>, \<open>ToolServer\<close> (\<open>cmd/ward\<close>), \<open>Capwrap\<close> (\<open>cmd/capwrap\<close>), \<open>Toolpath\<close>: a tool call from command line to daemon.
    \<^item> \<open>Viv\<close>, \<open>Tui\<close> (\<open>cmd/viv\<close>), \<open>Operator\<close> (\<open>viv\<close> against \<open>Keeperd\<close>), \<open>Migrate\<close> (\<open>migrate/openclaw.go\<close>),
      \<open>Vivlog\<close> (\<open>cmd/vivlog\<close>).
    \<^item> This theory: properties that span components.

  \<^bold>\<open>State and operations.\<close>  A Go struct is a record with its fields behind a prefix, a map is a map, a
  handler is a function from the state to the state and what it returns.  The code that several goroutines
  run is cut where another one can come in: the read loop of a pipe is a step per frame (\<open>read_step\<close>), a
  control connection a step per frame and one per pushed event (\<open>conn_frame\<close>, \<open>conn_push\<close>), a tool call has
  three phases (\<open>executeTool_begin\<close>, \<open>_send\<close>, \<open>_finish\<close>), \<open>Acquire\<close> of chromed is cut between its two locks.
  \<open>daemon_step\<close>, \<open>ward_step\<close> and \<open>server_step\<close> are the step relations over these moves, with their reachable
  states.  Integers keep their width (\<open>64 word\<close>, \<open>32 word\<close>, \<open>8 word\<close>) where they are encoded, counted or
  compared; a Go panic is the outcome \<open>Panic\<close> and reported where input can cause it.

  \<^bold>\<open>What the lemmas show.\<close>
    \<^item> Codecs: frames and payloads are interpretations of \<open>codec\<close> within the length limits of their
      decoders, and the generated types are codecs by their field patterns, so streams of frames, payloads
      and arguments round-trip, and truncated input is refused.
    \<^item> Router: who sent a frame is decided by the pipe, numbers rise, bytes stay within the budget, and an
      honest sender's frames are all delivered in order.
    \<^item> Authority: a frame runs a capability only as its pipe's agent and only with granted constraints; file
      writes stay under the scope and follow no link out of it; pages stay in the whitelist, which the
      capability and the proxy judge alike.
    \<^item> Life cycle: a failed creation leaves nothing, a destroyed agent has nothing, every access list, pipe and
      browser session belongs to an agent in every reachable state, and a stopped browser service knows no
      browser unless it left a connection behind.
    \<^item> Requests: an audited request gets one answer, the answer of a tool call is that of its own request, a
      call to the browser gets its own answer, prompts end after a bounded number of attempts.
    \<^item> Operator: what \<open>viv\<close> reports is what the daemon holds or did; the terminal interface never panics and
      sends a prompt to the marked agent; secrets are redacted; the audit log only grows and shows what was sent.
    \<^item> Generator: the committed file is what the generator makes of the committed definitions.

  \<^bold>\<open>Bounds.\<close>  Loops over input are structural in the list of what arrives (frames, events, ticks, polls,
  accepted connections), so no fuel is used for them; a \<open>while\<close> over a connection ends with its input.
  \<open>ReadVarint\<close> reads at most ten bytes, as the code does; the port search makes the code's 101 attempts;
  \<open>run_attempts\<close> is bounded by the retries of the configuration; \<open>maxAlloc\<close> is the size at which Go refuses
  an allocation.  Recursions that are not structural have termination proofs.

  \<^bold>\<open>Parameters.\<close>  Code outside the repository is an argument: the operating system (a record of operations
  over a state, one per program), \<open>encoding/json\<close>, the KDL and URL parsers, \<open>%q\<close>, floats, \<open>net/http\<close>'s
  client, the language model, the SQL engine's failures, the order in which Go visits a map.  What a theorem
  needs of them is a hypothesis of it, and its witness instantiates them.

  \<^bold>\<open>Not modelled.\<close>  Logging; bubbletea's event loop and rendering; \<open>go/format\<close> and the text of the generated
  Go code (what it declares is modelled); the header buffer pool; the opening and closing of the SQLite
  file; timers other than as events; \<open>writerSink\<close>, which only
  logs; the aliases of \<open>cmd/keeperd/config.go\<close> and \<open>util.go\<close>; the test double \<open>cmd/e2e-fakeclaude\<close>.  Goroutines
  interleave at the granularity of the steps above; data races inside a step are not.
\<close>

subsection \<open>From an agent's pipe to a capability\<close>

text \<open>
  C1: A frame the router delivers from a pipe runs a capability only in the name of that pipe's
  agent, only with the constraints that agent's access list grants for the requested name, and only
  one that is registered.  Every other frame leaves the machine and the browser sessions as they
  are, whatever identity its sender wrote into it.
\<close>

theorem capability_runs_as_its_pipe:
  assumes "f \<in> set (delivered (snd (read_loop quote ticks k p)))" and "handleFrame env clk f d = Val d'"
  shows "(dm_host d' = dm_host d \<and> dm_browserMgr d' = dm_browserMgr d)
    \<or> (\<exists>payload a cs cap.
          decodeCapabilityRequest (f_Payload f) = Val payload
          \<and> d_acls (dm_dispatcher d) (p_AgentID p) = Some a
          \<and> Allowed a (crq_Capability payload) = (True, cs)
          \<and> Dispatcher_Lookup (dm_dispatcher d) (crq_Capability payload) = Some cap
          \<and> (dm_browserMgr d', dm_host d') =
              snd (c_Execute cap cs \<lparr>rq_Name = crq_Capability payload, rq_AgentID = p_AgentID p,
                     rq_SeqNo = h_SeqNo (f_Header f), rq_Args = crq_Args payload\<rparr> (dm_browserMgr d, dm_host d)))"
proof (cases "h_Type (f_Header f) = MsgType_CapabilityRequest")
  case False
  with handleFrame_no_request [OF assms(2)] show ?thesis by blast
next
  case True
  have i: "h_FromID (f_Header f) = p_AgentID p"
    using assms(1) read_loop_identity by blast
  from assms(2) True show ?thesis
  proof (cases rule: handleFrame_request)
    case (malformed err)
    then show ?thesis
      by (simp add: sendCapabilityDenied_def Let_def daemon_send_other)
  next
    case (decoded payload resp err m h resp')
    have d': "dm_browserMgr d' = m" "dm_host d' = h"
      using decoded(4) by (simp_all add: sendCapabilityResponse_def Let_def daemon_send_other)
    show ?thesis
    proof (cases "granted (dm_dispatcher d) (capability_request f payload)")
      case None
      with Dispatch_refused [OF None] decoded(2) d' show ?thesis by (metis prod.inject)
    next
      case (Some x)
      then obtain cs cap where g: "granted (dm_dispatcher d) (capability_request f payload) = Some (cs, cap)"
        by (cases x) auto
      with Dispatch_granted [OF g] decoded(2)
      have "c_Execute cap cs (capability_request f payload) (dm_browserMgr d, dm_host d) = ((resp, err), (m, h))"
        by metis
      with g i decoded(1) d' show ?thesis
        unfolding granted_iff by (auto simp: capability_request_def)
    qed
  qed
qed

text \<open>
  An agent whose pipe holds one request for a capability that counts its calls and keeps its
  payloads out of the log.
\<close>

definition demo_cap :: "nat cap_world capability" where
  "demo_cap = \<lparr>c_Name = ''X'', c_Explain = '''', c_AuditPayload = False,
     c_Execute = (\<lambda>cs req (m, h). ((\<lparr>rs_OK = True, rs_Data = [], rs_ErrorCode = '''', rs_ErrorDetail = ''''\<rparr>, None), (m, Suc h)))\<rparr>"

definition demo_call :: CapabilityRequestPayload where
  "demo_call = \<lparr>crq_Capability = ''X'', crq_Args = [1, 2]\<rparr>"

definition ward_request :: frame where
  "ward_request = \<lparr>f_Header = \<lparr>h_Version = 1, h_Type = MsgType_CapabilityRequest, h_FromID = ''a'', h_ToID = ''keeper'',
       h_SeqNo = 1, h_PayloadLen = of_nat (length (CapabilityRequestPayload_MarshalMUS demo_call))\<rparr>,
     f_Payload = CapabilityRequestPayload_MarshalMUS demo_call\<rparr>"

definition demo_pipe :: pipe where
  "demo_pipe = \<lparr>p_AgentID = ''a'', p_Reader = bytes_NewReader (frame_bytes (f_Header ward_request) (f_Payload ward_request)),
     p_Writer = \<lparr>w_out = [], w_room = None, w_err = EOF\<rparr>, p_Limiter = None, p_lastSeqNo = 0\<rparr>"

definition demo_running :: "(nat, nat) daemon" where
  "demo_running = demo_daemon\<lparr>dm_router := AddPipe demo_pipe NewRouter,
     dm_dispatcher := SetACL \<lparr>acl_AgentID = ''a'', acl_Entries = [\<lparr>ae_CapabilityName = ''X'', ae_Constraints = []\<rparr>]\<rparr>
       (NewDispatcher \<lparr>reg_caps = [(''X'', demo_cap)]\<rparr>)\<rparr>"

lemma demo_decodes: "decodeCapabilityRequest (f_Payload ward_request) = Val demo_call"
  using capability_request.dec_NewReader [of demo_call]
  by (simp add: decodeCapabilityRequest_def ward_request_def demo_call_def maxAlloc_def)

lemma demo_delivered: "delivered (snd (read_loop id example_ticks 0 demo_pipe)) = [ward_request]"
proof -
  have len: "length (f_Payload ward_request) = 5"
    by (simp add: ward_request_def demo_call_def CapabilityRequestPayload_MarshalMUS_def Let_def enc_string_def
        VarintLen_correct VarintLen_def bit_len.simps)
  have "frame_wf (f_Header ward_request, f_Payload ward_request)"
    using len by (simp add: frame_wf_def MaxPayloadBytes_def) (simp add: ward_request_def)
  then have "honest demo_pipe [(f_Header ward_request, f_Payload ward_request)]"
    by (simp add: honest_def demo_pipe_def) (simp add: ward_request_def)
  then have "snd (read_loop id example_ticks 0 demo_pipe)
      = map (\<lambda>f. Deliver \<lparr>f_Header = fst f, f_Payload = snd f\<rparr>) [(f_Header ward_request, f_Payload ward_request)]"
    by (rule read_loop_honest [rotated])
      (simp_all add: example_ticks_def demo_pipe_def roomy_def bytes_NewReader_def)
  then show ?thesis by simp
qed

lemma demo_handled:
  "\<exists>d'. handleFrame demo_env (\<lambda>_. 0) ward_request demo_running = Val d' \<and> dm_host d' = 1"
proof -
  have t: "h_Type (f_Header ward_request) = MsgType_CapabilityRequest" "h_FromID (f_Header ward_request) = ''a''"
    by (simp_all add: ward_request_def)
  show ?thesis
    using demo_decodes t
    by (simp add: handleFrame_def auditFrame_def shouldAuditPayload_def handleCapabilityRequest_def
        dispatchCapabilityRequest_def sendCapabilityResponse_def demo_running_def demo_call_def demo_cap_def
        SetACL_def NewDispatcher_def Dispatcher_Lookup_def Registry_Lookup_def Dispatch_def Allowed_def Let_def
        daemon_send_other demo_daemon_def)
qed

theorem capability_runs_as_its_pipe_witness:
  "\<exists>d' (payload :: CapabilityRequestPayload) a cs (cap :: nat cap_world capability). handleFrame demo_env (\<lambda>_. 0) ward_request demo_running = Val d'
    \<and> d_acls (dm_dispatcher demo_running) ''a'' = Some a \<and> Allowed a (crq_Capability payload) = (True, cs)
    \<and> (dm_browserMgr d', dm_host d') = snd (c_Execute cap cs \<lparr>rq_Name = crq_Capability payload, rq_AgentID = ''a'',
           rq_SeqNo = 1, rq_Args = crq_Args payload\<rparr> (dm_browserMgr demo_running, 0))"
proof -
  obtain d' where d': "handleFrame demo_env (\<lambda>_. 0) ward_request demo_running = Val d'" "dm_host d' = 1"
    using demo_handled by blast
  have h: "dm_host demo_running = 0" "h_SeqNo (f_Header ward_request) = 1" "p_AgentID demo_pipe = ''a''"
    by (simp_all add: demo_running_def demo_daemon_def ward_request_def demo_pipe_def)
  have neq: "dm_host d' \<noteq> 0"
    using d'(2) by simp
  have "ward_request \<in> set (delivered (snd (read_loop id example_ticks 0 demo_pipe)))"
    by (simp add: demo_delivered)
  from capability_runs_as_its_pipe [OF this d'(1)] obtain payload :: CapabilityRequestPayload and a cs and cap :: "nat cap_world capability" where
    "d_acls (dm_dispatcher demo_running) ''a'' = Some a" "Allowed a (crq_Capability payload) = (True, cs)"
    "(dm_browserMgr d', dm_host d') = snd (c_Execute cap cs \<lparr>rq_Name = crq_Capability payload, rq_AgentID = ''a'',
           rq_SeqNo = 1, rq_Args = crq_Args payload\<rparr> (dm_browserMgr demo_running, 0))"
    using neq unfolding h by blast
  with d'(1) show ?thesis by blast
qed





text \<open>
  C39: One capability request of nine bytes stops keeperd: a blob length over the largest allocation
  makes the decoder panic while the frame is being audited, before any access list is looked at,
  for every agent and in every state of the daemon.
\<close>

theorem one_request_stops_keeperd:
  "length (AppendString [] '''' @ AppendVarint [] (2 ^ 49)) = 9
   \<and> panics (handleFrame env clk \<lparr>f_Header = hdr\<lparr>h_Type := MsgType_CapabilityRequest\<rparr>,
       f_Payload = AppendString [] '''' @ AppendVarint [] (2 ^ 49)\<rparr> d)"
proof
  have e: "AppendString [] '''' @ AppendVarint [] (2 ^ 49) = enc_string '''' @ enc_varint (2 ^ 49) @ []"
    by simp
  show "length (AppendString [] '''' @ AppendVarint [] (2 ^ 49)) = 9"
    using bit_len_power [of 49] unfolding e by (simp add: enc_string_def VarintLen_correct VarintLen_def)
  have "panics (decodeCapabilityRequest (AppendString [] '''' @ AppendVarint [] (2 ^ 49)))"
  proof -
    have "maxAlloc < unat (2 ^ 49 :: u64)"
      by (simp add: maxAlloc_def)
    from CapabilityRequest_panic [OF _ this, where name = "''''" and rest = "[]" and r = "bytes_NewReader []"]
    show ?thesis
      unfolding e decodeCapabilityRequest_def by (simp only: bytes_NewReader_def reader.simps list.size)
  qed
  then show "panics (handleFrame env clk \<lparr>f_Header = hdr\<lparr>h_Type := MsgType_CapabilityRequest\<rparr>,
       f_Payload = AppendString [] '''' @ AppendVarint [] (2 ^ 49)\<rparr> d)"
    by (intro handleFrame_panics) simp_all
qed

subsection \<open>The control plane\<close>


text \<open>The daemon as it starts, and the control request that creates agent \<open>a\<close>.\<close>

definition demo_os :: "(nat, nat) os_fs" where
  "demo_os = \<lparr>os_Lstat = (\<lambda>p h. LstatErr EOF), os_EvalSymlinks = (\<lambda>p h. Inl EOF), os_MkdirAll = (\<lambda>p h. (None, h)),
     os_OpenFile = (\<lambda>p mode h. (Inr 0, h)), os_WriteString = (\<lambda>fd s h. ((length s, None), h)), os_Close = (\<lambda>fd h. h)\<rparr>"

definition demo_start :: "nat cap_world registry \<Rightarrow> (nat, nat) daemon" where
  "demo_start reg = main_daemon (DefaultOrchestratorConfig ''/w'') Open_db reg
     \<lparr>cl_Acquire = (\<lambda>r h. (Inl EOF, h)), cl_Release = (\<lambda>a h. (Inl EOF, h))\<rparr> (Inr []) 0 0"

definition demo_create_frame :: "swarm_header \<times> bytes" where
  "demo_create_frame = (\<lparr>h_Version = 0, h_Type = MsgType_CtlAgentCreate, h_FromID = CtlIdentity, h_ToID = '''', h_SeqNo = 1,
     h_PayloadLen = 0\<rparr>, AgentCreatePayload_MarshalMUS demo_create)"

definition demo_conn :: ctl_conn where
  "demo_conn = new_ctl_conn 0 \<lparr>w_out = [], w_room = None, w_err = EOF\<rparr>"

lemma demo_create_reachable:
  "\<exists>d. daemon_reachable demo_env (demo_ops True) (demo_start reg) d \<and> dm_agents d ''a'' \<noteq> None"
proof -
  let ?d = "audit_row 0 (fst demo_create_frame) (stored_payload (snd demo_create_frame)) (demo_start reg)"
  have "\<exists>d. agentCreate demo_env (demo_ops True) 0 demo_create ?d = (None, d)"
    by (simp add: demo_create_defs audit_row_def demo_start_def main_daemon_def NewDispatcher_def split: prod.splits)
  then obtain d where d: "agentCreate demo_env (demo_ops True) 0 demo_create ?d = (None, d)" by blast
  have dec: "fst (AgentCreatePayload_UnmarshalMUS (bytes_NewReader (snd demo_create_frame))) = Val demo_create"
    using agent_create.dec_NewReader [of demo_create] by (simp add: demo_create_frame_def demo_create_def acp_wf_def)
  have h: "h_FromID (fst demo_create_frame) = CtlIdentity" "h_Type (fst demo_create_frame) = MsgType_CtlAgentCreate"
    by (simp_all add: demo_create_frame_def)
  have "\<exists>mv c'. conn_frame demo_env (demo_ops True) [] 0 (fst demo_create_frame) (snd demo_create_frame)
      (demo_conn, demo_start reg) = Val (mv, c', d)"
    using d dec h
    by (simp add: conn_frame_def dispatchCtl_def MsgType_defs Let_def split: prod.splits option.splits)
  then obtain mv c' where "conn_frame demo_env (demo_ops True) [] 0 (fst demo_create_frame) (snd demo_create_frame)
      (demo_conn, demo_start reg) = Val (mv, c', d)" by blast
  then have "daemon_reachable demo_env (demo_ops True) (demo_start reg) d"
    by (rule daemon_reachable.step [OF daemon_reachable.start daemon_step.ctl_frame])
  moreover have "dm_agents d ''a'' \<noteq> None"
    using d by (cases rule: created) (simp add: demo_create_def)
  ultimately show ?thesis by blast
qed


end
